(* ===== verification/Prelude.thy ===== *)
theory Prelude
  imports Main "HOL-Library.Word" "HOL-Library.AList" "HOL-Library.Sublist" Complex_Main
begin

section \<open>Prelude: machine types, strings, JSON, stores and runs\<close>

text \<open>
  What every component of the development shares:
  \<^item> the machine integers and the clock;
  \<^item> Rust strings as UTF-8 byte lists, with the operations of \<open>str\<close> the code calls
    (\<open>trim\<close>, \<open>strip_prefix\<close>, \<open>starts_with\<close>, \<open>trim_end_matches\<close>,
    \<open>chars().take(n)\<close>, decimal formatting);
  \<^item> \<open>serde_json::Value\<close> and its accessors;
  \<^item> keyed stores (the \<open>DashMap\<close>s of the coordinator and of the gateway) as association
    lists, and the contract \<open>keyed_store\<close> they satisfy;
  \<^item> the contract \<open>audited_machine\<close> of a component that is driven by commands, keeps an
    invariant and only appends to the audit log.
\<close>

named_theorems rust_str \<open>computation rules of the string operations\<close>
named_theorems json_simps \<open>computation rules of the JSON accessors\<close>

subsection \<open>Machine integers and the clock\<close>

type_synonym u8 = "8 word"
type_synonym u16 = "16 word"
type_synonym u32 = "32 word"
type_synonym u64 = "64 word"
type_synonym i32 = "32 word"

text \<open>Points in time and durations are nanosecond counts, as in \<open>chrono\<close> and \<open>std::time\<close>.\<close>

type_synonym time = int

definition secs :: "int \<Rightarrow> time" where
  "secs n = n * 1000000000"

lemma secs_mono [simp]: "secs a \<le> secs b \<longleftrightarrow> a \<le> b"
  by (simp add: secs_def)

lemma secs_strict_mono [simp]: "secs a < secs b \<longleftrightarrow> a < b"
  by (simp add: secs_def)

lemma secs_add: "secs (a + b) = secs a + secs b"
  by (simp add: secs_def algebra_simps)

lemma secs_nonneg [simp]: "0 \<le> secs a \<longleftrightarrow> 0 \<le> a"
  by (simp add: secs_def)

lemma secs_pos [simp]: "0 < secs a \<longleftrightarrow> 0 < a"
  by (simp add: secs_def)

text \<open>\<open>Ord::clamp\<close>; the code only calls it with \<open>lo \<le> hi\<close>.\<close>

definition clamp :: "int \<Rightarrow> int \<Rightarrow> int \<Rightarrow> int" where
  "clamp lo hi n = (if n < lo then lo else if n > hi then hi else n)"

lemma clamp_bounds: "lo \<le> hi \<Longrightarrow> lo \<le> clamp lo hi n \<and> clamp lo hi n \<le> hi"
  by (simp add: clamp_def)

subsection \<open>Options\<close>

text \<open>\<open>Option::filter\<close>, \<open>Option::or\<close> and \<open>Option::unwrap_or\<close>.\<close>

definition option_filter :: "('a \<Rightarrow> bool) \<Rightarrow> 'a option \<Rightarrow> 'a option" where
  "option_filter P x = (case x of Some v \<Rightarrow> if P v then Some v else None | None \<Rightarrow> None)"

definition option_or :: "'a option \<Rightarrow> 'a option \<Rightarrow> 'a option" where
  "option_or x y = (case x of Some v \<Rightarrow> Some v | None \<Rightarrow> y)"

definition unwrap_or :: "'a \<Rightarrow> 'a option \<Rightarrow> 'a" where
  "unwrap_or d x = (case x of Some v \<Rightarrow> v | None \<Rightarrow> d)"

lemma option_filter_simps [simp]:
  "option_filter P None = None"
  "option_filter P (Some v) = (if P v then Some v else None)"
  by (simp_all add: option_filter_def)

lemma option_filter_Some_iff: "option_filter P x = Some v \<longleftrightarrow> x = Some v \<and> P v"
  by (cases x) auto

lemma option_or_simps [simp]:
  "option_or None y = y"
  "option_or (Some v) y = Some v"
  by (simp_all add: option_or_def)

lemma option_or_eq_None [simp]: "option_or x y = None \<longleftrightarrow> x = None \<and> y = None"
  by (cases x) simp_all

lemma unwrap_or_simps [simp]:
  "unwrap_or d None = d"
  "unwrap_or d (Some v) = v"
  by (simp_all add: unwrap_or_def)

text \<open>Numbers are cut to a width by \<open>as\<close>; \<open>try_from\<close> between integer types is partial.\<close>

definition u32_of_int :: "int \<Rightarrow> u32 option" where
  "u32_of_int n = (if 0 \<le> n \<and> n < 2 ^ 32 then Some (word_of_int n) else None)"

definition u64_of_int :: "int \<Rightarrow> u64 option" where
  "u64_of_int n = (if 0 \<le> n \<and> n < 2 ^ 64 then Some (word_of_int n) else None)"

lemma u32_of_int_uint [simp]: "u32_of_int (uint w) = Some w"
  using uint_lt2p [of w] by (simp add: u32_of_int_def)

lemma u64_of_int_uint [simp]: "u64_of_int (uint w) = Some w"
  using uint_lt2p [of w] by (simp add: u64_of_int_def)

lemma find_None_all: "find P xs = None \<longleftrightarrow> (\<forall>x \<in> set xs. \<not> P x)"
  by (induction xs) simp_all

lemma find_Some_split:
  "find P xs = Some x \<Longrightarrow> \<exists>before after. xs = before @ x # after \<and> P x \<and> (\<forall>y \<in> set before. \<not> P y)"
proof (induction xs)
  case (Cons a xs)
  show ?case
  proof (cases "P a")
    case False
    with Cons obtain before after where "xs = before @ x # after" "P x" "\<forall>y \<in> set before. \<not> P y" by auto
    with False show ?thesis by (intro exI [of _ "a # before"] exI [of _ after]) auto
  next
    case True
    with Cons.prems show ?thesis by (intro exI [of _ "[]"] exI [of _ xs]) simp
  qed
qed simp

lemma find_Some_D: "find P xs = Some x \<Longrightarrow> P x \<and> x \<in> set xs"
  by (induction xs) (simp_all split: if_splits)

subsection \<open>Strings as UTF-8 bytes\<close>

text \<open>
  A Rust \<open>str\<close> is a list of UTF-8 bytes, here a HOL \<open>string\<close> whose characters are
  bytes; \<open>len()\<close> counts bytes. A byte of the form \<open>10xxxxxx\<close> continues a code point.
\<close>

definition is_cont :: "char \<Rightarrow> bool" where
  "is_cont c \<longleftrightarrow> 128 \<le> (of_char c :: nat) \<and> (of_char c :: nat) < 192"

definition is_ascii :: "char \<Rightarrow> bool" where
  "is_ascii c \<longleftrightarrow> (of_char c :: nat) < 128"

lemma is_ascii_not_cont: "is_ascii c \<Longrightarrow> \<not> is_cont c"
  by (simp add: is_ascii_def is_cont_def)

definition starts_with :: "string \<Rightarrow> string \<Rightarrow> bool" where
  "starts_with s p \<longleftrightarrow> prefix p s"

definition strip_prefix :: "string \<Rightarrow> string \<Rightarrow> string option" where
  "strip_prefix p s = (if prefix p s then Some (drop (length p) s) else None)"

definition strip_suffix :: "string \<Rightarrow> string \<Rightarrow> string option" where
  "strip_suffix p s = (if suffix p s then Some (take (length s - length p) s) else None)"

lemma starts_with_append [simp]: "starts_with (p @ s) p"
  by (simp add: starts_with_def)

lemma starts_with_iff: "starts_with s p \<longleftrightarrow> (\<exists>t. s = p @ t)"
  by (auto simp: starts_with_def prefix_def)

lemma strip_prefix_append [simp]: "strip_prefix p (p @ s) = Some s"
  by (simp add: strip_prefix_def)

lemma strip_prefix_eq_Some: "strip_prefix p s = Some t \<longleftrightarrow> s = p @ t"
  by (auto simp: strip_prefix_def prefix_def)

lemma strip_suffix_append [simp]: "strip_suffix p (s @ p) = Some s"
  by (simp add: strip_suffix_def suffix_def)

text \<open>\<open>trim_end_matches(c)\<close> for a single character drops every trailing \<open>c\<close>.\<close>

definition trim_end_matches :: "char \<Rightarrow> string \<Rightarrow> string" where
  "trim_end_matches c s = rev (dropWhile (\<lambda>x. x = c) (rev s))"

lemma trim_end_matches_idem [simp]:
  "trim_end_matches c (trim_end_matches c s) = trim_end_matches c s"
  by (simp add: trim_end_matches_def dropWhile_idem)

lemma trim_end_matches_last: "trim_end_matches c s = [] \<or> last (trim_end_matches c s) \<noteq> c"
proof (cases "dropWhile (\<lambda>x. x = c) (rev s)")
  case Nil
  then show ?thesis by (simp add: trim_end_matches_def)
next
  case (Cons a as)
  then have "a \<noteq> c" using hd_dropWhile [of "\<lambda>x. x = c" "rev s"] by simp
  with Cons show ?thesis by (simp add: trim_end_matches_def)
qed

lemma trim_end_matches_id: "s \<noteq> [] \<Longrightarrow> last s \<noteq> c \<Longrightarrow> trim_end_matches c s = s"
  by (cases s rule: rev_cases) (simp_all add: trim_end_matches_def)

text \<open>
  \<open>trim()\<close> removes the code points with the Unicode property \<open>White_Space\<close>; these are
  their UTF-8 encodings: U+0009 to U+000D, U+0020, U+0085, U+00A0, U+1680, U+2000 to U+200A,
  U+2028, U+2029, U+202F, U+205F and U+3000.
\<close>

definition byte :: "nat \<Rightarrow> char" where
  "byte n = char_of n"

definition white_space :: "string list" where
  "white_space =
     map (\<lambda>n. [byte n]) [9, 10, 11, 12, 13, 32]
     @ [[byte 194, byte 133], [byte 194, byte 160], [byte 225, byte 154, byte 128]]
     @ map (\<lambda>n. [byte 226, byte 128, byte n]) ([128 ..< 139] @ [168, 169, 175])
     @ [[byte 226, byte 129, byte 159], [byte 227, byte 128, byte 128]]"

lemma white_space_nonempty: "w \<in> set white_space \<Longrightarrow> w \<noteq> []"
  by (auto simp: white_space_def)

function trim_with :: "string list \<Rightarrow> string \<Rightarrow> string" where
  "trim_with ws s =
     (case find (\<lambda>w. w \<noteq> [] \<and> prefix w s) ws of
        None \<Rightarrow> s
      | Some w \<Rightarrow> trim_with ws (drop (length w) s))"
  by pat_completeness auto
termination
  by (relation "measure (\<lambda>(ws, s). length s)")
    (auto simp: find_Some_iff prefix_def)

declare trim_with.simps [simp del]

definition trim_start :: "string \<Rightarrow> string" where
  "trim_start s = trim_with white_space s"

definition trim_end :: "string \<Rightarrow> string" where
  "trim_end s = rev (trim_with (map rev white_space) (rev s))"

definition trim :: "string \<Rightarrow> string" where
  "trim s = trim_end (trim_start s)"

lemma trim_with_id:
  assumes "\<forall>w \<in> set ws. w \<noteq> [] \<longrightarrow> \<not> prefix w s"
  shows "trim_with ws s = s"
proof -
  have "find (\<lambda>w. w \<noteq> [] \<and> prefix w s) ws = None"
    using assms by (auto simp: find_None_iff)
  then show ?thesis by (simp add: trim_with.simps [of ws s])
qed

lemma trim_with_idem [simp]: "trim_with ws (trim_with ws s) = trim_with ws s"
proof (induction ws s rule: trim_with.induct)
  case (1 ws s)
  show ?case
  proof (cases "find (\<lambda>w. w \<noteq> [] \<and> prefix w s) ws")
    case None
    then show ?thesis by (simp add: trim_with.simps [of ws s])
  next
    case (Some w)
    with "1.IH" show ?thesis by (simp add: trim_with.simps [of ws s])
  qed
qed

lemma hd_in_prefix: "prefix w s \<Longrightarrow> w \<noteq> [] \<Longrightarrow> hd s \<in> set w"
  by (cases w) (auto simp: prefix_def)

text \<open>A byte that neither starts nor ends a white-space code point is never trimmed.\<close>

definition is_graph :: "char \<Rightarrow> bool" where
  "is_graph c \<longleftrightarrow> 33 \<le> (of_char c :: nat) \<and> (of_char c :: nat) < 127"

lemma white_space_not_graph:
  assumes "w \<in> set white_space" and "c \<in> set w"
  shows "\<not> is_graph c"
  using assms by (auto simp: white_space_def is_graph_def byte_def)

lemma trim_id:
  assumes "s = [] \<or> (is_graph (hd s) \<and> is_graph (last s))"
  shows "trim s = s"
proof (cases "s = []")
  case True
  then show ?thesis
    by (simp add: trim_def trim_start_def trim_end_def trim_with_id)
next
  case False
  with assms have g: "is_graph (hd s)" "is_graph (last s)" by auto
  have "trim_with white_space s = s"
  proof (rule trim_with_id, intro ballI impI notI)
    fix w assume w: "w \<in> set white_space" "w \<noteq> []" "prefix w s"
    then have "hd s \<in> set w" by (blast intro: hd_in_prefix)
    with w(1) g(1) show False by (blast dest: white_space_not_graph)
  qed
  moreover have "trim_with (map rev white_space) (rev s) = rev s"
  proof (rule trim_with_id, intro ballI impI notI)
    fix w assume w: "w \<in> set (map rev white_space)" "w \<noteq> []" "prefix w (rev s)"
    then have "hd (rev s) \<in> set w" by (blast intro: hd_in_prefix)
    then have "last s \<in> set w" by (simp add: hd_rev)
    moreover from w(1) obtain v where "v \<in> set white_space" "set w = set v" by auto
    ultimately show False using g(2) by (blast dest: white_space_not_graph)
  qed
  ultimately show ?thesis by (simp add: trim_def trim_start_def trim_end_def)
qed

text \<open>Trimming is idempotent: what is left of a string has no white space at either end.\<close>

lemma trim_with_no_prefix: "w \<in> set ws \<Longrightarrow> w \<noteq> [] \<Longrightarrow> \<not> prefix w (trim_with ws s)"
proof (induction ws s rule: trim_with.induct)
  case (1 ws s)
  show ?case
  proof (cases "find (\<lambda>w. w \<noteq> [] \<and> prefix w s) ws")
    case None
    then have "trim_with ws s = s" by (simp add: trim_with.simps [of ws s])
    with None "1.prems" show ?thesis by (auto simp: find_None_all)
  next
    case (Some v)
    with "1.IH" "1.prems" show ?thesis by (simp add: trim_with.simps [of ws s])
  qed
qed

lemma trim_with_suffix: "suffix (trim_with ws s) s"
proof (induction ws s rule: trim_with.induct)
  case (1 ws s)
  show ?case
  proof (cases "find (\<lambda>w. w \<noteq> [] \<and> prefix w s) ws")
    case None
    then show ?thesis by (simp add: trim_with.simps [of ws s])
  next
    case (Some w)
    then have "suffix (trim_with ws (drop (length w) s)) (drop (length w) s)" by (rule "1.IH")
    with Some show ?thesis
      using suffix_order.trans suffix_drop by (simp add: trim_with.simps [of ws s]) blast
  qed
qed

lemma trim_end_prefix: "prefix (trim_end s) s"
  using trim_with_suffix [of "map rev white_space" "rev s"]
  by (simp add: trim_end_def suffix_to_prefix)

lemma trim_trim [simp]: "trim (trim s) = trim s"
proof -
  have "\<not> prefix w (trim s)" if "w \<in> set white_space" "w \<noteq> []" for w
    using trim_with_no_prefix [OF that, of s] trim_end_prefix [of "trim_start s"]
    unfolding trim_def trim_start_def by (meson prefix_order.trans)
  then have "trim_start (trim s) = trim s" unfolding trim_start_def by (intro trim_with_id) blast
  then show ?thesis by (simp add: trim_def trim_end_def)
qed

text \<open>\<open>chars().take(n).collect()\<close>: the first \<open>n\<close> code points.\<close>

function take_chars :: "nat \<Rightarrow> string \<Rightarrow> string" where
  "take_chars 0 s = []"
| "take_chars (Suc n) [] = []"
| "take_chars (Suc n) (c # s) =
     (c # takeWhile is_cont s) @ take_chars n (dropWhile is_cont s)"
  by pat_completeness auto
termination
  by (relation "measure (\<lambda>(n, s). n)") auto

lemma dropWhile_cont_ascii [simp]:
  "list_all is_ascii s \<Longrightarrow> dropWhile is_cont s = s"
  "list_all is_ascii s \<Longrightarrow> takeWhile is_cont s = []"
  by (cases s; simp add: is_ascii_not_cont)+

lemma take_chars_ascii: "list_all is_ascii s \<Longrightarrow> take_chars n s = take n s"
proof (induction n arbitrary: s)
  case 0
  then show ?case by simp
next
  case (Suc n)
  then show ?case by (cases s) simp_all
qed

lemma take_chars_prefix: "prefix (take_chars n s) s"
proof (induction n s rule: take_chars.induct)
  case (3 n c s)
  then have "prefix (takeWhile is_cont s @ take_chars n (dropWhile is_cont s))
      (takeWhile is_cont s @ dropWhile is_cont s)"
    by (simp only: same_prefix_prefix)
  then show ?case by simp
qed simp_all

text \<open>Decimal formatting of unsigned integers (\<open>Display\<close>).\<close>

fun show_nat :: "nat \<Rightarrow> string" where
  "show_nat n = (if n < 10 then [byte (48 + n)] else show_nat (n div 10) @ [byte (48 + n mod 10)])"

declare show_nat.simps [simp del]

definition show_u32 :: "u32 \<Rightarrow> string" where
  "show_u32 w = show_nat (unat w)"

lemma show_nat_nonempty [simp]: "show_nat n \<noteq> []"
  by (subst show_nat.simps) simp

definition is_digit :: "char \<Rightarrow> bool" where
  "is_digit c \<longleftrightarrow> 48 \<le> (of_char c :: nat) \<and> (of_char c :: nat) \<le> 57"

lemma show_nat_digits: "list_all is_digit (show_nat n)"
proof (induction n rule: show_nat.induct)
  case (1 n)
  have "n mod 10 \<le> 9" by arith
  with "1" show ?case
    by (subst show_nat.simps) (simp add: byte_def is_digit_def [of "char_of _"])
qed

definition parse_nat :: "string \<Rightarrow> nat" where
  "parse_nat s = foldl (\<lambda>acc c. 10 * acc + (of_char c - 48)) 0 s"

lemma parse_show_nat [simp]: "parse_nat (show_nat n) = n"
proof (induction n rule: show_nat.induct)
  case (1 n)
  then show ?case by (subst show_nat.simps) (auto simp: parse_nat_def byte_def)
qed

lemma show_nat_inj [simp]: "show_nat m = show_nat n \<longleftrightarrow> m = n"
  by (metis parse_show_nat)

text \<open>
  A route with a \<open>{id}\<close> parameter: the parameter is one non-empty segment between two fixed parts.
\<close>

definition path_param :: "string \<Rightarrow> string \<Rightarrow> string \<Rightarrow> string option" where
  "path_param before after path =
     option_filter (\<lambda>i. i \<noteq> [] \<and> CHR ''/'' \<notin> set i) (Option.bind (strip_prefix before path) (strip_suffix after))"

lemma path_param_eq_Some:
  "path_param before after path = Some i \<longleftrightarrow> path = before @ i @ after \<and> i \<noteq> [] \<and> CHR ''/'' \<notin> set i"
  by (auto simp: path_param_def option_filter_Some_iff bind_eq_Some_conv strip_prefix_eq_Some strip_suffix_def
      suffix_def split: if_splits)

text \<open>\<open>join\<close> of a list of strings.\<close>

fun join :: "string \<Rightarrow> string list \<Rightarrow> string" where
  "join sep [] = []"
| "join sep [s] = s"
| "join sep (s # ss) = s @ sep @ join sep ss"

lemmas [rust_str] = starts_with_def strip_prefix_def strip_suffix_def trim_end_matches_def

subsection \<open>JSON values\<close>

text \<open>
  \<open>serde_json::Value\<close>. Numbers are split as \<open>serde_json::Number\<close> splits them: integers
  (of which the 64-bit ones are representable) and finite floats. An object is an association
  list with distinct keys; \<open>get\<close> on anything but an object is \<open>None\<close>.
\<close>

datatype json =
    JNull
  | JBool bool
  | JInt int
  | JFloat rat
  | JStr string
  | JArr "json list"
  | JObj "(string \<times> json) list"

fun jget :: "string \<Rightarrow> json \<Rightarrow> json option" where
  "jget k (JObj m) = map_of m k"
| "jget k _ = None"

fun jinsert :: "string \<Rightarrow> json \<Rightarrow> json \<Rightarrow> json" where
  "jinsert k v (JObj m) = JObj (AList.update k v m)"
| "jinsert k v j = j"

fun as_str :: "json \<Rightarrow> string option" where
  "as_str (JStr s) = Some s"
| "as_str _ = None"

fun as_bool :: "json \<Rightarrow> bool option" where
  "as_bool (JBool b) = Some b"
| "as_bool _ = None"

fun as_array :: "json \<Rightarrow> json list option" where
  "as_array (JArr vs) = Some vs"
| "as_array _ = None"

fun as_u64 :: "json \<Rightarrow> u64 option" where
  "as_u64 (JInt n) = u64_of_int n"
| "as_u64 _ = None"

fun as_i64 :: "json \<Rightarrow> int option" where
  "as_i64 (JInt n) = (if - (2 ^ 63) \<le> n \<and> n < 2 ^ 63 then Some n else None)"
| "as_i64 _ = None"

definition jget_str :: "string \<Rightarrow> json \<Rightarrow> string option" where
  "jget_str k j = Option.bind (jget k j) as_str"

text \<open>\<open>Option<T>\<close> serialises as \<open>null\<close> or as the value itself.\<close>

definition jopt :: "('a \<Rightarrow> json) \<Rightarrow> 'a option \<Rightarrow> json" where
  "jopt f x = (case x of None \<Rightarrow> JNull | Some v \<Rightarrow> f v)"

lemma jopt_simps [simp]: "jopt f None = JNull" "jopt f (Some v) = f v"
  by (simp_all add: jopt_def)

lemma jget_jinsert [simp]:
  "jget k (jinsert k' v (JObj m)) = (if k = k' then Some v else map_of m k)"
  by (simp add: update_conv')

lemma jget_str_simps [simp]:
  "jget_str k (JObj m) = Option.bind (map_of m k) as_str"
  by (simp add: jget_str_def)

lemmas [json_simps] = jget.simps jinsert.simps jget_str_def update_conv'

subsection \<open>HTTP headers\<close>

text \<open>
  \<open>http::HeaderMap\<close>: names are lower case, a name may have several values, \<open>get\<close> returns the
  first, \<open>insert\<close> replaces all of them and \<open>remove\<close> drops all of them. \<open>to_str\<close> fails unless every
  byte is a tab or a visible ASCII character.
\<close>

type_synonym HeaderMap = "(string \<times> string) list"

definition header_get :: "string \<Rightarrow> HeaderMap \<Rightarrow> string option" where
  "header_get k hs = map_of hs k"

definition header_remove :: "string \<Rightarrow> HeaderMap \<Rightarrow> HeaderMap" where
  "header_remove k hs = filter (\<lambda>(k', _). k' \<noteq> k) hs"

definition header_insert :: "string \<Rightarrow> string \<Rightarrow> HeaderMap \<Rightarrow> HeaderMap" where
  "header_insert k v hs = (k, v) # header_remove k hs"

definition to_str :: "string \<Rightarrow> string option" where
  "to_str v =
     (if list_all (\<lambda>c. of_char c = (9 :: nat) \<or> 32 \<le> (of_char c :: nat) \<and> (of_char c :: nat) < 127) v
      then Some v else None)"

lemma header_get_insert [simp]:
  "header_get k (header_insert k' v hs) = (if k = k' then Some v else header_get k hs)"
  by (induction hs) (auto simp: header_get_def header_insert_def header_remove_def)

lemma header_get_remove [simp]:
  "header_get k (header_remove k' hs) = (if k = k' then None else header_get k hs)"
  by (induction hs) (auto simp: header_get_def header_remove_def)

subsection \<open>Keyed stores\<close>

text \<open>
  The contract of a store with one entry per key: what a lookup returns after an insertion and
  what the iterator ranges over. The coordinator's registry and the gateway's auth cache are
  both \<open>DashMap\<close>s, used through \<open>insert\<close>, \<open>get\<close> and \<open>iter\<close> only.
\<close>

locale keyed_store =
  fixes invar :: "'s \<Rightarrow> bool"
    and insert_entry :: "'k \<Rightarrow> 'v \<Rightarrow> 's \<Rightarrow> 's"
    and get_entry :: "'s \<Rightarrow> 'k \<Rightarrow> 'v option"
    and iter :: "'s \<Rightarrow> ('k \<times> 'v) list"
  assumes invar_insert: "invar s \<Longrightarrow> invar (insert_entry k v s)"
    and get_insert: "get_entry (insert_entry k v s) k' = (if k' = k then Some v else get_entry s k')"
    and iter_get: "invar s \<Longrightarrow> (k, v) \<in> set (iter s) \<longleftrightarrow> get_entry s k = Some v"
begin

lemma iter_insert_iff:
  "invar s \<Longrightarrow> (k', v') \<in> set (iter (insert_entry k v s)) \<longleftrightarrow>
     (if k' = k then v' = v else (k', v') \<in> set (iter s))"
  by (auto simp: iter_get invar_insert get_insert)

lemma iter_functional:
  "invar s \<Longrightarrow> (k, v) \<in> set (iter s) \<Longrightarrow> (k, v') \<in> set (iter s) \<Longrightarrow> v = v'"
  by (auto simp: iter_get)

lemma insert_preserves_all:
  assumes "invar s" and "\<forall>(k', v') \<in> set (iter s). P k' v'" and "P k v"
  shows "\<forall>(k', v') \<in> set (iter (insert_entry k v s)). P k' v'"
  using assms by (auto simp: iter_insert_iff split: if_splits)

end

subsection \<open>Runs of audited command handlers\<close>

text \<open>
  A component that is driven by commands: it keeps an invariant and its audit log only grows.
  The handler groups of the management backend satisfy this contract, and so does the worker process
  with the reports it has sent as its log; a run is any sequence of commands.
\<close>

fun run_cmds :: "('c \<Rightarrow> 's \<Rightarrow> 's) \<Rightarrow> 'c list \<Rightarrow> 's \<Rightarrow> 's" where
  "run_cmds f [] s = s"
| "run_cmds f (c # cs) s = run_cmds f cs (f c s)"

locale audited_machine =
  fixes apply_cmd :: "'c \<Rightarrow> 's \<Rightarrow> 's"
    and invar :: "'s \<Rightarrow> bool"
    and audit_of :: "'s \<Rightarrow> 'a list"
  assumes invar_cmd: "invar s \<Longrightarrow> invar (apply_cmd c s)"
    and audit_cmd: "prefix (audit_of s) (audit_of (apply_cmd c s))"
begin

lemma run_invar: "invar s \<Longrightarrow> invar (run_cmds apply_cmd cs s)"
  by (induction cs arbitrary: s) (auto simp: invar_cmd)

lemma run_audit: "prefix (audit_of s) (audit_of (run_cmds apply_cmd cs s))"
proof (induction cs arbitrary: s)
  case Nil
  then show ?case by simp
next
  case (Cons c cs)
  have "prefix (audit_of (apply_cmd c s)) (audit_of (run_cmds apply_cmd cs (apply_cmd c s)))"
    by (rule Cons.IH)
  with audit_cmd [of s c] show ?case by (auto intro: prefix_order.trans)
qed

lemma audit_set: "set (audit_of s) \<subseteq> set (audit_of (apply_cmd c s))"
  by (rule set_mono_prefix [OF audit_cmd])

lemma run_keeps_entry: "e \<in> set (audit_of s) \<Longrightarrow> e \<in> set (audit_of (run_cmds apply_cmd cs s))"
  using run_audit [of s cs] by (auto dest: set_mono_prefix)

end

end
