(* ===== verification/Float_Round.thy ===== *)
theory Float_Round
  imports Prelude "HOL-Library.Log_Nat"
begin

section \<open>IEEE 754 rounding\<close>

text \<open>
  The code computes layer shares in \<open>f64\<close> and carries one \<open>f32\<close> field over JSON. A finite
  float is a rational; \<open>ieee_round p emin\<close> rounds a rational to the nearest one with a \<open>p\<close> bit
  significand and least exponent \<open>emin\<close>, ties to even, which is what Rust's \<open>/\<close>, \<open>*\<close> and
  \<open>as f64\<close> do. Signed zeros are not distinguished.
  The lemmas used downstream: rounding is monotone (\<open>ieee_round_mono\<close>) and leaves
  representable numbers alone (\<open>ieee_round_exact\<close>).
\<close>

definition ilog2 :: "rat \<Rightarrow> int" where
  "ilog2 x =
     (let (p, q) = quotient_of x; k = bitlen p - bitlen q
      in if 2 powi k \<le> x then k else k - 1)"

definition round_even :: "rat \<Rightarrow> int" where
  "round_even x =
     (let f = \<lfloor>x\<rfloor>; d = x - of_int f
      in if d < 1 / 2 then f else if 1 / 2 < d then f + 1 else if even f then f else f + 1)"

definition ieee_round :: "nat \<Rightarrow> int \<Rightarrow> rat \<Rightarrow> rat" where
  "ieee_round p emin x =
     (if x = 0 then 0
      else let e = max (ilog2 \<bar>x\<bar> - int p + 1) emin
           in of_int (round_even (x / 2 powi e)) * 2 powi e)"

text \<open>The two formats of the code, overflow included.\<close>

datatype fp = Finite rat | NonFinite

definition f64_round :: "rat \<Rightarrow> rat" where
  "f64_round x = ieee_round 53 (- 1074) x"

definition f32_of_rat :: "rat \<Rightarrow> fp" where
  "f32_of_rat x =
     (let r = ieee_round 24 (- 149) x in if \<bar>r\<bar> < 2 ^ 128 then Finite r else NonFinite)"

text \<open>A rational is an \<open>f32\<close> value when it is \<open>m * 2 ^ k\<close> with a 24-bit \<open>m\<close>.\<close>

definition is_f32 :: "rat \<Rightarrow> bool" where
  "is_f32 x \<longleftrightarrow> \<bar>x\<bar> < 2 ^ 128 \<and> (\<exists>m k. x = of_int m * 2 powi k \<and> \<bar>m\<bar> < 2 ^ 24 \<and> - 149 \<le> k)"

subsection \<open>Powers of two\<close>

lemma pow2_pos [simp]: "0 < (2 :: rat) powi k"
  by simp

lemma pow2_split: "a \<le> b \<Longrightarrow> (2 :: rat) powi b = 2 powi a * 2 ^ nat (b - a)"
proof -
  assume "a \<le> b"
  then have "(2 :: rat) powi b = 2 powi (a + int (nat (b - a)))" by simp
  also have "\<dots> = 2 powi a * 2 powi int (nat (b - a))" by (rule power_int_add) simp
  also have "\<dots> = 2 powi a * 2 ^ nat (b - a)" by (simp only: power_int_of_nat)
  finally show ?thesis .
qed

lemma pow2_mono: "a \<le> b \<Longrightarrow> (2 :: rat) powi a \<le> 2 powi b"
  by (simp add: pow2_split [of a b])

lemma pow2_strict_mono: "a < b \<Longrightarrow> (2 :: rat) powi a < 2 powi b"
  by (simp add: pow2_split [of a b])

lemma pow2_less_iff [simp]: "(2 :: rat) powi a < 2 powi b \<longleftrightarrow> a < b"
  by (meson leD not_le pow2_mono pow2_strict_mono)

subsection \<open>The binary logarithm\<close>

lemma bitlen_rat_bounds:
  assumes "0 < n"
  shows "2 powi (bitlen n - 1) \<le> (of_int n :: rat)" and "(of_int n :: rat) < 2 powi (bitlen n)"
proof -
  have l: "1 \<le> bitlen n" using assms by (auto simp: bitlen_alt_def)
  from bitlen_bounds [OF assms]
  have "(2 :: int) ^ nat (bitlen n - 1) \<le> n" "n < 2 ^ nat (bitlen n)" by auto
  then have "(of_int (2 ^ nat (bitlen n - 1)) :: rat) \<le> of_int n"
    and "(of_int n :: rat) < of_int (2 ^ nat (bitlen n))" by (simp_all only: of_int_le_iff of_int_less_iff)
  then show "2 powi (bitlen n - 1) \<le> (of_int n :: rat)" and "(of_int n :: rat) < 2 powi (bitlen n)"
    using l by (simp_all add: power_int_nonneg_exp)
qed

lemma ilog2_bounds:
  assumes "0 < x"
  shows "2 powi (ilog2 x) \<le> x" and "x < 2 powi (ilog2 x + 1)"
proof -
  obtain p q where pq: "quotient_of x = (p, q)" by (cases "quotient_of x")
  have q: "0 < q" using quotient_of_denom_pos [OF pq] .
  have x: "x = of_int p / of_int q" using quotient_of_div [OF pq] .
  have p: "0 < p" using assms q by (simp add: x zero_less_divide_iff)
  let ?k = "bitlen p - bitlen q"
  have "(of_int p :: rat) < 2 powi (?k + 1) * of_int q"
  proof -
    have "(of_int p :: rat) < 2 powi ((?k + 1) + (bitlen q - 1))"
      using bitlen_rat_bounds(2) [OF p] by simp
    also have "\<dots> = 2 powi (?k + 1) * 2 powi (bitlen q - 1)" by (rule power_int_add) simp
    also have "\<dots> \<le> 2 powi (?k + 1) * of_int q"
      using bitlen_rat_bounds(1) [OF q] by (intro mult_left_mono) simp_all
    finally show ?thesis .
  qed
  then have up: "x < 2 powi (?k + 1)" using q by (simp add: x field_simps)
  have "2 powi (?k - 1) * of_int q < (of_int p :: rat)"
  proof -
    have "2 powi (?k - 1) * of_int q < (2 powi (?k - 1) * 2 powi (bitlen q) :: rat)"
      using bitlen_rat_bounds(2) [OF q] by (intro mult_strict_left_mono) simp_all
    also have "\<dots> = 2 powi ((?k - 1) + bitlen q)" by (rule power_int_add [symmetric]) simp
    also have "\<dots> = 2 powi (bitlen p - 1)" by simp
    also have "\<dots> \<le> of_int p" using bitlen_rat_bounds(1) [OF p] .
    finally show ?thesis .
  qed
  then have lo: "2 powi (?k - 1) \<le> x" using q by (simp add: x field_simps)
  show "2 powi (ilog2 x) \<le> x" using lo by (simp add: ilog2_def pq Let_def)
  show "x < 2 powi (ilog2 x + 1)" using up by (simp add: ilog2_def pq Let_def)
qed

lemma ilog2_less: "0 < x \<Longrightarrow> x < 2 powi k \<Longrightarrow> ilog2 x < k"
  using ilog2_bounds(1) [of x] by (metis le_less_trans pow2_less_iff)

lemma ilog2_mono: "0 < x \<Longrightarrow> x \<le> y \<Longrightarrow> ilog2 x \<le> ilog2 y"
proof -
  assume "0 < x" "x \<le> y"
  then have "x < 2 powi (ilog2 y + 1)" using ilog2_bounds(2) [of y] by simp
  with \<open>0 < x\<close> have "ilog2 x < ilog2 y + 1" by (rule ilog2_less)
  then show ?thesis by simp
qed

subsection \<open>Rounding to an integer\<close>

lemma round_even_of_int [simp]: "round_even (of_int n) = n"
  by (simp add: round_even_def)

lemma round_even_bounds: "\<lfloor>x\<rfloor> \<le> round_even x" "round_even x \<le> \<lfloor>x\<rfloor> + 1"
  by (auto simp: round_even_def Let_def)

lemma round_even_mono:
  assumes "x \<le> y"
  shows "round_even x \<le> round_even y"
proof (cases "\<lfloor>x\<rfloor> = \<lfloor>y\<rfloor>")
  case True
  with assms show ?thesis by (auto simp: round_even_def Let_def)
next
  case False
  with floor_mono [OF assms] have "\<lfloor>x\<rfloor> + 1 \<le> \<lfloor>y\<rfloor>" by simp
  with round_even_bounds(2) [of x] round_even_bounds(1) [of y] show ?thesis by linarith
qed

subsection \<open>Rounding to a float\<close>

lemma ieee_round_0 [simp]: "ieee_round p emin 0 = 0"
  by (simp add: ieee_round_def)

lemma ieee_round_nonneg: "0 \<le> x \<Longrightarrow> 0 \<le> ieee_round p emin x"
proof -
  assume "0 \<le> x"
  define e where "e = max (ilog2 \<bar>x\<bar> - int p + 1) emin"
  have "round_even (of_int 0) \<le> round_even (x / 2 powi e)"
    using \<open>0 \<le> x\<close> by (intro round_even_mono) simp
  then have "0 \<le> round_even (x / 2 powi e)" by (simp only: round_even_of_int)
  then show ?thesis by (simp add: ieee_round_def Let_def flip: e_def)
qed

lemma ieee_round_exact:
  assumes x: "x = of_int m * 2 powi k" and m: "\<bar>m\<bar> < 2 ^ p" and k: "emin \<le> k"
  shows "ieee_round p emin x = x"
proof (cases "x = 0")
  case False
  define e where "e = max (ilog2 \<bar>x\<bar> - int p + 1) emin"
  have "(of_int \<bar>m\<bar> :: rat) < of_int (2 ^ p)" using m by (simp only: of_int_less_iff)
  then have "\<bar>x\<bar> < 2 ^ p * 2 powi k" by (simp add: x abs_mult)
  also have "\<dots> = 2 powi (int p + k)" by (subst power_int_add) simp_all
  finally have "ilog2 \<bar>x\<bar> < int p + k" using False by (intro ilog2_less) simp_all
  with k have e: "e \<le> k" by (simp add: e_def)
  have "x / 2 powi e = of_int (m * 2 ^ nat (k - e))"
    by (simp add: x pow2_split [OF e])
  then have "of_int (round_even (x / 2 powi e)) * 2 powi e = (x / 2 powi e) * 2 powi e"
    by (simp only: round_even_of_int)
  then show ?thesis using False by (simp add: ieee_round_def Let_def flip: e_def)
qed simp

text \<open>A power of two above the argument stays above the result.\<close>

lemma ieee_round_le_pow2:
  assumes "0 < x" and "x \<le> 2 powi k" and "emin \<le> k" and "0 < p"
  shows "ieee_round p emin x \<le> 2 powi k"
proof -
  define e where "e = max (ilog2 x - int p + 1) emin"
  have "x < 2 powi (k + 1)"
    using assms(2) pow2_strict_mono [of k "k + 1"] by (rule le_less_trans) simp
  then have "ilog2 x < k + 1" using assms(1) by (intro ilog2_less)
  with assms(3,4) have e: "e \<le> k" by (simp add: e_def)
  have "x / 2 powi e \<le> 2 powi k / 2 powi e" using assms(2) by (intro divide_right_mono) simp_all
  also have "\<dots> = of_int (2 ^ nat (k - e))" by (simp add: pow2_split [OF e])
  finally have "round_even (x / 2 powi e) \<le> 2 ^ nat (k - e)"
    using round_even_mono round_even_of_int by metis
  then have "(of_int (round_even (x / 2 powi e)) :: rat) \<le> of_int (2 ^ nat (k - e))"
    by (simp only: of_int_le_iff)
  then have "of_int (round_even (x / 2 powi e)) * 2 powi e \<le> (2 ^ nat (k - e) * 2 powi e :: rat)"
    by (intro mult_right_mono) simp_all
  also have "\<dots> = 2 powi k" by (simp add: pow2_split [OF e])
  finally show ?thesis using assms(1) by (simp add: ieee_round_def Let_def flip: e_def)
qed

lemma ieee_round_ge_pow2:
  assumes "0 < x" and "2 powi k \<le> x" and "emin \<le> k" and "0 < p" and "ilog2 x = k"
  shows "2 powi k \<le> ieee_round p emin x"
proof -
  define e where "e = max (ilog2 x - int p + 1) emin"
  have e: "e \<le> k" using assms by (simp add: e_def)
  have "of_int (2 ^ nat (k - e)) = 2 powi k / (2 powi e :: rat)" by (simp add: pow2_split [OF e])
  also have "\<dots> \<le> x / 2 powi e" using assms(2) by (intro divide_right_mono) simp_all
  finally have "2 ^ nat (k - e) \<le> round_even (x / 2 powi e)"
    using round_even_mono round_even_of_int by metis
  then have "(of_int (2 ^ nat (k - e)) :: rat) \<le> of_int (round_even (x / 2 powi e))"
    by (simp only: of_int_le_iff)
  then have "(2 ^ nat (k - e) * 2 powi e :: rat) \<le> of_int (round_even (x / 2 powi e)) * 2 powi e"
    by (intro mult_right_mono) simp_all
  moreover have "(2 :: rat) powi k = 2 ^ nat (k - e) * 2 powi e" by (simp add: pow2_split [OF e])
  ultimately show ?thesis using assms(1) by (simp add: ieee_round_def Let_def flip: e_def)
qed

lemma ieee_round_same_exponent:
  assumes "0 < x" and "x \<le> y"
    and "max (ilog2 x - int p + 1) emin = max (ilog2 y - int p + 1) emin"
  shows "ieee_round p emin x \<le> ieee_round p emin y"
proof -
  define e where "e = max (ilog2 y - int p + 1) emin"
  have "round_even (x / 2 powi e) \<le> round_even (y / 2 powi e)"
    using assms(2) by (intro round_even_mono divide_right_mono) simp_all
  then show ?thesis using assms by (simp add: ieee_round_def Let_def flip: e_def)
qed

lemma ieee_round_mono:
  assumes "0 \<le> x" and "x \<le> y" and "0 < p"
  shows "ieee_round p emin x \<le> ieee_round p emin y"
proof (cases "x = 0")
  case True
  with assms show ?thesis by (simp add: ieee_round_nonneg)
next
  case False
  with assms have xy: "0 < x" "0 < y" by auto
  show ?thesis
  proof (cases "max (ilog2 x - int p + 1) emin = max (ilog2 y - int p + 1) emin")
    case True
    with xy assms(2) show ?thesis by (blast intro: ieee_round_same_exponent)
  next
    case ne: False
    have "ilog2 x \<le> ilog2 y" using xy(1) assms(2) by (rule ilog2_mono)
    with ne have lt: "ilog2 x + 1 \<le> ilog2 y" and em: "emin < ilog2 y - int p + 1" by linarith+
    have ey: "emin \<le> ilog2 y" using em assms(3) by simp
    have "x \<le> 2 powi (ilog2 y)"
      using ilog2_bounds(2) [OF xy(1)] pow2_mono [OF lt] by simp
    then have "ieee_round p emin x \<le> 2 powi (ilog2 y)"
      using xy(1) ey assms(3) by (intro ieee_round_le_pow2)
    also have "\<dots> \<le> ieee_round p emin y"
      using xy(2) ilog2_bounds(1) [OF xy(2)] ey assms(3) by (intro ieee_round_ge_pow2) simp_all
    finally show ?thesis .
  qed
qed

lemma f64_round_mono: "0 \<le> x \<Longrightarrow> x \<le> y \<Longrightarrow> f64_round x \<le> f64_round y"
  by (simp add: f64_round_def ieee_round_mono)

lemma f64_round_nonneg: "0 \<le> x \<Longrightarrow> 0 \<le> f64_round x"
  by (simp add: f64_round_def ieee_round_nonneg)

lemma f64_round_of_nat: "n < 2 ^ 53 \<Longrightarrow> f64_round (of_nat n) = of_nat n"
  unfolding f64_round_def by (rule ieee_round_exact [where m = "int n" and k = 0]) simp_all

lemma f64_round_1 [simp]: "f64_round 1 = 1"
  using f64_round_of_nat [of 1] by simp

lemma f32_of_rat_exact: "is_f32 x \<Longrightarrow> f32_of_rat x = Finite x"
  by (auto simp: is_f32_def f32_of_rat_def ieee_round_exact)

end
