(* ===== verification/Proto.thy ===== *)
theory Proto
  imports Float_Round
begin

section \<open>The protobuf messages\<close>

text \<open>
  The structs \<open>prost\<close> generates from \<open>crates/proto/proto/node.proto\<close>: one \<open>record\<close>
  per message, with the message's fields in order. Every \<open>enum\<close> field is an \<open>i32\<close> in the
  generated struct; \<open>try_from\<close> reads it back and fails on a value no variant has.
  Records are prefixed by an abbreviation of the message (\<open>n_\<close>, \<open>os_\<close>, \<open>g_\<close>,
  \<open>cap_\<close>, \<open>net_\<close>, \<open>cm_\<close>, \<open>geo_\<close>), since messages share field names.
\<close>

datatype NodeStatus =
    Unspecified | PendingApproval | Online | Degraded | Draining | Offline | Quarantined | Revoked

definition NodeStatus_all :: "NodeStatus list" where
  "NodeStatus_all = [Unspecified, PendingApproval, Online, Degraded, Draining, Offline,
                     Quarantined, Revoked]"

fun NodeStatus_as_i32 :: "NodeStatus \<Rightarrow> i32" where
  "NodeStatus_as_i32 Unspecified = 0"
| "NodeStatus_as_i32 PendingApproval = 1"
| "NodeStatus_as_i32 Online = 2"
| "NodeStatus_as_i32 Degraded = 3"
| "NodeStatus_as_i32 Draining = 4"
| "NodeStatus_as_i32 Offline = 5"
| "NodeStatus_as_i32 Quarantined = 6"
| "NodeStatus_as_i32 Revoked = 7"

definition NodeStatus_try_from :: "i32 \<Rightarrow> NodeStatus option" where
  "NodeStatus_try_from n = find (\<lambda>s. NodeStatus_as_i32 s = n) NodeStatus_all"

datatype GpuBackend = BackendUnspecified | Cuda | Metal | Rocm | Vulkan

fun GpuBackend_as_i32 :: "GpuBackend \<Rightarrow> i32" where
  "GpuBackend_as_i32 BackendUnspecified = 0"
| "GpuBackend_as_i32 Cuda = 1"
| "GpuBackend_as_i32 Metal = 2"
| "GpuBackend_as_i32 Rocm = 3"
| "GpuBackend_as_i32 Vulkan = 4"

definition GpuBackend_try_from :: "i32 \<Rightarrow> GpuBackend option" where
  "GpuBackend_try_from n =
     find (\<lambda>b. GpuBackend_as_i32 b = n) [BackendUnspecified, Cuda, Metal, Rocm, Vulkan]"

text \<open>The idiom \<open>X::try_from(n).unwrap_or(X::Unspecified)\<close>, used by every reader.\<close>

definition NodeStatus_of :: "i32 \<Rightarrow> NodeStatus" where
  "NodeStatus_of n = unwrap_or Unspecified (NodeStatus_try_from n)"

definition GpuBackend_of :: "i32 \<Rightarrow> GpuBackend" where
  "GpuBackend_of n = unwrap_or BackendUnspecified (GpuBackend_try_from n)"

lemma NodeStatus_try_from_as [simp]: "NodeStatus_try_from (NodeStatus_as_i32 s) = Some s"
  by (cases s) (simp_all add: NodeStatus_try_from_def NodeStatus_all_def)

lemma GpuBackend_try_from_as [simp]: "GpuBackend_try_from (GpuBackend_as_i32 b) = Some b"
  by (cases b) (simp_all add: GpuBackend_try_from_def)

lemma NodeStatus_of_as [simp]: "NodeStatus_of (NodeStatus_as_i32 s) = s"
  by (simp add: NodeStatus_of_def)

lemma GpuBackend_of_as [simp]: "GpuBackend_of (GpuBackend_as_i32 b) = b"
  by (simp add: GpuBackend_of_def)

lemma NodeStatus_of_codes [simp]:
  "NodeStatus_of 0 = Unspecified" "NodeStatus_of 1 = PendingApproval" "NodeStatus_of 2 = Online"
  "NodeStatus_of 3 = Degraded" "NodeStatus_of 4 = Draining" "NodeStatus_of 5 = Offline"
  "NodeStatus_of 6 = Quarantined" "NodeStatus_of 7 = Revoked"
  by (simp_all add: NodeStatus_of_def NodeStatus_try_from_def NodeStatus_all_def)

lemma GpuBackend_of_codes [simp]:
  "GpuBackend_of 0 = BackendUnspecified" "GpuBackend_of 1 = Cuda" "GpuBackend_of 2 = Metal"
  "GpuBackend_of 3 = Rocm" "GpuBackend_of 4 = Vulkan"
  by (simp_all add: GpuBackend_of_def GpuBackend_try_from_def)

lemma NodeStatus_try_from_Some: "NodeStatus_try_from n = Some s \<longleftrightarrow> n = NodeStatus_as_i32 s"
  by (metis (mono_tags, lifting) NodeStatus_try_from_as NodeStatus_try_from_def find_Some_iff)

lemma GpuBackend_try_from_Some: "GpuBackend_try_from n = Some b \<longleftrightarrow> n = GpuBackend_as_i32 b"
  by (metis (mono_tags, lifting) GpuBackend_try_from_as GpuBackend_try_from_def find_Some_iff)

record OsInfo =
  os_family :: string
  os_version :: string
  os_kernel :: string
  os_arch :: string
  os_device_name :: string

record BenchScore =
  forward_pass_tps :: fp
  flops_fp16_tflops :: fp
  flops_bf16_tflops :: fp
  measured_at :: int

record GpuCapabilityProfile =
  cap_architecture :: string
  cap_compute_cap_major :: u32
  cap_compute_cap_minor :: u32
  cap_vram_bytes :: u64
  cap_mem_bandwidth_gbs :: fp
  supports_fp16 :: bool
  supports_bf16 :: bool
  supports_fp8 :: bool
  supports_fp4 :: bool
  supports_int8_tc :: bool
  cap_benchmark :: "BenchScore option"
  cap_backend :: i32
  cap_unified_memory :: bool

record GpuInfo =
  g_index :: u32
  g_uuid :: string
  g_name :: string
  g_architecture :: string
  g_compute_cap_major :: u32
  g_compute_cap_minor :: u32
  vram_total_bytes :: u64
  vram_free_bytes :: u64
  g_pci_bus_id :: string
  g_driver_version :: string
  g_cuda_version :: string
  g_vbios_version :: string
  g_power_limit_w :: u32
  g_nvlink_present :: bool
  g_capability :: "GpuCapabilityProfile option"
  g_backend :: i32
  g_unified_memory :: bool
  g_gpu_core_count :: u32
  g_metal_family :: string

record NetworkInfo =
  net_public_ip_v4 :: string
  net_public_ip_v6 :: string
  net_asn :: string
  net_isp :: string
  net_country_code :: string
  net_city :: string
  net_public_ip_is_dynamic :: bool
  net_public_ip_changed_at :: int
  net_local_ips :: "string list"
  net_primary_iface :: string
  net_link_speed_mbps :: u32
  net_wg_ip :: string
  net_wg_pubkey_sha :: string
  net_wg_listen_port :: u32
  net_rtt_to_gateway_ms :: u32

record CpuMemInfo =
  cm_cpu_model :: string
  cm_cpu_cores :: u32
  cm_cpu_threads :: u32
  cm_ram_total_bytes :: u64
  cm_ram_free_bytes :: u64

record GeoInfo =
  geo_country_code :: string
  geo_region :: string
  geo_city :: string
  geo_latitude :: fp
  geo_longitude :: fp

record NodeInfo =
  n_node_id :: string
  n_hostname :: string
  n_display_name :: string
  n_hw_fingerprint :: string
  n_owner_user_id :: string
  n_tags :: "string list"
  n_os :: "OsInfo option"
  n_gpus :: "GpuInfo list"
  n_network :: "NetworkInfo option"
  n_cpu_mem :: "CpuMemInfo option"
  n_geo :: "GeoInfo option"
  n_status :: i32
  n_first_seen :: int
  n_last_heartbeat :: int
  n_agent_version :: string
  n_client_cert_sha :: string

subsection \<open>Sample values\<close>

definition sample_cap :: "bool \<Rightarrow> bool \<Rightarrow> GpuCapabilityProfile" where
  "sample_cap bf16 fp8 =
     \<lparr>cap_architecture = ''ada'', cap_compute_cap_major = 8, cap_compute_cap_minor = 9,
      cap_vram_bytes = 100, cap_mem_bandwidth_gbs = Finite 0, supports_fp16 = True,
      supports_bf16 = bf16, supports_fp8 = fp8, supports_fp4 = False, supports_int8_tc = True,
      cap_benchmark = None, cap_backend = 1, cap_unified_memory = False\<rparr>"

definition sample_gpu :: "u32 \<Rightarrow> u64 \<Rightarrow> GpuInfo" where
  "sample_gpu i free =
     \<lparr>g_index = i, g_uuid = ''u'', g_name = ''RTX'', g_architecture = ''ada'',
      g_compute_cap_major = 8, g_compute_cap_minor = 9, vram_total_bytes = free,
      vram_free_bytes = free, g_pci_bus_id = [], g_driver_version = [], g_cuda_version = [],
      g_vbios_version = [], g_power_limit_w = 450, g_nvlink_present = False,
      g_capability = Some (sample_cap True True), g_backend = 1, g_unified_memory = False,
      g_gpu_core_count = 0, g_metal_family = []\<rparr>"

definition sample_node :: "string \<Rightarrow> GpuInfo list \<Rightarrow> NodeInfo" where
  "sample_node i gpus =
     \<lparr>n_node_id = i, n_hostname = ''host'', n_display_name = [], n_hw_fingerprint = ''hw'' @ i,
      n_owner_user_id = [], n_tags = [], n_os = None, n_gpus = gpus, n_network = None,
      n_cpu_mem = None, n_geo = None, n_status = 2, n_first_seen = 0, n_last_heartbeat = 0,
      n_agent_version = [], n_client_cert_sha = []\<rparr>"

end
