(* ===== verification/Scheduler.thy ===== *)
theory Scheduler
  imports Proto "HOL-Library.Multiset"
begin

section \<open>The scheduler (\<open>crates/scheduler\<close>)\<close>

text \<open>
  Precision negotiation (\<open>precision.rs\<close>), compute groups (\<open>compute_group.rs\<close>) and the layer
  placer (\<open>placement.rs\<close>). The placer computes shares in \<open>f64\<close> and cursors in \<open>u32\<close>; an
  arithmetic overflow panics when overflow checks are on (the default of \<open>dev\<close> and test builds)
  and wraps when they are off (\<open>release\<close>), so \<open>plan\<close> takes the mode and returns a panic or the
  stages. The contract of the \<open>Placer\<close> trait is the locale \<open>placer\<close>; the greedy placer
  interprets it.
\<close>

subsection \<open>Precision (\<open>precision.rs\<close>)\<close>

datatype Precision = Fp16 | Bf16 | Fp8 | Fp4

fun supported_by :: "Precision \<Rightarrow> GpuCapabilityProfile \<Rightarrow> bool" where
  "supported_by Fp16 cap = supports_fp16 cap"
| "supported_by Bf16 cap = supports_bf16 cap"
| "supported_by Fp8 cap = supports_fp8 cap"
| "supported_by Fp4 cap = supports_fp4 cap"

definition gpu_supports :: "Precision \<Rightarrow> GpuInfo \<Rightarrow> bool" where
  "gpu_supports p g = (case g_capability g of Some c \<Rightarrow> supported_by p c | None \<Rightarrow> False)"

definition cluster_gcd :: "GpuInfo list \<Rightarrow> Precision" where
  "cluster_gcd gpus =
     (case find (\<lambda>p. list_all (gpu_supports p) gpus) [Fp4, Fp8, Bf16, Fp16] of
        Some p \<Rightarrow> p
      | None \<Rightarrow> Fp16)"

text \<open>Precisions from the most to the least aggressive.\<close>

fun aggressiveness :: "Precision \<Rightarrow> nat" where
  "aggressiveness Fp16 = 0"
| "aggressiveness Bf16 = 1"
| "aggressiveness Fp8 = 2"
| "aggressiveness Fp4 = 3"

subsection \<open>Compute groups (\<open>compute_group.rs\<close>)\<close>

record ComputeGroup =
  cg_key :: string
  cg_members :: "string list"

definition group_key :: "GpuInfo \<Rightarrow> string" where
  "group_key g =
     (case GpuBackend_of (g_backend g) of
        Metal \<Rightarrow> ''metal-'' @ g_architecture g
      | Rocm \<Rightarrow> ''rocm-'' @ g_architecture g
      | Vulkan \<Rightarrow> ''vulkan-'' @ g_architecture g
      | _ \<Rightarrow> ''cuda-'' @ g_architecture g @ ''-'' @ show_u32 (g_compute_cap_major g) @ ''.''
             @ show_u32 (g_compute_cap_minor g))"

text \<open>
  \<open>buckets.entry(key).or_default().push(id)\<close> on the \<open>HashMap\<close> under construction, here an
  association list in order of first insertion. \<open>into_iter\<close> on a \<open>HashMap\<close> yields the buckets
  in an order of its own, so nothing below depends on the order of the groups.
\<close>

definition bucket_push :: "string \<Rightarrow> string \<Rightarrow> (string \<times> string list) list \<Rightarrow> (string \<times> string list) list" where
  "bucket_push key x bs = AList.update key (unwrap_or [] (map_of bs key) @ [x]) bs"

fun bucket_nodes :: "NodeInfo list \<Rightarrow> (string \<times> string list) list \<Rightarrow> (string \<times> string list) list" where
  "bucket_nodes [] bs = bs"
| "bucket_nodes (n # ns) bs =
     bucket_nodes ns
       (case n_gpus n of
          [] \<Rightarrow> bs
        | g # _ \<Rightarrow> bucket_push (group_key g) (n_node_id n) bs)"

definition partition :: "NodeInfo list \<Rightarrow> ComputeGroup list" where
  "partition nodes = map (\<lambda>(k, ms). \<lparr>cg_key = k, cg_members = ms\<rparr>) (bucket_nodes nodes [])"

subsection \<open>Placement (\<open>lib.rs\<close>, \<open>placement.rs\<close>)\<close>

record PlacementRequest =
  model_total_layers :: u32
  model_bytes :: u64
  require_arch_min :: "string option"
  prefer_homogeneous :: bool
  required_precision :: Precision

definition PlacementRequest_default :: PlacementRequest where
  "PlacementRequest_default =
     \<lparr>model_total_layers = 0, model_bytes = 0, require_arch_min = None,
      prefer_homogeneous = False, required_precision = Bf16\<rparr>"

record StageAssignment =
  sa_node_id :: string
  sa_gpu_index :: u32
  layer_start :: u32
  layer_end :: u32
  sa_backend :: GpuBackend

datatype panic = AddOverflow | SubOverflow

definition add_u32 :: "bool \<Rightarrow> u32 \<Rightarrow> u32 \<Rightarrow> panic + u32" where
  "add_u32 chk a b = (if chk \<and> 2 ^ 32 \<le> unat a + unat b then Inl AddOverflow else Inr (a + b))"

definition sub_u32 :: "bool \<Rightarrow> u32 \<Rightarrow> u32 \<Rightarrow> panic + u32" where
  "sub_u32 chk a b = (if chk \<and> unat a < unat b then Inl SubOverflow else Inr (a - b))"

fun sum_u64 :: "bool \<Rightarrow> u64 \<Rightarrow> u64 list \<Rightarrow> panic + u64" where
  "sum_u64 chk acc [] = Inr acc"
| "sum_u64 chk acc (x # xs) =
     (if chk \<and> 2 ^ 64 \<le> unat acc + unat x then Inl AddOverflow else sum_u64 chk (acc + x) xs)"

text \<open>\<open>f64::round\<close> rounds half away from zero; \<open>as u32\<close> saturates.\<close>

definition round_half_away :: "rat \<Rightarrow> int" where
  "round_half_away x = (if 0 \<le> x then \<lfloor>x + 1 / 2\<rfloor> else - \<lfloor>- x + 1 / 2\<rfloor>)"

definition as_u32 :: "int \<Rightarrow> u32" where
  "as_u32 n = (if n < 0 then 0 else if 2 ^ 32 \<le> n then - 1 else word_of_int n)"

definition share_layers :: "u32 \<Rightarrow> u64 \<Rightarrow> u64 \<Rightarrow> u32" where
  "share_layers total_layers free total_vram =
     (let share = f64_round (f64_round (of_nat (unat free)) / f64_round (of_nat (unat total_vram)))
      in as_u32 (round_half_away (f64_round (share * f64_round (of_nat (unat total_layers))))))"

definition eligible_gpus :: "PlacementRequest \<Rightarrow> NodeInfo list \<Rightarrow> (NodeInfo \<times> GpuInfo) list" where
  "eligible_gpus req nodes =
     filter (\<lambda>(_, g). gpu_supports (required_precision req) g)
       (concat (map (\<lambda>n. map (\<lambda>g. (n, g)) (n_gpus n)) nodes))"

text \<open>\<open>sort_by\<close> is stable; the comparison is \<open>b.vram_free.cmp(a.vram_free)\<close>.\<close>

definition sort_by_free_vram :: "(NodeInfo \<times> GpuInfo) list \<Rightarrow> (NodeInfo \<times> GpuInfo) list" where
  "sort_by_free_vram gpus = sort_key (\<lambda>(_, g). - uint (vram_free_bytes g)) gpus"

definition stage_of :: "NodeInfo \<times> GpuInfo \<Rightarrow> u32 \<Rightarrow> u32 \<Rightarrow> StageAssignment" where
  "stage_of p from to =
     \<lparr>sa_node_id = n_node_id (fst p), sa_gpu_index = g_index (snd p), layer_start = from,
      layer_end = to, sa_backend = GpuBackend_of (g_backend (snd p))\<rparr>"

fun place :: "bool \<Rightarrow> u32 \<Rightarrow> u64 \<Rightarrow> (NodeInfo \<times> GpuInfo) list \<Rightarrow> u32 \<Rightarrow> StageAssignment list
    \<Rightarrow> panic + StageAssignment list" where
  "place chk total_layers total_vram [] cursor out = Inr out"
| "place chk total_layers total_vram (p # rest) cursor out =
     (case (if rest = [] then sub_u32 chk total_layers cursor
            else Inr (share_layers total_layers (vram_free_bytes (snd p)) total_vram)) of
        Inl e \<Rightarrow> Inl e
      | Inr layers \<Rightarrow>
          if layers = 0 then place chk total_layers total_vram rest cursor out
          else case add_u32 chk cursor layers of
                 Inl e \<Rightarrow> Inl e
               | Inr cursor' \<Rightarrow>
                   place chk total_layers total_vram rest cursor'
                     (out @ [stage_of p cursor cursor']))"

definition plan :: "bool \<Rightarrow> PlacementRequest \<Rightarrow> NodeInfo list \<Rightarrow> panic + StageAssignment list" where
  "plan chk req nodes =
     (let gpus = sort_by_free_vram (eligible_gpus req nodes)
      in case sum_u64 chk 0 (map (\<lambda>(_, g). vram_free_bytes g) gpus) of
           Inl e \<Rightarrow> Inl e
         | Inr total_vram \<Rightarrow>
             if total_vram = 0 then Inr []
             else place chk (model_total_layers req) total_vram gpus 0 [])"

subsection \<open>What a placement promises\<close>

text \<open>Stages that follow each other without a gap from layer \<open>a\<close> to layer \<open>b\<close>.\<close>

fun chain :: "nat \<Rightarrow> StageAssignment list \<Rightarrow> nat \<Rightarrow> bool" where
  "chain a [] b \<longleftrightarrow> a = b"
| "chain a (s # ss) b \<longleftrightarrow>
     unat (layer_start s) = a \<and> layer_start s < layer_end s \<and> chain (unat (layer_end s)) ss b"

definition holds_layer :: "nat \<Rightarrow> StageAssignment \<Rightarrow> bool" where
  "holds_layer l s \<longleftrightarrow> unat (layer_start s) \<le> l \<and> l < unat (layer_end s)"

definition stage_from :: "PlacementRequest \<Rightarrow> NodeInfo list \<Rightarrow> StageAssignment \<Rightarrow> bool" where
  "stage_from req nodes s \<longleftrightarrow>
     (\<exists>n \<in> set nodes. \<exists>g \<in> set (n_gpus n).
        sa_node_id s = n_node_id n \<and> sa_gpu_index s = g_index g \<and>
        sa_backend s = GpuBackend_of (g_backend g) \<and> gpu_supports (required_precision req) g)"

lemma chain_le: "chain a ss b \<Longrightarrow> a \<le> b"
proof (induction ss arbitrary: a)
  case (Cons s ss)
  then have "unat (layer_start s) < unat (layer_end s)" and "unat (layer_end s) \<le> b"
    by (auto simp: word_less_nat_alt)
  with Cons.prems show ?case by simp
qed simp

lemma chain_holds_bounds: "chain a ss b \<Longrightarrow> s \<in> set ss \<Longrightarrow> holds_layer l s \<Longrightarrow> a \<le> l \<and> l < b"
proof (induction ss arbitrary: a)
  case (Cons t ss)
  show ?case
  proof (cases "s = t")
    case True
    with Cons.prems chain_le [of "unat (layer_end t)" ss b] show ?thesis
      by (auto simp: holds_layer_def)
  next
    case False
    with Cons have "unat (layer_end t) \<le> l \<and> l < b" by auto
    with Cons.prems show ?thesis by (auto simp: word_less_nat_alt)
  qed
qed simp

lemma chain_unique:
  assumes "chain a ss b" and "a \<le> l" and "l < b"
  shows "\<exists>!i. i < length ss \<and> holds_layer l (ss ! i)"
  using assms
proof (induction ss arbitrary: a)
  case (Cons s ss)
  show ?case
  proof (cases "l < unat (layer_end s)")
    case True
    have "\<not> holds_layer l t" if "t \<in> set ss" for t
      using that Cons.prems True chain_holds_bounds [of "unat (layer_end s)" ss b t l] by auto
    with True Cons.prems show ?thesis
      by (intro ex1I [of _ 0]) (auto simp: holds_layer_def nth_Cons' split: if_splits)
  next
    case False
    then have "\<exists>!i. i < length ss \<and> holds_layer l (ss ! i)"
      using Cons.prems by (intro Cons.IH [of "unat (layer_end s)"]) auto
    then obtain i where i: "i < length ss" "holds_layer l (ss ! i)"
      and u: "\<And>j. j < length ss \<Longrightarrow> holds_layer l (ss ! j) \<Longrightarrow> j = i" by blast
    show ?thesis
    proof (rule ex1I [of _ "Suc i"])
      show "Suc i < length (s # ss) \<and> holds_layer l ((s # ss) ! Suc i)" using i by simp
      fix j assume "j < length (s # ss) \<and> holds_layer l ((s # ss) ! j)"
      then show "j = Suc i" using u False by (cases j) (auto simp: holds_layer_def)
    qed
  qed
qed simp

text \<open>
  The contract of the \<open>Placer\<close> trait: a plan that assigns any stage covers the model's layers
  without gap or overlap and uses only GPUs of the given nodes that honour the precision.
\<close>

locale placer =
  fixes do_plan :: "PlacementRequest \<Rightarrow> NodeInfo list \<Rightarrow> panic + StageAssignment list"
  assumes plan_chain:
      "do_plan req nodes = Inr ss \<Longrightarrow> ss \<noteq> [] \<Longrightarrow> chain 0 ss (unat (model_total_layers req))"
    and plan_from: "do_plan req nodes = Inr ss \<Longrightarrow> s \<in> set ss \<Longrightarrow> stage_from req nodes s"
begin

lemma every_layer_once:
  "do_plan req nodes = Inr ss \<Longrightarrow> ss \<noteq> [] \<Longrightarrow> l < unat (model_total_layers req) \<Longrightarrow>
   \<exists>!i. i < length ss \<and> holds_layer l (ss ! i)"
  by (rule chain_unique [OF plan_chain]) simp_all

lemma no_layer_beyond:
  "do_plan req nodes = Inr ss \<Longrightarrow> s \<in> set ss \<Longrightarrow> holds_layer l s \<Longrightarrow>
   l < unat (model_total_layers req)"
  using plan_chain [of req nodes ss] chain_holds_bounds by (metis empty_iff list.set(1))

end

subsection \<open>The greedy placer keeps the contract\<close>

lemma add_u32_Inr:
  "add_u32 True a b = Inr c \<longleftrightarrow> unat a + unat b < 2 ^ 32 \<and> c = a + b"
  by (auto simp: add_u32_def)

lemma unat_add_no_overflow: "unat (a :: u32) + unat b < 2 ^ 32 \<Longrightarrow> unat (a + b) = unat a + unat b"
  by (simp add: unat_word_ariths)

lemma sub_u32_Inr: "sub_u32 True a b = Inr c \<longleftrightarrow> unat b \<le> unat a \<and> c = a - b"
  by (auto simp: sub_u32_def)

lemma unat_diff_no_underflow: "unat b \<le> unat (a :: u32) \<Longrightarrow> unat (a - b) = unat a - unat b"
  by (simp add: unat_sub word_le_nat_alt)

lemma unat_u32_bound: "unat (w :: u32) < 2 ^ 32"
  by (rule unsigned_less [THEN less_le_trans]) simp

lemma unat_pos: "(w :: u32) \<noteq> 0 \<Longrightarrow> 0 < unat w"
  by (simp add: unat_gt_0)

text \<open>One loop step: the stages come after \<open>out\<close> and continue the chain from the cursor.\<close>

lemma place_chain:
  "place True L tot xs cursor out = Inr ss \<Longrightarrow> xs \<noteq> [] \<Longrightarrow>
   \<exists>ss'. ss = out @ ss' \<and> chain (unat cursor) ss' (unat L)"
proof (induction xs arbitrary: cursor out)
  case (Cons p rest)
  let ?layers = "if rest = [] then sub_u32 True L cursor
                 else Inr (share_layers L (vram_free_bytes (snd p)) tot)"
  obtain layers where l: "?layers = Inr layers"
    using Cons.prems by (cases ?layers) (auto split: if_splits)
  show ?case
  proof (cases "layers = 0")
    case True
    have goon: "place True L tot rest cursor out = Inr ss"
      using Cons.prems(1) l True by (simp split: if_splits)
    show ?thesis
    proof (cases "rest = []")
      case True': True
      then have "unat cursor \<le> unat L" "L - cursor = 0"
        using l True by (auto simp: sub_u32_Inr)
      with goon True' show ?thesis by auto
    next
      case False
      with goon show ?thesis by (rule Cons.IH)
    qed
  next
    case False
    obtain c' where c': "add_u32 True cursor layers = Inr c'"
      using Cons.prems(1) l False by (cases "add_u32 True cursor layers") (auto split: if_splits)
    then have u: "unat c' = unat cursor + unat layers"
      by (auto simp: add_u32_Inr unat_add_no_overflow)
    have goon: "place True L tot rest c' (out @ [stage_of p cursor c']) = Inr ss"
      using Cons.prems(1) l False c' by (simp split: if_splits)
    have step: "chain (unat cursor) (stage_of p cursor c' # ss') b" if "chain (unat c') ss' b"
      for ss' b
      using that u unat_pos [OF False] by (simp add: stage_of_def word_less_nat_alt)
    show ?thesis
    proof (cases "rest = []")
      case True
      then have "unat cursor \<le> unat L" "layers = L - cursor"
        using l by (auto simp: sub_u32_Inr)
      then have "unat c' = unat L" by (simp add: u unat_diff_no_underflow)
      with goon True step [of "[]" "unat L"] show ?thesis by auto
    next
      case False
      obtain ss' where "ss = (out @ [stage_of p cursor c']) @ ss'" "chain (unat c') ss' (unat L)"
        using Cons.IH [OF goon False] by blast
      with step show ?thesis by (intro exI [of _ "stage_of p cursor c' # ss'"]) simp
    qed
  qed
qed simp

lemma place_stages:
  "place chk L tot xs cursor out = Inr ss \<Longrightarrow>
   set ss \<subseteq> set out \<union> {stage_of p a b | p a b. p \<in> set xs}"
proof (induction xs arbitrary: cursor out)
  case (Cons p rest)
  let ?layers = "if rest = [] then sub_u32 chk L cursor
                 else Inr (share_layers L (vram_free_bytes (snd p)) tot)"
  obtain layers where l: "?layers = Inr layers"
    using Cons.prems by (cases ?layers) (auto split: if_splits)
  show ?case
  proof (cases "layers = 0")
    case True
    with Cons.prems l have "place chk L tot rest cursor out = Inr ss" by (simp split: if_splits)
    from Cons.IH [OF this] show ?thesis by fastforce
  next
    case False
    obtain c' where c': "add_u32 chk cursor layers = Inr c'"
      using Cons.prems l False by (cases "add_u32 chk cursor layers") (auto split: if_splits)
    with Cons.prems l False
    have "place chk L tot rest c' (out @ [stage_of p cursor c']) = Inr ss"
      by (simp split: if_splits)
    from Cons.IH [OF this] show ?thesis by fastforce
  qed
qed simp

lemma set_eligible_gpus:
  "(n, g) \<in> set (eligible_gpus req nodes) \<longleftrightarrow>
     n \<in> set nodes \<and> g \<in> set (n_gpus n) \<and> gpu_supports (required_precision req) g"
  by (auto simp: eligible_gpus_def)

lemma set_sort_by_free_vram [simp]: "set (sort_by_free_vram gpus) = set gpus"
  by (simp add: sort_by_free_vram_def)

lemma length_sort_by_free_vram [simp]: "length (sort_by_free_vram gpus) = length gpus"
  by (simp add: sort_by_free_vram_def)

lemma plan_cases:
  assumes "plan chk req nodes = Inr ss"
  obtains "ss = []"
  | tot where "place chk (model_total_layers req) tot
      (sort_by_free_vram (eligible_gpus req nodes)) 0 [] = Inr ss"
proof (cases "sum_u64 chk 0 (map (\<lambda>(_, g). vram_free_bytes g)
    (sort_by_free_vram (eligible_gpus req nodes)))")
  case (Inl e)
  with assms show thesis by (simp add: plan_def Let_def)
next
  case (Inr tot)
  show thesis
  proof (cases "tot = 0")
    case True
    with assms Inr that(1) show thesis by (simp add: plan_def Let_def)
  next
    case False
    with assms Inr that(2) [of tot] show thesis by (simp add: plan_def Let_def del: place.simps)
  qed
qed

lemma greedy_chain:
  assumes "plan True req nodes = Inr ss" and "ss \<noteq> []"
  shows "chain 0 ss (unat (model_total_layers req))"
  using assms(1)
proof (cases rule: plan_cases)
  case 1
  with assms(2) show ?thesis by simp
next
  case (2 tot)
  then have "sort_by_free_vram (eligible_gpus req nodes) \<noteq> []" using assms(2) by auto
  from place_chain [OF 2 this] show ?thesis by simp
qed

lemma greedy_from:
  assumes "plan chk req nodes = Inr ss" and "s \<in> set ss"
  shows "stage_from req nodes s"
  using assms(1)
proof (cases rule: plan_cases)
  case 1
  with assms(2) show ?thesis by simp
next
  case (2 tot)
  from place_stages [OF 2] assms(2) obtain n g a b
    where "s = stage_of (n, g) a b" and "(n, g) \<in> set (eligible_gpus req nodes)" by auto
  then show ?thesis
    unfolding set_eligible_gpus by (auto simp: stage_from_def stage_of_def)
qed

interpretation greedy: placer "plan True"
  by (unfold_locales; rule greedy_chain greedy_from)

subsection \<open>When the placer panics\<close>

text \<open>
  The exact condition: the rounded shares of every GPU but the last must fit into the model's
  layers, for the last one takes the rest.
\<close>

definition rounded_shares :: "u32 \<Rightarrow> u64 \<Rightarrow> (NodeInfo \<times> GpuInfo) list \<Rightarrow> nat" where
  "rounded_shares L tot xs =
     sum_list (map (\<lambda>p. unat (share_layers L (vram_free_bytes (snd p)) tot)) (butlast xs))"

lemma place_total_iff:
  "xs \<noteq> [] \<Longrightarrow> (\<exists>ss. place True L tot xs cursor out = Inr ss) \<longleftrightarrow>
     unat cursor + rounded_shares L tot xs \<le> unat L"
proof (induction xs arbitrary: cursor out)
  case (Cons p rest)
  show ?case
  proof (cases "rest = []")
    case True
    have "add_u32 True cursor (L - cursor) = Inr L" if "unat cursor \<le> unat L"
      using that unat_u32_bound [of L] by (simp add: add_u32_def unat_diff_no_underflow)
    with True show ?thesis by (auto simp: rounded_shares_def sub_u32_def)
  next
    case False
    let ?s = "share_layers L (vram_free_bytes (snd p)) tot"
    have r: "rounded_shares L tot (p # rest) = unat ?s + rounded_shares L tot rest"
      using False by (simp add: rounded_shares_def)
    show ?thesis
    proof (cases "unat cursor + unat ?s < 2 ^ 32")
      case True
      then have "add_u32 True cursor ?s = Inr (cursor + ?s)" by (simp add: add_u32_Inr)
      with False Cons.IH [OF False, of "cursor + ?s" "out @ [stage_of p cursor (cursor + ?s)]"]
        Cons.IH [OF False, of cursor out] True
      show ?thesis by (simp add: r unat_add_no_overflow add.assoc)
    next
      case over: False
      then have "add_u32 True cursor ?s = Inl AddOverflow" by (simp add: add_u32_def)
      moreover have "?s \<noteq> 0" using over unat_u32_bound [of cursor] by auto
      ultimately show ?thesis using False over unat_u32_bound [of L] by (simp add: r)
    qed
  qed
qed simp

text \<open>A single GPU never gets more layers than the model has.\<close>

lemma round_half_away_le: "0 \<le> x \<Longrightarrow> x \<le> of_int n \<Longrightarrow> round_half_away x \<le> n"
  by (simp add: round_half_away_def floor_le_iff)

lemma unat_as_u32: "unat (as_u32 n) \<le> nat n"
proof (cases "0 \<le> n \<and> n < 2 ^ 32")
  case True
  then have "unat (word_of_int n :: u32) = nat n"
    by (simp add: unat_eq_nat_uint uint_word_of_int)
  with True show ?thesis by (simp add: as_u32_def)
next
  case False
  then show ?thesis using unat_u32_bound [of "- 1"] by (auto simp: as_u32_def nat_le_iff)
qed

lemma share_round_le:
  assumes "a \<le> b" and "l < 2 ^ 53"
  shows "round_half_away (f64_round
      (f64_round (f64_round (of_nat a) / f64_round (of_nat b)) * f64_round (of_nat l))) \<le> int l"
proof -
  let ?f = "f64_round (of_nat a)" and ?t = "f64_round (of_nat b)"
  have ft: "0 \<le> ?f" "?f \<le> ?t" using assms(1) by (simp_all add: f64_round_nonneg f64_round_mono)
  have l: "f64_round (of_nat l) = of_nat l" using assms(2) by (rule f64_round_of_nat)
  have "?f / ?t \<le> 1" and "0 \<le> ?f / ?t" using ft by (auto simp: divide_le_eq_1)
  then have s: "f64_round (?f / ?t) \<le> 1" "0 \<le> f64_round (?f / ?t)"
    using f64_round_mono [of "?f / ?t" 1] by (auto simp: f64_round_nonneg)
  then have "f64_round (f64_round (?f / ?t) * of_nat l) \<le> f64_round (of_nat l)"
    by (intro f64_round_mono) (simp_all add: mult_left_le_one_le)
  with s show ?thesis
    unfolding l by (intro round_half_away_le) (simp_all add: f64_round_nonneg)
qed

lemma share_layers_le:
  assumes "unat free \<le> unat tot"
  shows "unat (share_layers L free tot) \<le> unat L"
proof -
  have "unat L < 2 ^ 53" using unat_u32_bound [of L] by simp
  from share_round_le [OF assms this] unat_as_u32 show ?thesis
    unfolding share_layers_def Let_def by (meson le_trans nat_le_iff)
qed

subsection \<open>Group keys are injective\<close>

lemma last_separator:
  assumes "xs @ c # ys = xs' @ c # ys'" and "c \<notin> set ys" and "c \<notin> set ys'"
  shows "xs = xs' \<and> ys = ys'"
proof -
  from assms(1) have "rev ys @ c # rev xs = rev ys' @ c # rev xs'"
    by (metis append_Cons append_Nil append_assoc rev.simps(2) rev_append)
  moreover have "takeWhile (\<lambda>x. x \<noteq> c) (rev zs @ c # ws) = rev zs" if "c \<notin> set zs" for zs ws
    using that by (subst takeWhile_append2) auto
  ultimately have "rev ys = rev ys'" using assms(2,3) by metis
  with assms(1) show ?thesis by simp
qed

lemma digits_no_separator: "CHR ''.'' \<notin> set (show_u32 w)" "CHR ''-'' \<notin> set (show_u32 w)"
  using show_nat_digits [of "unat w"] by (auto simp: show_u32_def list_all_iff is_digit_def)

lemma show_u32_inj: "show_u32 a = show_u32 b \<longleftrightarrow> a = b"
  by (simp add: show_u32_def word_unat_eq_iff)

lemma cuda_key_inj:
  assumes "arch @ ''-'' @ show_u32 major @ ''.'' @ show_u32 minor =
           arch' @ ''-'' @ show_u32 major' @ ''.'' @ show_u32 minor'"
  shows "arch = arch' \<and> major = major' \<and> minor = minor'"
proof -
  from assms have "(arch @ ''-'' @ show_u32 major) @ CHR ''.'' # show_u32 minor =
      (arch' @ ''-'' @ show_u32 major') @ CHR ''.'' # show_u32 minor'" by simp
  from last_separator [OF this digits_no_separator(1) digits_no_separator(1)]
  have "arch @ CHR ''-'' # show_u32 major = arch' @ CHR ''-'' # show_u32 major'"
    and "minor = minor'" by (simp_all add: show_u32_inj)
  from last_separator [OF this(1) digits_no_separator(2) digits_no_separator(2)] this(2)
  show ?thesis by (simp add: show_u32_inj)
qed

text \<open>What a group stands for: the backend family and, for CUDA, the compute capability.\<close>

fun cuda_like :: "GpuBackend \<Rightarrow> bool" where
  "cuda_like Cuda = True"
| "cuda_like BackendUnspecified = True"
| "cuda_like _ = False"

lemma group_key_cases:
  "cuda_like (GpuBackend_of (g_backend g)) \<Longrightarrow>
     group_key g = ''cuda-'' @ g_architecture g @ ''-'' @ show_u32 (g_compute_cap_major g) @ ''.''
       @ show_u32 (g_compute_cap_minor g)"
  by (cases "GpuBackend_of (g_backend g)") (simp_all add: group_key_def)

subsection \<open>Buckets\<close>

definition first_key :: "NodeInfo \<Rightarrow> string option" where
  "first_key n = (case n_gpus n of [] \<Rightarrow> None | g # _ \<Rightarrow> Some (group_key g))"

lemma bucket_nodes_distinct:
  "distinct (map fst bs) \<Longrightarrow> distinct (map fst (bucket_nodes nodes bs))"
  by (induction nodes bs rule: bucket_nodes.induct)
    (auto simp: bucket_push_def distinct_update split: list.splits)

lemma bucket_nodes_lookup:
  "unwrap_or [] (map_of (bucket_nodes nodes bs) k) =
     unwrap_or [] (map_of bs k) @ map n_node_id (filter (\<lambda>n. first_key n = Some k) nodes)"
  by (induction nodes bs rule: bucket_nodes.induct)
    (auto simp: bucket_push_def update_conv' first_key_def split: list.splits)

lemma bucket_nodes_dom:
  "fst ` set (bucket_nodes nodes bs) = fst ` set bs \<union> {k. \<exists>n \<in> set nodes. first_key n = Some k}"
  by (induction nodes bs rule: bucket_nodes.induct)
    (auto simp: bucket_push_def dom_update first_key_def split: list.splits)

subsection \<open>Totality with few GPUs\<close>

lemma sum_u64_True:
  "unat acc + sum_list (map unat xs) < 2 ^ 64 \<Longrightarrow>
   \<exists>t. sum_u64 True acc xs = Inr t \<and> unat t = unat acc + sum_list (map unat xs)"
proof (induction xs arbitrary: acc)
  case (Cons x xs)
  then have "unat (acc + x) = unat acc + unat x" by (simp add: unat_word_ariths)
  with Cons.IH [of "acc + x"] Cons.prems show ?case by auto
qed simp

lemma sum_list_sorted_vram:
  "sum_list (map unat (map (\<lambda>(_, g). vram_free_bytes g) (sort_by_free_vram xs))) =
   sum_list (map (\<lambda>(_, g). unat (vram_free_bytes g)) xs)"
proof -
  let ?f = "\<lambda>p. unat (vram_free_bytes (snd p))"
  have "sum_list (map ?f (sort_by_free_vram xs)) = sum_mset (image_mset ?f (mset (sort_by_free_vram xs)))"
    by (simp only: mset_map [symmetric] sum_mset_sum_list)
  also have "\<dots> = sum_list (map ?f xs)"
    by (simp only: sort_by_free_vram_def mset_sort mset_map [symmetric] sum_mset_sum_list)
  finally show ?thesis by (simp only: map_map comp_def case_prod_unfold)
qed

lemma rounded_shares_le_2:
  assumes "length xs \<le> 2" and "\<forall>p \<in> set xs. unat (vram_free_bytes (snd p)) \<le> unat tot"
  shows "rounded_shares L tot xs \<le> unat L"
proof -
  consider "butlast xs = []" | p where "butlast xs = [p]" and "p \<in> set xs"
    using assms(1) by (cases xs; cases "tl xs") auto
  then show ?thesis
    using assms(2) by cases (auto simp: rounded_shares_def share_layers_le)
qed

subsection \<open>Examples\<close>

definition sample_request :: "u32 \<Rightarrow> PlacementRequest" where
  "sample_request layers = PlacementRequest_default \<lparr>model_total_layers := layers\<rparr>"

lemma sample_share_1: "share_layers 32 300 400 = 24"
  by code_simp

lemma sample_share_2: "share_layers 2 100 400 = 1"
  by code_simp

lemmas sample_eval = sample_request_def sample_node_def sample_gpu_def sample_cap_def
  PlacementRequest_default_def plan_def Let_def eligible_gpus_def gpu_supports_def
  sort_by_free_vram_def stage_of_def sub_u32_def add_u32_def sample_share_1 sample_share_2

lemma sample_plan:
  "plan True (sample_request 32)
     [sample_node ''a'' [sample_gpu 0 100], sample_node ''b'' [sample_gpu 0 300]] =
   Inr [\<lparr>sa_node_id = ''b'', sa_gpu_index = 0, layer_start = 0, layer_end = 24, sa_backend = Cuda\<rparr>,
        \<lparr>sa_node_id = ''a'', sa_gpu_index = 0, layer_start = 24, layer_end = 32, sa_backend = Cuda\<rparr>]"
  by (simp add: sample_eval)

definition four_equal_gpus :: "GpuInfo list" where
  "four_equal_gpus = [sample_gpu 0 100, sample_gpu 1 100, sample_gpu 2 100, sample_gpu 3 100]"

subsection \<open>Properties\<close>



text \<open>
  Every stage of a plan, in both overflow modes, names a GPU of one of the given nodes that
  honours the requested precision, with that GPU's own index and backend.
\<close>

theorem plan_stage_sound:
  assumes "plan chk req nodes = Inr ss" and "s \<in> set ss"
  shows "stage_from req nodes s"
  using assms by (rule greedy_from)

theorem plan_stage_sound_witness:
  "stage_from (sample_request 32)
     [sample_node ''a'' [sample_gpu 0 100], sample_node ''b'' [sample_gpu 0 300]]
     \<lparr>sa_node_id = ''b'', sa_gpu_index = 0, layer_start = 0, layer_end = 24, sa_backend = Cuda\<rparr>"
  by (rule plan_stage_sound [OF sample_plan]) simp

text \<open>
  C25. The exact panic condition with overflow checks on, when the free VRAM is not zero and its
  sum fits 64 bits: the placer returns a plan if and only if the rounded shares of all GPUs but
  the last fit into the model.
\<close>

theorem plan_returns_iff:
  assumes "sum_u64 True 0 (map (\<lambda>(_, g). vram_free_bytes g)
             (sort_by_free_vram (eligible_gpus req nodes))) = Inr tot"
    and "tot \<noteq> 0"
  shows "(\<exists>ss. plan True req nodes = Inr ss) \<longleftrightarrow>
     rounded_shares (model_total_layers req) tot (sort_by_free_vram (eligible_gpus req nodes))
       \<le> unat (model_total_layers req)"
proof -
  have "sort_by_free_vram (eligible_gpus req nodes) \<noteq> []" using assms by auto
  from place_total_iff [OF this, of "model_total_layers req" tot 0 "[]"] assms show ?thesis
    by (simp add: plan_def Let_def del: place.simps)
qed

theorem plan_returns_iff_witness:
  "\<not> rounded_shares 2 400 (sort_by_free_vram (eligible_gpus (sample_request 2)
       [sample_node ''a'' four_equal_gpus])) \<le> 2"
  using plan_returns_iff [of "sample_request 2" "[sample_node ''a'' four_equal_gpus]" 400]
  by (simp add: four_equal_gpus_def sample_eval)

text \<open>
  C30. With at most two GPUs of the required precision the placer cannot panic: it returns a plan
  whenever the sum of their free VRAM fits 64 bits.
\<close>

theorem plan_two_gpus_total:
  assumes "length (eligible_gpus req nodes) \<le> 2"
    and "sum_list (map (\<lambda>(_, g). unat (vram_free_bytes g)) (eligible_gpus req nodes)) < 2 ^ 64"
  shows "\<exists>ss. plan True req nodes = Inr ss"
proof -
  let ?gs = "sort_by_free_vram (eligible_gpus req nodes)"
  let ?fs = "map (\<lambda>(_, g). vram_free_bytes g) ?gs"
  have "sum_list (map unat ?fs) < 2 ^ 64"
    using assms(2) sum_list_sorted_vram [of "eligible_gpus req nodes"] by simp
  then obtain t where t: "sum_u64 True 0 ?fs = Inr t" "unat t = sum_list (map unat ?fs)"
    using sum_u64_True [of 0 ?fs] by auto
  have "unat (vram_free_bytes (snd p)) \<le> unat t" if "p \<in> set ?gs" for p
    unfolding t(2)
    by (rule member_le_sum_list) (use that in \<open>simp_all add: case_prod_unfold image_iff, blast\<close>)
  then have "rounded_shares (model_total_layers req) t ?gs \<le> unat (model_total_layers req)"
    using assms(1) by (intro rounded_shares_le_2) auto
  then have "?gs \<noteq> [] \<Longrightarrow> \<exists>ss. place True (model_total_layers req) t ?gs 0 [] = Inr ss"
    using place_total_iff [of ?gs "model_total_layers req" t 0 "[]"] by simp
  with t(1) show ?thesis by (cases "?gs = []") (auto simp: plan_def Let_def)
qed

theorem plan_two_gpus_total_witness:
  "\<exists>ss. plan True (sample_request 80) [sample_node ''a'' [sample_gpu 0 7, sample_gpu 1 3]] = Inr ss"
  by (rule plan_two_gpus_total) (simp_all add: sample_eval)

text \<open>
  The shares are rounded to the nearest layer, not down, so they can exceed the model: with
  four equal GPUs and two layers the placer panics in a build with overflow checks, and in a
  release build it returns a stage that starts after it ends.
\<close>

theorem plan_rounding_overruns:
  "plan True (sample_request 2) [sample_node ''a'' four_equal_gpus] = Inl SubOverflow \<and>
   (\<exists>ss s. plan False (sample_request 2) [sample_node ''a'' four_equal_gpus] = Inr ss \<and>
      s \<in> set ss \<and> layer_end s < layer_start s)"
proof -
  let ?st = "\<lambda>i from to. \<lparr>sa_node_id = ''a'', sa_gpu_index = i, layer_start = from,
    layer_end = to, sa_backend = Cuda\<rparr>"
  have "plan False (sample_request 2) [sample_node ''a'' four_equal_gpus] =
      Inr [?st 0 0 1, ?st 1 1 2, ?st 2 2 3, ?st 3 3 2]"
    by (simp add: four_equal_gpus_def sample_eval)
  then have "\<exists>ss s. plan False (sample_request 2) [sample_node ''a'' four_equal_gpus] = Inr ss \<and>
      s \<in> set ss \<and> layer_end s < layer_start s"
    by (intro exI [of _ "[?st 0 0 1, ?st 1 1 2, ?st 2 2 3, ?st 3 3 2]"] exI [of _ "?st 3 3 2"]) simp
  moreover have "plan True (sample_request 2) [sample_node ''a'' four_equal_gpus] = Inl SubOverflow"
    by (simp add: four_equal_gpus_def sample_eval)
  ultimately show ?thesis by blast
qed

text \<open>
  The precision negotiated for a cluster is the best one: if any precision is supported by
  every GPU, then the result is, and no more aggressive one is.
\<close>

theorem cluster_gcd_best:
  assumes "list_all (gpu_supports p) gpus"
  shows "list_all (gpu_supports (cluster_gcd gpus)) gpus \<and>
         aggressiveness p \<le> aggressiveness (cluster_gcd gpus)"
  using assms by (cases p) (auto simp: cluster_gcd_def)

theorem cluster_gcd_best_witness:
  "cluster_gcd [sample_gpu 0 10] = Fp8 \<and> aggressiveness Bf16 \<le> aggressiveness Fp8"
  using cluster_gcd_best [of Bf16 "[sample_gpu 0 10]"]
  by (simp add: cluster_gcd_def sample_eval)

text \<open>
  Compute groups partition the nodes: group keys are distinct, every group is non-empty, and a
  group's members are exactly the nodes whose first GPU has the group's key, in the given order.
  Nodes without a GPU are in no group.
\<close>

theorem partition_correct:
  "distinct (map cg_key (partition nodes)) \<and>
   (\<forall>n \<in> set nodes. \<forall>k. first_key n = Some k \<longrightarrow> k \<in> cg_key ` set (partition nodes)) \<and>
   (\<forall>c \<in> set (partition nodes).
      cg_members c = map n_node_id (filter (\<lambda>n. first_key n = Some (cg_key c)) nodes) \<and>
      cg_members c \<noteq> [])"
proof (intro conjI ballI allI impI)
  have d: "distinct (map fst (bucket_nodes nodes []))" by (rule bucket_nodes_distinct) simp
  then show "distinct (map cg_key (partition nodes))"
    by (simp add: partition_def comp_def case_prod_unfold)
  show "k \<in> cg_key ` set (partition nodes)" if "n \<in> set nodes" "first_key n = Some k" for n k
    using bucket_nodes_dom [of nodes "[]"] that by (force simp: partition_def)
  fix c assume "c \<in> set (partition nodes)"
  then have c: "(cg_key c, cg_members c) \<in> set (bucket_nodes nodes [])"
    by (auto simp: partition_def)
  with bucket_nodes_lookup [of nodes "[]" "cg_key c"] d
  show m: "cg_members c = map n_node_id (filter (\<lambda>n. first_key n = Some (cg_key c)) nodes)"
    by simp
  from c bucket_nodes_dom [of nodes "[]"] have "\<exists>n \<in> set nodes. first_key n = Some (cg_key c)"
    by force
  then show "cg_members c \<noteq> []" by (auto simp: m filter_empty_conv)
qed

theorem partition_correct_witness:
  "map cg_members (partition [sample_node ''a'' [sample_gpu 0 1], sample_node ''b'' []]) = [[''a'']]"
  using partition_correct [of "[sample_node ''a'' [sample_gpu 0 1], sample_node ''b'' []]"]
  by (simp add: partition_def bucket_push_def sample_eval)

text \<open>
  A group never mixes compute capabilities: two CUDA GPUs (or GPUs of an unspecified backend)
  get the same group key only if architecture and compute capability agree, and a CUDA GPU never
  shares a key with a Metal, ROCm or Vulkan one.
\<close>

theorem group_key_separates:
  assumes "cuda_like (GpuBackend_of (g_backend g))" and "group_key g = group_key h"
  shows "cuda_like (GpuBackend_of (g_backend h)) \<and> g_architecture g = g_architecture h \<and>
         g_compute_cap_major g = g_compute_cap_major h \<and>
         g_compute_cap_minor g = g_compute_cap_minor h"
proof -
  have h: "cuda_like (GpuBackend_of (g_backend h))"
    using assms(2) unfolding group_key_cases [OF assms(1)]
    by (cases "GpuBackend_of (g_backend h)") (simp_all add: group_key_def)
  with assms(2) show ?thesis
    using cuda_key_inj [of "g_architecture g" "g_compute_cap_major g" "g_compute_cap_minor g"]
    unfolding group_key_cases [OF assms(1)] group_key_cases [OF h] by simp
qed

theorem group_key_separates_witness:
  "cuda_like (GpuBackend_of (g_backend (sample_gpu 3 9))) \<and>
   g_compute_cap_major (sample_gpu 0 1) = g_compute_cap_major (sample_gpu 3 9)"
  using group_key_separates [of "sample_gpu 0 1" "sample_gpu 3 9"]
  by (simp add: sample_gpu_def group_key_def)

end
