(* ===== verification/IpAddr.thy ===== *)
theory IpAddr
  imports Prelude "HOL-Library.Monad_Syntax"
begin

section \<open>IP addresses (\<open>std::net::IpAddr\<close>)\<close>

text \<open>
  The addresses the backend records for a worker: the parser behind \<open>parse::<IpAddr>()\<close> and the
  \<open>Display\<close> form, as the Rust standard library defines them, for the \<open>X-Forwarded-For\<close> header of an
  enrollment and the audit view. The round trip is proved for IPv4.
\<close>

datatype IpAddr = V4 "u8 list" | V6 "u16 list"

subsection \<open>Parsing\<close>

definition to_digit :: "nat \<Rightarrow> char \<Rightarrow> nat option" where
  "to_digit radix c =
     (let n = of_char c;
          d = (if 48 \<le> n \<and> n \<le> 57 then n - 48
               else if 97 \<le> n \<and> n \<le> 122 then n - 87
               else if 65 \<le> n \<and> n \<le> 90 then n - 55 else 36)
      in if d < radix then Some d else None)"

definition number_of :: "nat \<Rightarrow> string \<Rightarrow> nat" where
  "number_of radix ds = foldl (\<lambda>acc c. radix * acc + unwrap_or 0 (to_digit radix c)) 0 ds"

text \<open>
  \<open>read_number\<close>: the longest run of digits; none, too many, a value above \<open>bound\<close> or a forbidden
  leading zero fail.
\<close>

definition read_number :: "nat \<Rightarrow> nat \<Rightarrow> bool \<Rightarrow> nat \<Rightarrow> string \<Rightarrow> (nat \<times> string) option" where
  "read_number radix max_digits zero_prefix bound s =
     (let ds = takeWhile (\<lambda>c. to_digit radix c \<noteq> None) s
      in if ds = [] \<or> length ds > max_digits \<or> number_of radix ds > bound \<or>
            \<not> zero_prefix \<and> hd ds = CHR ''0'' \<and> length ds > 1
         then None else Some (number_of radix ds, drop (length ds) s))"

definition read_separator :: "char \<Rightarrow> nat \<Rightarrow> string \<Rightarrow> string option" where
  "read_separator sep i s =
     (if i = 0 then Some s else case s of c # s' \<Rightarrow> if c = sep then Some s' else None | [] \<Rightarrow> None)"

fun read_octets :: "nat \<Rightarrow> nat \<Rightarrow> string \<Rightarrow> (nat list \<times> string) option" where
  "read_octets i 0 s = Some ([], s)"
| "read_octets i (Suc n) s =
     do { s1 \<leftarrow> read_separator (CHR ''.'') i s;
          (octet, s2) \<leftarrow> read_number 10 3 False 255 s1;
          (octets, s3) \<leftarrow> read_octets (Suc i) n s2;
          Some (octet # octets, s3) }"

text \<open>Up to \<open>left\<close> groups; an embedded IPv4 address takes two and ends the run.\<close>

fun read_groups :: "nat \<Rightarrow> nat \<Rightarrow> string \<Rightarrow> nat list \<times> bool \<times> string" where
  "read_groups i 0 s = ([], False, s)"
| "read_groups i (Suc left) s =
     (case (if left = 0 then None
            else Option.bind (read_separator (CHR '':'') i s) (read_octets 0 4)) of
        Some ([a, b, c, d], s') \<Rightarrow> ([256 * a + b, 256 * c + d], True, s')
      | _ \<Rightarrow>
          (case Option.bind (read_separator (CHR '':'') i s) (read_number 16 4 True 65535) of
             None \<Rightarrow> ([], False, s)
           | Some (g, s') \<Rightarrow> let (gs, v4, s'') = read_groups (Suc i) left s' in (g # gs, v4, s'')))"

definition read_ipv6 :: "string \<Rightarrow> (nat list \<times> string) option" where
  "read_ipv6 s =
     (let (head, v4, s1) = read_groups 0 8 s
      in if length head = 8 then Some (head, s1)
         else if v4 then None
         else case s1 of
                c1 # c2 # s2 \<Rightarrow>
                  if c1 = CHR '':'' \<and> c2 = CHR '':'' then
                    let (tail, _, s3) = read_groups 0 (8 - (length head + 1)) s2
                    in Some (head @ replicate (8 - length head - length tail) 0 @ tail, s3)
                  else None
              | _ \<Rightarrow> None)"

definition parse_ip :: "string \<Rightarrow> IpAddr option" where
  "parse_ip s =
     (case read_octets 0 4 s of
        Some (octets, r) \<Rightarrow> if r = [] then Some (V4 (map of_nat octets)) else None
      | None \<Rightarrow>
          (case read_ipv6 s of
             Some (groups, r) \<Rightarrow> if r = [] then Some (V6 (map of_nat groups)) else None
           | None \<Rightarrow> None))"

subsection \<open>Socket addresses (\<open>std::net::SocketAddr\<close>)\<close>

datatype SocketAddr = SocketV4 IpAddr u16 | SocketV6 IpAddr u32 u16

definition read_char :: "char \<Rightarrow> string \<Rightarrow> string option" where
  "read_char c s = (case s of d # s' \<Rightarrow> if d = c then Some s' else None | [] \<Rightarrow> None)"

text \<open>A port may have any number of digits, leading zeros included.\<close>

definition read_port :: "string \<Rightarrow> (nat \<times> string) option" where
  "read_port s = do { s1 \<leftarrow> read_char (CHR '':'') s; read_number 10 (length s1) True 65535 s1 }"

definition read_scope_id :: "string \<Rightarrow> nat \<times> string" where
  "read_scope_id s =
     (case (do { s1 \<leftarrow> read_char (CHR ''%'') s; read_number 10 (length s1) True 4294967295 s1 }) of
        Some r \<Rightarrow> r
      | None \<Rightarrow> (0, s))"

definition parse_socket_addr :: "string \<Rightarrow> SocketAddr option" where
  "parse_socket_addr s =
     (case (do { (octets, s1) \<leftarrow> read_octets 0 4 s; (port, s2) \<leftarrow> read_port s1; Some (octets, port, s2) }) of
        Some (octets, port, r) \<Rightarrow>
          if r = [] then Some (SocketV4 (V4 (map of_nat octets)) (of_nat port)) else None
      | None \<Rightarrow> do {
          s1 \<leftarrow> read_char (CHR ''['') s;
          (groups, s2) \<leftarrow> read_ipv6 s1;
          let (scope, s3) = read_scope_id s2;
          s4 \<leftarrow> read_char (CHR '']'') s3;
          (port, r) \<leftarrow> read_port s4;
          if r = [] then Some (SocketV6 (V6 (map of_nat groups)) (of_nat scope) (of_nat port)) else None
        })"

fun SocketAddr_port :: "SocketAddr \<Rightarrow> u16" where
  "SocketAddr_port (SocketV4 ip port) = port"
| "SocketAddr_port (SocketV6 ip scope port) = port"

subsection \<open>Display\<close>

fun show_hex :: "nat \<Rightarrow> string" where
  "show_hex n =
     (let d = (\<lambda>k. byte (if k < 10 then 48 + k else 87 + k))
      in if n < 16 then [d n] else show_hex (n div 16) @ [d (n mod 16)])"

declare show_hex.simps [simp del]

text \<open>The first longest run of zero segments, as start and length.\<close>

fun zero_run :: "nat \<Rightarrow> u16 list \<Rightarrow> nat \<times> nat \<Rightarrow> nat \<times> nat \<Rightarrow> nat \<times> nat" where
  "zero_run i [] current longest = longest"
| "zero_run i (g # gs) (start, len) longest =
     (if g = 0 then
        let current = (if len = 0 then i else start, len + 1)
        in zero_run (i + 1) gs current (if snd current > snd longest then current else longest)
      else zero_run (i + 1) gs (0, 0) longest)"

definition show_v4 :: "nat list \<Rightarrow> string" where
  "show_v4 octets = join ''.'' (map show_nat octets)"

fun show_ip :: "IpAddr \<Rightarrow> string" where
  "show_ip (V4 octets) = show_v4 (map unat octets)"
| "show_ip (V6 gs) =
     (if take 6 gs = [0, 0, 0, 0, 0, 0xFFFF] \<and> length gs = 8
      then ''::ffff:'' @ show_v4 (concat (map (\<lambda>g. [unat g div 256, unat g mod 256]) (drop 6 gs)))
      else let (start, len) = zero_run 0 gs (0, 0) (0, 0);
               groups = (\<lambda>gs. join '':'' (map (\<lambda>g. show_hex (unat g)) gs))
           in if len > 1 then groups (take start gs) @ ''::'' @ groups (drop (start + len) gs)
              else groups gs)"

subsection \<open>Round trip\<close>

lemma to_digit_10: "to_digit 10 c = (if is_digit c then Some (of_char c - 48) else None)"
  by (auto simp: to_digit_def is_digit_def Let_def)

lemma number_of_show [simp]: "number_of 10 (show_nat n) = n"
proof -
  have "foldl (\<lambda>acc c. 10 * acc + unwrap_or 0 (to_digit 10 c)) a s = foldl (\<lambda>acc c. 10 * acc + (of_char c - 48)) a s"
    if "list_all is_digit s" for a s
    using that by (induction s arbitrary: a) (simp_all add: to_digit_10)
  from this [OF show_nat_digits, of 0 n] show ?thesis
    by (simp add: number_of_def parse_nat_def [symmetric])
qed

lemma show_nat_length: "n < 10 ^ Suc k \<Longrightarrow> length (show_nat n) \<le> Suc k"
proof (induction k arbitrary: n)
  case 0
  then show ?case by (subst show_nat.simps) simp
next
  case (Suc k)
  have "n div 10 < 10 ^ Suc k" using Suc.prems by (simp add: div_less_iff_less_mult)
  from Suc.IH [OF this] show ?case by (subst show_nat.simps) simp
qed

lemma show_nat_hd_zero: "hd (show_nat n) = CHR ''0'' \<Longrightarrow> n = 0"
proof (induction n rule: show_nat.induct)
  case (1 n)
  show ?case
  proof (cases "n < 10")
    case True
    have "(of_char (byte (48 + n)) :: nat) = 48 + n" using True by (simp add: byte_def)
    moreover have "byte (48 + n) = CHR ''0''" using "1.prems" True by (simp add: show_nat.simps [of n])
    ultimately show ?thesis by simp
  next
    case False
    with "1" have "n div 10 = 0" by (simp add: show_nat.simps [of n])
    with False show ?thesis by simp
  qed
qed

lemma show_nat_octet:
  assumes "n < 256"
  shows "length (show_nat n) \<le> 3" "hd (show_nat n) = CHR ''0'' \<Longrightarrow> length (show_nat n) = 1"
proof -
  have "n < 10 ^ Suc 2" using assms by simp
  from show_nat_length [OF this] show "length (show_nat n) \<le> 3" by simp
  show "length (show_nat n) = 1" if "hd (show_nat n) = CHR ''0''"
    using show_nat_hd_zero [OF that] by (simp add: show_nat.simps)
qed

lemma read_number_show:
  assumes "n < 256" and "s = [] \<or> \<not> is_digit (hd s)"
  shows "read_number 10 3 False 255 (show_nat n @ s) = Some (n, s)"
proof -
  have "takeWhile (\<lambda>c. to_digit 10 c \<noteq> None) (show_nat n @ s) = show_nat n"
    using show_nat_digits [of n] assms(2)
    by (cases s) (auto simp: takeWhile_append to_digit_10 list_all_iff takeWhile_eq_all_conv split: if_splits)
  then show ?thesis using assms(1) show_nat_octet [OF assms(1)]
    by (auto simp: read_number_def Let_def)
qed

text \<open>The textual form of an IPv4 address parses back to it.\<close>

lemma parse_show_v4: "parse_ip (show_ip (V4 [a, b, c, d])) = Some (V4 [a, b, c, d])"
proof -
  have u: "unat x < 256" for x :: u8 using unsigned_less [of x] by simp
  have four: "4 = Suc (Suc (Suc (Suc 0)))" by simp
  have dot: "\<not> is_digit (CHR ''.'')" by (simp add: is_digit_def)
  have "read_octets 0 4 (show_ip (V4 [a, b, c, d])) = Some ([unat a, unat b, unat c, unat d], [])"
    unfolding four by (simp add: show_v4_def read_separator_def read_number_show u dot
        read_number_show [where s = "[]", simplified])
  then show ?thesis by (simp add: parse_ip_def)
qed

lemma read_port_show:
  assumes "n < 65536"
  shows "read_port (CHR '':'' # show_nat n) = Some (n, [])"
proof -
  have tw: "takeWhile (\<lambda>c. to_digit 10 c \<noteq> None) (show_nat n) = show_nat n"
    using show_nat_digits [of n] by (auto simp: to_digit_10 list_all_iff takeWhile_eq_all_conv)
  have ne: "show_nat n \<noteq> []" by (subst show_nat.simps) simp
  have "read_number 10 (length (show_nat n)) True 65535 (show_nat n) = Some (n, [])"
    unfolding read_number_def Let_def tw using assms ne by simp
  then show ?thesis by (simp add: read_port_def read_char_def)
qed

text \<open>An IPv4 host and a port, as the services write their bind addresses.\<close>

lemma parse_socket_v4:
  "parse_socket_addr (show_ip (V4 [a, b, c, d]) @ '':'' @ show_nat (unat port)) = Some (SocketV4 (V4 [a, b, c, d]) port)"
proof -
  have u: "unat x < 256" for x :: u8 using unsigned_less [of x] by simp
  have p: "unat port < 65536" using unsigned_less [of port] by simp
  have four: "4 = Suc (Suc (Suc (Suc 0)))" by simp
  have nd: "\<not> is_digit (CHR ''.'')" "\<not> is_digit (CHR '':'')" by (simp_all add: is_digit_def)
  have "read_octets 0 4 (show_ip (V4 [a, b, c, d]) @ CHR '':'' # show_nat (unat port)) =
      Some ([unat a, unat b, unat c, unat d], CHR '':'' # show_nat (unat port))"
    unfolding four by (simp add: show_v4_def read_separator_def read_number_show u nd)
  then show ?thesis by (simp add: parse_socket_addr_def read_port_show p)
qed

end
