(* ===== verification/Mgmt_Base.thy ===== *)
theory Mgmt_Base
  imports IpAddr
begin

section \<open>Common parts of the management backend (\<open>crates/mgmt-backend\<close>)\<close>

text \<open>
  The error type of the handlers (\<open>api_error.rs\<close>), the audit log they write, and the bearer check
  in front of the admin API (\<open>auth.rs\<close>). Tables are lists of row records. A statement that the
  database rejects changes nothing: a handler takes a function \<open>db\<close> that says for each of its
  statements, by position, whether it fails and with which text, so both outcomes of every \<open>?\<close> and
  every \<open>.ok()\<close> are in the model.
\<close>

subsection \<open>Errors (\<open>api_error.rs\<close>)\<close>

datatype ApiError =
    Unauthorized
  | NotFound
  | BadRequest string
  | Conflict string
  | Internal string

fun into_response :: "ApiError \<Rightarrow> nat \<times> json" where
  "into_response Unauthorized = (401, JObj [(''error'', JStr ''unauthorized'')])"
| "into_response NotFound = (404, JObj [(''error'', JStr ''not found'')])"
| "into_response (BadRequest m) = (400, JObj [(''error'', JStr m)])"
| "into_response (Conflict m) = (409, JObj [(''error'', JStr m)])"
| "into_response (Internal m) = (500, JObj [(''error'', JStr ''internal error'')])"

text \<open>A failed statement, by its position in the handler, with the error text.\<close>

type_synonym db = "nat \<Rightarrow> string option"

definition db_up :: db where
  "db_up i = None"

lemma db_up_simp [simp]: "db_up i = None"
  by (simp add: db_up_def)

subsection \<open>The audit log\<close>

record AuditRow =
  au_ts :: time
  au_actor :: string
  au_action :: string
  au_resource :: "string option"
  au_ip :: "IpAddr option"
  au_details :: json

text \<open>\<open>INSERT INTO audit_log ... .await.ok()\<close>: a failure is dropped.\<close>

definition write_audit :: "string option \<Rightarrow> AuditRow \<Rightarrow> AuditRow list \<Rightarrow> AuditRow list" where
  "write_audit failed row rows = (case failed of Some _ \<Rightarrow> rows | None \<Rightarrow> rows @ [row])"

definition audit_row :: "time \<Rightarrow> string \<Rightarrow> string \<Rightarrow> string \<Rightarrow> json \<Rightarrow> AuditRow" where
  "audit_row now actor action resource details =
     \<lparr>au_ts = now, au_actor = actor, au_action = action, au_resource = Some resource,
      au_ip = None, au_details = details\<rparr>"

lemma write_audit_prefix [simp]: "prefix rows (write_audit f row rows)"
  by (simp add: write_audit_def split: option.split)

lemma write_audit_ok [simp]: "write_audit None row rows = rows @ [row]"
  by (simp add: write_audit_def)

subsection \<open>Randomness and password hashes\<close>

text \<open>
  \<open>ring\<close>, \<open>base64\<close>, \<open>argon2\<close> and \<open>uuid\<close> are not code of the repository. One call of a handler gets
  what they deliver as an argument.
\<close>

text \<open>What the random generator (base64 text, or a failure), the salt and the UUID deliver.\<close>

record Entropy =
  en_random :: "string option"
  en_salt :: string
  en_id :: string

record crypto =
  hash_password :: "string \<Rightarrow> string \<Rightarrow> string + string"
  parse_hash :: "string \<Rightarrow> bool"
  verify_password :: "string \<Rightarrow> string \<Rightarrow> bool"

text \<open>The law of the password hash: a hash parses and verifies the text it was made of.\<close>

definition hash_correct :: "crypto \<Rightarrow> bool" where
  "hash_correct c \<longleftrightarrow>
     (\<forall>t salt h. hash_password c t salt = Inr h \<longrightarrow> parse_hash c h \<and> verify_password c t h)"

text \<open>URL-safe base64 without padding of 32 bytes: 43 visible ASCII characters.\<close>

definition base64_text :: "string \<Rightarrow> bool" where
  "base64_text r \<longleftrightarrow> length r = 43 \<and> list_all is_graph r"

definition plain_crypto :: crypto where
  "plain_crypto = \<lparr>hash_password = (\<lambda>t salt. Inr t), parse_hash = (\<lambda>_. True), verify_password = (=)\<rparr>"

lemma plain_crypto_correct: "hash_correct plain_crypto"
  by (simp add: hash_correct_def plain_crypto_def)

subsection \<open>The admin bearer check (\<open>auth.rs\<close>)\<close>

fun xor_diff :: "u8 \<Rightarrow> string \<Rightarrow> string \<Rightarrow> u8" where
  "xor_diff diff (x # xs) (y # ys) = xor_diff (or diff (xor (of_char x) (of_char y))) xs ys"
| "xor_diff diff _ _ = diff"

definition constant_time_eq :: "string \<Rightarrow> string \<Rightarrow> bool" where
  "constant_time_eq a b = (if length a \<noteq> length b then False else xor_diff 0 a b = 0)"

text \<open>\<open>require_admin\<close>: \<open>Inr ()\<close> lets the request through.\<close>

definition require_admin :: "string \<Rightarrow> HeaderMap \<Rightarrow> ApiError + unit" where
  "require_admin admin_api_key headers =
     (case header_get ''authorization'' headers of
        None \<Rightarrow> Inl Unauthorized
      | Some hdr \<Rightarrow>
          (case to_str hdr of
             None \<Rightarrow> Inl Unauthorized
           | Some val \<Rightarrow>
               (case strip_prefix ''Bearer '' val of
                  None \<Rightarrow> Inl Unauthorized
                | Some token \<Rightarrow>
                    if \<not> constant_time_eq token admin_api_key then Inl Unauthorized else Inr ())))"

lemma of_char_u8_inj: "(of_char a :: u8) = of_char b \<longleftrightarrow> a = b"
proof
  assume eq: "(of_char a :: u8) = of_char b"
  have "unat (of_char c :: u8) = (of_char c :: nat)" for c
  proof -
    have "(of_char c :: nat) < 256" using nat_of_char_less_256 [of c] by simp
    then have "unat (of_nat (of_char c) :: u8) = of_char c" by (simp add: unat_of_nat)
    then show ?thesis by (simp add: of_nat_of_char)
  qed
  with eq have "(of_char a :: nat) = of_char b" by metis
  then show "a = b" by simp
qed simp

lemma xor_zero_iff: "xor (a :: u8) b = 0 \<longleftrightarrow> a = b"
proof
  assume "xor a b = 0"
  then have "xor (xor a b) b = b" by simp
  then show "a = b" by (simp add: xor.assoc)
qed simp

lemma xor_diff_zero: "length a = length b \<Longrightarrow> xor_diff d a b = 0 \<longleftrightarrow> d = 0 \<and> a = b"
proof (induction d a b rule: xor_diff.induct)
  case (1 diff x xs y ys)
  then show ?case by (auto simp: or_eq_0_iff xor_zero_iff of_char_u8_inj)
qed auto

lemma constant_time_eq_iff: "constant_time_eq a b \<longleftrightarrow> a = b"
  by (auto simp: constant_time_eq_def xor_diff_zero)

lemma require_admin_ok:
  "to_str (''Bearer '' @ key) = Some (''Bearer '' @ key) \<Longrightarrow>
   require_admin key [(''authorization'', ''Bearer '' @ key)] = Inr ()"
  by (simp add: require_admin_def header_get_def constant_time_eq_iff strip_prefix_def)

text \<open>
  The admin check compares byte for byte: the branch-free comparison accepts exactly equal
  strings, so a request passes \<open>require_admin\<close> if and only if its \<open>Authorization\<close> header is
  \<open>Bearer \<close> followed by the configured key.
\<close>

theorem require_admin_exact:
  "(constant_time_eq a b \<longleftrightarrow> a = b) \<and>
   (require_admin key hs = Inr () \<longleftrightarrow>
      (\<exists>v. header_get ''authorization'' hs = Some v \<and> to_str v = Some v \<and> v = ''Bearer '' @ key))"
proof -
  note eq = constant_time_eq_iff
  have str: "to_str v = Some w \<Longrightarrow> w = v" for v w by (simp add: to_str_def split: if_splits)
  have strip: "strip_prefix p v = Some t \<longleftrightarrow> v = p @ t" for p v t by (rule strip_prefix_eq_Some)
  have "require_admin key hs = Inr () \<longleftrightarrow>
      (\<exists>v w. header_get ''authorization'' hs = Some v \<and> to_str v = Some w \<and>
             strip_prefix ''Bearer '' w = Some key)"
    by (auto simp: require_admin_def eq split: option.split)
  then show ?thesis unfolding eq strip using str by auto
qed

end
