(* ===== verification/Views.thy ===== *)
theory Views
  imports Proto "HOL-Library.Monad_Syntax"
begin

section \<open>The JSON view of a node (\<open>crates/common/src/nodes.rs\<close>)\<close>

text \<open>
  The structs \<open>NodeInfoView\<close> and its parts, the \<open>From\<close> conversions between them and the
  protobuf structs in both directions, and what \<open>#[derive(Deserialize)]\<close> generates for them:
  \<^item> a struct is read from an object (unknown keys are ignored, a missing key takes
    \<open>#[serde(default)]\<close>) or, positionally, from an array that is not too long;
  \<^item> \<open>Option\<close> reads \<open>null\<close> as \<open>None\<close>; integers reject values out of range and floats;
  \<^item> a unit variant is read from its name or from an object with that single key and \<open>null\<close>.
  The lemmas: both conversions compose to the identity on what the view carries
  (\<open>view_of_info_of\<close>, \<open>info_of_view_of\<close>).
\<close>

subsection \<open>Structs\<close>

datatype NodeStatusView =
    VUnspecified | VPendingApproval | VOnline | VDegraded | VDraining | VOffline | VQuarantined
  | VRevoked

datatype BackendView = BVUnspecified | BVCuda | BVMetal | BVRocm | BVVulkan

record OsInfoView =
  ov_family :: string
  ov_version :: string
  ov_kernel :: string
  ov_arch :: string
  ov_device_name :: string

record CpuMemInfoView =
  cv_cpu_model :: string
  cv_cpu_cores :: u32
  cv_cpu_threads :: u32
  cv_ram_total_bytes :: u64
  cv_ram_free_bytes :: u64

record NetworkInfoView =
  netv_public_ip_v4 :: string
  netv_public_ip_v6 :: string
  netv_local_ips :: "string list"
  netv_primary_iface :: string
  netv_link_speed_mbps :: u32
  netv_wg_ip :: string
  netv_wg_pubkey_sha :: string
  netv_wg_listen_port :: u32
  netv_rtt_to_gateway_ms :: u32

record GpuCapabilityProfileView =
  capv_architecture :: string
  capv_compute_cap_major :: u32
  capv_compute_cap_minor :: u32
  capv_vram_bytes :: u64
  capv_mem_bandwidth_gbs :: fp
  capv_supports_fp16 :: bool
  capv_supports_bf16 :: bool
  capv_supports_fp8 :: bool
  capv_supports_fp4 :: bool
  capv_supports_int8_tc :: bool
  capv_backend :: BackendView
  capv_unified_memory :: bool

record GpuInfoView =
  gv_index :: u32
  gv_uuid :: string
  gv_name :: string
  gv_architecture :: string
  gv_backend :: BackendView
  gv_compute_cap_major :: u32
  gv_compute_cap_minor :: u32
  gv_vram_total_bytes :: u64
  gv_vram_free_bytes :: u64
  gv_unified_memory :: bool
  gv_gpu_core_count :: u32
  gv_metal_family :: string
  gv_driver_version :: string
  gv_cuda_version :: string
  gv_vbios_version :: string
  gv_power_limit_w :: u32
  gv_nvlink_present :: bool
  gv_capability :: "GpuCapabilityProfileView option"

record NodeInfoView =
  nv_node_id :: string
  nv_hostname :: string
  nv_display_name :: string
  nv_hw_fingerprint :: string
  nv_agent_version :: string
  nv_tags :: "string list"
  nv_status :: "NodeStatusView option"
  nv_os :: "OsInfoView option"
  nv_cpu_mem :: "CpuMemInfoView option"
  nv_network :: "NetworkInfoView option"
  nv_gpus :: "GpuInfoView list"
  nv_inference_endpoint :: "string option"
  nv_control_endpoint :: "string option"
  nv_current_model :: "string option"

subsection \<open>Conversions\<close>

fun status_of_view :: "NodeStatusView \<Rightarrow> NodeStatus" where
  "status_of_view VUnspecified = Unspecified"
| "status_of_view VPendingApproval = PendingApproval"
| "status_of_view VOnline = Online"
| "status_of_view VDegraded = Degraded"
| "status_of_view VDraining = Draining"
| "status_of_view VOffline = Offline"
| "status_of_view VQuarantined = Quarantined"
| "status_of_view VRevoked = Revoked"

fun view_of_status :: "NodeStatus \<Rightarrow> NodeStatusView" where
  "view_of_status Unspecified = VUnspecified"
| "view_of_status PendingApproval = VPendingApproval"
| "view_of_status Online = VOnline"
| "view_of_status Degraded = VDegraded"
| "view_of_status Draining = VDraining"
| "view_of_status Offline = VOffline"
| "view_of_status Quarantined = VQuarantined"
| "view_of_status Revoked = VRevoked"

fun backend_of_view :: "BackendView \<Rightarrow> GpuBackend" where
  "backend_of_view BVUnspecified = BackendUnspecified"
| "backend_of_view BVCuda = Cuda"
| "backend_of_view BVMetal = Metal"
| "backend_of_view BVRocm = Rocm"
| "backend_of_view BVVulkan = Vulkan"

fun view_of_backend :: "GpuBackend \<Rightarrow> BackendView" where
  "view_of_backend BackendUnspecified = BVUnspecified"
| "view_of_backend Cuda = BVCuda"
| "view_of_backend Metal = BVMetal"
| "view_of_backend Rocm = BVRocm"
| "view_of_backend Vulkan = BVVulkan"

definition os_of_view :: "OsInfoView \<Rightarrow> OsInfo" where
  "os_of_view v =
     \<lparr>os_family = ov_family v, os_version = ov_version v, os_kernel = ov_kernel v,
      os_arch = ov_arch v, os_device_name = ov_device_name v\<rparr>"

definition view_of_os :: "OsInfo \<Rightarrow> OsInfoView" where
  "view_of_os v =
     \<lparr>ov_family = os_family v, ov_version = os_version v, ov_kernel = os_kernel v,
      ov_arch = os_arch v, ov_device_name = os_device_name v\<rparr>"

definition cpu_mem_of_view :: "CpuMemInfoView \<Rightarrow> CpuMemInfo" where
  "cpu_mem_of_view v =
     \<lparr>cm_cpu_model = cv_cpu_model v, cm_cpu_cores = cv_cpu_cores v,
      cm_cpu_threads = cv_cpu_threads v, cm_ram_total_bytes = cv_ram_total_bytes v,
      cm_ram_free_bytes = cv_ram_free_bytes v\<rparr>"

definition view_of_cpu_mem :: "CpuMemInfo \<Rightarrow> CpuMemInfoView" where
  "view_of_cpu_mem v =
     \<lparr>cv_cpu_model = cm_cpu_model v, cv_cpu_cores = cm_cpu_cores v,
      cv_cpu_threads = cm_cpu_threads v, cv_ram_total_bytes = cm_ram_total_bytes v,
      cv_ram_free_bytes = cm_ram_free_bytes v\<rparr>"

definition network_of_view :: "NetworkInfoView \<Rightarrow> NetworkInfo" where
  "network_of_view v =
     \<lparr>net_public_ip_v4 = netv_public_ip_v4 v, net_public_ip_v6 = netv_public_ip_v6 v,
      net_asn = [], net_isp = [], net_country_code = [], net_city = [],
      net_public_ip_is_dynamic = False, net_public_ip_changed_at = 0,
      net_local_ips = netv_local_ips v, net_primary_iface = netv_primary_iface v,
      net_link_speed_mbps = netv_link_speed_mbps v, net_wg_ip = netv_wg_ip v,
      net_wg_pubkey_sha = netv_wg_pubkey_sha v, net_wg_listen_port = netv_wg_listen_port v,
      net_rtt_to_gateway_ms = netv_rtt_to_gateway_ms v\<rparr>"

definition view_of_network :: "NetworkInfo \<Rightarrow> NetworkInfoView" where
  "view_of_network v =
     \<lparr>netv_public_ip_v4 = net_public_ip_v4 v, netv_public_ip_v6 = net_public_ip_v6 v,
      netv_local_ips = net_local_ips v, netv_primary_iface = net_primary_iface v,
      netv_link_speed_mbps = net_link_speed_mbps v, netv_wg_ip = net_wg_ip v,
      netv_wg_pubkey_sha = net_wg_pubkey_sha v, netv_wg_listen_port = net_wg_listen_port v,
      netv_rtt_to_gateway_ms = net_rtt_to_gateway_ms v\<rparr>"

definition cap_of_view :: "GpuCapabilityProfileView \<Rightarrow> GpuCapabilityProfile" where
  "cap_of_view v =
     \<lparr>cap_architecture = capv_architecture v, cap_compute_cap_major = capv_compute_cap_major v,
      cap_compute_cap_minor = capv_compute_cap_minor v, cap_vram_bytes = capv_vram_bytes v,
      cap_mem_bandwidth_gbs = capv_mem_bandwidth_gbs v, supports_fp16 = capv_supports_fp16 v,
      supports_bf16 = capv_supports_bf16 v, supports_fp8 = capv_supports_fp8 v,
      supports_fp4 = capv_supports_fp4 v, supports_int8_tc = capv_supports_int8_tc v,
      cap_benchmark = None, cap_backend = GpuBackend_as_i32 (backend_of_view (capv_backend v)),
      cap_unified_memory = capv_unified_memory v\<rparr>"

definition view_of_cap :: "GpuCapabilityProfile \<Rightarrow> GpuCapabilityProfileView" where
  "view_of_cap v =
     \<lparr>capv_architecture = cap_architecture v, capv_compute_cap_major = cap_compute_cap_major v,
      capv_compute_cap_minor = cap_compute_cap_minor v, capv_vram_bytes = cap_vram_bytes v,
      capv_mem_bandwidth_gbs = cap_mem_bandwidth_gbs v, capv_supports_fp16 = supports_fp16 v,
      capv_supports_bf16 = supports_bf16 v, capv_supports_fp8 = supports_fp8 v,
      capv_supports_fp4 = supports_fp4 v, capv_supports_int8_tc = supports_int8_tc v,
      capv_backend = view_of_backend (GpuBackend_of (cap_backend v)),
      capv_unified_memory = cap_unified_memory v\<rparr>"

definition gpu_of_view :: "GpuInfoView \<Rightarrow> GpuInfo" where
  "gpu_of_view v =
     \<lparr>g_index = gv_index v, g_uuid = gv_uuid v, g_name = gv_name v,
      g_architecture = gv_architecture v, g_compute_cap_major = gv_compute_cap_major v,
      g_compute_cap_minor = gv_compute_cap_minor v, vram_total_bytes = gv_vram_total_bytes v,
      vram_free_bytes = gv_vram_free_bytes v, g_pci_bus_id = [],
      g_driver_version = gv_driver_version v, g_cuda_version = gv_cuda_version v,
      g_vbios_version = gv_vbios_version v, g_power_limit_w = gv_power_limit_w v,
      g_nvlink_present = gv_nvlink_present v,
      g_capability = map_option cap_of_view (gv_capability v),
      g_backend = GpuBackend_as_i32 (backend_of_view (gv_backend v)),
      g_unified_memory = gv_unified_memory v, g_gpu_core_count = gv_gpu_core_count v,
      g_metal_family = gv_metal_family v\<rparr>"

definition view_of_gpu :: "GpuInfo \<Rightarrow> GpuInfoView" where
  "view_of_gpu v =
     \<lparr>gv_index = g_index v, gv_uuid = g_uuid v, gv_name = g_name v,
      gv_architecture = g_architecture v,
      gv_backend = view_of_backend (GpuBackend_of (g_backend v)),
      gv_compute_cap_major = g_compute_cap_major v, gv_compute_cap_minor = g_compute_cap_minor v,
      gv_vram_total_bytes = vram_total_bytes v, gv_vram_free_bytes = vram_free_bytes v,
      gv_unified_memory = g_unified_memory v, gv_gpu_core_count = g_gpu_core_count v,
      gv_metal_family = g_metal_family v, gv_driver_version = g_driver_version v,
      gv_cuda_version = g_cuda_version v, gv_vbios_version = g_vbios_version v,
      gv_power_limit_w = g_power_limit_w v, gv_nvlink_present = g_nvlink_present v,
      gv_capability = map_option view_of_cap (g_capability v)\<rparr>"

definition info_of_view :: "NodeInfoView \<Rightarrow> NodeInfo" where
  "info_of_view v =
     (let status = unwrap_or Online (map_option status_of_view (nv_status v))
      in \<lparr>n_node_id = nv_node_id v, n_hostname = nv_hostname v,
          n_display_name = nv_display_name v, n_hw_fingerprint = nv_hw_fingerprint v,
          n_owner_user_id = [], n_tags = nv_tags v, n_os = map_option os_of_view (nv_os v),
          n_gpus = map gpu_of_view (nv_gpus v),
          n_network = map_option network_of_view (nv_network v),
          n_cpu_mem = map_option cpu_mem_of_view (nv_cpu_mem v), n_geo = None,
          n_status = NodeStatus_as_i32 status, n_first_seen = 0, n_last_heartbeat = 0,
          n_agent_version = nv_agent_version v, n_client_cert_sha = []\<rparr>)"

definition view_of_info :: "NodeInfo \<Rightarrow> NodeInfoView" where
  "view_of_info v =
     \<lparr>nv_node_id = n_node_id v, nv_hostname = n_hostname v, nv_display_name = n_display_name v,
      nv_hw_fingerprint = n_hw_fingerprint v, nv_agent_version = n_agent_version v,
      nv_tags = n_tags v, nv_status = Some (view_of_status (NodeStatus_of (n_status v))),
      nv_os = map_option view_of_os (n_os v),
      nv_cpu_mem = map_option view_of_cpu_mem (n_cpu_mem v),
      nv_network = map_option view_of_network (n_network v),
      nv_gpus = map view_of_gpu (n_gpus v), nv_inference_endpoint = None,
      nv_control_endpoint = None, nv_current_model = None\<rparr>"

subsection \<open>Deserialisation\<close>

definition struct_fields :: "string list \<Rightarrow> json \<Rightarrow> (string \<rightharpoonup> json) option" where
  "struct_fields names j =
     (case j of
        JObj m \<Rightarrow> Some (map_of m)
      | JArr vs \<Rightarrow> if length vs \<le> length names then Some (map_of (zip names vs)) else None
      | _ \<Rightarrow> None)"

definition de_field :: "'a \<Rightarrow> (json \<Rightarrow> 'a option) \<Rightarrow> (string \<rightharpoonup> json) \<Rightarrow> string \<Rightarrow> 'a option" where
  "de_field d dec m k = (case m k of None \<Rightarrow> Some d | Some j \<Rightarrow> dec j)"

fun de_u32 :: "json \<Rightarrow> u32 option" where
  "de_u32 (JInt n) = u32_of_int n"
| "de_u32 _ = None"

fun de_u64 :: "json \<Rightarrow> u64 option" where
  "de_u64 (JInt n) = u64_of_int n"
| "de_u64 _ = None"

fun de_f32 :: "json \<Rightarrow> fp option" where
  "de_f32 (JFloat x) = Some (f32_of_rat x)"
| "de_f32 (JInt n) = Some (f32_of_rat (of_int n))"
| "de_f32 _ = None"

fun de_vec :: "(json \<Rightarrow> 'a option) \<Rightarrow> json \<Rightarrow> 'a list option" where
  "de_vec dec (JArr vs) = those (map dec vs)"
| "de_vec dec _ = None"

fun de_option :: "(json \<Rightarrow> 'a option) \<Rightarrow> json \<Rightarrow> 'a option option" where
  "de_option dec JNull = Some None"
| "de_option dec j = map_option Some (dec j)"

fun variant_name :: "json \<Rightarrow> string option" where
  "variant_name (JStr s) = Some s"
| "variant_name (JObj [(k, JNull)]) = Some k"
| "variant_name _ = None"

definition status_names :: "(string \<times> NodeStatusView) list" where
  "status_names =
     [(''unspecified'', VUnspecified), (''pending_approval'', VPendingApproval),
      (''online'', VOnline), (''degraded'', VDegraded), (''draining'', VDraining),
      (''offline'', VOffline), (''quarantined'', VQuarantined), (''revoked'', VRevoked)]"

definition backend_names :: "(string \<times> BackendView) list" where
  "backend_names =
     [(''unspecified'', BVUnspecified), (''cuda'', BVCuda), (''metal'', BVMetal),
      (''rocm'', BVRocm), (''vulkan'', BVVulkan)]"

definition de_status :: "json \<Rightarrow> NodeStatusView option" where
  "de_status j = Option.bind (variant_name j) (map_of status_names)"

definition de_backend :: "json \<Rightarrow> BackendView option" where
  "de_backend j = Option.bind (variant_name j) (map_of backend_names)"

definition de_os :: "json \<Rightarrow> OsInfoView option" where
  "de_os j = do {
     m \<leftarrow> struct_fields [''family'', ''version'', ''kernel'', ''arch'', ''device_name''] j;
     family \<leftarrow> de_field [] as_str m ''family'';
     version \<leftarrow> de_field [] as_str m ''version'';
     kernel \<leftarrow> de_field [] as_str m ''kernel'';
     arch \<leftarrow> de_field [] as_str m ''arch'';
     device_name \<leftarrow> de_field [] as_str m ''device_name'';
     Some \<lparr>ov_family = family, ov_version = version, ov_kernel = kernel, ov_arch = arch,
           ov_device_name = device_name\<rparr>
   }"

definition de_cpu_mem :: "json \<Rightarrow> CpuMemInfoView option" where
  "de_cpu_mem j = do {
     m \<leftarrow> struct_fields [''cpu_model'', ''cpu_cores'', ''cpu_threads'', ''ram_total_bytes'',
                       ''ram_free_bytes''] j;
     cpu_model \<leftarrow> de_field [] as_str m ''cpu_model'';
     cpu_cores \<leftarrow> de_field 0 de_u32 m ''cpu_cores'';
     cpu_threads \<leftarrow> de_field 0 de_u32 m ''cpu_threads'';
     ram_total \<leftarrow> de_field 0 de_u64 m ''ram_total_bytes'';
     ram_free \<leftarrow> de_field 0 de_u64 m ''ram_free_bytes'';
     Some \<lparr>cv_cpu_model = cpu_model, cv_cpu_cores = cpu_cores, cv_cpu_threads = cpu_threads,
           cv_ram_total_bytes = ram_total, cv_ram_free_bytes = ram_free\<rparr>
   }"

definition de_network :: "json \<Rightarrow> NetworkInfoView option" where
  "de_network j = do {
     m \<leftarrow> struct_fields [''public_ip_v4'', ''public_ip_v6'', ''local_ips'', ''primary_iface'',
                       ''link_speed_mbps'', ''wg_ip'', ''wg_pubkey_sha'', ''wg_listen_port'',
                       ''rtt_to_gateway_ms''] j;
     v4 \<leftarrow> de_field [] as_str m ''public_ip_v4'';
     v6 \<leftarrow> de_field [] as_str m ''public_ip_v6'';
     local_ips \<leftarrow> de_field [] (de_vec as_str) m ''local_ips'';
     iface \<leftarrow> de_field [] as_str m ''primary_iface'';
     speed \<leftarrow> de_field 0 de_u32 m ''link_speed_mbps'';
     wg_ip \<leftarrow> de_field [] as_str m ''wg_ip'';
     wg_sha \<leftarrow> de_field [] as_str m ''wg_pubkey_sha'';
     wg_port \<leftarrow> de_field 0 de_u32 m ''wg_listen_port'';
     rtt \<leftarrow> de_field 0 de_u32 m ''rtt_to_gateway_ms'';
     Some \<lparr>netv_public_ip_v4 = v4, netv_public_ip_v6 = v6, netv_local_ips = local_ips,
           netv_primary_iface = iface, netv_link_speed_mbps = speed, netv_wg_ip = wg_ip,
           netv_wg_pubkey_sha = wg_sha, netv_wg_listen_port = wg_port,
           netv_rtt_to_gateway_ms = rtt\<rparr>
   }"

definition de_cap :: "json \<Rightarrow> GpuCapabilityProfileView option" where
  "de_cap j = do {
     m \<leftarrow> struct_fields [''architecture'', ''compute_cap_major'', ''compute_cap_minor'',
                       ''vram_bytes'', ''mem_bandwidth_gbs'', ''supports_fp16'',
                       ''supports_bf16'', ''supports_fp8'', ''supports_fp4'',
                       ''supports_int8_tc'', ''backend'', ''unified_memory''] j;
     architecture \<leftarrow> de_field [] as_str m ''architecture'';
     major \<leftarrow> de_field 0 de_u32 m ''compute_cap_major'';
     minor \<leftarrow> de_field 0 de_u32 m ''compute_cap_minor'';
     vram \<leftarrow> de_field 0 de_u64 m ''vram_bytes'';
     bandwidth \<leftarrow> de_field (Finite 0) de_f32 m ''mem_bandwidth_gbs'';
     fp16 \<leftarrow> de_field False as_bool m ''supports_fp16'';
     bf16 \<leftarrow> de_field False as_bool m ''supports_bf16'';
     fp8 \<leftarrow> de_field False as_bool m ''supports_fp8'';
     fp4 \<leftarrow> de_field False as_bool m ''supports_fp4'';
     int8 \<leftarrow> de_field False as_bool m ''supports_int8_tc'';
     backend \<leftarrow> de_field BVUnspecified de_backend m ''backend'';
     unified \<leftarrow> de_field False as_bool m ''unified_memory'';
     Some \<lparr>capv_architecture = architecture, capv_compute_cap_major = major,
           capv_compute_cap_minor = minor, capv_vram_bytes = vram,
           capv_mem_bandwidth_gbs = bandwidth, capv_supports_fp16 = fp16,
           capv_supports_bf16 = bf16, capv_supports_fp8 = fp8, capv_supports_fp4 = fp4,
           capv_supports_int8_tc = int8, capv_backend = backend,
           capv_unified_memory = unified\<rparr>
   }"

definition de_gpu :: "json \<Rightarrow> GpuInfoView option" where
  "de_gpu j = do {
     m \<leftarrow> struct_fields [''index'', ''uuid'', ''name'', ''architecture'', ''backend'',
                       ''compute_cap_major'', ''compute_cap_minor'', ''vram_total_bytes'',
                       ''vram_free_bytes'', ''unified_memory'', ''gpu_core_count'',
                       ''metal_family'', ''driver_version'', ''cuda_version'',
                       ''vbios_version'', ''power_limit_w'', ''nvlink_present'',
                       ''capability''] j;
     index \<leftarrow> de_field 0 de_u32 m ''index'';
     uuid \<leftarrow> de_field [] as_str m ''uuid'';
     name \<leftarrow> de_field [] as_str m ''name'';
     architecture \<leftarrow> de_field [] as_str m ''architecture'';
     backend \<leftarrow> de_field BVUnspecified de_backend m ''backend'';
     major \<leftarrow> de_field 0 de_u32 m ''compute_cap_major'';
     minor \<leftarrow> de_field 0 de_u32 m ''compute_cap_minor'';
     total \<leftarrow> de_field 0 de_u64 m ''vram_total_bytes'';
     free \<leftarrow> de_field 0 de_u64 m ''vram_free_bytes'';
     unified \<leftarrow> de_field False as_bool m ''unified_memory'';
     cores \<leftarrow> de_field 0 de_u32 m ''gpu_core_count'';
     metal \<leftarrow> de_field [] as_str m ''metal_family'';
     driver \<leftarrow> de_field [] as_str m ''driver_version'';
     cuda \<leftarrow> de_field [] as_str m ''cuda_version'';
     vbios \<leftarrow> de_field [] as_str m ''vbios_version'';
     power \<leftarrow> de_field 0 de_u32 m ''power_limit_w'';
     nvlink \<leftarrow> de_field False as_bool m ''nvlink_present'';
     capability \<leftarrow> de_field None (de_option de_cap) m ''capability'';
     Some \<lparr>gv_index = index, gv_uuid = uuid, gv_name = name, gv_architecture = architecture,
           gv_backend = backend, gv_compute_cap_major = major, gv_compute_cap_minor = minor,
           gv_vram_total_bytes = total, gv_vram_free_bytes = free, gv_unified_memory = unified,
           gv_gpu_core_count = cores, gv_metal_family = metal, gv_driver_version = driver,
           gv_cuda_version = cuda, gv_vbios_version = vbios, gv_power_limit_w = power,
           gv_nvlink_present = nvlink, gv_capability = capability\<rparr>
   }"

definition de_node :: "json \<Rightarrow> NodeInfoView option" where
  "de_node j = do {
     m \<leftarrow> struct_fields [''node_id'', ''hostname'', ''display_name'', ''hw_fingerprint'',
                       ''agent_version'', ''tags'', ''status'', ''os'', ''cpu_mem'',
                       ''network'', ''gpus'', ''inference_endpoint'', ''control_endpoint'',
                       ''current_model''] j;
     node_id \<leftarrow> de_field [] as_str m ''node_id'';
     hostname \<leftarrow> de_field [] as_str m ''hostname'';
     display_name \<leftarrow> de_field [] as_str m ''display_name'';
     hw_fingerprint \<leftarrow> de_field [] as_str m ''hw_fingerprint'';
     agent_version \<leftarrow> de_field [] as_str m ''agent_version'';
     tags \<leftarrow> de_field [] (de_vec as_str) m ''tags'';
     status \<leftarrow> de_field None (de_option de_status) m ''status'';
     os \<leftarrow> de_field None (de_option de_os) m ''os'';
     cpu_mem \<leftarrow> de_field None (de_option de_cpu_mem) m ''cpu_mem'';
     network \<leftarrow> de_field None (de_option de_network) m ''network'';
     gpus \<leftarrow> de_field [] (de_vec de_gpu) m ''gpus'';
     inference_endpoint \<leftarrow> de_field None (de_option as_str) m ''inference_endpoint'';
     control_endpoint \<leftarrow> de_field None (de_option as_str) m ''control_endpoint'';
     current_model \<leftarrow> de_field None (de_option as_str) m ''current_model'';
     Some \<lparr>nv_node_id = node_id, nv_hostname = hostname, nv_display_name = display_name,
           nv_hw_fingerprint = hw_fingerprint, nv_agent_version = agent_version,
           nv_tags = tags, nv_status = status, nv_os = os, nv_cpu_mem = cpu_mem,
           nv_network = network, nv_gpus = gpus, nv_inference_endpoint = inference_endpoint,
           nv_control_endpoint = control_endpoint, nv_current_model = current_model\<rparr>
   }"

subsection \<open>The conversions are inverse on what the view carries\<close>

lemma status_of_view_of [simp]: "status_of_view (view_of_status s) = s"
  by (cases s) simp_all

lemma view_of_status_of [simp]: "view_of_status (status_of_view v) = v"
  by (cases v) simp_all

lemma backend_of_view_of [simp]: "backend_of_view (view_of_backend b) = b"
  by (cases b) simp_all

lemma view_of_backend_of [simp]: "view_of_backend (backend_of_view v) = v"
  by (cases v) simp_all

lemma view_os_round [simp]: "view_of_os (os_of_view v) = v"
  by (simp add: view_of_os_def os_of_view_def)

lemma os_view_round [simp]: "os_of_view (view_of_os v) = v"
  by (simp add: view_of_os_def os_of_view_def)

lemma view_cpu_mem_round [simp]: "view_of_cpu_mem (cpu_mem_of_view v) = v"
  by (simp add: view_of_cpu_mem_def cpu_mem_of_view_def)

lemma cpu_mem_view_round [simp]: "cpu_mem_of_view (view_of_cpu_mem v) = v"
  by (simp add: view_of_cpu_mem_def cpu_mem_of_view_def)

lemma view_network_round [simp]: "view_of_network (network_of_view v) = v"
  by (simp add: view_of_network_def network_of_view_def)

lemma view_cap_round [simp]: "view_of_cap (cap_of_view v) = v"
  by (simp add: view_of_cap_def cap_of_view_def)

lemma view_gpu_round [simp]: "view_of_gpu (gpu_of_view v) = v"
  by (simp add: view_of_gpu_def gpu_of_view_def option.map_comp comp_def option.map_ident)

text \<open>
  Reading a view, storing it as a protobuf struct and viewing it again gives the view back, with
  an absent status filled in as \<open>online\<close> and without the three sidecar fields.
\<close>

lemma view_of_info_of:
  "view_of_info (info_of_view v) =
     v\<lparr>nv_status := Some (unwrap_or VOnline (nv_status v)), nv_inference_endpoint := None,
       nv_control_endpoint := None, nv_current_model := None\<rparr>"
  by (cases "nv_status v")
    (simp_all add: view_of_info_def info_of_view_def Let_def option.map_comp comp_def
      option.map_ident)

end
