(* ===== verification/ApiKeys.thy ===== *)
theory ApiKeys
  imports Mgmt_Base Views
begin

section \<open>Customer API keys (\<open>handlers/api_keys.rs\<close>)\<close>

text \<open>
  Creation, listing, revocation, update, deletion and verification of the \<open>mgc_\<close> tokens. The random
  generator, base64, Argon2 and the UUIDs are not code of the repository: \<open>Entropy\<close> carries what
  they deliver to one call, \<open>crypto\<close> the hash functions, and \<open>hash_correct\<close> the one
  law the code relies on, that a hash verifies the text it was made of. The handlers form an
  \<open>audited_machine\<close>: any sequence of calls keeps the table's invariant and the audit log.
\<close>

subsection \<open>Data\<close>

record ApiKeyRow =
  k_id :: string
  k_hash :: string
  k_scope :: string
  k_name :: string
  k_prefix :: string
  k_created_at :: time
  k_last_used_at :: "time option"
  k_expires_at :: "time option"
  k_revoked_at :: "time option"

record KeysState =
  ks_keys :: "ApiKeyRow list"
  ks_audit :: "AuditRow list"

record KeyCreateRequest =
  kc_name :: string
  kc_scope :: "string option"
  kc_ttl_secs :: "int option"

record KeyCreateResponse =
  kr_id :: string
  kr_token :: string
  kr_prefix :: string
  kr_name :: string
  kr_scope :: string
  kr_expires_at :: "string option"

record KeyUpdateRequest =
  ku_name :: "string option"
  ku_scope :: "string option"
  ku_ttl_secs :: "int option option"

record KeyRow =
  kv_id :: string
  kv_name :: string
  kv_prefix :: string
  kv_scope :: string
  kv_created_at :: time
  kv_last_used_at :: "time option"
  kv_expires_at :: "time option"
  kv_revoked_at :: "time option"

record VerifyResponse =
  vr_ok :: bool
  vr_key_id :: "string option"
  vr_name :: "string option"
  vr_scope :: "string option"

definition TOKEN_PREFIX :: string where "TOKEN_PREFIX = ''mgc_''"
definition STORED_PREFIX_LEN :: nat where "STORED_PREFIX_LEN = 12"

definition valid_scope :: "string \<Rightarrow> bool" where
  "valid_scope s \<longleftrightarrow> s = ''inference'' \<or> s = ''admin''"

definition scope_error :: ApiError where
  "scope_error = BadRequest (''scope must be '' @ [CHR 0x27] @ ''inference'' @ [CHR 0x27] @ '' or ''
     @ [CHR 0x27] @ ''admin'' @ [CHR 0x27])"

definition expiry_of :: "time \<Rightarrow> int option \<Rightarrow> time option" where
  "expiry_of now ttl =
     map_option (\<lambda>n. now + secs (clamp 60 (365 * 24 * 3600) n)) (option_filter (\<lambda>n. n > 0) ttl)"

definition key_row :: "ApiKeyRow \<Rightarrow> KeyRow" where
  "key_row r =
     \<lparr>kv_id = k_id r, kv_name = k_name r, kv_prefix = k_prefix r, kv_scope = k_scope r,
      kv_created_at = k_created_at r, kv_last_used_at = k_last_used_at r,
      kv_expires_at = k_expires_at r, kv_revoked_at = k_revoked_at r\<rparr>"

subsection \<open>Handlers\<close>

text \<open>\<open>now\<close> is the service's clock, \<open>db_now\<close> the database's \<open>now()\<close>.\<close>

definition keys_create ::
  "crypto \<Rightarrow> (time \<Rightarrow> string) \<Rightarrow> db \<Rightarrow> time \<Rightarrow> time \<Rightarrow> Entropy \<Rightarrow> KeyCreateRequest \<Rightarrow> KeysState
    \<Rightarrow> (ApiError + KeyCreateResponse) \<times> KeysState" where
  "keys_create c to_rfc3339 db now db_now en req s =
     (let name = trim (kc_name req)
      in if name = [] then (Inl (BadRequest ''name must not be empty''), s)
         else let scope = unwrap_or ''inference'' (kc_scope req)
         in if \<not> valid_scope scope then (Inl scope_error, s)
         else (case en_random en of
                 None \<Rightarrow> (Inl (Internal ''rng failed''), s)
               | Some random \<Rightarrow>
                   let token = TOKEN_PREFIX @ random; prefix = take_chars STORED_PREFIX_LEN token
                   in (case hash_password c token (en_salt en) of
                         Inl e \<Rightarrow> (Inl (Internal (''argon2: '' @ e)), s)
                       | Inr hash \<Rightarrow>
                           let expires_at = expiry_of now (kc_ttl_secs req)
                           in (case db 0 of
                                 Some e \<Rightarrow> (Inl (Internal e), s)
                               | None \<Rightarrow>
                                   if en_id en \<in> k_id ` set (ks_keys s)
                                   then (Inl (Internal ''duplicate key value''), s)
                                   else (Inr \<lparr>kr_id = en_id en, kr_token = token, kr_prefix = prefix,
                                              kr_name = name, kr_scope = scope,
                                              kr_expires_at = map_option to_rfc3339 expires_at\<rparr>,
                                         \<lparr>ks_keys = ks_keys s @
                                            [\<lparr>k_id = en_id en, k_hash = hash, k_scope = scope, k_name = name,
                                              k_prefix = prefix, k_created_at = db_now,
                                              k_last_used_at = None, k_expires_at = expires_at,
                                              k_revoked_at = None\<rparr>],
                                          ks_audit = write_audit (db 1)
                                            (audit_row db_now ''admin'' ''API_KEY_CREATED'' (en_id en)
                                              (JObj [(''name'', JStr name), (''scope'', JStr scope),
                                                     (''prefix'', JStr prefix)])) (ks_audit s)\<rparr>)))))"

definition keys_list :: "db \<Rightarrow> KeysState \<Rightarrow> ApiError + KeyRow list" where
  "keys_list db s =
     (case db 0 of
        Some e \<Rightarrow> Inl (Internal e)
      | None \<Rightarrow> Inr (take 500 (map key_row (sort_key (\<lambda>r. - k_created_at r) (ks_keys s)))))"

definition keys_revoke :: "db \<Rightarrow> time \<Rightarrow> string \<Rightarrow> KeysState \<Rightarrow> (ApiError + json) \<times> KeysState" where
  "keys_revoke db db_now i s =
     (case db 0 of
        Some e \<Rightarrow> (Inl (Internal e), s)
      | None \<Rightarrow>
          if \<not> (\<exists>r \<in> set (ks_keys s). k_id r = i \<and> k_revoked_at r = None) then (Inl NotFound, s)
          else (Inr (JObj [(''ok'', JBool True)]),
                \<lparr>ks_keys = map (\<lambda>r. if k_id r = i \<and> k_revoked_at r = None
                                    then r \<lparr>k_revoked_at := Some db_now\<rparr> else r) (ks_keys s),
                 ks_audit = write_audit (db 1)
                   (audit_row db_now ''admin'' ''API_KEY_REVOKED'' i (JObj [])) (ks_audit s)\<rparr>))"

text \<open>
  The body of \<open>PATCH\<close>: every field is optional, and \<open>Option<Option<i64>>\<close> reads \<open>null\<close> as the
  outer \<open>None\<close>. The array form needs all three elements, for no field has a default.
\<close>

definition de_key_update :: "json \<Rightarrow> KeyUpdateRequest option" where
  "de_key_update j =
     do { _ \<leftarrow> (case j of JArr vs \<Rightarrow> if length vs = 3 then Some () else None | _ \<Rightarrow> Some ());
          m \<leftarrow> struct_fields [''name'', ''scope'', ''ttl_secs''] j;
          name \<leftarrow> de_field None (de_option as_str) m ''name'';
          scope \<leftarrow> de_field None (de_option as_str) m ''scope'';
          ttl \<leftarrow> de_field None (de_option (de_option as_i64)) m ''ttl_secs'';
          Some \<lparr>ku_name = name, ku_scope = scope, ku_ttl_secs = ttl\<rparr> }"

definition updated_row :: "KeyUpdateRequest \<Rightarrow> time option option \<Rightarrow> ApiKeyRow \<Rightarrow> ApiKeyRow" where
  "updated_row req new_expiry r =
     r \<lparr>k_name := unwrap_or (k_name r) (ku_name req),
        k_scope := unwrap_or (k_scope r) (ku_scope req),
        k_expires_at := (case new_expiry of Some e \<Rightarrow> e | None \<Rightarrow> k_expires_at r)\<rparr>"

definition keys_update ::
  "db \<Rightarrow> time \<Rightarrow> time \<Rightarrow> string \<Rightarrow> KeyUpdateRequest \<Rightarrow> KeysState \<Rightarrow> (ApiError + KeyRow) \<times> KeysState" where
  "keys_update db now db_now i req s =
     (if (case ku_name req of Some n \<Rightarrow> trim n = [] | None \<Rightarrow> False)
      then (Inl (BadRequest ''name must not be empty''), s)
      else if (case ku_scope req of Some sc \<Rightarrow> \<not> valid_scope sc | None \<Rightarrow> False)
      then (Inl scope_error, s)
      else let new_expiry = map_option (expiry_of now) (ku_ttl_secs req)
      in (case db 0 of
            Some e \<Rightarrow> (Inl (Internal e), s)
          | None \<Rightarrow>
              (case find (\<lambda>r. k_id r = i) (ks_keys s) of
                 None \<Rightarrow> (Inl NotFound, s)
               | Some r \<Rightarrow>
                   (Inr (key_row (updated_row req new_expiry r)),
                    \<lparr>ks_keys = map (\<lambda>r. if k_id r = i then updated_row req new_expiry r else r) (ks_keys s),
                     ks_audit = write_audit (db 1)
                       (audit_row db_now ''admin'' ''API_KEY_UPDATED'' i
                         (JObj [(''name'', jopt JStr (ku_name req)), (''scope'', jopt JStr (ku_scope req)),
                                (''ttl_secs'', jopt (jopt JInt) (ku_ttl_secs req))])) (ks_audit s)\<rparr>))))"

definition keys_delete ::
  "db \<Rightarrow> time \<Rightarrow> string \<Rightarrow> bool \<Rightarrow> KeysState \<Rightarrow> (ApiError + json) \<times> KeysState" where
  "keys_delete db db_now i purge s =
     (if purge then
        (case db 0 of
           Some e \<Rightarrow> (Inl (Internal e), s)
         | None \<Rightarrow>
             if i \<notin> k_id ` set (ks_keys s) then (Inl NotFound, s)
             else (Inr (JObj [(''ok'', JBool True), (''purged'', JBool True)]),
                   \<lparr>ks_keys = filter (\<lambda>r. k_id r \<noteq> i) (ks_keys s),
                    ks_audit = write_audit (db 1)
                      (audit_row db_now ''admin'' ''API_KEY_PURGED'' i (JObj [])) (ks_audit s)\<rparr>))
      else keys_revoke db db_now i s)"

definition verify_no :: VerifyResponse where
  "verify_no = \<lparr>vr_ok = False, vr_key_id = None, vr_name = None, vr_scope = None\<rparr>"

text \<open>The loop body of \<open>verify\<close>: the row is live and its hash verifies the token.\<close>

definition matches :: "crypto \<Rightarrow> time \<Rightarrow> string \<Rightarrow> ApiKeyRow \<Rightarrow> bool" where
  "matches c now token r \<longleftrightarrow>
     k_revoked_at r = None \<and> \<not> (case k_expires_at r of Some t \<Rightarrow> t < now | None \<Rightarrow> False) \<and>
     parse_hash c (k_hash r) \<and> verify_password c token (k_hash r)"

definition keys_verify ::
  "crypto \<Rightarrow> db \<Rightarrow> time \<Rightarrow> time \<Rightarrow> string \<Rightarrow> KeysState \<Rightarrow> (ApiError + VerifyResponse) \<times> KeysState" where
  "keys_verify c db now db_now raw s =
     (let token = trim raw
      in if \<not> starts_with token TOKEN_PREFIX \<or> length token < STORED_PREFIX_LEN + 4
         then (Inr verify_no, s)
         else let prefix = take_chars STORED_PREFIX_LEN token
         in (case db 0 of
               Some e \<Rightarrow> (Inl (Internal e), s)
             | None \<Rightarrow>
                 (case find (matches c now token) (filter (\<lambda>r. k_prefix r = prefix) (ks_keys s)) of
                    None \<Rightarrow> (Inr verify_no, s)
                  | Some r \<Rightarrow>
                      (Inr \<lparr>vr_ok = True, vr_key_id = Some (k_id r), vr_name = Some (k_name r),
                            vr_scope = Some (k_scope r)\<rparr>,
                       (case db 1 of
                          Some _ \<Rightarrow> s
                        | None \<Rightarrow> s \<lparr>ks_keys := map (\<lambda>r'. if k_id r' = k_id r
                            then r' \<lparr>k_last_used_at := Some db_now\<rparr> else r') (ks_keys s)\<rparr>)))))"

subsection \<open>Sequences of calls\<close>

datatype KeyCmd =
    KeyCreate db time time Entropy KeyCreateRequest
  | KeyRevoke db time string
  | KeyUpdate db time time string KeyUpdateRequest
  | KeyDelete db time string bool
  | KeyVerify db time time string

fun apply_key_cmd :: "crypto \<Rightarrow> KeyCmd \<Rightarrow> KeysState \<Rightarrow> KeysState" where
  "apply_key_cmd c (KeyCreate db now db_now en req) s = snd (keys_create c (\<lambda>_. []) db now db_now en req s)"
| "apply_key_cmd c (KeyRevoke db db_now i) s = snd (keys_revoke db db_now i s)"
| "apply_key_cmd c (KeyUpdate db now db_now i req) s = snd (keys_update db now db_now i req s)"
| "apply_key_cmd c (KeyDelete db db_now i purge) s = snd (keys_delete db db_now i purge s)"
| "apply_key_cmd c (KeyVerify db now db_now tok) s = snd (keys_verify c db now db_now tok s)"

subsection \<open>Invariant\<close>

definition keys_inv :: "KeysState \<Rightarrow> bool" where
  "keys_inv s \<longleftrightarrow>
     distinct (map k_id (ks_keys s)) \<and>
     (\<forall>r \<in> set (ks_keys s). valid_scope (k_scope r) \<and> trim (k_name r) \<noteq> [])"

text \<open>An edit of the rows that keeps ids, scopes and names in order keeps the invariant.\<close>

lemma keys_inv_edit:
  assumes "keys_inv s" and "\<And>r. k_id (f r) = k_id r"
    and "\<And>r. valid_scope (k_scope r) \<and> trim (k_name r) \<noteq> [] \<Longrightarrow>
             valid_scope (k_scope (f r)) \<and> trim (k_name (f r)) \<noteq> []"
  shows "keys_inv (s \<lparr>ks_keys := map f (ks_keys s)\<rparr>)"
  using assms(1,3) by (simp add: keys_inv_def comp_def assms(2))

lemma keys_inv_audit [simp]:
  "keys_inv \<lparr>ks_keys = ks, ks_audit = au\<rparr> \<longleftrightarrow> keys_inv \<lparr>ks_keys = ks, ks_audit = []\<rparr>"
  "keys_inv (s \<lparr>ks_audit := au\<rparr>) \<longleftrightarrow> keys_inv s"
  by (simp_all add: keys_inv_def)

lemma keys_inv_map:
  assumes "keys_inv s" and "\<And>r. k_id (f r) = k_id r"
    and "\<And>r. valid_scope (k_scope r) \<and> trim (k_name r) \<noteq> [] \<Longrightarrow>
             valid_scope (k_scope (f r)) \<and> trim (k_name (f r)) \<noteq> []"
  shows "keys_inv \<lparr>ks_keys = map f (ks_keys s), ks_audit = au\<rparr>"
  using keys_inv_edit [OF assms] by (simp add: keys_inv_def)

lemma keys_create_inv: "keys_inv s \<Longrightarrow> keys_inv (snd (keys_create c fmt db now db_now en req s))"
  by (auto simp: keys_create_def Let_def keys_inv_def split: option.split sum.split)

lemma keys_revoke_inv: "keys_inv s \<Longrightarrow> keys_inv (snd (keys_revoke db db_now i s))"
  unfolding keys_revoke_def
  by (auto intro!: keys_inv_map simp del: keys_inv_audit split: option.split if_splits)

lemma keys_update_inv: "keys_inv s \<Longrightarrow> keys_inv (snd (keys_update db now db_now i req s))"
  unfolding keys_update_def Let_def
  by (auto intro!: keys_inv_map simp: updated_row_def unwrap_or_def simp del: keys_inv_audit
      split: option.split if_splits)

lemma keys_delete_inv: "keys_inv s \<Longrightarrow> keys_inv (snd (keys_delete db db_now i purge s))"
  using keys_revoke_inv [of s]
  by (auto simp: keys_delete_def keys_inv_def distinct_map_filter split: option.split)

lemma keys_verify_inv: "keys_inv s \<Longrightarrow> keys_inv (snd (keys_verify c db now db_now tok s))"
  unfolding keys_verify_def Let_def by (auto intro!: keys_inv_edit split: option.split if_splits)

lemmas keys_invs = keys_create_inv keys_revoke_inv keys_update_inv keys_delete_inv keys_verify_inv

lemma keys_cmd_inv: "keys_inv s \<Longrightarrow> keys_inv (apply_key_cmd c cmd s)"
  by (cases cmd) (simp_all add: keys_invs)

lemma keys_revoke_audit: "prefix (ks_audit s) (ks_audit (snd (keys_revoke db db_now i s)))"
  by (simp add: keys_revoke_def split: option.split)

lemma keys_cmd_audit: "prefix (ks_audit s) (ks_audit (apply_key_cmd c cmd s))"
proof (cases cmd)
  case (KeyCreate db now db_now en req)
  then show ?thesis by (simp add: keys_create_def Let_def split: option.split sum.split)
next
  case (KeyRevoke db db_now i)
  then show ?thesis by (simp add: keys_revoke_audit)
next
  case (KeyUpdate db now db_now i req)
  then show ?thesis by (simp add: keys_update_def Let_def split: option.split)
next
  case (KeyDelete db db_now i purge)
  then show ?thesis using keys_revoke_audit [of s] by (simp add: keys_delete_def split: option.split)
next
  case (KeyVerify db now db_now tok)
  then show ?thesis by (simp add: keys_verify_def Let_def split: option.split)
qed

interpretation keys: audited_machine "apply_key_cmd c" keys_inv ks_audit
  by unfold_locales (simp_all add: keys_cmd_inv keys_cmd_audit)

subsection \<open>Verification\<close>

lemma token_shape:
  assumes "base64_text r"
  shows "trim (TOKEN_PREFIX @ r) = TOKEN_PREFIX @ r" and "starts_with (TOKEN_PREFIX @ r) TOKEN_PREFIX"
    and "\<not> length (TOKEN_PREFIX @ r) < STORED_PREFIX_LEN + 4"
proof -
  have "r \<noteq> []" using assms by (auto simp: base64_text_def)
  then have "is_graph (last (TOKEN_PREFIX @ r))"
    using assms by (auto simp: base64_text_def list_all_iff)
  moreover have "is_graph (hd (TOKEN_PREFIX @ r))" by (simp add: TOKEN_PREFIX_def is_graph_def)
  ultimately show "trim (TOKEN_PREFIX @ r) = TOKEN_PREFIX @ r" by (intro trim_id) blast
  show "\<not> length (TOKEN_PREFIX @ r) < STORED_PREFIX_LEN + 4"
    using assms by (simp add: base64_text_def STORED_PREFIX_LEN_def TOKEN_PREFIX_def)
qed simp

definition candidates :: "string \<Rightarrow> KeysState \<Rightarrow> ApiKeyRow list" where
  "candidates token s = filter (\<lambda>r. k_prefix r = take_chars STORED_PREFIX_LEN token) (ks_keys s)"

definition well_formed_token :: "string \<Rightarrow> bool" where
  "well_formed_token token \<longleftrightarrow> starts_with token TOKEN_PREFIX \<and> \<not> length token < STORED_PREFIX_LEN + 4"

lemma keys_verify_cases:
  assumes "db 0 = None"
  shows "fst (keys_verify c db now db_now raw s) =
    (if \<not> well_formed_token (trim raw) then Inr verify_no
     else case find (matches c now (trim raw)) (candidates (trim raw) s) of
       None \<Rightarrow> Inr verify_no
     | Some r \<Rightarrow> Inr \<lparr>vr_ok = True, vr_key_id = Some (k_id r), vr_name = Some (k_name r),
                      vr_scope = Some (k_scope r)\<rparr>)"
  using assms by (auto simp: keys_verify_def Let_def candidates_def well_formed_token_def split: option.split)

lemma keys_verify_found:
  assumes "fst (keys_verify c db now db_now raw s) = Inr v" and "vr_ok v"
  shows "\<exists>r \<in> set (ks_keys s). matches c now (trim raw) r \<and> vr_key_id v = Some (k_id r)
           \<and> k_prefix r = take_chars STORED_PREFIX_LEN (trim raw)"
proof -
  have "db 0 = None"
  proof (cases "db 0")
    case (Some e)
    with assms show ?thesis
      by (auto simp: keys_verify_def Let_def verify_no_def split: if_splits)
  qed
  from assms keys_verify_cases [of db c now db_now raw s, OF this]
  obtain r where r: "find (matches c now (trim raw)) (candidates (trim raw) s) = Some r"
    and v: "vr_key_id v = Some (k_id r)"
    by (auto simp: verify_no_def split: if_splits option.splits)
  from find_Some_D [OF r] v show ?thesis by (auto simp: candidates_def)
qed

lemma keys_create_ok:
  assumes "keys_create c fmt db now db_now en req s = (Inr resp, s')"
  obtains random hash where "en_random en = Some random" and "kr_token resp = TOKEN_PREFIX @ random"
    and "hash_password c (kr_token resp) (en_salt en) = Inr hash"
    and "ks_keys s' = ks_keys s @
      [\<lparr>k_id = kr_id resp, k_hash = hash, k_scope = kr_scope resp, k_name = kr_name resp,
        k_prefix = take_chars STORED_PREFIX_LEN (kr_token resp), k_created_at = db_now,
        k_last_used_at = None, k_expires_at = expiry_of now (kc_ttl_secs req), k_revoked_at = None\<rparr>]"
  using assms
  by (auto simp: keys_create_def Let_def split: option.splits sum.splits if_splits)

lemma find_append: "find P (xs @ ys) = (case find P xs of Some x \<Rightarrow> Some x | None \<Rightarrow> find P ys)"
  by (induction xs) simp_all

lemma created_verifies:
  assumes "hash_correct c" and "en_random en = Some random" and "base64_text random"
    and "keys_create c fmt db now db_now en req s = (Inr resp, s')"
    and "case expiry_of now (kc_ttl_secs req) of Some e \<Rightarrow> q \<le> e | None \<Rightarrow> True"
    and "db' 0 = None"
  shows "\<exists>v. fst (keys_verify c db' q q' (kr_token resp) s') = Inr v \<and> vr_ok v \<and>
    ((\<forall>r \<in> set (ks_keys s). k_prefix r = kr_prefix resp \<longrightarrow> \<not> verify_password c (kr_token resp) (k_hash r))
     \<longrightarrow> vr_key_id v = Some (kr_id resp) \<and> vr_name v = Some (kr_name resp) \<and> vr_scope v = Some (kr_scope resp))"
proof -
  obtain r hash where t: "en_random en = Some r" "kr_token resp = TOKEN_PREFIX @ r"
    and h: "hash_password c (kr_token resp) (en_salt en) = Inr hash"
    and s': "ks_keys s' = ks_keys s @
      [\<lparr>k_id = kr_id resp, k_hash = hash, k_scope = kr_scope resp, k_name = kr_name resp,
        k_prefix = take_chars STORED_PREFIX_LEN (kr_token resp), k_created_at = db_now,
        k_last_used_at = None, k_expires_at = expiry_of now (kc_ttl_secs req), k_revoked_at = None\<rparr>]"
    using keys_create_ok [OF assms(4)] .
  have pre: "kr_prefix resp = take_chars STORED_PREFIX_LEN (kr_token resp)"
    using assms(4) by (auto simp: keys_create_def Let_def split: option.splits sum.splits if_splits)
  let ?t = "kr_token resp"
  have shape: "trim ?t = ?t" "well_formed_token ?t"
    using token_shape [of r] t assms(2,3) by (simp_all add: well_formed_token_def)
  let ?new = "last (ks_keys s')"
  have new: "matches c q ?t ?new"
    using assms(1,5) h by (auto simp: matches_def s' hash_correct_def split: option.splits)
  have cands: "candidates ?t s' = candidates ?t s @ [?new]" by (simp add: candidates_def s')
  have answer: "fst (keys_verify c db' q q' ?t s') =
      Inr (case find (matches c q ?t) (candidates ?t s) of
         Some x \<Rightarrow> \<lparr>vr_ok = True, vr_key_id = Some (k_id x), vr_name = Some (k_name x), vr_scope = Some (k_scope x)\<rparr>
       | None \<Rightarrow> \<lparr>vr_ok = True, vr_key_id = Some (k_id ?new), vr_name = Some (k_name ?new), vr_scope = Some (k_scope ?new)\<rparr>)"
    using new unfolding keys_verify_cases [of db' c q q' ?t s', OF assms(6)] shape cands find_append
    by (simp add: shape split: option.split)
  have "find (matches c q ?t) (candidates ?t s) = None"
    if "\<forall>r \<in> set (ks_keys s). k_prefix r = kr_prefix resp \<longrightarrow> \<not> verify_password c ?t (k_hash r)"
    using that by (auto simp: find_None_all candidates_def matches_def pre)
  with answer show ?thesis by (auto simp: s' split: option.splits)
qed

subsection \<open>Revocation is permanent\<close>

definition dead :: "string \<Rightarrow> KeysState \<Rightarrow> bool" where
  "dead i s \<longleftrightarrow> (\<forall>r \<in> set (ks_keys s). k_id r = i \<longrightarrow> k_revoked_at r \<noteq> None)"

fun creates :: "KeyCmd \<Rightarrow> string \<Rightarrow> bool" where
  "creates (KeyCreate db now db_now en req) i \<longleftrightarrow> en_id en = i"
| "creates _ i \<longleftrightarrow> False"

lemma dead_revoke: "dead i s \<Longrightarrow> dead i (snd (keys_revoke db t j s))"
  by (auto simp: dead_def keys_revoke_def split: option.split if_splits)

lemma dead_cmd:
  assumes "dead i s" and "\<not> creates cmd i"
  shows "dead i (apply_key_cmd c cmd s)"
proof (cases cmd)
  case (KeyCreate db now db_now en req)
  with assms show ?thesis
    by (auto simp: dead_def keys_create_def Let_def split: option.split sum.split)
next
  case (KeyRevoke db t j)
  with assms show ?thesis by (simp add: dead_revoke)
next
  case (KeyUpdate db now db_now j req)
  with assms show ?thesis
    by (auto simp: dead_def keys_update_def updated_row_def Let_def split: option.split if_splits)
next
  case (KeyDelete db t j purge)
  with assms dead_revoke [of i s db t j] show ?thesis
    by (auto simp: dead_def keys_delete_def split: option.split)
next
  case (KeyVerify db now db_now tok)
  with assms show ?thesis
    by (auto simp: dead_def keys_verify_def Let_def split: option.split if_splits)
qed

lemma dead_run:
  "dead i s \<Longrightarrow> \<forall>cmd \<in> set cmds. \<not> creates cmd i \<Longrightarrow> dead i (run_cmds (apply_key_cmd c) cmds s)"
  by (induction cmds arbitrary: s) (simp_all add: dead_cmd)

lemma dead_never_verifies:
  assumes "dead i s" and "fst (keys_verify c db now db_now tok s) = Inr v" and "vr_ok v"
  shows "vr_key_id v \<noteq> Some i"
  using keys_verify_found [OF assms(2,3)] assms(1) by (auto simp: dead_def matches_def)

lemma revoke_makes_dead:
  "fst (keys_revoke db t i s) = Inr j \<Longrightarrow> dead i (snd (keys_revoke db t i s))"
  by (auto simp: dead_def keys_revoke_def split: option.splits if_splits)

subsection \<open>Sample values\<close>

text \<open>A hash that is the text itself, and a first key created with it.\<close>

definition sample_random :: string where
  "sample_random = replicate 43 (CHR ''x'')"

lemma sample_random_base64: "base64_text sample_random"
  by (simp add: sample_random_def base64_text_def is_graph_def list_all_iff)

definition sample_entropy :: Entropy where
  "sample_entropy = \<lparr>en_random = Some sample_random, en_salt = [], en_id = ''id1''\<rparr>"

definition sample_key_request :: KeyCreateRequest where
  "sample_key_request = \<lparr>kc_name = ''laptop'', kc_scope = None, kc_ttl_secs = Some 3600\<rparr>"

definition empty_keys :: KeysState where
  "empty_keys = \<lparr>ks_keys = [], ks_audit = []\<rparr>"

definition sample_key :: ApiKeyRow where
  "sample_key =
     \<lparr>k_id = ''id1'', k_hash = TOKEN_PREFIX @ sample_random, k_scope = ''inference'', k_name = ''laptop'',
      k_prefix = take_chars STORED_PREFIX_LEN (TOKEN_PREFIX @ sample_random), k_created_at = 0,
      k_last_used_at = None, k_expires_at = Some (secs 3600), k_revoked_at = None\<rparr>"

definition sample_keys :: KeysState where
  "sample_keys = snd (keys_create plain_crypto (\<lambda>_. []) db_up 0 0 sample_entropy sample_key_request empty_keys)"

lemma laptop_trim [simp]: "trim ''laptop'' = ''laptop''"
  by (rule trim_id) (simp add: is_graph_def)

lemma sample_create:
  "\<exists>resp. keys_create plain_crypto (\<lambda>_. []) db_up 0 0 sample_entropy sample_key_request empty_keys =
     (Inr resp, sample_keys) \<and> kr_id resp = ''id1'' \<and> kr_token resp = TOKEN_PREFIX @ sample_random"
  by (simp add: sample_keys_def keys_create_def Let_def sample_key_request_def sample_entropy_def
      empty_keys_def plain_crypto_def valid_scope_def)

lemma sample_keys_eq: "ks_keys sample_keys = [sample_key]"
  by (simp add: sample_keys_def keys_create_def Let_def sample_key_request_def sample_entropy_def
      empty_keys_def plain_crypto_def valid_scope_def sample_key_def expiry_of_def clamp_def)

subsection \<open>Properties\<close>

text \<open>
  A key works from the moment it is created: the token that \<open>create\<close> hands out verifies until
  its expiry, and if no older key with the same stored prefix happens to verify the same token the
  answer carries the new key's id, name and scope.
\<close>

theorem created_key_verifies:
  assumes "hash_correct c" and "en_random en = Some random" and "base64_text random"
    and "keys_create c fmt db now db_now en req s = (Inr resp, s')"
    and "case expiry_of now (kc_ttl_secs req) of Some e \<Rightarrow> q \<le> e | None \<Rightarrow> True"
    and "db' 0 = None"
  shows "\<exists>v. fst (keys_verify c db' q q' (kr_token resp) s') = Inr v \<and> vr_ok v \<and>
    ((\<forall>r \<in> set (ks_keys s). k_prefix r = kr_prefix resp \<longrightarrow> \<not> verify_password c (kr_token resp) (k_hash r))
     \<longrightarrow> vr_key_id v = Some (kr_id resp) \<and> vr_name v = Some (kr_name resp) \<and> vr_scope v = Some (kr_scope resp))"
  using assms by (rule created_verifies)

theorem created_key_verifies_witness:
  "\<exists>v. fst (keys_verify plain_crypto db_up (secs 3600) 0 (TOKEN_PREFIX @ sample_random) sample_keys) = Inr v \<and>
     vr_ok v"
proof -
  obtain resp where c: "keys_create plain_crypto (\<lambda>_. []) db_up 0 0 sample_entropy sample_key_request
      empty_keys = (Inr resp, sample_keys)" and tok: "kr_token resp = TOKEN_PREFIX @ sample_random"
    using sample_create by blast
  have "en_random sample_entropy = Some sample_random" by (simp add: sample_entropy_def)
  from created_key_verifies [OF plain_crypto_correct this sample_random_base64 c, of "secs 3600" db_up 0]
  show ?thesis by (auto simp: tok sample_key_request_def expiry_of_def clamp_def)
qed

text \<open>
  C21. Verification is exact: with the database up, a token is accepted if and only if it has the
  right shape and some key with its first twelve characters as stored prefix is not revoked, not
  past its expiry, and has a hash that verifies it.
\<close>

theorem verify_exact:
  assumes "db 0 = None"
  shows "(\<exists>v. fst (keys_verify c db now db_now raw s) = Inr v \<and> vr_ok v) \<longleftrightarrow>
    starts_with (trim raw) ''mgc_'' \<and> 16 \<le> length (trim raw) \<and>
    (\<exists>r \<in> set (ks_keys s). k_prefix r = take_chars 12 (trim raw) \<and> k_revoked_at r = None \<and>
       (\<forall>e. k_expires_at r = Some e \<longrightarrow> now \<le> e) \<and>
       parse_hash c (k_hash r) \<and> verify_password c (trim raw) (k_hash r))"
proof -
  have wf: "well_formed_token (trim raw) \<longleftrightarrow> starts_with (trim raw) ''mgc_'' \<and> 16 \<le> length (trim raw)"
    by (auto simp: well_formed_token_def TOKEN_PREFIX_def STORED_PREFIX_LEN_def)
  have m: "matches c now (trim raw) r \<longleftrightarrow> k_revoked_at r = None \<and>
       (\<forall>e. k_expires_at r = Some e \<longrightarrow> now \<le> e) \<and>
       parse_hash c (k_hash r) \<and> verify_password c (trim raw) (k_hash r)" for r
    by (auto simp: matches_def split: option.split)
  have "(\<exists>v. fst (keys_verify c db now db_now raw s) = Inr v \<and> vr_ok v) \<longleftrightarrow>
      well_formed_token (trim raw) \<and> find (matches c now (trim raw)) (candidates (trim raw) s) \<noteq> None"
    unfolding keys_verify_cases [of db c now db_now raw s, OF assms]
    by (auto simp: verify_no_def split: option.split)
  then show ?thesis unfolding wf find_None_all candidates_def
    by (auto simp: m STORED_PREFIX_LEN_def)
qed

theorem verify_exact_witness:
  "\<not> (\<exists>v. fst (keys_verify plain_crypto db_up (secs 3601) 0 (TOKEN_PREFIX @ sample_random) sample_keys)
       = Inr v \<and> vr_ok v)"
  using verify_exact [of db_up plain_crypto "secs 3601" 0 "TOKEN_PREFIX @ sample_random" sample_keys]
  by (simp add: sample_keys_eq sample_key_def)

text \<open>
  C22. Revocation is permanent: once \<open>revoke\<close> has answered \<open>ok\<close> for a key, no later sequence of
  create, update, revoke, delete and verify calls makes any token verify as that key again (a new
  key never gets the id of an old one).
\<close>

theorem revoked_key_never_verifies:
  assumes "keys_revoke db t i s = (Inr ok, s')"
    and "\<forall>cmd \<in> set cmds. \<not> creates cmd i"
    and "fst (keys_verify c db' now db_now tok (run_cmds (apply_key_cmd c) cmds s')) = Inr v"
  shows "\<not> (vr_ok v \<and> vr_key_id v = Some i)"
proof -
  have "dead i s'" using revoke_makes_dead [of db t i s] assms(1) by simp
  with assms(2) have "dead i (run_cmds (apply_key_cmd c) cmds s')" by (rule dead_run [rotated])
  from dead_never_verifies [OF this assms(3)] show ?thesis by blast
qed

theorem revoked_key_never_verifies_witness:
  "\<not> (\<exists>v. fst (keys_verify plain_crypto db_up 5 5 (TOKEN_PREFIX @ sample_random)
       (snd (keys_update db_up 2 2 ''id1'' \<lparr>ku_name = None, ku_scope = None, ku_ttl_secs = Some (Some 90)\<rparr>
         (snd (keys_revoke db_up 1 ''id1'' sample_keys))))) = Inr v \<and>
     vr_ok v \<and> vr_key_id v = Some ''id1'')"
proof -
  let ?cmds = "[KeyUpdate db_up 2 2 ''id1'' \<lparr>ku_name = None, ku_scope = None, ku_ttl_secs = Some (Some 90)\<rparr>]"
  obtain ok s' where r: "keys_revoke db_up 1 ''id1'' sample_keys = (Inr ok, s')"
    by (simp add: keys_revoke_def sample_keys_eq sample_key_def)
  from revoked_key_never_verifies [OF r, of ?cmds plain_crypto db_up 5 5 "TOKEN_PREFIX @ sample_random"]
  show ?thesis by (auto simp: r)
qed

text \<open>
  Every call keeps the table in order, whatever the database refuses: key ids are unique, every
  scope is \<open>inference\<close> or \<open>admin\<close>, no name is blank, and no audit entry is ever lost.
\<close>

theorem key_table_invariant:
  assumes "keys_inv s" and "e \<in> set (ks_audit s)"
  shows "keys_inv (run_cmds (apply_key_cmd c) cmds s) \<and>
         e \<in> set (ks_audit (run_cmds (apply_key_cmd c) cmds s))"
  using keys.run_invar [OF assms(1)] keys.run_keeps_entry [OF assms(2)] by blast

theorem key_table_invariant_witness:
  "keys_inv (snd (keys_delete db_up 9 ''id1'' True sample_keys)) \<and>
   ks_audit sample_keys \<noteq> [] \<and>
   hd (ks_audit sample_keys) \<in> set (ks_audit (snd (keys_delete db_up 9 ''id1'' True sample_keys)))"
proof -
  have "keys_inv sample_keys"
    by (simp add: keys_inv_def sample_keys_eq sample_key_def valid_scope_def)
  moreover have ne: "ks_audit sample_keys \<noteq> []"
    by (simp add: sample_keys_def keys_create_def Let_def sample_key_request_def sample_entropy_def
      empty_keys_def plain_crypto_def valid_scope_def)
  ultimately show ?thesis
    using key_table_invariant [of sample_keys "hd (ks_audit sample_keys)" plain_crypto
        "[KeyDelete db_up 9 ''id1'' True]"] by simp
qed

text \<open>
  A JSON \<open>null\<close> does not clear an expiry: whatever body a \<open>PATCH\<close> carries, its decoded
  \<open>ttl_secs\<close> is never \<open>Some(None)\<close>, and a body with \<open>"ttl_secs": null\<close> leaves the expiry of the
  key as it is.
\<close>

theorem update_null_keeps_expiry:
  assumes "de_key_update body = Some req"
  shows "ku_ttl_secs req \<noteq> Some None \<and>
    (jget ''ttl_secs'' body = Some JNull \<longrightarrow>
       k_expires_at (updated_row req (map_option (expiry_of now) (ku_ttl_secs req)) r) = k_expires_at r)"
proof -
  obtain m where m: "struct_fields [''name'', ''scope'', ''ttl_secs''] body = Some m"
    and ttl: "de_field None (de_option (de_option as_i64)) m ''ttl_secs'' = Some (ku_ttl_secs req)"
    using assms by (auto simp: de_key_update_def bind_eq_Some_conv)
  have "de_option (de_option as_i64) j \<noteq> Some (Some None)" for j
    by (cases j) auto
  then have "ku_ttl_secs req \<noteq> Some None"
    using ttl by (auto simp: de_field_def split: option.splits)
  moreover have "ku_ttl_secs req = None" if "jget ''ttl_secs'' body = Some JNull"
    using that m ttl by (cases body) (auto simp: struct_fields_def de_field_def)
  ultimately show ?thesis by (simp add: updated_row_def)
qed

theorem update_null_keeps_expiry_witness:
  "\<exists>req. de_key_update (JObj [(''ttl_secs'', JNull)]) = Some req \<and>
     k_expires_at (updated_row req (map_option (expiry_of 5) (ku_ttl_secs req)) sample_key) = Some (secs 3600)"
proof -
  obtain req where r: "de_key_update (JObj [(''ttl_secs'', JNull)]) = Some req"
    by (simp add: de_key_update_def struct_fields_def de_field_def)
  from update_null_keeps_expiry [OF r, of 5 sample_key] r show ?thesis by (simp add: sample_key_def)
qed

end
