(* ===== verification/Clients.thy ===== *)
theory Clients
  imports Prelude "HOL-Library.Countable"
begin

section \<open>Typed HTTP clients (\<open>crates/common/src/clients.rs\<close>, \<open>ports.rs\<close>)\<close>

text \<open>
  The clients through which the services call each other. The network and the JSON text parser are
  not code of the repository: \<open>http\<close> carries them as functions. A client builds a request from
  its base URL and turns the response into a value or a \<open>ClientError\<close>.
  The lemmas say that a client hits the same URL whether or not its base ends in slashes, and that
  an error is an \<open>Upstream\<close> one exactly when the peer answered with a status outside 2xx.
\<close>

subsection \<open>Ports\<close>

definition COORDINATOR_GRPC :: u16 where "COORDINATOR_GRPC = 7000"
definition COORDINATOR_HTTP :: u16 where "COORDINATOR_HTTP = 7001"
definition MGMT_BACKEND_HTTP :: u16 where "MGMT_BACKEND_HTTP = 7100"
definition OPENAI_API_HTTP :: u16 where "OPENAI_API_HTTP = 7200"
definition GATEWAY_HTTP :: u16 where "GATEWAY_HTTP = 8443"
definition WORKER_RPC :: u16 where "WORKER_RPC = 50052"
definition WORKER_INFERENCE :: u16 where "WORKER_INFERENCE = 50053"
definition WORKER_CONTROL :: u16 where "WORKER_CONTROL = 50054"

subsection \<open>Client construction\<close>

text \<open>
  The options of a \<open>reqwest\<close> client. \<open>from_pem\<close> says whether a PEM text is a usable identity and
  \<open>builds\<close> whether a client with these options can be built.
\<close>

record HttpClient =
  hc_timeout :: "time option"
  hc_connect_timeout :: "time option"
  hc_identity :: "string option"
  hc_accept_invalid_certs :: bool

definition Client_default :: HttpClient where
  "Client_default = \<lparr>hc_timeout = None, hc_connect_timeout = None, hc_identity = None, hc_accept_invalid_certs = False\<rparr>"

definition build_or_default :: "(HttpClient \<Rightarrow> bool) \<Rightarrow> HttpClient \<Rightarrow> HttpClient" where
  "build_or_default builds b = (if builds b then b else Client_default)"

definition DEFAULT_TIMEOUT :: time where "DEFAULT_TIMEOUT = secs 15"
definition DEFAULT_CONNECT_TIMEOUT :: time where "DEFAULT_CONNECT_TIMEOUT = secs 5"

definition default_http_client :: "(HttpClient \<Rightarrow> bool) \<Rightarrow> HttpClient" where
  "default_http_client builds =
     build_or_default builds
       (Client_default \<lparr>hc_timeout := Some DEFAULT_TIMEOUT, hc_connect_timeout := Some DEFAULT_CONNECT_TIMEOUT\<rparr>)"

definition worker_http_client ::
  "(string \<Rightarrow> bool) \<Rightarrow> (HttpClient \<Rightarrow> bool) \<Rightarrow> string \<Rightarrow> string \<Rightarrow> bool \<Rightarrow> HttpClient" where
  "worker_http_client from_pem builds cert key accept_invalid_certs =
     (let builder = Client_default \<lparr>hc_timeout := Some DEFAULT_TIMEOUT,
                                    hc_connect_timeout := Some DEFAULT_CONNECT_TIMEOUT\<rparr>;
          combined = trim cert @ [CHR 0x0A] @ trim key;
          builder = (if cert \<noteq> [] \<and> key \<noteq> [] \<and> from_pem combined
                     then builder \<lparr>hc_identity := Some combined\<rparr> else builder);
          builder = (if accept_invalid_certs then builder \<lparr>hc_accept_invalid_certs := True\<rparr> else builder)
      in build_or_default builds builder)"

subsection \<open>Requests and responses\<close>

datatype Method = GET | POST

record Request =
  rq_method :: Method
  rq_url :: string
  rq_auth :: "string option"
  rq_body :: "json option"

text \<open>\<open>rq_auth\<close> is the value of the \<open>Authorization\<close> header, if one is sent.\<close>

definition bearer_auth :: "string option \<Rightarrow> string option" where
  "bearer_auth t = map_option (\<lambda>t. ''Bearer '' @ t) t"

text \<open>The body of a response may fail to arrive: \<open>Inl\<close> is the transport's error text.\<close>

record Response =
  rs_status :: nat
  rs_text :: "string + string"

text \<open>
  What lies outside the repository: \<open>send\<close> performs a request, \<open>from_str\<close> parses JSON text,
  \<open>not_array\<close> is the message for a JSON value of the wrong shape. \<open>Inl\<close> carries the error text.
\<close>

record http =
  send :: "Request \<Rightarrow> string + Response"
  from_str :: "string \<Rightarrow> string + json"
  not_array :: "json \<Rightarrow> string"

datatype ClientError =
    Transport string
  | Upstream string nat string
  | Decode string

fun ClientError_to_string :: "ClientError \<Rightarrow> string" where
  "ClientError_to_string (Transport e) = ''transport: '' @ e"
| "ClientError_to_string (Upstream service status body) =
     ''upstream '' @ service @ '' returned '' @ show_nat status @ '': '' @ body"
| "ClientError_to_string (Decode e) = ''response not parseable as expected JSON: '' @ e"

definition is_success :: "nat \<Rightarrow> bool" where
  "is_success status \<longleftrightarrow> 200 \<le> status \<and> status < 300"

definition text_or_default :: "Response \<Rightarrow> string" where
  "text_or_default r = (case rs_text r of Inl _ \<Rightarrow> [] | Inr t \<Rightarrow> t)"

definition read_json :: "http \<Rightarrow> Response \<Rightarrow> string + json" where
  "read_json h r = (case rs_text r of Inl e \<Rightarrow> Inl e | Inr t \<Rightarrow> from_str h t)"

definition decode_or_upstream ::
  "(json \<Rightarrow> string + 'a) \<Rightarrow> http \<Rightarrow> Response \<Rightarrow> string \<Rightarrow> ClientError + 'a" where
  "decode_or_upstream conv h resp service =
     (if \<not> is_success (rs_status resp)
      then Inl (Upstream service (rs_status resp) (text_or_default resp))
      else case read_json h resp of
             Inl e \<Rightarrow> Inl (Decode e)
           | Inr j \<Rightarrow> (case conv j of Inl e \<Rightarrow> Inl (Decode e) | Inr v \<Rightarrow> Inr v))"

definition exchange ::
  "(json \<Rightarrow> string + 'a) \<Rightarrow> http \<Rightarrow> string \<Rightarrow> Request \<Rightarrow> ClientError + 'a" where
  "exchange conv h service rq =
     (case send h rq of Inl e \<Rightarrow> Inl (Transport e) | Inr resp \<Rightarrow> decode_or_upstream conv h resp service)"

definition json_get :: "http \<Rightarrow> string \<Rightarrow> string \<Rightarrow> ClientError + json" where
  "json_get h service url =
     exchange Inr h service \<lparr>rq_method = GET, rq_url = url, rq_auth = None, rq_body = None\<rparr>"

definition json_post :: "http \<Rightarrow> string \<Rightarrow> string \<Rightarrow> json \<Rightarrow> ClientError + json" where
  "json_post h service url body =
     exchange Inr h service \<lparr>rq_method = POST, rq_url = url, rq_auth = None, rq_body = Some body\<rparr>"

subsection \<open>The clients\<close>

record CoordClient =
  cc_base :: string
  cc_http :: http

definition CoordClient_new :: "string \<Rightarrow> http \<Rightarrow> CoordClient" where
  "CoordClient_new base h = \<lparr>cc_base = trim_end_matches (CHR ''/'') base, cc_http = h\<rparr>"

definition CoordClient_list_nodes :: "CoordClient \<Rightarrow> ClientError + json" where
  "CoordClient_list_nodes c = json_get (cc_http c) ''coordinator'' (cc_base c @ ''/nodes'')"

definition CoordClient_eligible_nodes :: "CoordClient \<Rightarrow> ClientError + json" where
  "CoordClient_eligible_nodes c =
     json_get (cc_http c) ''coordinator'' (cc_base c @ ''/nodes/eligible'')"

definition CoordClient_load_model :: "CoordClient \<Rightarrow> string \<Rightarrow> json \<Rightarrow> ClientError + json" where
  "CoordClient_load_model c node_id body =
     json_post (cc_http c) ''coordinator''
       (cc_base c @ ''/nodes/'' @ node_id @ ''/load_model'') body"

record MgmtClient =
  mc_base :: string
  mc_bearer :: "string option"
  mc_http :: http

definition MgmtClient_new :: "string \<Rightarrow> string option \<Rightarrow> http \<Rightarrow> MgmtClient" where
  "MgmtClient_new base bearer h =
     \<lparr>mc_base = trim_end_matches (CHR ''/'') base, mc_bearer = bearer, mc_http = h\<rparr>"

definition MgmtClient_has_token :: "MgmtClient \<Rightarrow> bool" where
  "MgmtClient_has_token c = unwrap_or False (map_option (\<lambda>s. s \<noteq> []) (mc_bearer c))"

definition MgmtClient_list_models :: "MgmtClient \<Rightarrow> ClientError + json list" where
  "MgmtClient_list_models c =
     exchange (\<lambda>j. case as_array j of None \<Rightarrow> Inl (not_array (mc_http c) j) | Some vs \<Rightarrow> Inr vs)
       (mc_http c) ''mgmt''
       \<lparr>rq_method = GET, rq_url = mc_base c @ ''/api/v1/models'', rq_auth = bearer_auth (mc_bearer c),
        rq_body = None\<rparr>"

definition MgmtClient_log_inference :: "MgmtClient \<Rightarrow> json \<Rightarrow> ClientError + unit" where
  "MgmtClient_log_inference c body =
     (case send (mc_http c)
             \<lparr>rq_method = POST, rq_url = mc_base c @ ''/api/v1/inference/log'',
              rq_auth = bearer_auth (mc_bearer c), rq_body = Some body\<rparr> of
        Inl e \<Rightarrow> Inl (Transport e)
      | Inr resp \<Rightarrow>
          if \<not> is_success (rs_status resp)
          then Inl (Upstream ''mgmt'' (rs_status resp) (text_or_default resp))
          else Inr ())"

record WorkerClient =
  wc_base :: string
  wc_http :: http

definition WorkerClient_new :: "string \<Rightarrow> http \<Rightarrow> WorkerClient" where
  "WorkerClient_new base h = \<lparr>wc_base = trim_end_matches (CHR ''/'') base, wc_http = h\<rparr>"

definition WorkerClient_chat_completions :: "WorkerClient \<Rightarrow> json \<Rightarrow> ClientError + json" where
  "WorkerClient_chat_completions c body =
     json_post (wc_http c) ''worker'' (wc_base c @ ''/v1/chat/completions'') body"

record WorkerControlClient =
  wcc_base :: string
  wcc_http :: http

definition WorkerControlClient_new :: "string \<Rightarrow> http \<Rightarrow> WorkerControlClient" where
  "WorkerControlClient_new base h = \<lparr>wcc_base = trim_end_matches (CHR ''/'') base, wcc_http = h\<rparr>"

definition WorkerControlClient_load_model :: "WorkerControlClient \<Rightarrow> json \<Rightarrow> ClientError + json" where
  "WorkerControlClient_load_model c body =
     json_post (wcc_http c) ''worker_control'' (wcc_base c @ ''/control/load_model'') body"

subsection \<open>Lemmas\<close>

lemma byte_digits:
  "byte 48 = CHR ''0''" "byte 49 = CHR ''1''" "byte 50 = CHR ''2''" "byte 51 = CHR ''3''" "byte 52 = CHR ''4''"
  "byte 53 = CHR ''5''" "byte 54 = CHR ''6''" "byte 55 = CHR ''7''" "byte 56 = CHR ''8''" "byte 57 = CHR ''9''"
  by code_simp+

lemma port_texts:
  "show_nat (unat GATEWAY_HTTP) = ''8443''" "show_nat (unat COORDINATOR_GRPC) = ''7000''"
  "show_nat (unat COORDINATOR_HTTP) = ''7001''" "show_nat (unat MGMT_BACKEND_HTTP) = ''7100''"
  "show_nat (unat OPENAI_API_HTTP) = ''7200''" "show_nat (unat WORKER_RPC) = ''50052''"
  "show_nat (unat WORKER_INFERENCE) = ''50053''" "show_nat (unat WORKER_CONTROL) = ''50054''"
  by (simp_all add: GATEWAY_HTTP_def COORDINATOR_GRPC_def COORDINATOR_HTTP_def MGMT_BACKEND_HTTP_def OPENAI_API_HTTP_def
      WORKER_RPC_def WORKER_INFERENCE_def WORKER_CONTROL_def show_nat.simps byte_digits)

lemma exchange_Upstream:
  assumes "exchange conv h service rq = Inl (Upstream s st b)"
  shows "\<exists>resp. send h rq = Inr resp \<and> rs_status resp = st \<and> \<not> is_success st \<and> s = service
           \<and> b = text_or_default resp"
  using assms by (auto simp: exchange_def decode_or_upstream_def split: sum.splits if_splits)

lemma exchange_Inr:
  assumes "exchange conv h service rq = Inr v"
  shows "\<exists>resp j. send h rq = Inr resp \<and> is_success (rs_status resp) \<and> read_json h resp = Inr j
           \<and> conv j = Inr v"
  using assms by (auto simp: exchange_def decode_or_upstream_def split: sum.splits if_splits)

lemma trim_end_matches_append [simp]:
  "trim_end_matches c (s @ replicate n c) = trim_end_matches c s"
  by (simp add: trim_end_matches_def) (rule dropWhile_append2, simp)

lemma CoordClient_new_slashes:
  "CoordClient_new (base @ replicate n (CHR ''/'')) h = CoordClient_new base h"
  by (simp add: CoordClient_new_def)

text \<open>A network on which one URL answers 202 with an empty object and every other is refused.\<close>

definition sample_http :: "string \<Rightarrow> http" where
  "sample_http url =
     \<lparr>send = (\<lambda>rq. if rq_url rq = url then Inr \<lparr>rs_status = 202, rs_text = Inr ''{}''\<rparr> else Inl ''refused''),
      from_str = (\<lambda>t. if t = ''{}'' then Inr (JObj []) else Inl ''eof''), not_array = (\<lambda>_. [])\<rparr>"

text \<open>A network on which every request is answered with one JSON document.\<close>

definition json_http :: "json \<Rightarrow> http" where
  "json_http j =
     \<lparr>send = (\<lambda>rq. Inr \<lparr>rs_status = 200, rs_text = Inr []\<rparr>), from_str = (\<lambda>_. Inr j), not_array = (\<lambda>_. [])\<rparr>"

subsection \<open>JSON text\<close>

text \<open>
  Two services that talk to each other render and parse with \<open>serde_json\<close>: \<open>wire\<close> carries the two
  functions and \<open>wire_ok\<close> their law, which \<open>numbered_wire\<close> satisfies.
\<close>

record wire =
  render :: "json \<Rightarrow> string"
  parse :: "string \<Rightarrow> string + json"

definition wire_ok :: "wire \<Rightarrow> bool" where
  "wire_ok w \<longleftrightarrow> (\<forall>j. parse w (render w j) = Inr j)"

text \<open>A wire format that satisfies the law: JSON values are countable, so number them.\<close>

instance json :: countable
  by countable_datatype

definition numbered_wire :: wire where
  "numbered_wire = \<lparr>render = (\<lambda>j. show_nat (to_nat j)), parse = (\<lambda>t. Inr (from_nat (parse_nat t)))\<rparr>"

lemma numbered_wire_ok: "wire_ok numbered_wire"
  by (simp add: wire_ok_def numbered_wire_def)

end
