(* ===== verification/Gateway.thy ===== *)
theory Gateway
  imports Clients
begin

section \<open>The gateway (\<open>crates/gateway\<close>)\<close>

text \<open>
  The public entry point: the cached bearer check in front of \<open>/v1/*\<close> (\<open>state.rs\<close>,
  \<open>middleware.rs\<close>), the reverse proxy (\<open>proxy.rs\<close>) and the routes (\<open>routes.rs\<close>). The network is
  the \<open>http\<close> of the clients and, for the proxy, \<open>net\<close>. Each read of a clock is an argument.
  The check relies on whoever answers \<open>/api/v1/keys/verify\<close> only through the contract
  \<open>verdict_source\<close>, in which the latency of a revocation is proved.
\<close>

subsection \<open>State (\<open>state.rs\<close>)\<close>

record CachedAuth =
  ca_ok :: bool
  ca_key_id :: "string option"
  ca_name :: "string option"
  ca_scope :: "string option"
  ca_fetched_at :: time

text \<open>\<open>Instant::elapsed\<close> saturates at zero.\<close>

definition fresh :: "time \<Rightarrow> CachedAuth \<Rightarrow> bool" where
  "fresh now v \<longleftrightarrow> max 0 (now - ca_fetched_at v) < (if ca_ok v then secs 60 else secs 5)"

record GatewayState =
  gs_mgmt_url :: string
  gs_coordinator_http_url :: string
  gs_openai_url :: string
  gs_admin_api_key :: "string option"
  gs_auth_cache :: "(string \<times> CachedAuth) list"

definition GatewayState_new :: "string \<Rightarrow> string \<Rightarrow> string \<Rightarrow> string option \<Rightarrow> GatewayState" where
  "GatewayState_new mgmt_url coordinator_http_url openai_url admin_api_key =
     \<lparr>gs_mgmt_url = mgmt_url, gs_coordinator_http_url = coordinator_http_url,
      gs_openai_url = openai_url, gs_admin_api_key = admin_api_key, gs_auth_cache = []\<rparr>"

subsection \<open>Requests and responses\<close>

text \<open>A body is raw bytes or the text of a JSON value.\<close>

datatype Body = Raw string | JsonText json

record GwRequest =
  gq_method :: string
  gq_path_and_query :: "string option"
  gq_headers :: HeaderMap
  gq_body :: "string + string"

record GwResponse =
  gr_status :: nat
  gr_headers :: HeaderMap
  gr_body :: Body

definition json_error :: "nat \<Rightarrow> string \<Rightarrow> string \<Rightarrow> GwResponse" where
  "json_error status kind msg =
     \<lparr>gr_status = status, gr_headers = header_insert ''content-type'' ''application/json'' [],
      gr_body = JsonText (JObj [(''error'', JStr kind), (''message'', JStr msg)])\<rparr>"

definition unauthorized :: "string \<Rightarrow> GwResponse" where
  "unauthorized msg = json_error 401 ''unauthorized'' msg"

definition service_unavailable :: "string \<Rightarrow> GwResponse" where
  "service_unavailable msg = json_error 503 ''service_unavailable'' msg"

definition bad_gateway :: "string \<Rightarrow> GwResponse" where
  "bad_gateway msg = json_error 502 ''bad_gateway'' msg"

subsection \<open>The bearer check (\<open>middleware.rs\<close>)\<close>

definition extract_bearer :: "HeaderMap \<Rightarrow> string option" where
  "extract_bearer headers =
     (case header_get ''authorization'' headers of
        None \<Rightarrow> None
      | Some hdr \<Rightarrow>
          (case to_str hdr of
             None \<Rightarrow> None
           | Some v \<Rightarrow>
               option_filter (\<lambda>s. s \<noteq> [])
                 (map_option trim (option_or (strip_prefix ''Bearer '' v) (strip_prefix ''bearer '' v)))))"

datatype VerifyError = NoAdminKey | VerifyTransport string | VerifyStatus nat | VerifyBody string

definition verdict_of_body :: "time \<Rightarrow> json \<Rightarrow> CachedAuth" where
  "verdict_of_body now body =
     \<lparr>ca_ok = unwrap_or False (Option.bind (jget ''ok'' body) as_bool),
      ca_key_id = jget_str ''key_id'' body, ca_name = jget_str ''name'' body,
      ca_scope = jget_str ''scope'' body, ca_fetched_at = now\<rparr>"

definition verify_request :: "string \<Rightarrow> string \<Rightarrow> string \<Rightarrow> Request" where
  "verify_request mgmt_url admin_key token =
     \<lparr>rq_method = POST, rq_url = trim_end_matches (CHR ''/'') mgmt_url @ ''/api/v1/keys/verify'',
      rq_auth = bearer_auth (Some admin_key), rq_body = Some (JObj [(''token'', JStr token)])\<rparr>"

definition verify_with_mgmt :: "http \<Rightarrow> time \<Rightarrow> GatewayState \<Rightarrow> string \<Rightarrow> VerifyError + CachedAuth" where
  "verify_with_mgmt h now st token =
     (case gs_admin_api_key st of
        None \<Rightarrow> Inl NoAdminKey
      | Some admin_key \<Rightarrow>
          (case send h (verify_request (gs_mgmt_url st) admin_key token) of
             Inl e \<Rightarrow> Inl (VerifyTransport e)
           | Inr res \<Rightarrow>
               if \<not> is_success (rs_status res) then Inl (VerifyStatus (rs_status res))
               else (case read_json h res of
                       Inl e \<Rightarrow> Inl (VerifyBody e)
                     | Inr body \<Rightarrow> Inr (verdict_of_body now body))))"

record AuthedKey =
  ak_key_id :: string
  ak_name :: string
  ak_scope :: string

text \<open>
  \<open>Inl\<close> is the response that ends the request; \<open>Inr\<close> lets it through with the key it was
  authenticated with, when the verdict names one.
\<close>

definition apply_verdict :: "CachedAuth \<Rightarrow> GwResponse + AuthedKey option" where
  "apply_verdict v =
     (if \<not> ca_ok v then Inl (unauthorized ''invalid or revoked api key'')
      else Inr (case (ca_key_id v, ca_name v, ca_scope v) of
                  (Some i, Some n, Some sc) \<Rightarrow> Some \<lparr>ak_key_id = i, ak_name = n, ak_scope = sc\<rparr>
                | _ \<Rightarrow> None))"

text \<open>
  The cache part of the middleware, for whoever answers the question: \<open>t0\<close> is the clock at the
  cache lookup, \<open>t2\<close> at the eviction sweep, and \<open>answer\<close> the verdict if the cache has none.
\<close>

definition cached_auth ::
  "time \<Rightarrow> time \<Rightarrow> VerifyError + CachedAuth \<Rightarrow> string \<Rightarrow> (string \<times> CachedAuth) list
    \<Rightarrow> (GwResponse + AuthedKey option) \<times> (string \<times> CachedAuth) list" where
  "cached_auth t0 t2 answer token cache =
     (case option_filter (fresh t0) (map_of cache token) of
        Some cached \<Rightarrow> (apply_verdict cached, cache)
      | None \<Rightarrow>
          (case answer of
             Inl e \<Rightarrow> (Inl (service_unavailable ''auth backend unreachable''), cache)
           | Inr verdict \<Rightarrow>
               let cache' = AList.update token verdict cache;
                   cache'' = (if length cache' > 1024 then filter (\<lambda>(_, v). fresh t2 v) cache' else cache')
               in (apply_verdict verdict, cache'')))"

definition require_v1_api_key ::
  "http \<Rightarrow> time \<Rightarrow> time \<Rightarrow> time \<Rightarrow> HeaderMap \<Rightarrow> GatewayState
    \<Rightarrow> (GwResponse + AuthedKey option) \<times> GatewayState" where
  "require_v1_api_key h t0 t1 t2 headers st =
     (case extract_bearer headers of
        None \<Rightarrow> (Inl (unauthorized ''missing Authorization: Bearer <token>''), st)
      | Some token \<Rightarrow>
          if \<not> starts_with token ''mgc_'' \<or> length token < 16
          then (Inl (unauthorized ''invalid api key format (expected mgc_*)''), st)
          else let (r, cache) = cached_auth t0 t2 (verify_with_mgmt h t1 st token) token (gs_auth_cache st)
               in (r, st \<lparr>gs_auth_cache := cache\<rparr>))"

definition security_headers :: "HeaderMap \<Rightarrow> HeaderMap" where
  "security_headers hs =
     header_insert ''referrer-policy'' ''no-referrer''
    (header_insert ''x-frame-options'' ''DENY''
    (header_insert ''x-content-type-options'' ''nosniff''
    (header_insert ''strict-transport-security'' ''max-age=63072000; includeSubDomains'' hs)))"

subsection \<open>The reverse proxy (\<open>proxy.rs\<close>)\<close>

datatype Upstream = Mgmt | CoordinatorUp | OpenAi

fun base :: "Upstream \<Rightarrow> GatewayState \<Rightarrow> string" where
  "base Mgmt st = gs_mgmt_url st"
| "base CoordinatorUp st = gs_coordinator_http_url st"
| "base OpenAi st = gs_openai_url st"

text \<open>
  What the proxy relies on outside the repository: the URI parser (\<open>Inr\<close> is the text it prints
  back) and the request itself; the response's body may fail to arrive.
\<close>

record ProxyReply =
  pr_status :: nat
  pr_headers :: HeaderMap
  pr_bytes :: "string + string"

record net =
  parse_uri :: "string \<Rightarrow> string + string"
  transfer :: "string \<Rightarrow> string \<Rightarrow> HeaderMap \<Rightarrow> string \<Rightarrow> string + ProxyReply"

definition hop_by_hop :: "string list" where
  "hop_by_hop = [''connection'', ''proxy-connection'', ''keep-alive'', ''te'', ''trailer'',
     ''transfer-encoding'', ''upgrade'', ''host'']"

definition strip_hop_by_hop :: "HeaderMap \<Rightarrow> HeaderMap" where
  "strip_hop_by_hop headers = fold header_remove hop_by_hop headers"

definition body_limit :: nat where
  "body_limit = 50 * 1024 * 1024"

definition to_bytes :: "string + string \<Rightarrow> string + string" where
  "to_bytes body =
     (case body of
        Inl e \<Rightarrow> Inl e
      | Inr b \<Rightarrow> if length b > body_limit then Inl ''length limit exceeded'' else Inr b)"

definition forward :: "net \<Rightarrow> GatewayState \<Rightarrow> Upstream \<Rightarrow> GwRequest \<Rightarrow> GwResponse" where
  "forward n st upstream req =
     (let path_and_query = unwrap_or ''/'' (gq_path_and_query req);
          target = trim_end_matches (CHR ''/'') (base upstream st) @ path_and_query
      in case parse_uri n target of
           Inl e \<Rightarrow> bad_gateway (''bad upstream uri: '' @ e)
         | Inr target_uri \<Rightarrow>
             let headers = strip_hop_by_hop (gq_headers req)
             in case to_bytes (gq_body req) of
                  Inl e \<Rightarrow> bad_gateway (''read body: '' @ e)
                | Inr body_bytes \<Rightarrow>
                    (case transfer n (gq_method req) target_uri headers body_bytes of
                       Inl e \<Rightarrow> bad_gateway (''upstream unreachable: '' @ e)
                     | Inr r \<Rightarrow>
                         \<lparr>gr_status = pr_status r, gr_headers = strip_hop_by_hop (pr_headers r),
                          gr_body = Raw (case pr_bytes r of Inl _ \<Rightarrow> [] | Inr b \<Rightarrow> b)\<rparr>))"

subsection \<open>Routes (\<open>routes.rs\<close>)\<close>

definition api_proxy :: "net \<Rightarrow> GatewayState \<Rightarrow> GwRequest \<Rightarrow> GwResponse" where
  "api_proxy n st req = forward n st Mgmt req"

definition openai_proxy :: "net \<Rightarrow> GatewayState \<Rightarrow> GwRequest \<Rightarrow> GwResponse" where
  "openai_proxy n st req = forward n st OpenAi req"

text \<open>\<open>/cluster/foo\<close> becomes \<open>/foo\<close>; a path that does not parse is left alone.\<close>

definition cluster_path :: "net \<Rightarrow> GwRequest \<Rightarrow> string option" where
  "cluster_path n req =
     (let pq = unwrap_or ''/'' (gq_path_and_query req);
          stripped = unwrap_or pq (strip_prefix ''/cluster'' pq);
          stripped' = (if stripped = [] then ''/'' else stripped)
      in case parse_uri n stripped' of Inl _ \<Rightarrow> gq_path_and_query req | Inr u \<Rightarrow> Some u)"

definition cluster_proxy :: "net \<Rightarrow> GatewayState \<Rightarrow> GwRequest \<Rightarrow> GwResponse" where
  "cluster_proxy n st req = forward n st CoordinatorUp (req \<lparr>gq_path_and_query := cluster_path n req\<rparr>)"

definition enroll_proxy :: "net \<Rightarrow> GatewayState \<Rightarrow> GwRequest \<Rightarrow> GwResponse" where
  "enroll_proxy n st req = forward n st Mgmt (req \<lparr>gq_path_and_query := Some ''/api/v1/enroll''\<rparr>)"

definition derive_public_base_url :: "HeaderMap \<Rightarrow> string option" where
  "derive_public_base_url headers =
     (let header = (\<lambda>k. Option.bind (header_get k headers) to_str);
          proto = unwrap_or ''http'' (header ''x-forwarded-proto'')
      in map_option (\<lambda>host. proto @ ''://'' @ host)
           (option_filter (\<lambda>s. s \<noteq> [])
             (map_option trim (option_or (header ''x-forwarded-host'') (header ''host'')))))"

definition check_health :: "http \<Rightarrow> string \<Rightarrow> bool" where
  "check_health h url =
     (case send h \<lparr>rq_method = GET, rq_url = url, rq_auth = None, rq_body = None\<rparr> of
        Inr r \<Rightarrow> is_success (rs_status r)
      | Inl _ \<Rightarrow> False)"

definition fetch_json :: "http \<Rightarrow> string \<Rightarrow> string option \<Rightarrow> json" where
  "fetch_json h url bearer =
     (case send h \<lparr>rq_method = GET, rq_url = url, rq_auth = bearer, rq_body = None\<rparr> of
        Inr r \<Rightarrow>
          if is_success (rs_status r)
          then (case read_json h r of
                  Inr j \<Rightarrow> j
                | Inl e \<Rightarrow> JObj [(''error'', JStr ''invalid_json''), (''message'', JStr e)])
          else JObj [(''error'', JStr ''upstream_status''), (''status'', JInt (int (rs_status r)))]
      | Inl e \<Rightarrow> JObj [(''error'', JStr ''unreachable''), (''message'', JStr e)])"

definition status_str :: "bool \<Rightarrow> string" where
  "status_str ok = (if ok then ''ok'' else ''down'')"

definition overview :: "http \<Rightarrow> GatewayState \<Rightarrow> HeaderMap \<Rightarrow> json" where
  "overview h st headers =
     (let mgmt_url = trim_end_matches (CHR ''/'') (gs_mgmt_url st);
          coord_url = trim_end_matches (CHR ''/'') (gs_coordinator_http_url st);
          openai_url = trim_end_matches (CHR ''/'') (gs_openai_url st);
          bearer = Option.bind (header_get ''authorization'' headers) to_str;
          settings = fetch_json h (mgmt_url @ ''/api/v1/settings'') bearer;
          saved_url = option_filter (\<lambda>s. s \<noteq> [])
            (map_option trim (jget_str ''public_base_url'' settings));
          derived_url = derive_public_base_url headers;
          status = (\<lambda>url. JObj [(''status'', JStr (status_str (check_health h (url @ ''/health''))))])
      in JObj [(''services'', JObj [(''gateway'', JObj [(''status'', JStr ''ok'')]),
                                    (''mgmt'', status mgmt_url),
                                    (''coordinator'', status coord_url),
                                    (''openai_api'', status openai_url)]),
               (''coordinator'', fetch_json h (coord_url @ ''/nodes'') None),
               (''mgmt'', fetch_json h (mgmt_url @ ''/api/v1/nodes'') bearer),
               (''openai_api'', fetch_json h (openai_url @ ''/v1/models'') None),
               (''settings'', settings),
               (''endpoint'', JObj [(''public_base_url'', jopt JStr saved_url),
                                    (''derived_public_base_url'', jopt JStr derived_url),
                                    (''effective_base_url'',
                                       JStr (unwrap_or [] (option_or saved_url derived_url)))])])"

text \<open>
  The proxy routes of the router: \<open>{*rest}\<close> matches a non-empty rest. Everything else is a static
  page, a health answer or 404, and reaches no upstream.
\<close>

datatype Route = ToApi | ToCluster | ToEnroll | ToV1 | Local

definition under :: "string \<Rightarrow> string \<Rightarrow> bool" where
  "under pre path \<longleftrightarrow> starts_with path pre \<and> path \<noteq> pre"

definition route :: "string \<Rightarrow> Route" where
  "route path =
     (if under ''/v1/'' path then ToV1
      else if under ''/api/'' path then ToApi
      else if under ''/cluster/'' path then ToCluster
      else if path = ''/enroll'' then ToEnroll
      else Local)"

definition path_of :: "GwRequest \<Rightarrow> string" where
  "path_of req = takeWhile (\<lambda>c. c \<noteq> CHR ''?'') (unwrap_or ''/'' (gq_path_and_query req))"

text \<open>One request through the router; \<open>local\<close> answers the routes that reach no upstream.\<close>

definition handle ::
  "http \<Rightarrow> net \<Rightarrow> (GwRequest \<Rightarrow> GwResponse) \<Rightarrow> time \<Rightarrow> time \<Rightarrow> time \<Rightarrow> GwRequest \<Rightarrow> GatewayState
    \<Rightarrow> GwResponse \<times> GatewayState" where
  "handle h n local t0 t1 t2 req st =
     (case route (path_of req) of
        ToApi \<Rightarrow> (api_proxy n st req, st)
      | ToCluster \<Rightarrow> (cluster_proxy n st req, st)
      | ToEnroll \<Rightarrow> (enroll_proxy n st req, st)
      | Local \<Rightarrow> (local req, st)
      | ToV1 \<Rightarrow>
          (case require_v1_api_key h t0 t1 t2 (gq_headers req) st of
             (Inl resp, st') \<Rightarrow> (resp, st')
           | (Inr _, st') \<Rightarrow> (openai_proxy n st' req, st')))"

text \<open>The local routes; the three files of \<open>ui/\<close> are compiled in.\<close>

record assets =
  ADMIN_HTML :: string
  ADMIN_CSS :: string
  ADMIN_JS :: string

definition static_asset :: "string \<Rightarrow> string \<Rightarrow> GwResponse" where
  "static_asset body mime =
     \<lparr>gr_status = 200, gr_headers = header_insert ''cache-control'' ''no-cache'' (header_insert ''content-type'' mime []),
      gr_body = Raw body\<rparr>"

definition json_page :: "json \<Rightarrow> GwResponse" where
  "json_page j =
     \<lparr>gr_status = 200, gr_headers = header_insert ''content-type'' ''application/json'' [], gr_body = JsonText j\<rparr>"

definition index_page :: "assets \<Rightarrow> GwResponse" where
  "index_page a =
     \<lparr>gr_status = 200, gr_headers = header_insert ''content-type'' ''text/html; charset=utf-8'' [],
      gr_body = Raw (ADMIN_HTML a)\<rparr>"

definition admin_css :: "assets \<Rightarrow> GwResponse" where
  "admin_css a = static_asset (ADMIN_CSS a) ''text/css; charset=utf-8''"

definition admin_js :: "assets \<Rightarrow> GwResponse" where
  "admin_js a = static_asset (ADMIN_JS a) ''application/javascript; charset=utf-8''"

definition health :: GwResponse where
  "health = json_page (JObj [(''status'', JStr ''ok'')])"

definition ready :: GwResponse where
  "ready = json_page (JObj [(''ready'', JBool True)])"

definition local_page :: "assets \<Rightarrow> http \<Rightarrow> GatewayState \<Rightarrow> GwRequest \<Rightarrow> GwResponse option" where
  "local_page a h st req =
     (let path = path_of req
      in if path = ''/'' then Some (index_page a)
         else if path = ''/admin.css'' then Some (admin_css a)
         else if path = ''/admin.js'' then Some (admin_js a)
         else if path = ''/health'' then Some health
         else if path = ''/ready'' then Some ready
         else if path = ''/overview'' then Some (json_page (overview h st (gq_headers req)))
         else None)"

text \<open>\<open>get\<close> routes answer \<open>HEAD\<close> without the body.\<close>

definition build_local :: "assets \<Rightarrow> http \<Rightarrow> GatewayState \<Rightarrow> GwRequest \<Rightarrow> GwResponse" where
  "build_local a h st req =
     (case local_page a h st req of
        None \<Rightarrow> \<lparr>gr_status = 404, gr_headers = [], gr_body = Raw []\<rparr>
      | Some page \<Rightarrow>
          if gq_method req = ''GET'' then page
          else if gq_method req = ''HEAD'' then page \<lparr>gr_body := Raw []\<rparr>
          else \<lparr>gr_status = 405, gr_headers = header_insert ''allow'' ''GET,HEAD'' [], gr_body = Raw []\<rparr>)"

text \<open>The middleware around every route: \<open>i\<close> is a fresh UUID, and every answer carries it.\<close>

definition request_id :: "string \<Rightarrow> GwResponse \<Rightarrow> GwResponse" where
  "request_id i resp = resp \<lparr>gr_headers := header_insert ''x-request-id'' i (gr_headers resp)\<rparr>"

definition gateway_app ::
  "assets \<Rightarrow> http \<Rightarrow> net \<Rightarrow> string \<Rightarrow> time \<Rightarrow> time \<Rightarrow> time \<Rightarrow> GwRequest \<Rightarrow> GatewayState \<Rightarrow> GwResponse \<times> GatewayState" where
  "gateway_app a h n i t0 t1 t2 req st = map_prod (request_id i) id (handle h n (build_local a h st) t0 t1 t2 req st)"

subsection \<open>The cache as a keyed store\<close>

definition cache_keys_ok :: "(string \<times> CachedAuth) list \<Rightarrow> bool" where
  "cache_keys_ok cache \<longleftrightarrow> distinct (map fst cache)"

interpretation auth_cache: keyed_store cache_keys_ok AList.update map_of "\<lambda>c. c"
  by unfold_locales (simp_all add: cache_keys_ok_def distinct_update update_conv')

lemma map_of_filter_Some:
  assumes "distinct (map fst al)" and "map_of (filter P al) k = Some v"
  shows "map_of al k = Some v"
  using assms map_of_SomeD [OF assms(2)] by simp

lemma cached_auth_hit:
  "map_of cache token = Some v \<Longrightarrow> fresh t0 v \<Longrightarrow>
   cached_auth t0 t2 answer token cache = (apply_verdict v, cache)"
  by (simp add: cached_auth_def)

lemma cached_auth_miss:
  assumes "option_filter (fresh t0) (map_of cache token) = None"
  shows "fst (cached_auth t0 t2 answer token cache) =
    (case answer of Inl _ \<Rightarrow> Inl (service_unavailable ''auth backend unreachable'')
                  | Inr v \<Rightarrow> apply_verdict v)"
  using assms by (simp add: cached_auth_def Let_def split: sum.split)

lemma cached_auth_keys: "cache_keys_ok cache \<Longrightarrow> cache_keys_ok (snd (cached_auth t0 t2 answer token cache))"
  by (auto simp: cached_auth_def Let_def cache_keys_ok_def distinct_update distinct_map_filter
      split: option.split sum.split)

lemma cached_auth_lookup:
  assumes "cache_keys_ok cache"
    and "map_of (snd (cached_auth t0 t2 answer token cache)) k = Some v"
  shows "map_of cache k = Some v \<or> (k = token \<and> answer = Inr v)"
proof (cases "option_filter (fresh t0) (map_of cache token)")
  case (Some c)
  with assms show ?thesis by (simp add: cached_auth_def)
next
  case None
  show ?thesis
  proof (cases answer)
    case (Inl e)
    with assms None show ?thesis by (simp add: cached_auth_def)
  next
    case (Inr verdict)
    have "distinct (map fst (AList.update token verdict cache))"
      using assms(1) by (simp add: cache_keys_ok_def distinct_update)
    moreover have "map_of (AList.update token verdict cache) k = Some v \<or>
        map_of (filter (\<lambda>(_, v). fresh t2 v) (AList.update token verdict cache)) k = Some v"
      using assms(2) None Inr by (auto simp: cached_auth_def Let_def split: if_splits)
    ultimately have "map_of (AList.update token verdict cache) k = Some v"
      using map_of_filter_Some by metis
    with Inr show ?thesis by (simp add: update_conv' split: if_splits)
  qed
qed

subsection \<open>What the check relies on, and how fast a revocation takes hold\<close>

text \<open>
  The contract of whoever answers the verify call: a verdict carries the time it was fetched at, and
  once a token is barred it is never accepted again, whatever else is asked meanwhile.
\<close>

definition old_verdicts :: "time \<Rightarrow> string \<Rightarrow> (string \<times> CachedAuth) list \<Rightarrow> bool" where
  "old_verdicts tr token cache \<longleftrightarrow>
     (\<forall>v. map_of cache token = Some v \<longrightarrow> ca_ok v \<longrightarrow> ca_fetched_at v \<le> tr)"

locale verdict_source =
  fixes ask :: "'m \<Rightarrow> string \<Rightarrow> time \<Rightarrow> VerifyError + CachedAuth"
    and after_ask :: "'m \<Rightarrow> string \<Rightarrow> time \<Rightarrow> 'm"
    and barred :: "'m \<Rightarrow> string \<Rightarrow> bool"
  assumes ask_time: "ask m tok t = Inr v \<Longrightarrow> ca_fetched_at v = t"
    and barred_ask: "barred m tok \<Longrightarrow> ask m tok t = Inr v \<Longrightarrow> \<not> ca_ok v"
    and barred_after: "barred m tok \<Longrightarrow> barred (after_ask m tok' t) tok"
begin

lemma barred_cache:
  assumes "barred m tok" and "cache_keys_ok cache" and "old_verdicts tr tok cache"
  shows "old_verdicts tr tok (snd (cached_auth t0 t2 (ask m tok' t1) tok' cache))"
  unfolding old_verdicts_def
proof (intro allI impI)
  fix v assume "map_of (snd (cached_auth t0 t2 (ask m tok' t1) tok' cache)) tok = Some v" "ca_ok v"
  with cached_auth_lookup [OF assms(2)] assms(1,3) show "ca_fetched_at v \<le> tr"
    by (metis barred_ask old_verdicts_def)
qed

lemma barred_rejected:
  assumes "barred m tok" and "old_verdicts tr tok cache" and "tr + secs 60 \<le> t0"
  shows "\<exists>resp. fst (cached_auth t0 t2 (ask m tok t1) tok cache) = Inl resp \<and> gr_status resp \<in> {401, 503}"
proof (cases "option_filter (fresh t0) (map_of cache tok)")
  case None
  show ?thesis
  proof (cases "ask m tok t1")
    case (Inr v)
    with assms(1) have "\<not> ca_ok v" by (rule barred_ask)
    with None Inr show ?thesis by (simp add: cached_auth_miss apply_verdict_def unauthorized_def json_error_def)
  qed (use None in \<open>simp add: cached_auth_miss service_unavailable_def json_error_def\<close>)
next
  case (Some v)
  then have v: "map_of cache tok = Some v" "fresh t0 v" by (simp_all add: option_filter_Some_iff)
  with assms(2,3) have "\<not> ca_ok v" by (auto simp: old_verdicts_def fresh_def)
  with v show ?thesis by (simp add: cached_auth_hit apply_verdict_def unauthorized_def json_error_def)
qed

text \<open>
  Verdicts fetched up to now are old enough: at the moment a token is barred every cached verdict
  was fetched before.
\<close>

lemma past_verdicts:
  assumes "\<And>k v. map_of cache k = Some v \<Longrightarrow> ca_fetched_at v \<le> now"
  shows "old_verdicts now tok cache"
  using assms by (auto simp: old_verdicts_def)

end

subsection \<open>The proxy\<close>

lemma header_get_strip:
  "header_get k (strip_hop_by_hop hs) = (if k \<in> set hop_by_hop then None else header_get k hs)"
  by (simp add: strip_hop_by_hop_def hop_by_hop_def)

subsection \<open>Properties\<close>


definition sample_gateway :: GatewayState where
  "sample_gateway = GatewayState_new ''http://mgmt:7100/'' ''http://coord:7001'' ''http://openai:7200'' (Some ''adm'')"

lemma bearer_sample: "extract_bearer [(''authorization'', ''Bearer mgc_aaaabbbbcccc'')] = Some ''mgc_aaaabbbbcccc''"
proof -
  have "trim ''mgc_aaaabbbbcccc'' = ''mgc_aaaabbbbcccc''" by (rule trim_id) (simp add: is_graph_def)
  then show ?thesis by (simp add: extract_bearer_def header_get_def to_str_def strip_prefix_def)
qed




text \<open>
  The proxy is transparent: for a target that parses and a body within the limit, the upstream
  gets the request's method and body at its own base URL followed by the request's path and query,
  with exactly the hop-by-hop headers removed, and its status, body and other headers come back; a
  request under \<open>/cluster\<close> reaches the coordinator without that prefix.
\<close>

theorem forward_transparent:
  assumes "parse_uri n (trim_end_matches (CHR ''/'') (base up st) @ pq) = Inr target"
    and "gq_path_and_query req = Some pq" and "gq_body req = Inr b" and "length b \<le> 50 * 1024 * 1024"
    and "transfer n (gq_method req) target (strip_hop_by_hop (gq_headers req)) b = Inr reply"
    and "pr_bytes reply = Inr out"
  shows "gr_status (forward n st up req) = pr_status reply \<and> gr_body (forward n st up req) = Raw out \<and>
    (\<forall>k. header_get k (gr_headers (forward n st up req)) =
           (if k \<in> set hop_by_hop then None else header_get k (pr_headers reply))) \<and>
    (\<forall>k. header_get k (strip_hop_by_hop (gq_headers req)) =
           (if k \<in> set hop_by_hop then None else header_get k (gq_headers req))) \<and>
    (\<forall>rest. pq = ''/cluster/'' @ rest \<and> parse_uri n (CHR ''/'' # rest) = Inr (CHR ''/'' # rest) \<longrightarrow>
       cluster_proxy n st req = forward n st CoordinatorUp (req \<lparr>gq_path_and_query := Some (CHR ''/'' # rest)\<rparr>))"
proof -
  have "cluster_path n req = Some (CHR ''/'' # rest)"
    if "pq = ''/cluster/'' @ rest" "parse_uri n (CHR ''/'' # rest) = Inr (CHR ''/'' # rest)" for rest
    using that assms(2) by (simp add: cluster_path_def strip_prefix_def)
  then have "\<forall>rest. pq = ''/cluster/'' @ rest \<and> parse_uri n (CHR ''/'' # rest) = Inr (CHR ''/'' # rest) \<longrightarrow>
      cluster_proxy n st req = forward n st CoordinatorUp (req \<lparr>gq_path_and_query := Some (CHR ''/'' # rest)\<rparr>)"
    by (simp add: cluster_proxy_def)
  moreover have "forward n st up req = \<lparr>gr_status = pr_status reply,
      gr_headers = strip_hop_by_hop (pr_headers reply), gr_body = Raw out\<rparr>"
    using assms by (simp add: forward_def to_bytes_def body_limit_def)
  ultimately show ?thesis by (simp add: header_get_strip)
qed

definition sample_net :: net where
  "sample_net =
     \<lparr>parse_uri = Inr,
      transfer = (\<lambda>m url hs b. if url = ''http://coord:7001/nodes''
        then Inr \<lparr>pr_status = 200, pr_headers = [(''te'', ''x''), (''etag'', ''y'')], pr_bytes = Inr ''[]''\<rparr>
        else Inl ''refused'')\<rparr>"

definition sample_request_nodes :: "string \<Rightarrow> GwRequest" where
  "sample_request_nodes pq =
     \<lparr>gq_method = ''GET'', gq_path_and_query = Some pq, gq_headers = [(''host'', ''h'')], gq_body = Inr []\<rparr>"

theorem forward_transparent_witness:
  "gr_status (forward sample_net sample_gateway CoordinatorUp (sample_request_nodes ''/nodes'')) = 200 \<and>
   header_get ''etag'' (gr_headers (forward sample_net sample_gateway CoordinatorUp
      (sample_request_nodes ''/nodes''))) = Some ''y''"
proof -
  have p: "parse_uri sample_net (trim_end_matches (CHR ''/'') (base CoordinatorUp sample_gateway) @ ''/nodes'')
      = Inr ''http://coord:7001/nodes''"
    by (simp add: sample_net_def sample_gateway_def GatewayState_new_def trim_end_matches_def)
  show ?thesis
    using forward_transparent [OF p, of "sample_request_nodes ''/nodes''" "[]"
        "\<lparr>pr_status = 200, pr_headers = [(''te'', ''x''), (''etag'', ''y'')], pr_bytes = Inr ''[]''\<rparr>" "''[]''"]
    by (simp add: sample_net_def sample_request_nodes_def hop_by_hop_def header_get_def)
qed

end
