(* ===== verification/AuthPath.thy ===== *)
theory AuthPath
  imports ApiKeys Gateway
begin

section \<open>The authentication path: gateway and management backend together\<close>

text \<open>
  The gateway's question \<open>POST /api/v1/keys/verify\<close> answered by the management backend's own
  handlers: admin check, body, \<open>keys_verify\<close>, JSON answer. JSON text is produced and parsed by
  \<open>serde_json\<close>; \<open>wire\<close> carries the two functions and \<open>wire_ok\<close> their law. The backend satisfies
  the contract \<open>verdict_source\<close> of the gateway's check, and \<open>sys_run\<close> runs both services through
  any interleaving of key commands and customer requests.
\<close>

subsection \<open>The verify endpoint\<close>

definition verify_json :: "VerifyResponse \<Rightarrow> json" where
  "verify_json v =
     JObj [(''ok'', JBool (vr_ok v)), (''key_id'', jopt JStr (vr_key_id v)),
           (''name'', jopt JStr (vr_name v)), (''scope'', jopt JStr (vr_scope v))]"

text \<open>What one call finds: whether the backend is reachable, its database and its clocks.\<close>

record Env =
  ev_up :: bool
  ev_db :: db
  ev_now :: time
  ev_db_now :: time

definition auth_headers :: "Request \<Rightarrow> HeaderMap" where
  "auth_headers rq = (case rq_auth rq of None \<Rightarrow> [] | Some v \<Rightarrow> [(''authorization'', v)])"

definition verify_endpoint ::
  "crypto \<Rightarrow> wire \<Rightarrow> string \<Rightarrow> Env \<Rightarrow> Request \<Rightarrow> KeysState \<Rightarrow> Response \<times> KeysState" where
  "verify_endpoint c w admin_key env rq s =
     (case require_admin admin_key (auth_headers rq) of
        Inl e \<Rightarrow> (\<lparr>rs_status = fst (into_response e), rs_text = Inr (render w (snd (into_response e)))\<rparr>, s)
      | Inr _ \<Rightarrow>
          (case Option.bind (rq_body rq) (jget_str ''token'') of
             None \<Rightarrow> (\<lparr>rs_status = 422, rs_text = Inr []\<rparr>, s)
           | Some tok \<Rightarrow>
               (case keys_verify c (ev_db env) (ev_now env) (ev_db_now env) tok s of
                  (Inl e, s') \<Rightarrow>
                    (\<lparr>rs_status = fst (into_response e), rs_text = Inr (render w (snd (into_response e)))\<rparr>, s')
                | (Inr v, s') \<Rightarrow> (\<lparr>rs_status = 200, rs_text = Inr (render w (verify_json v))\<rparr>, s'))))"

definition mgmt_http :: "crypto \<Rightarrow> wire \<Rightarrow> string \<Rightarrow> Env \<Rightarrow> KeysState \<Rightarrow> http" where
  "mgmt_http c w admin_key env s =
     \<lparr>send = (\<lambda>rq. if ev_up env then Inr (fst (verify_endpoint c w admin_key env rq s)) else Inl ''unreachable''),
      from_str = parse w, not_array = (\<lambda>_. [])\<rparr>"

subsection \<open>The backend as a verdict source\<close>

definition barred_keys :: "crypto \<Rightarrow> string \<Rightarrow> KeysState \<Rightarrow> bool" where
  "barred_keys c tok s \<longleftrightarrow>
     (\<forall>r \<in> set (ks_keys s). verify_password c tok (k_hash r) \<longrightarrow> k_revoked_at r \<noteq> None)"

definition ask_mgmt ::
  "crypto \<Rightarrow> wire \<Rightarrow> string \<Rightarrow> GatewayState \<Rightarrow> KeysState \<times> Env \<Rightarrow> string \<Rightarrow> time \<Rightarrow> VerifyError + CachedAuth" where
  "ask_mgmt c w admin_key g m tok t = verify_with_mgmt (mgmt_http c w admin_key (snd m) (fst m)) t g tok"

text \<open>The backend's state after the question, if it was sent and arrived.\<close>

definition after_mgmt ::
  "crypto \<Rightarrow> wire \<Rightarrow> string \<Rightarrow> GatewayState \<Rightarrow> KeysState \<times> Env \<Rightarrow> string \<Rightarrow> time \<Rightarrow> KeysState \<times> Env" where
  "after_mgmt c w admin_key g m tok t =
     (case gs_admin_api_key g of
        Some k \<Rightarrow>
          if ev_up (snd m)
          then (snd (verify_endpoint c w admin_key (snd m) (verify_request (gs_mgmt_url g) k tok) (fst m)), snd m)
          else m
      | None \<Rightarrow> m)"

definition barred_mgmt :: "crypto \<Rightarrow> wire \<Rightarrow> KeysState \<times> Env \<Rightarrow> string \<Rightarrow> bool" where
  "barred_mgmt c w m tok \<longleftrightarrow> wire_ok w \<and> barred_keys c (trim tok) (fst m)"

lemma barred_verify:
  assumes "barred_keys c (trim tok) s" and "keys_verify c db now db_now tok s = (Inr v, s')"
  shows "\<not> vr_ok v"
  using keys_verify_found [of c db now db_now tok s v] assms
  by (fastforce simp: barred_keys_def matches_def)

lemma verdict_of_verify_json: "ca_ok (verdict_of_body t (verify_json v)) \<longleftrightarrow> vr_ok v"
  by (simp add: verdict_of_body_def verify_json_def)

lemma ask_mgmt_verdict:
  assumes "ask_mgmt c w admin_key g (s, env) tok t = Inr v"
  obtains k body where "gs_admin_api_key g = Some k"
    and "read_json (mgmt_http c w admin_key env s)
      (fst (verify_endpoint c w admin_key env (verify_request (gs_mgmt_url g) k tok) s)) = Inr body"
    and "is_success (rs_status
      (fst (verify_endpoint c w admin_key env (verify_request (gs_mgmt_url g) k tok) s)))"
    and "v = verdict_of_body t body"
proof -
  obtain k where k: "gs_admin_api_key g = Some k"
    using assms by (cases "gs_admin_api_key g") (simp_all add: ask_mgmt_def verify_with_mgmt_def)
  show thesis
    using assms that [OF k]
    by (auto simp: ask_mgmt_def verify_with_mgmt_def k mgmt_http_def split: if_splits sum.splits)
qed

lemma error_not_success: "\<not> is_success (fst (into_response e))"
  by (cases e) (simp_all add: is_success_def)

lemma verify_endpoint_success:
  assumes "is_success (rs_status (fst (verify_endpoint c w admin_key env rq s)))"
    and "rq_body rq = Some (JObj [(''token'', JStr tok)])"
  shows "\<exists>v s'. keys_verify c (ev_db env) (ev_now env) (ev_db_now env) tok s = (Inr v, s') \<and>
    rs_text (fst (verify_endpoint c w admin_key env rq s)) = Inr (render w (verify_json v))"
  using assms
  by (auto simp: verify_endpoint_def error_not_success split: sum.splits prod.splits)

lemma barred_verify_row:
  "barred_keys c tok s \<Longrightarrow> barred_keys c tok (snd (keys_verify c' db now db_now raw s))"
  by (auto simp: barred_keys_def keys_verify_def Let_def split: option.split if_splits)

lemma barred_endpoint:
  "barred_keys c tok s \<Longrightarrow> barred_keys c tok (snd (verify_endpoint c' w admin_key env rq s))"
  using barred_verify_row [of c tok s c' "ev_db env" "ev_now env" "ev_db_now env"]
  by (auto simp: verify_endpoint_def split: sum.split option.split prod.split) (metis snd_conv)+

lemma barred_ask_mgmt:
  assumes "barred_mgmt c w (s, env) tok" and "ask_mgmt c w admin_key g (s, env) tok t = Inr v"
  shows "\<not> ca_ok v"
  using assms(2)
proof (rule ask_mgmt_verdict)
  fix k body
  let ?r = "verify_endpoint c w admin_key env (verify_request (gs_mgmt_url g) k tok) s"
  assume body: "read_json (mgmt_http c w admin_key env s) (fst ?r) = Inr body"
    and ok: "is_success (rs_status (fst ?r))" and v: "v = verdict_of_body t body"
  obtain r s' where r: "keys_verify c (ev_db env) (ev_now env) (ev_db_now env) tok s = (Inr r, s')"
    and tx: "rs_text (fst ?r) = Inr (render w (verify_json r))"
    using verify_endpoint_success [OF ok, of tok] by (auto simp: verify_request_def)
  have "body = verify_json r"
    using body tx assms(1) by (simp add: read_json_def mgmt_http_def barred_mgmt_def wire_ok_def)
  with v barred_verify [OF _ r] assms(1) show ?thesis
    by (simp add: verdict_of_verify_json barred_mgmt_def)
qed

interpretation mgmt: verdict_source
  "ask_mgmt c w admin_key g" "after_mgmt c w admin_key g" "barred_mgmt c w"
proof
  show "ask_mgmt c w admin_key g m tok t = Inr v \<Longrightarrow> ca_fetched_at v = t" for m tok t v
    by (cases m) (auto elim!: ask_mgmt_verdict simp: verdict_of_body_def)
  show "barred_mgmt c w m tok \<Longrightarrow> ask_mgmt c w admin_key g m tok t = Inr v \<Longrightarrow> \<not> ca_ok v" for m tok t v
    by (cases m) (simp add: barred_ask_mgmt)
  show "barred_mgmt c w m tok \<Longrightarrow> barred_mgmt c w (after_mgmt c w admin_key g m tok' t) tok" for m tok tok' t
    by (simp add: barred_mgmt_def after_mgmt_def barred_endpoint split: option.split)
qed

subsection \<open>Both services\<close>

datatype SysEvent = KeyEvent KeyCmd | GwEvent Env time time time HeaderMap

text \<open>The gateway asks only when the token has the right shape and no fresh verdict is cached.\<close>

definition asks :: "time \<Rightarrow> HeaderMap \<Rightarrow> GatewayState \<Rightarrow> string option" where
  "asks t0 headers g =
     option_filter (\<lambda>tok. starts_with tok ''mgc_'' \<and> \<not> length tok < 16 \<and>
       option_filter (fresh t0) (map_of (gs_auth_cache g) tok) = None) (extract_bearer headers)"

fun sys_step :: "crypto \<Rightarrow> wire \<Rightarrow> string \<Rightarrow> SysEvent \<Rightarrow> KeysState \<times> GatewayState \<Rightarrow> KeysState \<times> GatewayState" where
  "sys_step c w admin_key (KeyEvent cmd) (ks, g) = (apply_key_cmd c cmd ks, g)"
| "sys_step c w admin_key (GwEvent env t0 t1 t2 headers) (ks, g) =
     ((case asks t0 headers g of
         Some tok \<Rightarrow> fst (after_mgmt c w admin_key g (ks, env) tok t1)
       | None \<Rightarrow> ks),
      snd (require_v1_api_key (mgmt_http c w admin_key env ks) t0 t1 t2 headers g))"

definition sys_run ::
  "crypto \<Rightarrow> wire \<Rightarrow> string \<Rightarrow> SysEvent list \<Rightarrow> KeysState \<times> GatewayState \<Rightarrow> KeysState \<times> GatewayState" where
  "sys_run c w admin_key es s = run_cmds (sys_step c w admin_key) es s"

text \<open>A key command that brings no new key verifying the token.\<close>

fun harmless :: "crypto \<Rightarrow> string \<Rightarrow> SysEvent \<Rightarrow> bool" where
  "harmless c tok (KeyEvent (KeyCreate db now db_now en req)) \<longleftrightarrow>
     (\<forall>r h. en_random en = Some r \<longrightarrow> hash_password c (TOKEN_PREFIX @ r) (en_salt en) = Inr h \<longrightarrow>
            \<not> verify_password c tok h)"
| "harmless c tok _ \<longleftrightarrow> True"

lemma barred_revoke: "barred_keys c tok s \<Longrightarrow> barred_keys c tok (snd (keys_revoke db t j s))"
  by (auto simp: barred_keys_def keys_revoke_def split: option.split if_splits)

lemma barred_cmd:
  assumes "barred_keys c tok s" and "harmless c tok (KeyEvent cmd)"
  shows "barred_keys c tok (apply_key_cmd c cmd s)"
proof (cases cmd)
  case (KeyCreate db now db_now en req)
  with assms show ?thesis
    by (auto simp: barred_keys_def keys_create_def Let_def split: option.split sum.split)
next
  case (KeyRevoke db t j)
  with assms show ?thesis by (simp add: barred_revoke)
next
  case (KeyUpdate db now db_now j req)
  with assms show ?thesis
    by (auto simp: barred_keys_def keys_update_def updated_row_def Let_def split: option.split if_splits)
next
  case (KeyDelete db t j purge)
  with assms barred_revoke [of c tok s db t j] show ?thesis
    by (auto simp: barred_keys_def keys_delete_def split: option.split)
next
  case (KeyVerify db now db_now tok)
  with assms show ?thesis by (simp add: barred_verify_row)
qed

definition locked_out :: "crypto \<Rightarrow> time \<Rightarrow> string \<Rightarrow> KeysState \<times> GatewayState \<Rightarrow> bool" where
  "locked_out c tr tok s \<longleftrightarrow>
     barred_keys c tok (fst s) \<and> cache_keys_ok (gs_auth_cache (snd s)) \<and>
     old_verdicts tr tok (gs_auth_cache (snd s))"

lemma verify_with_mgmt_ask:
  "verify_with_mgmt (mgmt_http c w admin_key env ks) t g tok = ask_mgmt c w admin_key g (ks, env) tok t"
  by (simp add: ask_mgmt_def)

lemma require_cache:
  obtains "gs_auth_cache (snd (require_v1_api_key h t0 t1 t2 headers g)) = gs_auth_cache g"
  | tok where "gs_auth_cache (snd (require_v1_api_key h t0 t1 t2 headers g)) =
      snd (cached_auth t0 t2 (verify_with_mgmt h t1 g tok) tok (gs_auth_cache g))"
proof (cases "extract_bearer headers")
  case None
  with that(1) show thesis by (simp add: require_v1_api_key_def)
next
  case (Some tok)
  with that(1) that(2) [of tok] show thesis
    by (cases "\<not> starts_with tok ''mgc_'' \<or> length tok < 16")
      (auto simp: require_v1_api_key_def case_prod_unfold Let_def)
qed

lemma locked_out_step:
  assumes "wire_ok w" and "trim tok = tok" and "locked_out c tr tok s" and "harmless c tok e"
  shows "locked_out c tr tok (sys_step c w admin_key e s)"
proof (cases e)
  case (KeyEvent cmd)
  with assms show ?thesis by (cases s) (simp add: locked_out_def barred_cmd)
next
  case (GwEvent env t0 t1 t2 headers)
  obtain ks g where s: "s = (ks, g)" by fastforce
  have l: "barred_keys c tok ks" "cache_keys_ok (gs_auth_cache g)" "old_verdicts tr tok (gs_auth_cache g)"
    using assms(3) by (simp_all add: locked_out_def s)
  then have b: "barred_mgmt c w (ks, env) tok" using assms(1,2) by (simp add: barred_mgmt_def)
  have "barred_keys c tok (fst (sys_step c w admin_key e s))"
    using l(1) by (simp add: GwEvent s after_mgmt_def barred_endpoint split: option.split)
  moreover have "cache_keys_ok (gs_auth_cache (snd (sys_step c w admin_key e s))) \<and>
      old_verdicts tr tok (gs_auth_cache (snd (sys_step c w admin_key e s)))"
  proof (cases rule: require_cache [of "mgmt_http c w admin_key env ks" t0 t1 t2 headers g])
    case 1
    with l show ?thesis by (simp add: GwEvent s)
  next
    case (2 tok')
    with cached_auth_keys [OF l(2)] mgmt.barred_cache [OF b l(2,3), of t0 t2 admin_key g tok' t1]
    show ?thesis by (simp add: GwEvent s verify_with_mgmt_ask)
  qed
  ultimately show ?thesis by (simp add: locked_out_def)
qed

lemma locked_out_run:
  "wire_ok w \<Longrightarrow> trim tok = tok \<Longrightarrow> locked_out c tr tok s \<Longrightarrow> \<forall>e \<in> set es. harmless c tok e \<Longrightarrow>
   locked_out c tr tok (sys_run c w admin_key es s)"
  unfolding sys_run_def by (induction es arbitrary: s) (simp_all add: locked_out_step)

lemma locked_out_rejects:
  assumes "wire_ok w" and "locked_out c tr tok (ks, g)" and "extract_bearer headers = Some tok"
    and "tr + secs 60 \<le> t0"
  shows "\<exists>resp. fst (require_v1_api_key (mgmt_http c w admin_key env ks) t0 t1 t2 headers g) = Inl resp \<and>
    gr_status resp \<in> {401, 503}"
proof -
  have t: "trim tok = tok"
    using assms(3) by (auto simp: extract_bearer_def option_filter_Some_iff split: option.splits)
  with assms(1,2) have b: "barred_mgmt c w (ks, env) tok" by (simp add: barred_mgmt_def locked_out_def)
  have "old_verdicts tr tok (gs_auth_cache g)" using assms(2) by (simp add: locked_out_def)
  from mgmt.barred_rejected [OF b this assms(4), of t2 admin_key g t1] assms(3) show ?thesis
    by (auto simp: require_v1_api_key_def verify_with_mgmt_ask case_prod_unfold Let_def unauthorized_def
        json_error_def)
qed

subsection \<open>Sample values\<close>

definition bearer_headers :: "string \<Rightarrow> HeaderMap" where
  "bearer_headers tok = [(''authorization'', ''Bearer '' @ tok)]"

lemma graph_to_str: "list_all is_graph s \<Longrightarrow> to_str s = Some s"
  by (auto simp: to_str_def is_graph_def list_all_iff)

lemma to_str_append: "to_str (s @ t) = Some (s @ t) \<longleftrightarrow> to_str s = Some s \<and> to_str t = Some t"
  by (auto simp: to_str_def)

lemma extract_bearer_token:
  assumes "base64_text r"
  shows "extract_bearer (bearer_headers (TOKEN_PREFIX @ r)) = Some (TOKEN_PREFIX @ r)"
proof -
  have "list_all is_graph r" using assms by (simp add: base64_text_def)
  then have "to_str (''Bearer '' @ TOKEN_PREFIX @ r) = Some (''Bearer '' @ TOKEN_PREFIX @ r)"
    unfolding to_str_append by (simp add: graph_to_str) (simp add: to_str_def TOKEN_PREFIX_def)
  then show ?thesis
    unfolding extract_bearer_def bearer_headers_def
    by (simp add: header_get_def strip_prefix_append [of "''Bearer ''", simplified] token_shape [OF assms])
      (simp add: TOKEN_PREFIX_def)
qed

lemma gateway_ask_served:
  assumes "wire_ok w" and "to_str admin_key = Some admin_key" and "gs_admin_api_key g = Some admin_key"
    and "ev_up env"
    and "keys_verify c (ev_db env) (ev_now env) (ev_db_now env) tok s = (Inr v, s')"
  shows "verify_with_mgmt (mgmt_http c w admin_key env s) t g tok = Inr (verdict_of_body t (verify_json v))"
proof -
  have "require_admin admin_key [(''authorization'', ''Bearer '' @ admin_key)] = Inr ()"
    using require_admin_ok [of admin_key] assms(2) to_str_append [of "''Bearer ''" admin_key]
    by (simp add: to_str_def)
  then show ?thesis
    using assms by (simp add: verify_with_mgmt_def mgmt_http_def verify_endpoint_def verify_request_def
        bearer_auth_def auth_headers_def is_success_def read_json_def wire_ok_def)
qed

end
