(* ===== verification/Models.thy ===== *)
theory Models
  imports Mgmt_Base Clients
begin

section \<open>Model registry (\<open>handlers/models.rs\<close>) and reconciler (\<open>reconciler.rs\<close>)\<close>

text \<open>
  The \<open>models\<close> table, its admin handlers, the load command and the background pass that writes what
  the coordinator observes back into the table. Transactions are modelled as the code uses them: a
  handler that leaves early drops its transaction and changes nothing, and a \<open>COMMIT\<close> after a failed
  statement rolls back without an error, as PostgreSQL does. The reconciler reads a snapshot of the
  rows and then updates them one by one, so it takes the snapshot and the current table apart.
\<close>

subsection \<open>Data\<close>

record ModelRow =
  m_id :: string
  m_display_name :: string
  m_description :: string
  m_status :: string
  m_is_default :: bool
  m_hf_repo :: string
  m_hf_file :: string
  m_local_filename :: string
  m_loaded_on_node :: string
  m_created_at :: time
  m_updated_at :: time

record ModelsState =
  ms_models :: "ModelRow list"
  ms_audit :: "AuditRow list"

record ModelCreateRequest =
  mc_id :: string
  mc_display_name :: "string option"
  mc_description :: "string option"
  mc_status :: "string option"
  mc_is_default :: bool
  mc_hf_repo :: "string option"
  mc_hf_file :: "string option"
  mc_local_filename :: "string option"

record ModelUpdateRequest =
  mu_display_name :: "string option"
  mu_description :: "string option"
  mu_status :: "string option"
  mu_is_default :: "bool option"
  mu_hf_repo :: "string option"
  mu_hf_file :: "string option"
  mu_local_filename :: "string option"

definition status_values :: "string list" where
  "status_values = [''available'', ''loading'', ''downloading'', ''disabled'', ''error'']"

definition validate_status :: "string \<Rightarrow> ApiError + unit" where
  "validate_status s =
     (if s \<in> set status_values then Inr ()
      else Inl (BadRequest ''status must be one of: available, loading, downloading, disabled, error''))"

subsection \<open>Handlers\<close>

definition models_list :: "db \<Rightarrow> ModelsState \<Rightarrow> ApiError + ModelRow list" where
  "models_list db s =
     (case db 0 of
        Some e \<Rightarrow> Inl (Internal e)
      | None \<Rightarrow> Inr (sort_key (\<lambda>r. \<not> m_is_default r) (sort_key (\<lambda>r. - m_created_at r) (ms_models s))))"

text \<open>
  The end of a transaction: the audit insert is statement \<open>i\<close> and its failure aborts the
  transaction, so that the \<open>COMMIT\<close> (statement \<open>i + 1\<close>) keeps the old state.
\<close>

definition audit_and_commit ::
  "db \<Rightarrow> nat \<Rightarrow> AuditRow \<Rightarrow> 'a \<Rightarrow> ModelRow list \<Rightarrow> ModelsState \<Rightarrow> (ApiError + 'a) \<times> ModelsState" where
  "audit_and_commit db i row answer models' s =
     (case db (i + 1) of
        Some e \<Rightarrow> (Inl (Internal e), s)
      | None \<Rightarrow>
          (Inr answer,
           (case db i of
              Some _ \<Rightarrow> s
            | None \<Rightarrow> \<lparr>ms_models = models', ms_audit = ms_audit s @ [row]\<rparr>)))"

definition new_model :: "time \<Rightarrow> string \<Rightarrow> string \<Rightarrow> ModelCreateRequest \<Rightarrow> ModelRow" where
  "new_model db_now i status req =
     (let hf_file = unwrap_or [] (mc_hf_file req)
      in \<lparr>m_id = i, m_display_name = unwrap_or [] (mc_display_name req),
          m_description = unwrap_or [] (mc_description req), m_status = status,
          m_is_default = mc_is_default req, m_hf_repo = unwrap_or [] (mc_hf_repo req),
          m_hf_file = hf_file,
          m_local_filename = unwrap_or hf_file (option_filter (\<lambda>s. s \<noteq> []) (mc_local_filename req)),
          m_loaded_on_node = [], m_created_at = db_now, m_updated_at = db_now\<rparr>)"

definition clear_default :: "ModelRow \<Rightarrow> ModelRow" where
  "clear_default r = r \<lparr>m_is_default := False\<rparr>"

definition models_create ::
  "db \<Rightarrow> time \<Rightarrow> ModelCreateRequest \<Rightarrow> ModelsState \<Rightarrow> (ApiError + ModelRow) \<times> ModelsState" where
  "models_create db db_now req s =
     (let i = trim (mc_id req)
      in if i = [] then (Inl (BadRequest ''id must not be empty''), s)
         else let status = unwrap_or ''available'' (mc_status req)
         in (case validate_status status of
               Inl e \<Rightarrow> (Inl e, s)
             | Inr _ \<Rightarrow>
                 if unwrap_or [] (mc_hf_repo req) \<noteq> [] \<and> unwrap_or [] (mc_hf_file req) = []
                 then (Inl (BadRequest ''hf_file is required when hf_repo is set''), s)
                 else
                   (case (db 0, if mc_is_default req then db 1 else None, db 2) of
                      (Some e, _, _) \<Rightarrow> (Inl (Internal e), s)
                    | (_, Some e, _) \<Rightarrow> (Inl (Internal e), s)
                    | (_, _, Some e) \<Rightarrow> (Inl (Internal e), s)
                    | (None, None, None) \<Rightarrow>
                        if i \<in> m_id ` set (ms_models s)
                        then (Inl (Conflict (''model '' @ [CHR 0x27] @ i @ [CHR 0x27] @ '' already exists'')), s)
                        else let row = new_model db_now i status req;
                                 kept = (if mc_is_default req then map clear_default (ms_models s)
                                         else ms_models s)
                             in audit_and_commit db 3
                                  (audit_row db_now ''admin'' ''MODEL_CREATED'' i (JObj []))
                                  row (kept @ [row]) s)))"

definition updated_model :: "time \<Rightarrow> ModelUpdateRequest \<Rightarrow> ModelRow \<Rightarrow> ModelRow" where
  "updated_model db_now req r =
     r \<lparr>m_display_name := unwrap_or (m_display_name r) (mu_display_name req),
        m_description := unwrap_or (m_description r) (mu_description req),
        m_status := unwrap_or (m_status r) (mu_status req),
        m_is_default := unwrap_or (m_is_default r) (mu_is_default req),
        m_hf_repo := unwrap_or (m_hf_repo r) (mu_hf_repo req),
        m_hf_file := unwrap_or (m_hf_file r) (mu_hf_file req),
        m_local_filename := unwrap_or (m_local_filename r) (mu_local_filename req),
        m_updated_at := db_now\<rparr>"

definition models_update ::
  "db \<Rightarrow> time \<Rightarrow> string \<Rightarrow> ModelUpdateRequest \<Rightarrow> ModelsState \<Rightarrow> (ApiError + ModelRow) \<times> ModelsState" where
  "models_update db db_now i req s =
     (case (case mu_status req of Some st \<Rightarrow> validate_status st | None \<Rightarrow> Inr ()) of
        Inl e \<Rightarrow> (Inl e, s)
      | Inr _ \<Rightarrow>
          (case (db 0, if mu_is_default req = Some True then db 1 else None, db 2) of
             (Some e, _, _) \<Rightarrow> (Inl (Internal e), s)
           | (_, Some e, _) \<Rightarrow> (Inl (Internal e), s)
           | (_, _, Some e) \<Rightarrow> (Inl (Internal e), s)
           | (None, None, None) \<Rightarrow>
               (case find (\<lambda>r. m_id r = i) (ms_models s) of
                  None \<Rightarrow> (Inl NotFound, s)
                | Some r \<Rightarrow>
                    audit_and_commit db 3 (audit_row db_now ''admin'' ''MODEL_UPDATED'' i (JObj []))
                      (updated_model db_now req r)
                      (map (\<lambda>r. if m_id r = i then updated_model db_now req r
                                else if mu_is_default req = Some True then clear_default r
                                else r) (ms_models s)) s)))"

definition models_delete :: "db \<Rightarrow> time \<Rightarrow> string \<Rightarrow> ModelsState \<Rightarrow> (ApiError + json) \<times> ModelsState" where
  "models_delete db db_now i s =
     (case db 0 of
        Some e \<Rightarrow> (Inl (Internal e), s)
      | None \<Rightarrow>
          if i \<notin> m_id ` set (ms_models s) then (Inl NotFound, s)
          else (Inr (JObj [(''ok'', JBool True)]),
                \<lparr>ms_models = filter (\<lambda>r. m_id r \<noteq> i) (ms_models s),
                 ms_audit = write_audit (db 1) (audit_row db_now ''admin'' ''MODEL_DELETED'' i (JObj []))
                   (ms_audit s)\<rparr>))"

subsection \<open>Loading a model onto a worker\<close>

definition is_ascii_alphanumeric :: "char \<Rightarrow> bool" where
  "is_ascii_alphanumeric c \<longleftrightarrow>
     (let n = (of_char c :: nat) in 48 \<le> n \<and> n \<le> 57 \<or> 65 \<le> n \<and> n \<le> 90 \<or> 97 \<le> n \<and> n \<le> 122)"

definition peer_of :: "string \<Rightarrow> json \<Rightarrow> string option" where
  "peer_of node_id n =
     (if unwrap_or [] (jget_str ''node_id'' n) = node_id then None
      else let host = unwrap_or [] (option_or (option_filter (\<lambda>s. s \<noteq> []) (jget_str ''wg_ip'' n))
                        (jget_str ''public_ip'' n));
               port = unwrap_or 50052 (Option.bind (jget ''rpc_port'' n) as_u64)
           in if host = [] then None else Some (host @ '':'' @ show_nat (unat port)))"

definition peers_of :: "CoordClient \<Rightarrow> bool \<Rightarrow> string \<Rightarrow> string list" where
  "peers_of coord multi_node node_id =
     (if multi_node then
        (case CoordClient_eligible_nodes coord of
           Inr v \<Rightarrow> unwrap_or [] (map_option (List.map_filter (peer_of node_id))
                      (Option.bind (jget ''nodes'' v) as_array))
         | Inl e \<Rightarrow> [])
      else [])"

definition load_body :: "ModelRow \<Rightarrow> string \<Rightarrow> string list \<Rightarrow> json" where
  "load_body model token peers =
     JObj [(''model_id'', JStr (m_id model)), (''hf_repo'', JStr (m_hf_repo model)),
           (''hf_file'', JStr (m_hf_file model)), (''hf_token'', JStr token),
           (''local_filename'',
              JStr (if m_local_filename model = [] then m_hf_file model else m_local_filename model)),
           (''peers'', JArr (map JStr peers))]"

definition coord_load_error :: "ClientError \<Rightarrow> ApiError" where
  "coord_load_error e =
     (case e of
        Upstream service status body \<Rightarrow>
          Internal (''coordinator rejected load (status='' @ show_nat status @ ''): '' @ body)
      | _ \<Rightarrow> Internal (''coordinator unreachable: '' @ ClientError_to_string e))"

text \<open>\<open>settings\<close> is the key-value table of the cluster settings.\<close>

definition models_load ::
  "http \<Rightarrow> string \<Rightarrow> (string \<times> json) list \<Rightarrow> db \<Rightarrow> time \<Rightarrow> string \<Rightarrow> string \<Rightarrow> bool \<Rightarrow> ModelsState
    \<Rightarrow> (ApiError + json) \<times> ModelsState" where
  "models_load h coordinator_endpoint settings db db_now i node_id multi_node s =
     (case db 0 of
        Some e \<Rightarrow> (Inl (Internal e), s)
      | None \<Rightarrow>
          (case find (\<lambda>r. m_id r = i) (ms_models s) of
             None \<Rightarrow> (Inl NotFound, s)
           | Some model \<Rightarrow>
               if m_hf_repo model = [] \<or> m_hf_file model = []
               then (Inl (BadRequest (''model has no hf_repo/hf_file '' @ [CHR 0xE2, CHR 0x80, CHR 0x94]
                       @ '' set them before calling load'')), s)
               else (case db 1 of
                       Some e \<Rightarrow> (Inl (Internal e), s)
                     | None \<Rightarrow>
                         let token = unwrap_or [] (Option.bind (map_of settings ''huggingface_api_token'') as_str)
                         in if \<not> list_all (\<lambda>b. is_ascii_alphanumeric b \<or> b = CHR ''-'') node_id
                            then (Inl (BadRequest ''node_id must be a UUID''), s)
                            else
                              let coord = CoordClient_new coordinator_endpoint h;
                                  body = load_body model token (peers_of coord multi_node node_id)
                              in (case CoordClient_load_model coord node_id body of
                                    Inl e \<Rightarrow> (Inl (coord_load_error e), s)
                                  | Inr _ \<Rightarrow>
                                      (case db 2 of
                                         Some e \<Rightarrow> (Inl (Internal e), s)
                                       | None \<Rightarrow>
                                           (Inr (JObj [(''ok'', JBool True), (''model_id'', JStr i),
                                                       (''node_id'', JStr node_id),
                                                       (''status'', JStr ''downloading'')]),
                                            \<lparr>ms_models = map (\<lambda>r. if m_id r = i
                                               then r \<lparr>m_status := ''downloading'', m_loaded_on_node := node_id,
                                                       m_updated_at := db_now\<rparr> else r) (ms_models s),
                                             ms_audit = write_audit (db 3)
                                               (audit_row db_now ''admin'' ''MODEL_LOAD_REQUESTED'' i
                                                 (JObj [(''node_id'', JStr node_id)])) (ms_audit s)\<rparr>))))))"

subsection \<open>The reconciler (\<open>reconciler.rs\<close>)\<close>

fun collect_loaded :: "json list \<Rightarrow> (string \<times> string) list \<Rightarrow> (string \<times> string) list" where
  "collect_loaded [] loaded = loaded"
| "collect_loaded (n # ns) loaded =
     (let node_id = unwrap_or [] (jget_str ''node_id'' n);
          model = unwrap_or [] (jget_str ''current_model'' n)
      in collect_loaded ns
           (if node_id = [] \<or> model = [] then loaded
            else if map_of loaded model = None then loaded @ [(model, node_id)]
            else loaded))"

definition STUCK_THRESHOLD :: time where
  "STUCK_THRESHOLD = secs 300"

text \<open>\<open>to_std\<close> fails on a negative duration.\<close>

definition is_stuck :: "time \<Rightarrow> time \<Rightarrow> bool" where
  "is_stuck now since \<longleftrightarrow> 0 \<le> now - since \<and> now - since > STUCK_THRESHOLD"

definition in_flight :: "string \<Rightarrow> bool" where
  "in_flight status \<longleftrightarrow> status = ''downloading'' \<or> status = ''loading''"

definition reconciled :: "time \<Rightarrow> string option \<Rightarrow> ModelRow \<Rightarrow> string \<times> string" where
  "reconciled now observed r =
     (case (observed, in_flight (m_status r)) of
        (Some node, True) \<Rightarrow> (node, ''available'')
      | (Some node, False) \<Rightarrow> (node, m_status r)
      | (None, True) \<Rightarrow>
          if is_stuck now (m_updated_at r) then ([], ''error'') else (m_loaded_on_node r, m_status r)
      | (None, False) \<Rightarrow> ([], m_status r))"

definition set_observed :: "time \<Rightarrow> string \<Rightarrow> string \<Rightarrow> string \<Rightarrow> ModelRow list \<Rightarrow> ModelRow list" where
  "set_observed db_now i node status rows =
     map (\<lambda>r. if m_id r = i
              then r \<lparr>m_loaded_on_node := node, m_status := status, m_updated_at := db_now\<rparr> else r) rows"

text \<open>
  The loop over the snapshot; statement \<open>i\<close> is the first of the current row. A failed update ends
  the pass with an error, a failed audit insert is dropped.
\<close>

fun reconcile_rows ::
  "db \<Rightarrow> time \<Rightarrow> time \<Rightarrow> (string \<times> string) list \<Rightarrow> nat \<Rightarrow> ModelRow list \<Rightarrow> ModelsState
    \<Rightarrow> (string + unit) \<times> ModelsState" where
  "reconcile_rows db now db_now loaded i [] s = (Inr (), s)"
| "reconcile_rows db now db_now loaded i (r # rs) s =
     (let (new_node, new_status) = reconciled now (map_of loaded (m_id r)) r
      in if new_node \<noteq> m_loaded_on_node r \<or> new_status \<noteq> m_status r
         then (case db i of
                 Some e \<Rightarrow> (Inl e, s)
               | None \<Rightarrow>
                   reconcile_rows db now db_now loaded (i + 2) rs
                     \<lparr>ms_models = set_observed db_now (m_id r) new_node new_status (ms_models s),
                      ms_audit = write_audit (db (i + 1))
                        (audit_row db_now ''reconciler'' ''MODEL_RECONCILED'' (m_id r)
                          (JObj [(''previous_node'', JStr (m_loaded_on_node r)),
                                 (''current_node'', JStr new_node),
                                 (''previous_status'', JStr (m_status r)),
                                 (''current_status'', JStr new_status)])) (ms_audit s)\<rparr>)
         else reconcile_rows db now db_now loaded (i + 2) rs s)"

definition live_rows :: "ModelRow list \<Rightarrow> ModelRow list" where
  "live_rows rows = filter (\<lambda>r. m_status r \<notin> {''disabled'', ''error''}) rows"

definition observed_models :: "json \<Rightarrow> (string \<times> string) list" where
  "observed_models body =
     collect_loaded (unwrap_or [] (Option.bind (jget ''nodes'' body) as_array)) []"

definition reconcile_once ::
  "CoordClient \<Rightarrow> db \<Rightarrow> time \<Rightarrow> time \<Rightarrow> ModelsState \<Rightarrow> (string + unit) \<times> ModelsState" where
  "reconcile_once coord db now db_now s =
     (case CoordClient_list_nodes coord of
        Inl e \<Rightarrow> (Inl (ClientError_to_string e), s)
      | Inr body \<Rightarrow>
          (case db 0 of
             Some e \<Rightarrow> (Inl e, s)
           | None \<Rightarrow> reconcile_rows db now db_now (observed_models body) 1 (live_rows (ms_models s)) s))"

subsection \<open>Sequences of calls\<close>

datatype ModelCmd =
    ModelCreate db time ModelCreateRequest
  | ModelUpdate db time string ModelUpdateRequest
  | ModelDelete db time string
  | ModelLoad http string "(string \<times> json) list" db time string string bool
  | Reconcile CoordClient db time time

fun apply_model_cmd :: "ModelCmd \<Rightarrow> ModelsState \<Rightarrow> ModelsState" where
  "apply_model_cmd (ModelCreate db t req) s = snd (models_create db t req s)"
| "apply_model_cmd (ModelUpdate db t i req) s = snd (models_update db t i req s)"
| "apply_model_cmd (ModelDelete db t i) s = snd (models_delete db t i s)"
| "apply_model_cmd (ModelLoad h ep settings db t i node multi) s = snd (models_load h ep settings db t i node multi s)"
| "apply_model_cmd (Reconcile coord db now t) s = snd (reconcile_once coord db now t s)"

subsection \<open>Invariant\<close>

definition row_ok :: "ModelRow \<Rightarrow> bool" where
  "row_ok r \<longleftrightarrow> m_id r \<noteq> [] \<and> m_status r \<in> set status_values"

definition rows_inv :: "ModelRow list \<Rightarrow> bool" where
  "rows_inv rows \<longleftrightarrow>
     distinct (map m_id rows) \<and> (\<forall>r \<in> set rows. row_ok r) \<and> length (filter m_is_default rows) \<le> 1"

definition models_inv :: "ModelsState \<Rightarrow> bool" where
  "models_inv s \<longleftrightarrow> rows_inv (ms_models s)"

lemma filter_map_le: "(\<And>x. P (f x) \<Longrightarrow> P x) \<Longrightarrow> length (filter P (map f xs)) \<le> length (filter P xs)"
  by (induction xs) (auto intro: le_SucI)

text \<open>An edit that keeps ids and valid statuses and turns no default flag on keeps the invariant.\<close>

lemma rows_inv_map:
  assumes "rows_inv rows" and "\<And>r. m_id (f r) = m_id r" and "\<And>r. row_ok r \<Longrightarrow> row_ok (f r)"
    and "\<And>r. m_is_default (f r) \<Longrightarrow> m_is_default r"
  shows "rows_inv (map f rows)"
proof -
  have "map m_id (map f rows) = map m_id rows" by (simp add: comp_def assms(2))
  moreover have "length (filter m_is_default (map f rows)) \<le> length (filter m_is_default rows)"
    by (rule filter_map_le) (rule assms(4))
  ultimately show ?thesis using assms(1,3) unfolding rows_inv_def by (auto simp only: set_map)
qed

lemma clear_default_simps [simp]:
  "m_id (clear_default r) = m_id r" "row_ok (clear_default r) = row_ok r" "\<not> m_is_default (clear_default r)"
  by (simp_all add: clear_default_def row_ok_def)

lemma rows_inv_snoc:
  assumes "rows_inv rows" and "row_ok r" and "m_id r \<notin> m_id ` set rows"
    and "m_is_default r \<Longrightarrow> filter m_is_default rows = []"
  shows "rows_inv (rows @ [r])"
  using assms by (cases "m_is_default r") (auto simp: rows_inv_def)

lemma audit_and_commit_inv:
  "models_inv s \<Longrightarrow> rows_inv rows \<Longrightarrow> models_inv (snd (audit_and_commit db i row a rows s))"
  by (simp add: audit_and_commit_def models_inv_def split: option.split)

lemma audit_and_commit_prefix: "prefix (ms_audit s) (ms_audit (snd (audit_and_commit db i row a rows s)))"
  by (simp add: audit_and_commit_def split: option.split)

lemma validate_status_ok: "validate_status st = Inr u \<longleftrightarrow> st \<in> set status_values"
  by (simp add: validate_status_def)

lemma new_model_facts [simp]:
  "m_id (new_model t i st req) = i" "m_status (new_model t i st req) = st"
  "m_is_default (new_model t i st req) = mc_is_default req"
  by (simp_all add: new_model_def Let_def)

lemma models_create_cases:
  obtains e where "models_create db t req s = (Inl e, s)"
  | "models_create db t req s = audit_and_commit db 3
       (audit_row t ''admin'' ''MODEL_CREATED'' (trim (mc_id req)) (JObj []))
       (new_model t (trim (mc_id req)) (unwrap_or ''available'' (mc_status req)) req)
       ((if mc_is_default req then map clear_default (ms_models s) else ms_models s)
         @ [new_model t (trim (mc_id req)) (unwrap_or ''available'' (mc_status req)) req]) s"
    and "trim (mc_id req) \<noteq> []" and "unwrap_or ''available'' (mc_status req) \<in> set status_values"
    and "trim (mc_id req) \<notin> m_id ` set (ms_models s)"
proof (cases "\<exists>e. models_create db t req s = (Inl e, s)")
  case True
  with that(1) show thesis by blast
next
  case False
  note err = False
  let ?st = "unwrap_or ''available'' (mc_status req)"
  have ne: "trim (mc_id req) \<noteq> []" using err by (auto simp: models_create_def)
  have st: "?st \<in> set status_values"
    using err ne by (cases "?st \<in> set status_values") (simp_all add: models_create_def Let_def validate_status_def)
  then have v: "validate_status ?st = Inr ()" by (simp add: validate_status_def)
  have hf: "\<not> (unwrap_or [] (mc_hf_repo req) \<noteq> [] \<and> unwrap_or [] (mc_hf_file req) = [])"
    using err ne v by (intro notI) (simp add: models_create_def Let_def)
  note eq = models_create_def [of db t req s, unfolded Let_def v sum.case if_not_P [OF ne] if_not_P [OF hf]]
  have d: "db 0 = None" "(if mc_is_default req then db 1 else None) = None" "db 2 = None"
    using err unfolding eq by (auto split: option.splits)
  have new: "trim (mc_id req) \<notin> m_id ` set (ms_models s)"
    using err unfolding eq d by (auto split: if_splits)
  show thesis by (rule that(2) [OF _ ne st new]) (simp add: eq d new)
qed

lemma models_create_inv:
  assumes "models_inv s"
  shows "models_inv (snd (models_create db t req s))"
proof (cases rule: models_create_cases [of db t req s])
  case (1 e)
  with assms show ?thesis by simp
next
  case 2
  let ?new = "new_model t (trim (mc_id req)) (unwrap_or ''available'' (mc_status req)) req"
  let ?kept = "if mc_is_default req then map clear_default (ms_models s) else ms_models s"
  have "rows_inv ?kept"
    using assms rows_inv_map [of "ms_models s" clear_default] by (simp add: models_inv_def)
  moreover have "filter m_is_default ?kept = []" if "m_is_default ?new"
    using that by (simp add: filter_empty_conv)
  ultimately have "rows_inv (?kept @ [?new])"
    using 2(2-4) by (intro rows_inv_snoc) (auto simp: row_ok_def)
  with assms show ?thesis unfolding 2(1) by (rule audit_and_commit_inv)
qed

lemma one_default_map:
  assumes "distinct (map m_id rows)" and "\<And>r. m_is_default (f r) \<Longrightarrow> m_id r = i"
  shows "length (filter m_is_default (map f rows)) \<le> 1"
  using assms(1)
proof (induction rows)
  case (Cons r rows)
  show ?case
  proof (cases "m_is_default (f r)")
    case True
    then have "\<forall>r' \<in> set rows. \<not> m_is_default (f r')"
      using Cons.prems assms(2) by (metis image_eqI distinct.simps(2) list.simps(9) set_map)
    then have "filter m_is_default (map f rows) = []" by (simp add: filter_empty_conv)
    then show ?thesis by simp
  qed (use Cons in simp)
qed simp

lemma updated_model_facts [simp]:
  "m_id (updated_model t req r) = m_id r"
  "m_status (updated_model t req r) = unwrap_or (m_status r) (mu_status req)"
  "m_is_default (updated_model t req r) = unwrap_or (m_is_default r) (mu_is_default req)"
  by (simp_all add: updated_model_def)

lemma updated_rows_inv:
  assumes "rows_inv rows" and "\<And>st. mu_status req = Some st \<Longrightarrow> st \<in> set status_values"
  shows "rows_inv (map (\<lambda>r. if m_id r = i then updated_model t req r
      else if mu_is_default req = Some True then clear_default r else r) rows)"
    (is "rows_inv (map ?f rows)")
proof -
  have ids: "m_id (?f r) = m_id r" for r by simp
  have ok: "row_ok (?f r)" if "row_ok r" for r
    using that assms(2) by (cases "mu_status req") (auto simp: row_ok_def clear_default_def)
  show ?thesis
  proof (cases "mu_is_default req = Some True")
    case True
    have "length (filter m_is_default (map ?f rows)) \<le> 1"
      using assms(1) True by (intro one_default_map [where i = i]) (auto simp: rows_inv_def split: if_splits)
    moreover have "map m_id (map ?f rows) = map m_id rows" by (simp add: comp_def)
    ultimately show ?thesis using assms(1) ok unfolding rows_inv_def by (auto simp only: set_map)
  next
    case False
    show ?thesis
    proof (rule rows_inv_map [OF assms(1) ids ok])
      show "m_is_default r" if "m_is_default (?f r)" for r
        using that False by (cases "mu_is_default req") (auto split: if_splits)
    qed
  qed
qed

lemma models_update_inv:
  assumes "models_inv s"
  shows "models_inv (snd (models_update db t i req s))"
proof (cases "case mu_status req of Some st \<Rightarrow> validate_status st | None \<Rightarrow> Inr ()")
  case (Inr u)
  then have "st \<in> set status_values" if "mu_status req = Some st" for st
    using that by (simp add: validate_status_ok)
  with assms have "rows_inv (map (\<lambda>r. if m_id r = i then updated_model t req r
      else if mu_is_default req = Some True then clear_default r else r) (ms_models s))"
    by (intro updated_rows_inv) (simp_all add: models_inv_def)
  with assms Inr show ?thesis
    by (simp add: models_update_def audit_and_commit_inv split: option.split)
qed (use assms in \<open>simp add: models_update_def\<close>)

lemma models_delete_inv: "models_inv s \<Longrightarrow> models_inv (snd (models_delete db t i s))"
proof -
  have "length (filter m_is_default (filter (\<lambda>r. m_id r \<noteq> i) rows)) \<le> length (filter m_is_default rows)" for rows
    by (induction rows) (auto intro: le_SucI)
  then show "models_inv s \<Longrightarrow> ?thesis"
    by (auto simp: models_delete_def models_inv_def rows_inv_def distinct_map_filter split: option.split
        intro: le_trans)
qed

lemma edit_status_inv:
  assumes "rows_inv rows" and "status \<in> set status_values"
  shows "rows_inv (map (\<lambda>r. if m_id r = i then r \<lparr>m_loaded_on_node := n, m_status := status, m_updated_at := t\<rparr> else r) rows)"
    and "rows_inv (map (\<lambda>r. if m_id r = i then r \<lparr>m_status := status, m_loaded_on_node := n, m_updated_at := t\<rparr> else r) rows)"
  using assms by (auto intro!: rows_inv_map simp: row_ok_def split: if_splits)

lemma models_load_inv: "models_inv s \<Longrightarrow> models_inv (snd (models_load h ep st db t i node multi s))"
  using edit_status_inv(2) [where rows = "ms_models s" and status = "''downloading''"]
  by (simp add: models_load_def Let_def models_inv_def status_values_def split: option.split sum.split)

subsection \<open>A pass of the reconciler\<close>

lemma reconciled_simps:
  "reconciled now (Some n) r = (n, if in_flight (m_status r) then ''available'' else m_status r)"
  "reconciled now None r =
     (if in_flight (m_status r)
      then if is_stuck now (m_updated_at r) then ([], ''error'') else (m_loaded_on_node r, m_status r)
      else ([], m_status r))"
  by (simp_all add: reconciled_def split: bool.split)

lemma reconciled_status:
  "m_status r \<in> set status_values \<Longrightarrow> snd (reconciled now obs r) \<in> set status_values"
  by (cases obs) (auto simp: reconciled_simps status_values_def)

lemma reconcile_rows_inv:
  "models_inv s \<Longrightarrow> \<forall>r \<in> set rs. m_status r \<in> set status_values \<Longrightarrow>
   models_inv (snd (reconcile_rows db now t loaded i rs s))"
proof (induction rs arbitrary: i s)
  case (Cons r rs)
  obtain n st where d: "reconciled now (map_of loaded (m_id r)) r = (n, st)" by fastforce
  have "st \<in> set status_values"
    using reconciled_status [of r now "map_of loaded (m_id r)"] Cons.prems(2) d by simp
  then have "models_inv \<lparr>ms_models = set_observed t (m_id r) n st (ms_models s), ms_audit = a\<rparr>" for a
    using Cons.prems(1) edit_status_inv(1) by (simp add: models_inv_def set_observed_def)
  with Cons d show ?case by (simp split: option.split)
qed simp

lemma live_rows_ok: "models_inv s \<Longrightarrow> r \<in> set (live_rows (ms_models s)) \<Longrightarrow> m_status r \<in> set status_values"
  by (auto simp: live_rows_def models_inv_def rows_inv_def row_ok_def)

lemma reconcile_once_inv: "models_inv s \<Longrightarrow> models_inv (snd (reconcile_once coord db now t s))"
  using live_rows_ok [of s] by (auto simp: reconcile_once_def intro!: reconcile_rows_inv split: sum.split option.split)

lemma reconcile_rows_audit: "prefix (ms_audit s) (ms_audit (snd (reconcile_rows db now t loaded i rs s)))"
proof (induction rs arbitrary: i s)
  case (Cons r rs)
  obtain n st where d: "reconciled now (map_of loaded (m_id r)) r = (n, st)" by fastforce
  show ?case
  proof (cases "(n \<noteq> m_loaded_on_node r \<or> st \<noteq> m_status r) \<and> db i = None")
    case True
    let ?s = "\<lparr>ms_models = set_observed t (m_id r) n st (ms_models s),
      ms_audit = write_audit (db (i + 1))
        (audit_row t ''reconciler'' ''MODEL_RECONCILED'' (m_id r)
          (JObj [(''previous_node'', JStr (m_loaded_on_node r)), (''current_node'', JStr n),
                 (''previous_status'', JStr (m_status r)), (''current_status'', JStr st)])) (ms_audit s)\<rparr>"
    have "prefix (ms_audit s) (ms_audit ?s)" by simp
    also have "prefix (ms_audit ?s) (ms_audit (snd (reconcile_rows db now t loaded (i + 2) rs ?s)))"
      by (rule Cons.IH)
    finally show ?thesis using True d by simp
  next
    case False
    with d Cons.IH show ?thesis by (auto split: option.split)
  qed
qed simp

lemma models_cmd_inv: "models_inv s \<Longrightarrow> models_inv (apply_model_cmd cmd s)"
  by (cases cmd)
    (simp_all add: models_create_inv models_update_inv models_delete_inv models_load_inv reconcile_once_inv)

lemma models_cmd_audit: "prefix (ms_audit s) (ms_audit (apply_model_cmd cmd s))"
proof (cases cmd)
  case (ModelCreate db t req)
  then show ?thesis
    by (cases rule: models_create_cases [of db t req s]) (simp_all add: audit_and_commit_prefix)
next
  case (ModelUpdate db t i req)
  then show ?thesis by (simp add: models_update_def audit_and_commit_prefix split: sum.split option.split)
next
  case (ModelDelete db t i)
  then show ?thesis by (simp add: models_delete_def split: option.split)
next
  case (ModelLoad h ep settings db t i node multi)
  then show ?thesis by (simp add: models_load_def Let_def split: option.split sum.split)
next
  case (Reconcile coord db now t)
  then show ?thesis by (simp add: reconcile_once_def reconcile_rows_audit split: option.split sum.split)
qed

interpretation models: audited_machine apply_model_cmd models_inv ms_audit
  by unfold_locales (simp_all add: models_cmd_inv models_cmd_audit)

text \<open>What a pass does to one row, given the row it saw in its snapshot.\<close>

definition reconcile_row :: "time \<Rightarrow> time \<Rightarrow> (string \<times> string) list \<Rightarrow> ModelRow \<Rightarrow> ModelRow \<Rightarrow> ModelRow" where
  "reconcile_row now t loaded q r =
     (let (n, st) = reconciled now (map_of loaded (m_id q)) q
      in if n \<noteq> m_loaded_on_node q \<or> st \<noteq> m_status q
         then r \<lparr>m_loaded_on_node := n, m_status := st, m_updated_at := t\<rparr> else r)"

lemma reconcile_row_id [simp]: "m_id (reconcile_row now t loaded q r) = m_id r"
  by (simp add: reconcile_row_def split: prod.split)

lemma reconcile_rows_models:
  assumes "\<And>j. db j = None" and "distinct (map m_id rs)"
  shows "fst (reconcile_rows db now t loaded i rs s) = Inr () \<and>
    ms_models (snd (reconcile_rows db now t loaded i rs s)) =
      map (\<lambda>r. case find (\<lambda>q. m_id q = m_id r) rs of Some q \<Rightarrow> reconcile_row now t loaded q r | None \<Rightarrow> r)
        (ms_models s)"
  using assms(2)
proof (induction rs arbitrary: i s)
  case (Cons q rs)
  obtain n st where d: "reconciled now (map_of loaded (m_id q)) q = (n, st)" by fastforce
  define edit where "edit r = (if m_id r = m_id q then reconcile_row now t loaded q r else r)" for r
  have none: "find (\<lambda>x. m_id x = m_id q) rs = None"
    using Cons.prems by (simp add: find_None_all image_iff) metis
  have e: "m_id r = m_id q \<Longrightarrow> edit r = reconcile_row now t loaded q r" "m_id r \<noteq> m_id q \<Longrightarrow> edit r = r" for r
    by (simp_all add: edit_def)
  have one: "(case find (\<lambda>x. m_id x = m_id (edit r)) rs of
        Some x \<Rightarrow> reconcile_row now t loaded x (edit r) | None \<Rightarrow> edit r) =
      (case find (\<lambda>x. m_id x = m_id r) (q # rs) of
        Some x \<Rightarrow> reconcile_row now t loaded x r | None \<Rightarrow> r)" for r
    using none by (cases "m_id r = m_id q") (simp_all add: e split: option.split)
  have fuse: "map (\<lambda>r. case find (\<lambda>x. m_id x = m_id r) rs of Some x \<Rightarrow> reconcile_row now t loaded x r | None \<Rightarrow> r)
      (map edit rows) =
    map (\<lambda>r. case find (\<lambda>x. m_id x = m_id r) (q # rs) of Some x \<Rightarrow> reconcile_row now t loaded x r | None \<Rightarrow> r)
      rows" for rows
    by (simp only: map_map comp_def one)
  show ?case
  proof (cases "n \<noteq> m_loaded_on_node q \<or> st \<noteq> m_status q")
    case True
    then have "set_observed t (m_id q) n st rows = map edit rows" for rows
      by (simp add: set_observed_def edit_def reconcile_row_def d)
    with Cons True d fuse assms(1) show ?thesis by simp
  next
    case False
    then have "map edit rows = rows" for rows
      by (simp add: edit_def reconcile_row_def d map_idI)
    with Cons False d fuse [of "ms_models s"] show ?thesis by simp
  qed
qed simp

lemma reconcile_once_models:
  assumes "models_inv s" and "CoordClient_list_nodes coord = Inr body" and "\<And>j. db j = None"
  shows "fst (reconcile_once coord db now t s) = Inr () \<and>
    ms_models (snd (reconcile_once coord db now t s)) =
      map (\<lambda>r. if m_status r \<in> {''disabled'', ''error''} then r
               else reconcile_row now t (observed_models body) r r) (ms_models s)"
proof -
  have d: "distinct (map m_id (ms_models s))" using assms(1) by (simp add: models_inv_def rows_inv_def)
  have found: "find (\<lambda>q. m_id q = m_id r) (live_rows (ms_models s)) =
      (if m_status r \<in> {''disabled'', ''error''} then None else Some r)" if "r \<in> set (ms_models s)" for r
  proof (cases "find (\<lambda>q. m_id q = m_id r) (live_rows (ms_models s))")
    case None
    with that show ?thesis by (auto simp: find_None_all live_rows_def)
  next
    case (Some q)
    from find_Some_D [OF this] have "q = r" "m_status q \<notin> {''disabled'', ''error''}"
      using that d by (auto simp: live_rows_def distinct_map inj_on_def)
    with Some show ?thesis by simp
  qed
  have "distinct (map m_id (live_rows (ms_models s)))"
    unfolding live_rows_def using d by (rule distinct_map_filter)
  from reconcile_rows_models [of db, OF assms(3) this] show ?thesis
    by (simp add: reconcile_once_def assms(2,3) found cong: map_cong)
qed

subsection \<open>Outcomes of a load request\<close>

lemma models_load_err: "models_load h ep settings db t i node multi s = (Inl e, s') \<Longrightarrow> s' = s"
  by (auto simp: models_load_def Let_def split: option.splits sum.splits if_splits)

lemma models_load_ok:
  assumes "models_load h ep settings db t i node multi s = (Inr j, s')"
  obtains model ack where "find (\<lambda>r. m_id r = i) (ms_models s) = Some model"
    and "m_hf_repo model \<noteq> []" and "m_hf_file model \<noteq> []"
    and "CoordClient_load_model (CoordClient_new ep h) node (load_body model
       (unwrap_or [] (Option.bind (map_of settings ''huggingface_api_token'') as_str))
       (peers_of (CoordClient_new ep h) multi node)) = Inr ack"
    and "ms_models s' = map (\<lambda>r. if m_id r = i then r \<lparr>m_status := ''downloading'', m_loaded_on_node := node,
           m_updated_at := t\<rparr> else r) (ms_models s)"
  using assms by (auto simp: models_load_def Let_def split: option.splits sum.splits if_splits)

subsection \<open>What the reconciler observes\<close>

definition reports :: "json \<Rightarrow> string \<Rightarrow> string \<Rightarrow> bool" where
  "reports n m k \<longleftrightarrow>
     jget_str ''node_id'' n = Some k \<and> jget_str ''current_model'' n = Some m \<and> k \<noteq> [] \<and> m \<noteq> []"

lemma reports_iff:
  "m \<noteq> [] \<and> k \<noteq> [] \<and> unwrap_or [] (jget_str ''node_id'' n) = k \<and>
     unwrap_or [] (jget_str ''current_model'' n) = m \<longleftrightarrow> reports n m k"
  by (auto simp: reports_def unwrap_or_def split: option.splits)

lemma collect_loaded_Some:
  "map_of (collect_loaded ns loaded) m = Some k \<Longrightarrow>
   map_of loaded m = Some k \<or> (\<exists>n \<in> set ns. reports n m k)"
proof (induction ns arbitrary: loaded)
  case (Cons n ns)
  let ?k = "unwrap_or [] (jget_str ''node_id'' n)" and ?m = "unwrap_or [] (jget_str ''current_model'' n)"
  let ?l = "if ?k = [] \<or> ?m = [] then loaded
            else if map_of loaded ?m = None then loaded @ [(?m, ?k)] else loaded"
  have "map_of ?l m = Some k \<or> (\<exists>n \<in> set ns. reports n m k)"
    using Cons.IH [of ?l] Cons.prems by (simp add: Let_def)
  moreover have "map_of ?l m = Some k \<Longrightarrow> map_of loaded m = Some k \<or> reports n m k"
    using reports_iff [of ?m ?k n] by (auto simp: map_add_def split: if_splits option.splits)
  ultimately show ?case by auto
qed simp

lemma collect_loaded_keeps: "map_of loaded m = Some k \<Longrightarrow> map_of (collect_loaded ns loaded) m = Some k"
  by (induction ns arbitrary: loaded) (simp_all add: Let_def map_add_def)

lemma collect_loaded_dom:
  "n \<in> set ns \<Longrightarrow> reports n m k \<Longrightarrow> map_of (collect_loaded ns loaded) m \<noteq> None"
proof (induction ns arbitrary: loaded)
  case (Cons n' ns)
  show ?case
  proof (cases "n' = n")
    case True
    with Cons.prems(2) reports_iff [of m k n]
    have "unwrap_or [] (jget_str ''node_id'' n') = k" "unwrap_or [] (jget_str ''current_model'' n') = m"
      "k \<noteq> []" "m \<noteq> []" by (auto simp: reports_def)
    then show ?thesis
      using collect_loaded_keeps [of loaded m _ ns] collect_loaded_keeps [of "loaded @ [(m, k)]" m k ns]
      by (auto simp: Let_def map_add_def)
  next
    case False
    with Cons show ?thesis by (simp add: Let_def)
  qed
qed simp

lemma observed_models_nodes:
  assumes "jget ''nodes'' body = Some (JArr ns)"
  shows "observed_models body = collect_loaded ns []"
  using assms by (simp add: observed_models_def)

subsection \<open>Sample values\<close>

definition sample_model :: "string \<Rightarrow> string \<Rightarrow> ModelRow" where
  "sample_model i status =
     \<lparr>m_id = i, m_display_name = [], m_description = [], m_status = status, m_is_default = False,
      m_hf_repo = ''org/m'', m_hf_file = ''m.gguf'', m_local_filename = [], m_loaded_on_node = ''n0'',
      m_created_at = 0, m_updated_at = 0\<rparr>"

definition sample_models :: ModelsState where
  "sample_models = \<lparr>ms_models = [sample_model ''m1'' ''downloading'', sample_model ''m2'' ''disabled''], ms_audit = []\<rparr>"

lemma sample_models_inv: "models_inv sample_models"
  by (simp add: models_inv_def rows_inv_def row_ok_def sample_models_def sample_model_def status_values_def)

definition sample_nodes_body :: json where
  "sample_nodes_body = JObj [(''nodes'', JArr [JObj [(''node_id'', JStr ''n7''), (''current_model'', JStr ''m1'')]])]"

definition sample_coord :: CoordClient where
  "sample_coord = CoordClient_new ''http://coord:7001'' (json_http sample_nodes_body)"

lemma sample_coord_nodes: "CoordClient_list_nodes sample_coord = Inr sample_nodes_body"
  by (simp add: CoordClient_list_nodes_def sample_coord_def CoordClient_new_def json_get_def exchange_def
      decode_or_upstream_def json_http_def is_success_def read_json_def)

lemma sample_observed: "observed_models sample_nodes_body = [(''m1'', ''n7'')]"
  by (simp add: observed_models_def sample_nodes_body_def Let_def)

definition sample_update :: "bool option \<Rightarrow> ModelUpdateRequest" where
  "sample_update d =
     \<lparr>mu_display_name = None, mu_description = None, mu_status = None, mu_is_default = d, mu_hf_repo = None,
      mu_hf_file = None, mu_local_filename = None\<rparr>"

subsection \<open>Properties\<close>

text \<open>
  Every handler and every reconciler pass keeps the model table in order, whatever statements the
  database refuses: ids are unique and not blank, every status is one of the five, at most one model
  is the default, and no audit entry is ever lost.
\<close>

theorem model_table_invariant:
  assumes "models_inv s" and "e \<in> set (ms_audit s)"
  shows "rows_inv (ms_models (run_cmds apply_model_cmd cmds s)) \<and>
         e \<in> set (ms_audit (run_cmds apply_model_cmd cmds s))"
  using models.run_invar [OF assms(1)] models.run_keeps_entry [OF assms(2)] by (simp add: models_inv_def)

theorem model_table_invariant_witness:
  "rows_inv (ms_models (snd (models_update db_up 9 ''m1'' (sample_update (Some True))
     (sample_models \<lparr>ms_audit := [audit_row 0 ''a'' ''b'' ''c'' JNull]\<rparr>))))"
proof -
  let ?s = "sample_models \<lparr>ms_audit := [audit_row 0 ''a'' ''b'' ''c'' JNull]\<rparr>"
  have "models_inv ?s" using sample_models_inv by (simp add: models_inv_def)
  from model_table_invariant [OF this, of "audit_row 0 ''a'' ''b'' ''c'' JNull"
      "[ModelUpdate db_up 9 ''m1'' (sample_update (Some True))]"]
  show ?thesis by simp
qed

text \<open>
  C32. A reconciler pass with the coordinator and the database up does exactly what its state machine
  says, row by row: a row a worker reports gets that worker, and becomes available if it was in
  flight; an unreported row in flight becomes an error after 300 s without an update and is left
  alone before; any other unreported row loses its node; disabled and failed rows are not touched.
\<close>

theorem reconcile_exact:
  assumes "models_inv s" and "CoordClient_list_nodes coord = Inr body" and "db = db_up"
    and "r \<in> set (ms_models s)"
  shows "\<exists>r' \<in> set (ms_models (snd (reconcile_once coord db now t s))). m_id r' = m_id r \<and>
    (m_loaded_on_node r', m_status r') =
      (if m_status r \<in> {''disabled'', ''error''} then (m_loaded_on_node r, m_status r)
       else case map_of (observed_models body) (m_id r) of
         Some node \<Rightarrow> (node, if in_flight (m_status r) then ''available'' else m_status r)
       | None \<Rightarrow>
           if in_flight (m_status r)
           then if secs 300 < now - m_updated_at r then ([], ''error'') else (m_loaded_on_node r, m_status r)
           else ([], m_status r))"
proof -
  let ?f = "\<lambda>r. if m_status r \<in> {''disabled'', ''error''} then r
    else reconcile_row now t (observed_models body) r r"
  have "ms_models (snd (reconcile_once coord db now t s)) = map ?f (ms_models s)"
    using reconcile_once_models [OF assms(1,2), of db now t] assms(3) by simp
  then have "?f r \<in> set (ms_models (snd (reconcile_once coord db now t s)))" using assms(4) by simp
  moreover have "is_stuck now (m_updated_at r) \<longleftrightarrow> secs 300 < now - m_updated_at r"
    by (auto simp: is_stuck_def STUCK_THRESHOLD_def secs_def)
  ultimately show ?thesis
    by (intro bexI [of _ "?f r"])
      (auto simp: reconcile_row_def reconciled_simps split: option.split)
qed

theorem reconcile_exact_witness:
  "\<exists>r' \<in> set (ms_models (snd (reconcile_once sample_coord db_up 5 5 sample_models))).
     m_id r' = ''m1'' \<and> (m_loaded_on_node r', m_status r') = (''n7'', ''available'')"
  using reconcile_exact [OF sample_models_inv sample_coord_nodes, of db_up "sample_model ''m1'' ''downloading''" 5 5]
  by (simp add: sample_models_def sample_model_def sample_observed in_flight_def)

text \<open>
  The reconciler settles: a second pass at the same moment over the same observation finds
  nothing to change and writes nothing, neither rows nor audit entries.
\<close>

theorem reconcile_idempotent:
  assumes "models_inv s" and "CoordClient_list_nodes coord = Inr body"
    and "s' = snd (reconcile_once coord db_up now t s)"
  shows "snd (reconcile_once coord db_up now t' s') = s'"
proof -
  let ?l = "observed_models body"
  let ?f = "\<lambda>r. if m_status r \<in> {''disabled'', ''error''} then r else reconcile_row now t ?l r r"
  have m: "ms_models s' = map ?f (ms_models s)"
    using reconcile_once_models [OF assms(1,2), of db_up now t] assms(3) by simp
  have stable: "reconciled now (map_of ?l (m_id r)) r = (m_loaded_on_node r, m_status r)"
    if "r \<in> set (live_rows (ms_models s'))" for r
  proof -
    have "r \<in> ?f ` set (ms_models s)" using that by (simp only: live_rows_def m set_filter set_map) blast
    then obtain q where q: "r = ?f q" by blast
    have "m_status r \<notin> {''disabled'', ''error''}" using that by (simp add: live_rows_def)
    with q have "m_status q \<notin> {''disabled'', ''error''}" by (auto split: if_splits)
    with q show ?thesis
      by (cases "map_of ?l (m_id q)") (auto simp: reconcile_row_def reconciled_simps in_flight_def)
  qed
  have quiet: "snd (reconcile_rows db_up now t' ?l i rs s') = s'"
    if "\<forall>r \<in> set rs. reconciled now (map_of ?l (m_id r)) r = (m_loaded_on_node r, m_status r)" for rs i
    using that by (induction rs arbitrary: i) simp_all
  show ?thesis
    using stable by (simp add: reconcile_once_def assms(2) quiet)
qed

theorem reconcile_idempotent_witness:
  "snd (reconcile_once sample_coord db_up 5 6 (snd (reconcile_once sample_coord db_up 5 5 sample_models))) =
   snd (reconcile_once sample_coord db_up 5 5 sample_models)"
  by (rule reconcile_idempotent [OF sample_models_inv sample_coord_nodes refl])

text \<open>
  Making a model the default is exclusive: after a successful update that sets \<open>is_default\<close>,
  that model and no other is the default.
\<close>

theorem default_is_exclusive:
  assumes "models_inv s" and "mu_is_default req = Some True"
    and "models_update db t i req s = (Inr row, s')" and "db 3 = None"
  shows "m_id row = i \<and> m_is_default row \<and> row \<in> set (ms_models s') \<and>
         (\<forall>r \<in> set (ms_models s'). m_is_default r \<longrightarrow> r = row)"
proof -
  from assms(3) obtain q where q: "find (\<lambda>r. m_id r = i) (ms_models s) = Some q"
    and row: "row = updated_model t req q"
    and s': "ms_models s' = map (\<lambda>r. if m_id r = i then updated_model t req r else clear_default r) (ms_models s)"
    using assms(2,4)
    by (auto simp: models_update_def audit_and_commit_def split: sum.splits option.splits if_splits)
  have d: "distinct (map m_id (ms_models s))" using assms(1) by (simp add: models_inv_def rows_inv_def)
  from find_Some_D [OF q] have qi: "m_id q = i" "q \<in> set (ms_models s)" by auto
  have "r = q" if "r \<in> set (ms_models s)" "m_id r = i" for r
    using that qi d unfolding distinct_map inj_on_def by blast
  then have f: "(if m_id x = i then updated_model t req x else clear_default x) = row \<or>
      \<not> m_is_default (if m_id x = i then updated_model t req x else clear_default x)"
    if "x \<in> set (ms_models s)" for x
    using that by (simp add: row)
  have only: "\<forall>r \<in> set (ms_models s'). m_is_default r \<longrightarrow> r = row"
  proof (intro ballI impI)
    fix r
    assume "r \<in> set (ms_models s')" and r: "m_is_default r"
    then obtain x where "x \<in> set (ms_models s)" "r = (if m_id x = i then updated_model t req x else clear_default x)"
      unfolding s' set_map by (elim imageE)
    with f [of x] r show "r = row" by metis
  qed
  have mem: "row \<in> set (ms_models s')"
    unfolding s' row set_map using qi by (intro image_eqI [of _ _ q]) simp_all
  have "m_id row = i" "m_is_default row" unfolding row using qi(1) assms(2) by simp_all
  with only mem show ?thesis by blast
qed

theorem default_is_exclusive_witness:
  "\<exists>row s'. models_update db_up 9 ''m1'' (sample_update (Some True)) sample_models = (Inr row, s') \<and>
     m_is_default row \<and> row \<in> set (ms_models s')"
proof -
  obtain row s' where u: "models_update db_up 9 ''m1'' (sample_update (Some True)) sample_models = (Inr row, s')"
    by (simp add: models_update_def sample_update_def sample_models_def sample_model_def audit_and_commit_def)
  from default_is_exclusive [OF sample_models_inv _ u] u show ?thesis by (simp add: sample_update_def)
qed

text \<open>
  A load request that fails changes nothing, and one that succeeds was acknowledged by the
  coordinator for exactly this node and model before the row is marked as downloading there.
\<close>

theorem load_marks_only_acknowledged:
  assumes "models_load h ep settings db t i node multi s = (res, s')"
  shows "case res of
      Inl e \<Rightarrow> s' = s
    | Inr j \<Rightarrow> \<exists>model token peers ack.
        find (\<lambda>r. m_id r = i) (ms_models s) = Some model \<and> m_hf_repo model \<noteq> [] \<and> m_hf_file model \<noteq> [] \<and>
        CoordClient_load_model (CoordClient_new ep h) node (load_body model token peers) = Inr ack \<and>
        (\<forall>r \<in> set (ms_models s'). m_id r = i \<longrightarrow> m_status r = ''downloading'' \<and> m_loaded_on_node r = node)"
proof (cases res)
  case (Inl e)
  with assms show ?thesis by (auto dest: models_load_err)
next
  case (Inr j)
  with assms have ok: "models_load h ep settings db t i node multi s = (Inr j, s')" by simp
  obtain model ack where "find (\<lambda>r. m_id r = i) (ms_models s) = Some model"
    "m_hf_repo model \<noteq> []" "m_hf_file model \<noteq> []"
    "CoordClient_load_model (CoordClient_new ep h) node (load_body model
       (unwrap_or [] (Option.bind (map_of settings ''huggingface_api_token'') as_str))
       (peers_of (CoordClient_new ep h) multi node)) = Inr ack"
    and m: "ms_models s' = map (\<lambda>r. if m_id r = i then r \<lparr>m_status := ''downloading'',
           m_loaded_on_node := node, m_updated_at := t\<rparr> else r) (ms_models s)"
    using models_load_ok [OF ok] .
  moreover have "\<forall>r \<in> set (ms_models s'). m_id r = i \<longrightarrow> m_status r = ''downloading'' \<and> m_loaded_on_node r = node"
  proof (intro ballI impI)
    fix r
    assume "r \<in> set (ms_models s')" and i: "m_id r = i"
    then obtain x where "r = (if m_id x = i then x \<lparr>m_status := ''downloading'',
           m_loaded_on_node := node, m_updated_at := t\<rparr> else x)"
      unfolding m set_map by (elim imageE)
    with i show "m_status r = ''downloading'' \<and> m_loaded_on_node r = node" by (simp split: if_splits)
  qed
  ultimately show ?thesis unfolding Inr sum.case by blast
qed

theorem load_marks_only_acknowledged_witness:
  "m_status (hd (ms_models (snd (models_load (json_http JNull) ''http://c'' [] db_up 5 ''m1'' ''n1'' False sample_models))))
     = ''downloading''"
proof -
  obtain j s' where l: "models_load (json_http JNull) ''http://c'' [] db_up 5 ''m1'' ''n1'' False sample_models = (Inr j, s')"
    and m: "ms_models s' \<noteq> [] \<and> m_id (hd (ms_models s')) = ''m1''"
    by (simp add: models_load_def sample_models_def sample_model_def Let_def is_ascii_alphanumeric_def
        CoordClient_load_model_def CoordClient_new_def json_post_def exchange_def decode_or_upstream_def
        json_http_def is_success_def read_json_def)
  have "\<forall>r \<in> set (ms_models s'). m_id r = ''m1'' \<longrightarrow> m_status r = ''downloading'' \<and> m_loaded_on_node r = ''n1''"
    using load_marks_only_acknowledged [OF l] unfolding sum.case by blast
  with m show ?thesis unfolding l snd_conv by (simp add: hd_in_set)
qed

text \<open>
  The reconciler can overwrite an admin's decision: it updates by id alone, so a row that was
  disabled after the pass took its snapshot becomes available again.
\<close>

theorem reconcile_overwrites_disabled:
  "\<exists>snapshot s s'. m_status (hd (ms_models s)) = ''disabled'' \<and>
     snd (reconcile_rows db_up 5 5 (observed_models sample_nodes_body) 1 snapshot s) = s' \<and>
     m_status (hd (ms_models s')) = ''available''"
proof -
  let ?s = "\<lparr>ms_models = [sample_model ''m1'' ''disabled''], ms_audit = []\<rparr>"
  let ?snap = "[sample_model ''m1'' ''downloading'']"
  have "m_status (hd (ms_models (snd (reconcile_rows db_up 5 5 (observed_models sample_nodes_body) 1 ?snap ?s)))) = ''available''"
    unfolding sample_observed sample_model_def
    by (simp add: reconciled_simps in_flight_def set_observed_def)
  moreover have "m_status (hd (ms_models ?s)) = ''disabled''" by (simp add: sample_model_def)
  ultimately show ?thesis by blast
qed

text \<open>
  A model can be reported as created and not be stored: the audit insert runs inside the
  transaction and its failure is ignored, so the commit rolls everything back while the handler
  answers with the new row.
\<close>

theorem create_answers_without_storing:
  "\<exists>db req row. models_create db 5 req \<lparr>ms_models = [], ms_audit = []\<rparr> =
     (Inr row, \<lparr>ms_models = [], ms_audit = []\<rparr>) \<and> m_id row = ''m1''"
proof -
  let ?req = "\<lparr>mc_id = ''m1'', mc_display_name = None, mc_description = None, mc_status = None,
    mc_is_default = False, mc_hf_repo = None, mc_hf_file = None, mc_local_filename = None\<rparr>"
  let ?db = "\<lambda>i. if i = 3 then Some ''audit_log'' else (None :: string option)"
  have "trim ''m1'' = ''m1''" by (rule trim_id) (simp add: is_graph_def)
  then have "models_create ?db 5 ?req \<lparr>ms_models = [], ms_audit = []\<rparr> =
      (Inr (new_model 5 ''m1'' ''available'' ?req), \<lparr>ms_models = [], ms_audit = []\<rparr>)"
    by (simp add: models_create_def Let_def validate_status_def status_values_def audit_and_commit_def)
  then show ?thesis
    by (intro exI [of _ ?db] exI [of _ ?req] exI [of _ "new_model 5 ''m1'' ''available'' ?req"]) simp
qed

end
