(* ===== verification/Inference.thy ===== *)
theory Inference
  imports Mgmt_Base Views
begin

section \<open>Inference log (\<open>handlers/inference.rs\<close>), settings (\<open>settings.rs\<close>), audit view (\<open>audit.rs\<close>)\<close>

text \<open>
  The request log the dispatcher writes and the admin reads, the cluster settings document and the
  read-only view of the audit log. The three share one pattern for their listings: optional exact
  filters, newest first, a clamped limit; \<open>newest\<close> states it once. Rows with the same timestamp are
  listed in table order, which SQL leaves open.
\<close>

subsection \<open>Listings\<close>

text \<open>\<open>$1 IS NULL OR column = $1\<close>.\<close>

definition matches_param :: "'a option \<Rightarrow> 'a option \<Rightarrow> bool" where
  "matches_param param column \<longleftrightarrow> (case param of None \<Rightarrow> True | Some p \<Rightarrow> column = Some p)"

definition newest :: "('r \<Rightarrow> time) \<Rightarrow> ('r \<Rightarrow> bool) \<Rightarrow> int \<Rightarrow> 'r list \<Rightarrow> 'r list" where
  "newest ts P limit rows = take (nat limit) (sort_key (\<lambda>r. - ts r) (filter P rows))"

lemma newest_length: "length (newest ts P limit rows) \<le> nat limit"
  by (simp add: newest_def)

lemma newest_sub: "r \<in> set (newest ts P limit rows) \<Longrightarrow> r \<in> set rows \<and> P r"
  by (auto simp: newest_def dest: in_set_takeD)

lemma newest_sorted: "sorted (map (\<lambda>r. - ts r) (newest ts P limit rows))"
  unfolding newest_def take_map [symmetric] by (rule sorted_wrt_take) simp

text \<open>What a listing leaves out although it matches is no newer than anything it shows.\<close>

lemma newest_latest:
  assumes "r \<in> set (newest ts P limit rows)" and "q \<in> set rows" "P q" "q \<notin> set (newest ts P limit rows)"
  shows "ts q \<le> ts r"
proof -
  define l where "l = sort_key (\<lambda>r. - ts r) (filter P rows)"
  have new: "newest ts P limit rows = take (nat limit) l" by (simp add: newest_def l_def)
  have "sorted (map (\<lambda>r. - ts r) l)" by (simp add: l_def)
  then have "sorted (map (\<lambda>r. - ts r) (take (nat limit) l) @ map (\<lambda>r. - ts r) (drop (nat limit) l))"
    by (simp add: map_append [symmetric])
  then have le: "- ts x \<le> - ts y" if "x \<in> set (take (nat limit) l)" "y \<in> set (drop (nat limit) l)" for x y
    using that by (simp add: sorted_append)
  have "q \<in> set l" using assms(2,3) by (simp add: l_def)
  then have "q \<in> set (take (nat limit) l) \<union> set (drop (nat limit) l)"
    by (simp only: set_append [symmetric] append_take_drop_id)
  with assms(4) have "q \<in> set (drop (nat limit) l)" by (simp add: new)
  from le [OF _ this] assms(1) show ?thesis by (simp add: new)
qed

subsection \<open>Inference log\<close>

record LogRequest =
  lq_request_id :: "string option"
  lq_endpoint :: string
  lq_model :: string
  lq_node_id :: "string option"
  lq_inference_url :: "string option"
  lq_api_key_prefix :: "string option"
  lq_prompt_tokens :: "i32 option"
  lq_completion_tokens :: "i32 option"
  lq_total_tokens :: "i32 option"
  lq_latency_ms :: "i32 option"
  lq_status_code :: i32
  lq_error_type :: "string option"
  lq_error_message :: "string option"

definition default_endpoint :: string where
  "default_endpoint = ''chat.completions''"

fun de_i32 :: "json \<Rightarrow> i32 option" where
  "de_i32 (JInt n) = (if - (2 ^ 31) \<le> n \<and> n < 2 ^ 31 then Some (word_of_int n) else None)"
| "de_i32 _ = None"

lemma de_i32_sint [simp]: "de_i32 (JInt (sint w)) = Some w"
proof -
  have "sint w < 2 ^ 31" "- (2 ^ 31) \<le> sint w" using sint_lt [of w] sint_ge [of w] by simp_all
  then show ?thesis by simp
qed

text \<open>The decoder serde derives for \<open>LogRequest\<close>; only \<open>status_code\<close> has no default.\<close>

definition de_log_request :: "json \<Rightarrow> LogRequest option" where
  "de_log_request j = do {
     m \<leftarrow> struct_fields [''request_id'', ''endpoint'', ''model'', ''node_id'', ''inference_url'',
           ''api_key_prefix'', ''prompt_tokens'', ''completion_tokens'', ''total_tokens'',
           ''latency_ms'', ''status_code'', ''error_type'', ''error_message''] j;
     request_id \<leftarrow> de_field None (de_option as_str) m ''request_id'';
     endpoint \<leftarrow> de_field default_endpoint as_str m ''endpoint'';
     model \<leftarrow> de_field [] as_str m ''model'';
     node_id \<leftarrow> de_field None (de_option as_str) m ''node_id'';
     inference_url \<leftarrow> de_field None (de_option as_str) m ''inference_url'';
     api_key_prefix \<leftarrow> de_field None (de_option as_str) m ''api_key_prefix'';
     prompt_tokens \<leftarrow> de_field None (de_option de_i32) m ''prompt_tokens'';
     completion_tokens \<leftarrow> de_field None (de_option de_i32) m ''completion_tokens'';
     total_tokens \<leftarrow> de_field None (de_option de_i32) m ''total_tokens'';
     latency_ms \<leftarrow> de_field None (de_option de_i32) m ''latency_ms'';
     status_json \<leftarrow> m ''status_code'';
     status_code \<leftarrow> de_i32 status_json;
     error_type \<leftarrow> de_field None (de_option as_str) m ''error_type'';
     error_message \<leftarrow> de_field None (de_option as_str) m ''error_message'';
     Some \<lparr>lq_request_id = request_id, lq_endpoint = endpoint, lq_model = model, lq_node_id = node_id,
           lq_inference_url = inference_url, lq_api_key_prefix = api_key_prefix,
           lq_prompt_tokens = prompt_tokens, lq_completion_tokens = completion_tokens,
           lq_total_tokens = total_tokens, lq_latency_ms = latency_ms, lq_status_code = status_code,
           lq_error_type = error_type, lq_error_message = error_message\<rparr>
   }"

text \<open>A row is the request with the id and the time the database gives it.\<close>

record LogRow = LogRequest +
  lg_id :: string
  lg_created_at :: time

text \<open>
  \<open>s[..4096]\<close> panics when byte 4096 continues a code point: \<open>None\<close>.
\<close>

definition truncate_message :: "string \<Rightarrow> string option" where
  "truncate_message s =
     (if length s > 4096 then if is_cont (s ! 4096) then None else Some (take 4096 s) else Some s)"

definition log_row :: "string \<Rightarrow> time \<Rightarrow> LogRequest \<Rightarrow> string option \<Rightarrow> LogRow" where
  "log_row row_id db_now req message =
     LogRequest.extend (req \<lparr>lq_error_message := message\<rparr>) \<lparr>lg_id = row_id, lg_created_at = db_now\<rparr>"

text \<open>\<open>None\<close>: the handler panics and the connection is dropped.\<close>

definition log_handler ::
  "db \<Rightarrow> string \<Rightarrow> time \<Rightarrow> LogRequest \<Rightarrow> LogRow list \<Rightarrow> (ApiError + json) option \<times> LogRow list" where
  "log_handler db row_id db_now req rows =
     (case (case lq_error_message req of
              None \<Rightarrow> Some None
            | Some s \<Rightarrow> map_option Some (truncate_message s)) of
        None \<Rightarrow> (None, rows)
      | Some message \<Rightarrow>
          (case db 0 of
             Some e \<Rightarrow> (Some (Inl (Internal e)), rows)
           | None \<Rightarrow> (Some (Inr (JObj [(''ok'', JBool True)])), rows @ [log_row row_id db_now req message])))"

record RecentQuery =
  qr_limit :: "int option"
  qr_node_id :: "string option"
  qr_model :: "string option"
  qr_status :: "string option"

definition recent :: "db \<Rightarrow> RecentQuery \<Rightarrow> LogRow list \<Rightarrow> ApiError + LogRow list" where
  "recent db q rows =
     (let limit = clamp 1 1000 (unwrap_or 200 (qr_limit q));
          only_errors = (qr_status q = Some ''errors'');
          only_ok = (qr_status q = Some ''ok'');
          node = option_filter (\<lambda>s. s \<noteq> []) (qr_node_id q);
          model = option_filter (\<lambda>s. s \<noteq> []) (qr_model q)
      in case db 0 of
           Some e \<Rightarrow> Inl (Internal e)
         | None \<Rightarrow>
             Inr (newest lg_created_at
               (\<lambda>r. matches_param node (lq_node_id r) \<and> matches_param model (Some (lq_model r)) \<and>
                    (\<not> only_errors \<or> lq_error_type r \<noteq> None) \<and> (\<not> only_ok \<or> lq_error_type r = None))
               limit rows))"

subsection \<open>Audit view\<close>

record ListParams =
  lp_limit :: "int option"
  lp_action :: "string option"
  lp_actor :: "string option"
  lp_resource :: "string option"

text \<open>The ids of audit rows are generated by the database and are not modelled.\<close>

record AuditView =
  av_ts :: time
  av_actor :: string
  av_action :: string
  av_resource :: "string option"
  av_ip :: "string option"
  av_details :: json

definition stringify_ip :: "IpAddr \<Rightarrow> string" where
  "stringify_ip ip = show_ip ip"

definition audit_view :: "AuditRow \<Rightarrow> AuditView" where
  "audit_view r =
     \<lparr>av_ts = au_ts r, av_actor = au_actor r, av_action = au_action r, av_resource = au_resource r,
      av_ip = map_option stringify_ip (au_ip r), av_details = au_details r\<rparr>"

definition audit_list :: "db \<Rightarrow> ListParams \<Rightarrow> AuditRow list \<Rightarrow> ApiError + AuditView list" where
  "audit_list db p rows =
     (let limit = clamp 1 500 (unwrap_or 100 (lp_limit p))
      in case db 0 of
           Some e \<Rightarrow> Inl (Internal e)
         | None \<Rightarrow>
             Inr (map audit_view (newest au_ts
               (\<lambda>r. matches_param (lp_action p) (Some (au_action r)) \<and>
                    matches_param (lp_actor p) (Some (au_actor r)) \<and>
                    matches_param (lp_resource p) (au_resource r))
               limit rows)))"

subsection \<open>Settings\<close>

text \<open>
  The \<open>cluster_settings\<close> table as key-value pairs (the columns \<open>updated_at\<close> and \<open>updated_by\<close> are never
  read) beside the audit log.
\<close>

record SettingsState =
  ss_settings :: "(string \<times> json) list"
  ss_audit :: "AuditRow list"

definition ALLOWED :: "string list" where
  "ALLOWED = [''public_base_url'', ''default_model'', ''rate_limit_rpm'', ''max_tokens_default'',
              ''huggingface_api_token'']"

definition settings_get :: "db \<Rightarrow> nat \<Rightarrow> SettingsState \<Rightarrow> ApiError + (string \<times> json) list" where
  "settings_get db i s = (case db i of Some e \<Rightarrow> Inl (Internal e) | None \<Rightarrow> Inr (ss_settings s))"

text \<open>The loop over the document inside the transaction; statement \<open>i\<close> is the next upsert.\<close>

fun upsert_settings ::
  "db \<Rightarrow> nat \<Rightarrow> (string \<times> json) list \<Rightarrow> (string \<times> json) list \<Rightarrow> ApiError + (string \<times> json) list" where
  "upsert_settings db i [] tbl = Inr tbl"
| "upsert_settings db i ((k, v) # doc) tbl =
     (if k \<notin> set ALLOWED then Inl (BadRequest (''unknown setting: '' @ k))
      else case db i of
             Some e \<Rightarrow> Inl (Internal e)
           | None \<Rightarrow> upsert_settings db (i + 1) doc (AList.update k v tbl))"

definition redact :: "(string \<times> json) list \<Rightarrow> (string \<times> json) list" where
  "redact doc =
     (case map_of doc ''huggingface_api_token'' of
        None \<Rightarrow> doc
      | Some v \<Rightarrow>
          let was_set = unwrap_or False (map_option (\<lambda>s. s \<noteq> []) (as_str v))
          in AList.update ''huggingface_api_token''
               (JStr (if was_set then ''<redacted>'' else ''<cleared>'')) doc)"

text \<open>
  Statement 0 opens the transaction, the upserts follow, then the audit insert, whose failure aborts
  the transaction, the commit, and the read that builds the answer.
\<close>

definition settings_put ::
  "db \<Rightarrow> time \<Rightarrow> (string \<times> json) list \<Rightarrow> SettingsState
    \<Rightarrow> (ApiError + (string \<times> json) list) \<times> SettingsState" where
  "settings_put db db_now doc s =
     (if doc = [] then (Inl (BadRequest ''body must not be empty''), s)
      else case db 0 of
             Some e \<Rightarrow> (Inl (Internal e), s)
           | None \<Rightarrow>
               (case upsert_settings db 1 doc (ss_settings s) of
                  Inl e \<Rightarrow> (Inl e, s)
                | Inr tbl \<Rightarrow>
                    let n = 1 + length doc
                    in (case db (n + 1) of
                          Some e \<Rightarrow> (Inl (Internal e), s)
                        | None \<Rightarrow>
                            let s' = (case db n of
                                  Some _ \<Rightarrow> s
                                | None \<Rightarrow>
                                    \<lparr>ss_settings = tbl,
                                     ss_audit = ss_audit s @ [audit_row db_now ''admin'' ''SETTINGS_UPDATED''
                                       ''cluster_settings'' (JObj (redact doc))]\<rparr>)
                            in (settings_get db (n + 2) s', s'))))"

datatype SettingsCmd = SettingsPut db time "(string \<times> json) list"

fun apply_settings_cmd :: "SettingsCmd \<Rightarrow> SettingsState \<Rightarrow> SettingsState" where
  "apply_settings_cmd (SettingsPut db t doc) s = snd (settings_put db t doc s)"

subsection \<open>Lemmas on settings\<close>

lemma update_key_set: "fst ` set (AList.update k v tbl) = insert k (fst ` set tbl)"
  by (induction tbl) auto

lemma upsert_settings_ok:
  assumes "upsert_settings db i doc tbl = Inr tbl'"
  shows "fst ` set doc \<subseteq> set ALLOWED \<and> fst ` set tbl' = fst ` set tbl \<union> fst ` set doc"
  using assms
proof (induction db i doc tbl rule: upsert_settings.induct)
  case (2 db i k v doc tbl)
  then have "k \<in> set ALLOWED" "db i = None" by (auto split: if_splits option.splits)
  with 2 show ?case by (simp add: update_key_set)
qed simp

lemma upsert_settings_lookup:
  assumes "upsert_settings db i doc tbl = Inr tbl'" and "distinct (map fst doc)"
  shows "map_of tbl' k = (case map_of doc k of Some v \<Rightarrow> Some v | None \<Rightarrow> map_of tbl k)"
  using assms
proof (induction db i doc tbl rule: upsert_settings.induct)
  case (2 db i k' v doc tbl)
  then have "k' \<in> set ALLOWED" "db i = None" by (auto split: if_splits option.splits)
  then have "map_of tbl' k = (case map_of doc k of Some v \<Rightarrow> Some v | None \<Rightarrow> map_of (AList.update k' v tbl) k)"
    using 2 by simp
  moreover have "map_of doc k' = None" using 2(3) by (simp add: map_of_eq_None_iff)
  ultimately show ?case by (cases "k = k'"; cases "map_of doc k") (simp_all add: update_conv')
qed simp

lemma upsert_settings_up:
  "fst ` set doc \<subseteq> set ALLOWED \<Longrightarrow> \<exists>tbl'. upsert_settings db_up i doc tbl = Inr tbl'"
  by (induction db_up i doc tbl rule: upsert_settings.induct) auto

text \<open>What the redaction leaves of the token is one of two fixed markers.\<close>

lemma redact_token:
  "map_of (redact doc) ''huggingface_api_token'' \<in> {None, Some (JStr ''<redacted>''), Some (JStr ''<cleared>'')}"
  by (simp add: redact_def Let_def update_conv' split: option.split)

lemma redact_other: "k \<noteq> ''huggingface_api_token'' \<Longrightarrow> map_of (redact doc) k = map_of doc k"
  by (simp add: redact_def Let_def update_conv' split: option.split)

definition redacted :: "AuditRow \<Rightarrow> bool" where
  "redacted r \<longleftrightarrow> au_action r = ''SETTINGS_UPDATED'' \<longrightarrow>
     jget ''huggingface_api_token'' (au_details r) \<in> {None, Some (JStr ''<redacted>''), Some (JStr ''<cleared>'')}"

definition settings_inv :: "SettingsState \<Rightarrow> bool" where
  "settings_inv s \<longleftrightarrow> fst ` set (ss_settings s) \<subseteq> set ALLOWED \<and> (\<forall>r \<in> set (ss_audit s). redacted r)"

lemma settings_put_cases:
  obtains "snd (settings_put db t doc s) = s"
  | tbl where "upsert_settings db 1 doc (ss_settings s) = Inr tbl"
      and "snd (settings_put db t doc s) = \<lparr>ss_settings = tbl, ss_audit = ss_audit s @
        [audit_row t ''admin'' ''SETTINGS_UPDATED'' ''cluster_settings'' (JObj (redact doc))]\<rparr>"
  by (cases "upsert_settings db 1 doc (ss_settings s)")
    (force simp: settings_put_def Let_def split: option.splits if_splits)+

lemma settings_cmd_inv: "settings_inv s \<Longrightarrow> settings_inv (apply_settings_cmd c s)"
proof (cases c)
  case (SettingsPut db t doc)
  assume inv: "settings_inv s"
  show ?thesis
  proof (cases rule: settings_put_cases [of db t doc s])
    case 1
    with inv SettingsPut show ?thesis by simp
  next
    case (2 tbl)
    with inv upsert_settings_ok [OF 2(1)] redact_token [of doc] SettingsPut show ?thesis
      by (simp add: settings_inv_def redacted_def audit_row_def)
  qed
qed

lemma settings_cmd_audit: "prefix (ss_audit s) (ss_audit (apply_settings_cmd c s))"
proof (cases c)
  case (SettingsPut db t doc)
  then show ?thesis by (cases rule: settings_put_cases [of db t doc s]) simp_all
qed

interpretation settings: audited_machine apply_settings_cmd settings_inv ss_audit
  by unfold_locales (fact settings_cmd_inv, fact settings_cmd_audit)

subsection \<open>What a log query asks for\<close>

definition wanted :: "RecentQuery \<Rightarrow> LogRow \<Rightarrow> bool" where
  "wanted q r \<longleftrightarrow>
     (qr_node_id q = None \<or> qr_node_id q = Some [] \<or> lq_node_id r = qr_node_id q) \<and>
     (qr_model q = None \<or> qr_model q = Some [] \<or> qr_model q = Some (lq_model r)) \<and>
     (qr_status q = Some ''errors'' \<longrightarrow> lq_error_type r \<noteq> None) \<and>
     (qr_status q = Some ''ok'' \<longrightarrow> lq_error_type r = None)"

lemma recent_wanted:
  "recent db q rows = (case db 0 of Some e \<Rightarrow> Inl (Internal e)
     | None \<Rightarrow> Inr (newest lg_created_at (wanted q) (clamp 1 1000 (unwrap_or 200 (qr_limit q))) rows))"
proof -
  have node: "matches_param (option_filter (\<lambda>s. s \<noteq> []) (qr_node_id q)) (lq_node_id r) \<longleftrightarrow>
      qr_node_id q = None \<or> qr_node_id q = Some [] \<or> lq_node_id r = qr_node_id q" for r :: LogRow
    by (cases "qr_node_id q") (auto simp: matches_param_def)
  have model: "matches_param (option_filter (\<lambda>s. s \<noteq> []) (qr_model q)) (Some (lq_model r)) \<longleftrightarrow>
      qr_model q = None \<or> qr_model q = Some [] \<or> qr_model q = Some (lq_model r)" for r :: LogRow
    by (cases "qr_model q") (auto simp: matches_param_def)
  have w: "wanted q = (\<lambda>r. matches_param (option_filter (\<lambda>s. s \<noteq> []) (qr_node_id q)) (lq_node_id r) \<and>
      matches_param (option_filter (\<lambda>s. s \<noteq> []) (qr_model q)) (Some (lq_model r)) \<and>
      (\<not> qr_status q = Some ''errors'' \<or> lq_error_type r \<noteq> None) \<and>
      (\<not> qr_status q = Some ''ok'' \<or> lq_error_type r = None))"
    by (rule ext) (simp only: wanted_def node model imp_conv_disj)
  show ?thesis by (simp only: recent_def w Let_def)
qed

subsection \<open>Properties\<close>



text \<open>
  C36. The Hugging Face token never reaches the audit log: over any sequence of settings updates with
  any database failures, every recorded settings change shows the token only as redacted or cleared,
  no audit entry is lost, and only known settings are stored.
\<close>

theorem settings_token_never_audited:
  assumes "settings_inv s"
  shows "settings_inv (run_cmds apply_settings_cmd cs s) \<and>
    prefix (ss_audit s) (ss_audit (run_cmds apply_settings_cmd cs s))"
  using settings.run_invar [OF assms] settings.run_audit by blast

theorem settings_token_never_audited_witness:
  "settings_inv (run_cmds apply_settings_cmd [SettingsPut db_up 5 [(''huggingface_api_token'', JStr ''hf_x'')]]
     \<lparr>ss_settings = [], ss_audit = []\<rparr>)"
proof -
  have "settings_inv \<lparr>ss_settings = [], ss_audit = []\<rparr>" by (simp add: settings_inv_def)
  from settings_token_never_audited [OF this] show ?thesis by blast
qed



text \<open>
  The log view shows at most 1000 rows (200 without a limit), only rows that pass every filter,
  newest first, and hides a row that passes the filters only behind rows that are at least as new.
\<close>

theorem recent_exact:
  assumes "recent db q rows = Inr out"
  shows "length out \<le> 1000 \<and> (qr_limit q = None \<longrightarrow> length out \<le> 200) \<and>
    sorted (map (\<lambda>r. - lg_created_at r) out) \<and>
    (\<forall>r \<in> set out. r \<in> set rows \<and> wanted q r) \<and>
    (\<forall>r \<in> set out. \<forall>r' \<in> set rows. wanted q r' \<and> r' \<notin> set out \<longrightarrow> lg_created_at r' \<le> lg_created_at r)"
proof -
  let ?lim = "clamp 1 1000 (unwrap_or 200 (qr_limit q))"
  have out: "out = newest lg_created_at (wanted q) ?lim rows"
    using assms by (cases "db 0") (simp_all add: recent_wanted)
  have "length out \<le> nat ?lim" unfolding out by (rule newest_length)
  moreover have "nat ?lim \<le> 1000" by (simp add: clamp_def nat_le_iff)
  moreover have "qr_limit q = None \<Longrightarrow> nat ?lim = 200" by (simp add: clamp_def)
  ultimately have len: "length out \<le> 1000" "qr_limit q = None \<longrightarrow> length out \<le> 200"
    by (auto simp del: unwrap_or_simps)
  have sub: "r \<in> set rows \<and> wanted q r" if "r \<in> set out" for r
    by (rule newest_sub [OF that [unfolded out]])
  have late: "lg_created_at r' \<le> lg_created_at r"
    if "r \<in> set out" "r' \<in> set rows" "wanted q r' \<and> r' \<notin> set out" for r r'
    using that newest_latest [of r lg_created_at "wanted q" ?lim rows r'] unfolding out by simp
  have srt: "sorted (map (\<lambda>r. - lg_created_at r) out)" unfolding out by (rule newest_sorted)
  show ?thesis
    by (intro conjI ballI impI) (use len srt sub late in \<open>simp_all\<close>)
qed

theorem recent_exact_witness:
  "length (case recent db_up \<lparr>qr_limit = Some 5000, qr_node_id = None, qr_model = None, qr_status = None\<rparr> []
     of Inr out \<Rightarrow> out | Inl _ \<Rightarrow> []) \<le> 1000"
proof -
  obtain out where r: "recent db_up \<lparr>qr_limit = Some 5000, qr_node_id = None, qr_model = None, qr_status = None\<rparr> [] = Inr out"
    by (simp add: recent_def Let_def)
  from recent_exact [OF r] r show ?thesis by simp
qed

end
