(* ===== verification/Enroll.thy ===== *)
theory Enroll
  imports Mgmt_Base Clients
begin

section \<open>Cluster CA, enrollment and node administration\<close>

text \<open>
  \<open>crates/ca\<close> and \<open>ca_store.rs\<close> (the root CA and the node certificates), \<open>enroll_token.rs\<close>,
  \<open>enroll.rs\<close> (a worker trades a one-time token for a certificate) and \<open>nodes.rs\<close> (approve, revoke,
  drain). \<open>rcgen\<close> is not code of the repository and is the parameter \<open>rcgen\<close>, as are the SHA-256
  function, the date formatter and PostgreSQL's \<open>host()\<close>. An enrollment reads the tables first and
  writes them later in one transaction: \<open>enroll_plan\<close> and \<open>enroll_commit\<close> are the two halves, so that
  other requests can be put between them.
\<close>

subsection \<open>Certificates (\<open>crates/ca/src/lib.rs\<close>)\<close>

datatype KeyUsage = DigitalSignature | KeyAgreement | KeyCertSign | CrlSign
datatype ExtKeyUsage = ClientAuth
datatype DnType = CommonName | OrganizationName | OrganizationalUnitName

text \<open>\<open>cp_not_after = None\<close> leaves the library's default.\<close>

record CertParams =
  cp_subject_alt_names :: "string list"
  cp_distinguished_name :: "(DnType \<times> string) list"
  cp_is_ca :: bool
  cp_key_usages :: "KeyUsage list"
  cp_extended_key_usages :: "ExtKeyUsage list"
  cp_not_after :: "time option"

record ('c, 'k) rcgen =
  params_new :: "string list \<Rightarrow> string + unit"
  self_signed :: "CertParams \<Rightarrow> 'k \<Rightarrow> string + 'c"
  signed_by :: "CertParams \<Rightarrow> 'k \<Rightarrow> 'c \<Rightarrow> 'k \<Rightarrow> string + 'c"
  cert_to_pem :: "'c \<Rightarrow> string"
  key_to_pem :: "'k \<Rightarrow> string"
  key_from_pem :: "string \<Rightarrow> string + 'k"

record ('c, 'k) Ca =
  ca_cert :: 'c
  ca_key :: 'k
  ca_original_cert_pem :: "string option"
  ca_common_name :: string

record IssuedCert =
  ic_cert_pem :: string
  ic_key_pem :: string

definition Ca_cert_pem :: "('c, 'k) rcgen \<Rightarrow> ('c, 'k) Ca \<Rightarrow> string" where
  "Ca_cert_pem rg ca = unwrap_or (cert_to_pem rg (ca_cert ca)) (ca_original_cert_pem ca)"

definition Ca_key_pem :: "('c, 'k) rcgen \<Rightarrow> ('c, 'k) Ca \<Rightarrow> string" where
  "Ca_key_pem rg ca = key_to_pem rg (ca_key ca)"

definition root_params :: "string \<Rightarrow> CertParams" where
  "root_params common_name =
     \<lparr>cp_subject_alt_names = [],
      cp_distinguished_name = [(CommonName, common_name), (OrganizationName, ''MultiGPUCluster'')],
      cp_is_ca = True, cp_key_usages = [KeyCertSign, CrlSign, DigitalSignature],
      cp_extended_key_usages = [], cp_not_after = None\<rparr>"

definition build_root_cert :: "('c, 'k) rcgen \<Rightarrow> string \<Rightarrow> 'k \<Rightarrow> string + 'c" where
  "build_root_cert rg common_name key = self_signed rg (root_params common_name) key"

text \<open>\<open>generated\<close> is the outcome of \<open>KeyPair::generate()\<close>.\<close>

definition generate_root_ca :: "('c, 'k) rcgen \<Rightarrow> string + 'k \<Rightarrow> string \<Rightarrow> string + ('c, 'k) Ca" where
  "generate_root_ca rg generated common_name =
     (case generated of
        Inl e \<Rightarrow> Inl e
      | Inr key \<Rightarrow>
          (case build_root_cert rg common_name key of
             Inl e \<Rightarrow> Inl e
           | Inr cert \<Rightarrow> Inr \<lparr>ca_cert = cert, ca_key = key, ca_original_cert_pem = None,
                              ca_common_name = common_name\<rparr>))"

definition load_ca :: "('c, 'k) rcgen \<Rightarrow> string \<Rightarrow> string \<Rightarrow> string \<Rightarrow> string + ('c, 'k) Ca" where
  "load_ca rg common_name original_cert_pem key_pem =
     (case key_from_pem rg key_pem of
        Inl e \<Rightarrow> Inl e
      | Inr key \<Rightarrow>
          (case build_root_cert rg common_name key of
             Inl e \<Rightarrow> Inl e
           | Inr cert \<Rightarrow> Inr \<lparr>ca_cert = cert, ca_key = key, ca_original_cert_pem = Some original_cert_pem,
                              ca_common_name = common_name\<rparr>))"

definition node_params :: "time \<Rightarrow> string \<Rightarrow> nat \<Rightarrow> CertParams" where
  "node_params now node_id valid_days =
     \<lparr>cp_subject_alt_names = [node_id @ ''.nodes.cluster.local''],
      cp_distinguished_name = [(CommonName, node_id), (OrganizationalUnitName, ''worker-node'')],
      cp_is_ca = False, cp_key_usages = [DigitalSignature, KeyAgreement],
      cp_extended_key_usages = [ClientAuth],
      cp_not_after = Some (now + secs (86400 * int valid_days))\<rparr>"

definition issue_node_cert ::
  "('c, 'k) rcgen \<Rightarrow> string + 'k \<Rightarrow> time \<Rightarrow> ('c, 'k) Ca \<Rightarrow> string \<Rightarrow> nat \<Rightarrow> string + IssuedCert" where
  "issue_node_cert rg generated now ca node_id valid_days =
     (case params_new rg [node_id @ ''.nodes.cluster.local''] of
        Inl e \<Rightarrow> Inl e
      | Inr _ \<Rightarrow>
          (case generated of
             Inl e \<Rightarrow> Inl e
           | Inr leaf_key \<Rightarrow>
               (case signed_by rg (node_params now node_id valid_days) leaf_key (ca_cert ca) (ca_key ca) of
                  Inl e \<Rightarrow> Inl e
                | Inr leaf_cert \<Rightarrow> Inr \<lparr>ic_cert_pem = cert_to_pem rg leaf_cert,
                                        ic_key_pem = key_to_pem rg leaf_key\<rparr>)))"

subsection \<open>The stored CA (\<open>ca_store.rs\<close>)\<close>

record CaRow =
  cr_common_name :: string
  cr_cert_pem :: string
  cr_key_pem :: string

text \<open>The table holds at most one row. An error is shown as its outermost context.\<close>

definition load_or_init ::
  "('c, 'k) rcgen \<Rightarrow> string + 'k \<Rightarrow> db \<Rightarrow> string \<Rightarrow> CaRow option \<Rightarrow> (string + ('c, 'k) Ca) \<times> CaRow option" where
  "load_or_init rg generated db common_name stored =
     (case db 0 of
        Some e \<Rightarrow> (Inl ''query ca_state'', stored)
      | None \<Rightarrow>
          (case stored of
             Some r \<Rightarrow>
               (case load_ca rg (cr_common_name r) (cr_cert_pem r) (cr_key_pem r) of
                  Inl e \<Rightarrow> (Inl ''rehydrate stored CA'', stored)
                | Inr ca \<Rightarrow> (Inr ca, stored))
           | None \<Rightarrow>
               (case generate_root_ca rg generated common_name of
                  Inl e \<Rightarrow> (Inl e, stored)
                | Inr ca \<Rightarrow>
                    (case db 1 of
                       Some e \<Rightarrow> (Inl ''persist new CA'', stored)
                     | None \<Rightarrow>
                         (Inr ca, Some \<lparr>cr_common_name = common_name, cr_cert_pem = Ca_cert_pem rg ca,
                                        cr_key_pem = Ca_key_pem rg ca\<rparr>)))))"

definition issue_cert_for_node ::
  "('c, 'k) rcgen \<Rightarrow> string + 'k \<Rightarrow> time \<Rightarrow> ('c, 'k) Ca \<Rightarrow> string \<Rightarrow> nat \<Rightarrow> string + IssuedCert" where
  "issue_cert_for_node rg generated now ca node_id valid_days =
     issue_node_cert rg generated now ca node_id valid_days"

subsection \<open>Tables\<close>

record TokenRow =
  et_id :: string
  et_token_hash :: string
  et_display_hint :: "string option"
  et_expires_at :: time
  et_used_at :: "time option"
  et_used_by_node :: "string option"
  et_used_from_ip :: "IpAddr option"

record NodeRec =
  nr_id :: string
  nr_hw_fingerprint :: string
  nr_hostname :: "string option"
  nr_display_name :: "string option"
  nr_status :: string
  nr_agent_version :: "string option"
  nr_client_cert_sha :: "string option"
  nr_cert_expires_at :: "time option"
  nr_current_public_ip_v4 :: "IpAddr option"
  nr_public_ip_first_seen :: "time option"
  nr_public_ip_last_changed :: "time option"
  nr_current_country :: "string option"
  nr_first_seen :: time
  nr_last_heartbeat :: "time option"

record IpHistoryRow =
  ih_node_id :: string
  ih_ts :: time
  ih_public_ip_v4 :: IpAddr
  ih_source :: string

record EnrollState =
  es_tokens :: "TokenRow list"
  es_nodes :: "NodeRec list"
  es_ip_history :: "IpHistoryRow list"
  es_audit :: "AuditRow list"

subsection \<open>One-time tokens (\<open>enroll_token.rs\<close>)\<close>

record TokenRequest =
  tq_display_hint :: "string option"
  tq_ttl_secs :: "int option"

record TokenResponse =
  tr_token :: string
  tr_expires_at :: string

definition token_create ::
  "crypto \<Rightarrow> (time \<Rightarrow> string) \<Rightarrow> db \<Rightarrow> time \<Rightarrow> time \<Rightarrow> Entropy \<Rightarrow> TokenRequest \<Rightarrow> EnrollState
    \<Rightarrow> (ApiError + TokenResponse) \<times> EnrollState" where
  "token_create c to_rfc3339 db now db_now en req s =
     (let ttl = clamp 60 (24 * 3600) (unwrap_or 900 (tq_ttl_secs req))
      in (case en_random en of
            None \<Rightarrow> (Inl (Internal ''rng failed''), s)
          | Some token \<Rightarrow>
              (case hash_password c token (en_salt en) of
                 Inl e \<Rightarrow> (Inl (Internal (''argon2: '' @ e)), s)
               | Inr hash \<Rightarrow>
                   let expires = now + secs ttl
                   in (case db 0 of
                         Some e \<Rightarrow> (Inl (Internal e), s)
                       | None \<Rightarrow>
                           if en_id en \<in> et_id ` set (es_tokens s) \<or> hash \<in> et_token_hash ` set (es_tokens s)
                           then (Inl (Internal ''duplicate key value''), s)
                           else (Inr \<lparr>tr_token = token, tr_expires_at = to_rfc3339 expires\<rparr>,
                                 s \<lparr>es_tokens := es_tokens s @
                                      [\<lparr>et_id = en_id en, et_token_hash = hash,
                                        et_display_hint = tq_display_hint req, et_expires_at = expires,
                                        et_used_at = None, et_used_by_node = None, et_used_from_ip = None\<rparr>],
                                    es_audit := write_audit (db 1)
                                      (audit_row db_now ''admin'' ''ENROLL_TOKEN_GENERATED'' (en_id en)
                                        (JObj [(''display_hint'', jopt JStr (tq_display_hint req)),
                                               (''ttl_secs'', JInt ttl)])) (es_audit s)\<rparr>)))))"

subsection \<open>Enrollment (\<open>enroll.rs\<close>)\<close>

definition NODE_CERT_VALID_DAYS :: nat where "NODE_CERT_VALID_DAYS = 7"

record EnrollRequest =
  eq_token :: string
  eq_pubkey_b64 :: string
  eq_display_name :: "string option"
  eq_node :: json

definition node_str :: "EnrollRequest \<Rightarrow> string \<Rightarrow> string" where
  "node_str req key = unwrap_or [] (jget_str key (eq_node req))"

record EnrollResponse =
  er_node_id :: string
  er_client_cert_pem :: string
  er_client_key_pem :: string
  er_ca_chain_pem :: string
  er_coordinator_endpoint :: string
  er_cert_expires_at :: string
  er_wg_config_ini :: "string option"

definition client_ip :: "HeaderMap \<Rightarrow> IpAddr option" where
  "client_ip headers =
     option_or
       (Option.bind (Option.bind (header_get ''x-forwarded-for'' headers) to_str)
          (\<lambda>s. parse_ip (trim (takeWhile (\<lambda>c. c \<noteq> CHR '','') s))))
       (Option.bind (Option.bind (header_get ''x-real-ip'' headers) to_str) parse_ip)"

fun hex_encode :: "string \<Rightarrow> string" where
  "hex_encode [] = []"
| "hex_encode (b # bs) =
     (let H = ''0123456789abcdef''; n = (of_char b :: nat)
      in H ! (n div 16) # H ! (n mod 16) # hex_encode bs)"

text \<open>\<open>sha256\<close> is the digest function of \<open>ring\<close>, as bytes.\<close>

definition sha256_pem :: "(string \<Rightarrow> string) \<Rightarrow> string \<Rightarrow> string" where
  "sha256_pem sha256 pem = hex_encode (sha256 pem)"

text \<open>What an enrollment has decided before it writes anything.\<close>

record EnrollPlan =
  ep_token_id :: string
  ep_display_hint :: "string option"
  ep_node_id :: string
  ep_issued :: IssuedCert
  ep_now :: time
  ep_ip :: IpAddr

definition live_tokens :: "time \<Rightarrow> TokenRow list \<Rightarrow> TokenRow list" where
  "live_tokens now rows = filter (\<lambda>r. et_used_at r = None \<and> now < et_expires_at r) rows"

definition token_matches :: "crypto \<Rightarrow> string \<Rightarrow> TokenRow \<Rightarrow> bool" where
  "token_matches c token r \<longleftrightarrow> parse_hash c (et_token_hash r) \<and> verify_password c token (et_token_hash r)"

definition enroll_plan ::
  "crypto \<Rightarrow> ('c, 'k) rcgen \<Rightarrow> ('c, 'k) Ca \<Rightarrow> string + 'k \<Rightarrow> string \<Rightarrow> db \<Rightarrow> time \<Rightarrow> IpAddr \<Rightarrow> HeaderMap
    \<Rightarrow> EnrollRequest \<Rightarrow> EnrollState \<Rightarrow> ApiError + EnrollPlan" where
  "enroll_plan c rg ca generated fresh_id db now addr headers req s =
     (let hw_fingerprint = node_str req ''hw_fingerprint''
      in if eq_token req = [] \<or> hw_fingerprint = [] \<or> eq_pubkey_b64 req = []
         then Inl (BadRequest ''token, pubkey_b64, node.hw_fingerprint required'')
         else (case db 0 of
                 Some e \<Rightarrow> Inl (Internal e)
               | None \<Rightarrow>
                   (case find (token_matches c (eq_token req)) (live_tokens now (es_tokens s)) of
                      None \<Rightarrow> Inl Unauthorized
                    | Some token_row \<Rightarrow>
                        (case db 1 of
                           Some e \<Rightarrow> Inl (Internal e)
                         | None \<Rightarrow>
                             let node_id = (case find (\<lambda>r. nr_hw_fingerprint r = hw_fingerprint) (es_nodes s) of
                                              Some r \<Rightarrow> nr_id r | None \<Rightarrow> fresh_id)
                             in (case issue_cert_for_node rg generated now ca node_id NODE_CERT_VALID_DAYS of
                                   Inl e \<Rightarrow> Inl (Internal e)
                                 | Inr issued \<Rightarrow>
                                     Inr \<lparr>ep_token_id = et_id token_row, ep_display_hint = et_display_hint token_row,
                                          ep_node_id = node_id, ep_issued = issued, ep_now = now,
                                          ep_ip = unwrap_or addr (client_ip headers)\<rparr>)))))"

definition cert_expires :: "EnrollPlan \<Rightarrow> time" where
  "cert_expires p = ep_now p + secs (86400 * int NODE_CERT_VALID_DAYS)"

definition req_display :: "EnrollRequest \<Rightarrow> string option" where
  "req_display req =
     option_or (eq_display_name req) (option_filter (\<lambda>s. s \<noteq> []) (Some (node_str req ''display_name'')))"

definition new_node :: "(string \<Rightarrow> string) \<Rightarrow> EnrollRequest \<Rightarrow> EnrollPlan \<Rightarrow> NodeRec" where
  "new_node sha256 req p =
     \<lparr>nr_id = ep_node_id p, nr_hw_fingerprint = node_str req ''hw_fingerprint'',
      nr_hostname = Some (node_str req ''hostname''),
      nr_display_name = option_or (req_display req) (ep_display_hint p),
      nr_status = ''pending_approval'', nr_agent_version = Some (node_str req ''agent_version''),
      nr_client_cert_sha = Some (sha256_pem sha256 (ic_cert_pem (ep_issued p))),
      nr_cert_expires_at = Some (cert_expires p), nr_current_public_ip_v4 = Some (ep_ip p),
      nr_public_ip_first_seen = Some (ep_now p), nr_public_ip_last_changed = Some (ep_now p),
      nr_current_country = None, nr_first_seen = ep_now p, nr_last_heartbeat = None\<rparr>"

text \<open>\<open>ON CONFLICT (id) DO UPDATE\<close>: what a row that exists keeps and takes.\<close>

definition merge_node :: "NodeRec \<Rightarrow> NodeRec \<Rightarrow> NodeRec" where
  "merge_node excluded r =
     r \<lparr>nr_hostname := nr_hostname excluded,
        nr_display_name := option_or (nr_display_name excluded) (nr_display_name r),
        nr_agent_version := nr_agent_version excluded,
        nr_client_cert_sha := nr_client_cert_sha excluded,
        nr_cert_expires_at := nr_cert_expires_at excluded,
        nr_current_public_ip_v4 := nr_current_public_ip_v4 excluded,
        nr_public_ip_last_changed := nr_public_ip_last_changed excluded\<rparr>"

definition upsert_node :: "NodeRec \<Rightarrow> NodeRec list \<Rightarrow> NodeRec list option" where
  "upsert_node n rows =
     (if nr_id n \<in> nr_id ` set rows then Some (map (\<lambda>r. if nr_id r = nr_id n then merge_node n r else r) rows)
      else if nr_hw_fingerprint n \<in> nr_hw_fingerprint ` set rows then None
      else Some (rows @ [n]))"

definition use_token :: "time \<Rightarrow> EnrollPlan \<Rightarrow> TokenRow \<Rightarrow> TokenRow" where
  "use_token db_now p r =
     (if et_id r = ep_token_id p
      then r \<lparr>et_used_at := Some db_now, et_used_by_node := Some (ep_node_id p), et_used_from_ip := Some (ep_ip p)\<rparr>
      else r)"

definition enrolled_audit :: "time \<Rightarrow> EnrollRequest \<Rightarrow> EnrollPlan \<Rightarrow> AuditRow" where
  "enrolled_audit db_now req p =
     (audit_row db_now ''worker:enroll'' ''NODE_ENROLLED'' (ep_node_id p)
        (JObj [(''hw_fingerprint'', JStr (node_str req ''hw_fingerprint'')),
               (''hostname'', JStr (node_str req ''hostname'')),
               (''agent_version'', JStr (node_str req ''agent_version'')),
               (''device_name'', JStr (unwrap_or [] (Option.bind (jget ''os'' (eq_node req)) (jget_str ''device_name'')))),
               (''gpus_count'', JInt (int (unwrap_or 0 (map_option length
                                   (Option.bind (jget ''gpus'' (eq_node req)) as_array)))))]))
     \<lparr>au_ip := Some (ep_ip p)\<rparr>"

text \<open>The transaction: statement 2 opens it, 3 to 6 write, 7 commits; a failure changes nothing.\<close>

definition enroll_commit ::
  "(string \<Rightarrow> string) \<Rightarrow> db \<Rightarrow> time \<Rightarrow> EnrollRequest \<Rightarrow> EnrollPlan \<Rightarrow> EnrollState \<Rightarrow> (ApiError + unit) \<times> EnrollState" where
  "enroll_commit sha256 db db_now req p s =
     (case upsert_node (new_node sha256 req p) (es_nodes s) of
        None \<Rightarrow>
          (case option_or (db 2) (db 3) of
             Some e \<Rightarrow> (Inl (Internal e), s)
           | None \<Rightarrow> (Inl (Internal ''duplicate key value''), s))
      | Some nodes \<Rightarrow>
          (case option_or (db 2) (option_or (db 3) (option_or (db 4) (option_or (db 5) (option_or (db 6) (db 7))))) of
             Some e \<Rightarrow> (Inl (Internal e), s)
           | None \<Rightarrow>
               (Inr (),
                \<lparr>es_tokens = map (use_token db_now p) (es_tokens s), es_nodes = nodes,
                 es_ip_history = es_ip_history s @
                   [\<lparr>ih_node_id = ep_node_id p, ih_ts = db_now, ih_public_ip_v4 = ep_ip p, ih_source = ''tls_socket''\<rparr>],
                 es_audit = es_audit s @ [enrolled_audit db_now req p]\<rparr>)))"

text \<open>\<open>env\<close> is the process environment; an unreachable or refusing Headscale gives \<open>None\<close>.\<close>

definition build_wireguard_config :: "http \<Rightarrow> (string \<Rightarrow> string option) \<Rightarrow> string option" where
  "build_wireguard_config h env =
     (case (option_filter (\<lambda>s. s \<noteq> []) (env ''HEADSCALE_URL''), option_filter (\<lambda>s. s \<noteq> []) (env ''HEADSCALE_API_KEY'')) of
        (Some headscale_url, Some api_key) \<Rightarrow>
          let user = unwrap_or ''cluster'' (env ''HEADSCALE_USER'');
              base = trim_end_matches (CHR ''/'') headscale_url;
              nl = [CHR 0x0A]
          in (case send h \<lparr>rq_method = POST, rq_url = base @ ''/api/v1/preauthkey'',
                           rq_auth = Some (''Bearer '' @ api_key),
                           rq_body = Some (JObj [(''user'', JStr user), (''reusable'', JBool False),
                                                 (''ephemeral'', JBool False), (''expiration'', JStr ''1h'')])\<rparr> of
                Inl _ \<Rightarrow> None
              | Inr resp \<Rightarrow>
                  if \<not> is_success (rs_status resp) then None
                  else (case read_json h resp of
                          Inl _ \<Rightarrow> None
                        | Inr v \<Rightarrow>
                            map_option (\<lambda>key.
                                ''# gpucluster Headscale join '' @ [CHR 0xE2, CHR 0x80, CHR 0x94]
                                @ '' bootstrapper writes this to a state'' @ nl
                                @ ''# file the worker'' @ [CHR 0x27] @ ''s `tailscale up` reads. Real WG keys are managed'' @ nl
                                @ ''# by tailscaled.'' @ nl @ ''ServerURL = '' @ base @ nl
                                @ ''AuthKey   = '' @ key @ nl @ ''User      = '' @ user @ nl)
                              (Option.bind (jget ''preAuthKey'' v) (jget_str ''key''))))
      | _ \<Rightarrow> None)"

definition enroll_complete ::
  "crypto \<Rightarrow> (string \<Rightarrow> string) \<Rightarrow> (time \<Rightarrow> string) \<Rightarrow> http \<Rightarrow> (string \<Rightarrow> string option) \<Rightarrow> ('c, 'k) rcgen \<Rightarrow> ('c, 'k) Ca
    \<Rightarrow> string \<Rightarrow> string + 'k \<Rightarrow> string \<Rightarrow> db \<Rightarrow> time \<Rightarrow> time \<Rightarrow> IpAddr \<Rightarrow> HeaderMap \<Rightarrow> EnrollRequest \<Rightarrow> EnrollState
    \<Rightarrow> (ApiError + EnrollResponse) \<times> EnrollState" where
  "enroll_complete c sha256 to_rfc3339 h env rg ca coordinator_endpoint generated fresh_id db now db_now addr headers req s =
     (case enroll_plan c rg ca generated fresh_id db now addr headers req s of
        Inl e \<Rightarrow> (Inl e, s)
      | Inr p \<Rightarrow>
          (case enroll_commit sha256 db db_now req p s of
             (Inl e, s') \<Rightarrow> (Inl e, s')
           | (Inr _, s') \<Rightarrow>
               (Inr \<lparr>er_node_id = ep_node_id p, er_client_cert_pem = ic_cert_pem (ep_issued p),
                     er_client_key_pem = ic_key_pem (ep_issued p), er_ca_chain_pem = Ca_cert_pem rg ca,
                     er_coordinator_endpoint = coordinator_endpoint,
                     er_cert_expires_at = to_rfc3339 (cert_expires p),
                     er_wg_config_ini = build_wireguard_config h env\<rparr>, s')))"

subsection \<open>Node administration (\<open>nodes.rs\<close>)\<close>

record NodeRow =
  no_id :: string
  no_hostname :: "string option"
  no_display_name :: "string option"
  no_status :: string
  no_agent_version :: "string option"
  no_current_public_ip_v4 :: "string option"
  no_current_country :: "string option"
  no_first_seen :: "time option"
  no_last_heartbeat :: "time option"
  no_cert_expires_at :: "time option"

definition node_row :: "(IpAddr \<Rightarrow> string) \<Rightarrow> NodeRec \<Rightarrow> NodeRow" where
  "node_row host r =
     \<lparr>no_id = nr_id r, no_hostname = nr_hostname r, no_display_name = nr_display_name r,
      no_status = nr_status r, no_agent_version = nr_agent_version r,
      no_current_public_ip_v4 = map_option host (nr_current_public_ip_v4 r),
      no_current_country = nr_current_country r, no_first_seen = Some (nr_first_seen r),
      no_last_heartbeat = nr_last_heartbeat r, no_cert_expires_at = nr_cert_expires_at r\<rparr>"

definition nodes_list :: "(IpAddr \<Rightarrow> string) \<Rightarrow> db \<Rightarrow> EnrollState \<Rightarrow> ApiError + NodeRow list" where
  "nodes_list host db s =
     (case db 0 of
        Some e \<Rightarrow> Inl (Internal e)
      | None \<Rightarrow> Inr (take 200 (map (node_row host) (sort_key (\<lambda>r. - nr_first_seen r) (es_nodes s)))))"

definition nodes_get :: "(IpAddr \<Rightarrow> string) \<Rightarrow> db \<Rightarrow> string \<Rightarrow> EnrollState \<Rightarrow> ApiError + NodeRow" where
  "nodes_get host db i s =
     (case db 0 of
        Some e \<Rightarrow> Inl (Internal e)
      | None \<Rightarrow>
          (case find (\<lambda>r. nr_id r = i) (es_nodes s) of
             None \<Rightarrow> Inl NotFound
           | Some r \<Rightarrow> Inr (node_row host r)))"

definition set_node_status :: "string \<Rightarrow> (string \<Rightarrow> bool) \<Rightarrow> string \<Rightarrow> NodeRec list \<Rightarrow> NodeRec list" where
  "set_node_status i from new rows =
     map (\<lambda>r. if nr_id r = i \<and> from (nr_status r) then r \<lparr>nr_status := new\<rparr> else r) rows"

definition nodes_approve :: "db \<Rightarrow> time \<Rightarrow> string \<Rightarrow> EnrollState \<Rightarrow> (ApiError + json) \<times> EnrollState" where
  "nodes_approve db db_now i s =
     (case db 0 of
        Some e \<Rightarrow> (Inl (Internal e), s)
      | None \<Rightarrow>
          if \<not> list_ex (\<lambda>r. nr_id r = i \<and> nr_status r = ''pending_approval'') (es_nodes s) then (Inl NotFound, s)
          else (Inr (JObj [(''ok'', JBool True)]),
                s \<lparr>es_nodes := set_node_status i (\<lambda>st. st = ''pending_approval'') ''online'' (es_nodes s),
                   es_audit := write_audit (db 1) (audit_row db_now ''admin'' ''NODE_APPROVED'' i (JObj []))
                     (es_audit s)\<rparr>))"

definition nodes_revoke :: "db \<Rightarrow> time \<Rightarrow> string \<Rightarrow> EnrollState \<Rightarrow> (ApiError + json) \<times> EnrollState" where
  "nodes_revoke db db_now i s =
     (case db 0 of
        Some e \<Rightarrow> (Inl (Internal e), s)
      | None \<Rightarrow>
          (Inr (JObj [(''ok'', JBool True)]),
           s \<lparr>es_nodes := set_node_status i (\<lambda>_. True) ''revoked'' (es_nodes s),
              es_audit := write_audit (db 1) (audit_row db_now ''admin'' ''NODE_REVOKED'' i (JObj []))
                (es_audit s)\<rparr>))"

definition nodes_drain :: "db \<Rightarrow> time \<Rightarrow> string \<Rightarrow> EnrollState \<Rightarrow> (ApiError + json) \<times> EnrollState" where
  "nodes_drain db db_now i s =
     (case db 0 of
        Some e \<Rightarrow> (Inl (Internal e), s)
      | None \<Rightarrow>
          if \<not> list_ex (\<lambda>r. nr_id r = i \<and> nr_status r \<in> {''online'', ''degraded''}) (es_nodes s)
          then (Inl (Conflict ''node not in a drainable state (must be online or degraded)''), s)
          else (Inr (JObj [(''ok'', JBool True)]),
                s \<lparr>es_nodes := set_node_status i (\<lambda>st. st \<in> {''online'', ''degraded''}) ''draining'' (es_nodes s),
                   es_audit := write_audit (db 1) (audit_row db_now ''admin'' ''NODE_DRAIN_REQUESTED'' i (JObj []))
                     (es_audit s)\<rparr>))"

subsection \<open>Steps and the life cycle of a node\<close>

text \<open>
  One step of the tables. A commit may belong to a plan made on any earlier state, so the relation
  covers every interleaving of enrollments with each other and with the admin's calls.
\<close>

inductive enroll_step :: "EnrollState \<Rightarrow> EnrollState \<Rightarrow> bool" where
  token: "enroll_step s (snd (token_create c fmt db now db_now en req s))"
| commit: "node_str req ''hw_fingerprint'' \<noteq> [] \<Longrightarrow> enroll_step s (snd (enroll_commit sha256 db db_now req p s))"
| approve: "enroll_step s (snd (nodes_approve db db_now i s))"
| revoke: "enroll_step s (snd (nodes_revoke db db_now i s))"
| drain: "enroll_step s (snd (nodes_drain db db_now i s))"

text \<open>
  The specification of node administration: which status a node id may have next. It knows nothing
  of tokens, certificates, addresses and the audit log.
\<close>

inductive node_life :: "(string \<rightharpoonup> string) \<Rightarrow> (string \<rightharpoonup> string) \<Rightarrow> bool" where
  idle: "node_life m m"
| enrolled: "m i = None \<Longrightarrow> node_life m (m(i \<mapsto> ''pending_approval''))"
| approved: "m i = Some ''pending_approval'' \<Longrightarrow> node_life m (m(i \<mapsto> ''online''))"
| drained: "m i = Some st \<Longrightarrow> st \<in> {''online'', ''degraded''} \<Longrightarrow> node_life m (m(i \<mapsto> ''draining''))"
| revoked: "m i = Some st \<Longrightarrow> node_life m (m(i \<mapsto> ''revoked''))"

definition life_of :: "EnrollState \<Rightarrow> (string \<rightharpoonup> string)" where
  "life_of s = map_of (map (\<lambda>r. (nr_id r, nr_status r)) (es_nodes s))"

definition enroll_inv :: "EnrollState \<Rightarrow> bool" where
  "enroll_inv s \<longleftrightarrow>
     distinct (map nr_id (es_nodes s)) \<and> distinct (map nr_hw_fingerprint (es_nodes s)) \<and>
     (\<forall>r \<in> set (es_nodes s). nr_hw_fingerprint r \<noteq> []) \<and> distinct (map et_id (es_tokens s))"

lemma life_of_map:
  assumes "es_nodes s' = map f (es_nodes s)" and "\<And>r. nr_id (f r) = nr_id r"
    and "\<And>r. nr_status (f r) = (if nr_id r = i \<and> P (nr_status r) then new else nr_status r)"
    and "distinct (map nr_id (es_nodes s))"
  shows "life_of s' = (case life_of s i of
    Some st \<Rightarrow> if P st then (life_of s)(i \<mapsto> new) else life_of s | None \<Rightarrow> life_of s)"
proof
  fix k
  have "map_of (map (\<lambda>r. (nr_id (f r), nr_status (f r))) rows) k =
      (case map_of (map (\<lambda>r. (nr_id r, nr_status r)) rows) k of
         Some st \<Rightarrow> Some (if k = i \<and> P st then new else st) | None \<Rightarrow> None)" for rows
    by (induction rows) (auto simp: assms(2,3))
  then show "life_of s' k = (case life_of s i of
    Some st \<Rightarrow> if P st then (life_of s)(i \<mapsto> new) else life_of s | None \<Rightarrow> life_of s) k"
    by (auto simp: life_of_def assms(1) comp_def split: option.split)
qed

lemma life_of_None: "life_of s i = None \<longleftrightarrow> i \<notin> nr_id ` set (es_nodes s)"
  by (simp add: life_of_def map_of_eq_None_iff image_image)

lemma set_node_status_keys [simp]:
  "map nr_id (set_node_status i P new rows) = map nr_id rows"
  "map nr_hw_fingerprint (set_node_status i P new rows) = map nr_hw_fingerprint rows"
  by (simp_all add: set_node_status_def)

lemma merge_node_keys [simp]:
  "nr_id (merge_node n r) = nr_id r" "nr_hw_fingerprint (merge_node n r) = nr_hw_fingerprint r"
  "nr_status (merge_node n r) = nr_status r"
  by (simp_all add: merge_node_def)

lemma use_token_id [simp]: "et_id (use_token t p r) = et_id r"
  by (simp add: use_token_def)

lemma map_keys_nonempty:
  "map nr_hw_fingerprint rows' = map nr_hw_fingerprint rows \<Longrightarrow>
   (\<forall>r \<in> set rows'. nr_hw_fingerprint r \<noteq> []) \<longleftrightarrow> (\<forall>r \<in> set rows. nr_hw_fingerprint r \<noteq> [])"
  by (metis (mono_tags, lifting) image_iff set_map)

text \<open>An edit of statuses keeps the invariant.\<close>

lemma enroll_inv_status:
  "enroll_inv s \<Longrightarrow> es_nodes s' = set_node_status i P new (es_nodes s) \<Longrightarrow> es_tokens s' = es_tokens s \<Longrightarrow> enroll_inv s'"
  by (simp add: enroll_inv_def map_keys_nonempty [OF set_node_status_keys(2)])

lemma life_of_status:
  assumes "enroll_inv s" and "es_nodes s' = set_node_status i P new (es_nodes s)"
  shows "life_of s' = (case life_of s i of
    Some st \<Rightarrow> if P st then (life_of s)(i \<mapsto> new) else life_of s | None \<Rightarrow> life_of s)"
  by (rule life_of_map [where f = "\<lambda>r. if nr_id r = i \<and> P (nr_status r) then r \<lparr>nr_status := new\<rparr> else r"])
    (use assms in \<open>simp_all add: set_node_status_def enroll_inv_def\<close>)

text \<open>What a commit does to the tables when it changes them at all.\<close>

lemma enroll_commit_cases:
  obtains e where "enroll_commit sha256 db t req p s = (Inl e, s)"
  | nodes where "fst (enroll_commit sha256 db t req p s) = Inr ()"
      and "upsert_node (new_node sha256 req p) (es_nodes s) = Some nodes"
      and "es_nodes (snd (enroll_commit sha256 db t req p s)) = nodes"
      and "es_tokens (snd (enroll_commit sha256 db t req p s)) = map (use_token t p) (es_tokens s)"
proof (cases "upsert_node (new_node sha256 req p) (es_nodes s)")
  case None
  then show thesis using that(1) by (cases "option_or (db 2) (db 3)") (auto simp: enroll_commit_def)
next
  case (Some nodes)
  then show thesis using that
    by (cases "option_or (db 2) (option_or (db 3) (option_or (db 4) (option_or (db 5) (option_or (db 6) (db 7)))))")
      (auto simp: enroll_commit_def)
qed

lemma new_node_simps [simp]:
  "nr_id (new_node sha256 req p) = ep_node_id p"
  "nr_hw_fingerprint (new_node sha256 req p) = node_str req ''hw_fingerprint''"
  "nr_status (new_node sha256 req p) = ''pending_approval''"
  by (simp_all add: new_node_def)

lemma upsert_node_cases:
  assumes "upsert_node n rows = Some nodes"
  obtains "nr_id n \<in> nr_id ` set rows" "nodes = map (\<lambda>r. if nr_id r = nr_id n then merge_node n r else r) rows"
  | "nr_id n \<notin> nr_id ` set rows" "nr_hw_fingerprint n \<notin> nr_hw_fingerprint ` set rows" "nodes = rows @ [n]"
  using assms by (auto simp: upsert_node_def split: if_splits)

lemma commit_keeps:
  assumes inv: "enroll_inv s" and hw: "node_str req ''hw_fingerprint'' \<noteq> []"
    and s': "s' = snd (enroll_commit sha256 db t req p s)"
  shows "enroll_inv s' \<and> node_life (life_of s) (life_of s')"
proof (cases rule: enroll_commit_cases [of sha256 db t req p s])
  case (1 e)
  with inv s' show ?thesis by (simp add: node_life.idle)
next
  case (2 nodes)
  have tok: "map et_id (es_tokens s') = map et_id (es_tokens s)" using 2(4) s' by (simp add: comp_def)
  from 2(2) show ?thesis
  proof (cases rule: upsert_node_cases)
    case 1
    let ?f = "\<lambda>r. if nr_id r = ep_node_id p then merge_node (new_node sha256 req p) r else r"
    have n: "es_nodes s' = map ?f (es_nodes s)" using 1(2) 2(3) s' by simp
    have "map nr_id (es_nodes s') = map nr_id (es_nodes s)"
      and h: "map nr_hw_fingerprint (es_nodes s') = map nr_hw_fingerprint (es_nodes s)" by (simp_all add: n)
    with inv tok have "enroll_inv s'" by (simp add: enroll_inv_def map_keys_nonempty [OF h])
    moreover have "life_of s' = life_of s"
      unfolding life_of_def n map_map comp_def by (intro arg_cong [where f = map_of] map_cong) auto
    ultimately show ?thesis by (simp add: node_life.idle)
  next
    case 2
    have n: "es_nodes s' = es_nodes s @ [new_node sha256 req p]" using 2(3) \<open>es_nodes (snd _) = nodes\<close> s' by simp
    with inv hw 2 tok have "enroll_inv s'" by (auto simp: enroll_inv_def)
    moreover have "life_of s' = (life_of s)(ep_node_id p \<mapsto> ''pending_approval'')"
    proof
      fix k show "life_of s' k = ((life_of s)(ep_node_id p \<mapsto> ''pending_approval'')) k"
        using 2(1) life_of_None [of s "ep_node_id p"]
        by (auto simp: life_of_def n map_add_def split: option.split)
    qed
    moreover have "life_of s (ep_node_id p) = None" using 2(1) by (simp add: life_of_None)
    ultimately show ?thesis by (simp add: node_life.enrolled)
  qed
qed

lemma status_keeps:
  assumes "enroll_inv s"
    and "s' = s \<or> es_nodes s' = set_node_status i P new (es_nodes s) \<and> es_tokens s' = es_tokens s"
    and life: "\<And>m st. m i = Some st \<Longrightarrow> P st \<Longrightarrow> node_life m (m(i \<mapsto> new))"
  shows "enroll_inv s' \<and> node_life (life_of s) (life_of s')"
  using assms(2)
proof
  assume "s' = s"
  with assms(1) show ?thesis by (simp add: node_life.idle)
next
  assume s': "es_nodes s' = set_node_status i P new (es_nodes s) \<and> es_tokens s' = es_tokens s"
  then have "enroll_inv s'" using assms(1) by (blast intro: enroll_inv_status)
  moreover have "node_life (life_of s) (life_of s')"
    unfolding life_of_status [OF assms(1) conjunct1 [OF s']]
    using life by (auto split: option.split intro: node_life.idle)
  ultimately show ?thesis ..
qed

text \<open>Every step keeps the invariant and is a step of the life cycle.\<close>

lemma enroll_step_refines:
  assumes "enroll_inv s" and "enroll_step s s'"
  shows "enroll_inv s' \<and> node_life (life_of s) (life_of s')"
  using assms(2)
proof (cases rule: enroll_step.cases)
  case (token c fmt db now db_now en req)
  then have "es_nodes s' = es_nodes s" and "distinct (map et_id (es_tokens s'))"
    using assms(1) by (auto simp: token_create_def Let_def enroll_inv_def split: option.splits sum.splits if_splits)
  then show ?thesis using assms(1) by (auto simp: enroll_inv_def life_of_def intro: node_life.idle)
next
  case (commit req sha256 db db_now p)
  with commit_keeps [OF assms(1) commit(2,1)] show ?thesis by simp
next
  case (approve db db_now i)
  then have "s' = s \<or> es_nodes s' = set_node_status i (\<lambda>st. st = ''pending_approval'') ''online'' (es_nodes s) \<and> es_tokens s' = es_tokens s"
    by (auto simp: nodes_approve_def split: option.splits if_splits)
  then show ?thesis by (rule status_keeps [OF assms(1)]) (simp add: node_life.approved)
next
  case (revoke db db_now i)
  then have "s' = s \<or> es_nodes s' = set_node_status i (\<lambda>_. True) ''revoked'' (es_nodes s) \<and> es_tokens s' = es_tokens s"
    by (auto simp: nodes_revoke_def split: option.splits)
  then show ?thesis by (rule status_keeps [OF assms(1)]) (simp add: node_life.revoked)
next
  case (drain db db_now i)
  then have "s' = s \<or> es_nodes s' = set_node_status i (\<lambda>st. st \<in> {''online'', ''degraded''}) ''draining'' (es_nodes s) \<and> es_tokens s' = es_tokens s"
    by (auto simp: nodes_drain_def split: option.splits if_splits)
  then show ?thesis by (rule status_keeps [OF assms(1)]) (simp add: node_life.drained)
qed

lemma enroll_steps_refine:
  assumes "enroll_step\<^sup>*\<^sup>* s s'" and "enroll_inv s"
  shows "enroll_inv s' \<and> node_life\<^sup>*\<^sup>* (life_of s) (life_of s')"
  using assms
proof (induction rule: rtranclp_induct)
  case base
  then show ?case by simp
next
  case (step y z)
  with enroll_step_refines [of y z] show ?case by (meson rtranclp.rtrancl_into_rtrancl)
qed

text \<open>In the life cycle \<open>revoked\<close> is final and no id disappears.\<close>

lemma node_life_revoked: "node_life\<^sup>*\<^sup>* m m' \<Longrightarrow> m i = Some ''revoked'' \<Longrightarrow> m' i = Some ''revoked''"
  by (induction rule: rtranclp_induct) (auto elim!: node_life.cases split: if_splits)

lemma node_life_dom: "node_life\<^sup>*\<^sup>* m m' \<Longrightarrow> dom m \<subseteq> dom m'"
  by (induction rule: rtranclp_induct) (auto elim!: node_life.cases split: if_splits)

subsection \<open>Spent tokens\<close>

definition spent :: "crypto \<Rightarrow> string \<Rightarrow> EnrollState \<Rightarrow> bool" where
  "spent c tok s \<longleftrightarrow> (\<forall>r \<in> set (es_tokens s). token_matches c tok r \<longrightarrow> et_used_at r \<noteq> None)"

text \<open>A step that creates no token for \<open>tok\<close>.\<close>

definition harmless_step :: "crypto \<Rightarrow> string \<Rightarrow> EnrollState \<Rightarrow> EnrollState \<Rightarrow> bool" where
  "harmless_step c tok s s' \<longleftrightarrow> enroll_step s s' \<and>
     (\<forall>r \<in> set (es_tokens s'). et_id r \<notin> et_id ` set (es_tokens s) \<longrightarrow> \<not> token_matches c tok r)"

lemma use_token_simps [simp]:
  "token_matches c tok (use_token t p r) = token_matches c tok r"
  "et_used_at (use_token t p r) = None \<longleftrightarrow> et_id r \<noteq> ep_token_id p \<and> et_used_at r = None"
  by (simp_all add: use_token_def token_matches_def)

text \<open>The token table only grows, and a row changes only by being used.\<close>

lemma token_create_tokens:
  "\<exists>extra. es_tokens (snd (token_create c fmt db now t en req s)) = es_tokens s @ extra \<and>
     (\<forall>r \<in> set extra. et_id r \<notin> et_id ` set (es_tokens s))"
  by (auto simp: token_create_def Let_def split: option.split sum.split)

lemma spent_step:
  assumes "spent c tok s" and "harmless_step c tok s s'"
  shows "spent c tok s'"
proof -
  have quiet: "\<not> token_matches c tok r" if "r \<in> set (es_tokens s')" "et_id r \<notin> et_id ` set (es_tokens s)" for r
    using assms(2) that by (simp add: harmless_step_def)
  have "enroll_step s s'" using assms(2) by (simp add: harmless_step_def)
  then show ?thesis
  proof (cases rule: enroll_step.cases)
    case (token c' fmt db now db_now en req)
    then obtain extra where "es_tokens s' = es_tokens s @ extra" "\<forall>r \<in> set extra. et_id r \<notin> et_id ` set (es_tokens s)"
      using token_create_tokens by blast
    with quiet assms(1) show ?thesis by (auto simp: spent_def)
  next
    case (commit req sha256 db db_now p)
    then have "es_tokens s' = es_tokens s \<or> es_tokens s' = map (use_token db_now p) (es_tokens s)"
      by (cases rule: enroll_commit_cases [of sha256 db db_now req p s]) simp_all
    with assms(1) show ?thesis unfolding spent_def by (elim disjE) (simp_all del: not_None_eq)
  next
    case (approve db db_now i)
    then have "es_tokens s' = es_tokens s" by (simp add: nodes_approve_def split: option.split)
    with assms(1) show ?thesis by (simp add: spent_def)
  next
    case (revoke db db_now i)
    then have "es_tokens s' = es_tokens s" by (simp add: nodes_revoke_def split: option.split)
    with assms(1) show ?thesis by (simp add: spent_def)
  next
    case (drain db db_now i)
    then have "es_tokens s' = es_tokens s" by (simp add: nodes_drain_def split: option.split)
    with assms(1) show ?thesis by (simp add: spent_def)
  qed
qed

lemma spent_steps: "(harmless_step c tok)\<^sup>*\<^sup>* s s' \<Longrightarrow> spent c tok s \<Longrightarrow> spent c tok s'"
  by (induction rule: rtranclp_induct) (auto intro: spent_step)

lemma spent_no_match: "spent c tok s \<Longrightarrow> find (token_matches c tok) (live_tokens now (es_tokens s)) = None"
  by (auto simp: spent_def live_tokens_def find_None_all)

lemma enroll_plan_ok:
  assumes "enroll_plan c rg ca gen fresh db now addr headers req s = Inr p"
  obtains r where "r \<in> set (es_tokens s)" "token_matches c (eq_token req) r" "et_used_at r = None"
    "now < et_expires_at r" "ep_token_id p = et_id r" "node_str req ''hw_fingerprint'' \<noteq> []"
proof -
  from assms obtain r where f: "find (token_matches c (eq_token req)) (live_tokens now (es_tokens s)) = Some r"
    and "ep_token_id p = et_id r" "node_str req ''hw_fingerprint'' \<noteq> []"
    by (auto simp: enroll_plan_def Let_def split: if_splits option.splits sum.splits)
  with that find_Some_D [OF f] show thesis by (auto simp: live_tokens_def)
qed

lemma enroll_complete_ok:
  assumes "enroll_complete c sha fmt h env rg ca ep gen fresh db now t addr headers req s = (Inr resp, s')"
  obtains p where "enroll_plan c rg ca gen fresh db now addr headers req s = Inr p"
    and "enroll_commit sha db t req p s = (Inr (), s')"
  using assms that by (auto simp: enroll_complete_def split: sum.splits prod.splits)

lemma enroll_spends:
  assumes "enroll_complete c sha fmt h env rg ca ep gen fresh db now t addr headers req s = (Inr resp, s')"
    and "\<forall>r \<in> set (es_tokens s). \<forall>r' \<in> set (es_tokens s). token_matches c (eq_token req) r \<and> et_used_at r = None \<and>
      token_matches c (eq_token req) r' \<and> et_used_at r' = None \<longrightarrow> et_id r = et_id r'"
  shows "spent c (eq_token req) s'"
proof -
  from assms(1) obtain p where p: "enroll_plan c rg ca gen fresh db now addr headers req s = Inr p"
    and cm: "enroll_commit sha db t req p s = (Inr (), s')" by (rule enroll_complete_ok)
  from p obtain r where r: "r \<in> set (es_tokens s)" "token_matches c (eq_token req) r" "et_used_at r = None"
    "ep_token_id p = et_id r" by (rule enroll_plan_ok)
  have s': "es_tokens s' = map (use_token t p) (es_tokens s)"
    using cm by (cases rule: enroll_commit_cases [of sha db t req p s]) simp_all
  have "et_used_at (use_token t p q) \<noteq> None" if "q \<in> set (es_tokens s)" "token_matches c (eq_token req) q" for q
  proof
    assume "et_used_at (use_token t p q) = None"
    then have q: "et_used_at q = None" "et_id q \<noteq> et_id r" by (simp_all add: r(4))
    have "et_id r = et_id q" using bspec [OF bspec [OF assms(2) r(1)] that(1)] r(2,3) that(2) q(1) by simp
    with q(2) show False by simp
  qed
  then show ?thesis unfolding spent_def s' set_map by (simp del: not_None_eq use_token_simps(2))
qed

subsection \<open>Samples\<close>

text \<open>A certificate library whose certificates are their parameters and whose PEM text is the key.\<close>

definition sample_rcgen :: "(CertParams, string) rcgen" where
  "sample_rcgen =
     \<lparr>params_new = (\<lambda>_. Inr ()), self_signed = (\<lambda>p k. Inr p), signed_by = (\<lambda>p k c ck. Inr p),
      cert_to_pem = (\<lambda>_. ''cert''), key_to_pem = (\<lambda>k. k), key_from_pem = (\<lambda>s. Inr s)\<rparr>"

definition sample_ca :: "(CertParams, string) Ca" where
  "sample_ca = \<lparr>ca_cert = root_params ''c'', ca_key = ''k'', ca_original_cert_pem = None, ca_common_name = ''c''\<rparr>"

definition sample_token :: TokenRow where
  "sample_token = \<lparr>et_id = ''t1'', et_token_hash = ''secret'', et_display_hint = None, et_expires_at = secs 900,
     et_used_at = None, et_used_by_node = None, et_used_from_ip = None\<rparr>"

definition sample_enroll :: EnrollState where
  "sample_enroll = \<lparr>es_tokens = [sample_token], es_nodes = [], es_ip_history = [], es_audit = []\<rparr>"

definition sample_enroll_request :: "string \<Rightarrow> EnrollRequest" where
  "sample_enroll_request hw = \<lparr>eq_token = ''secret'', eq_pubkey_b64 = ''pk'', eq_display_name = None,
     eq_node = JObj [(''hw_fingerprint'', JStr hw)]\<rparr>"

definition enroll_sample :: "string \<Rightarrow> string \<Rightarrow> EnrollState \<Rightarrow> (ApiError + EnrollResponse) \<times> EnrollState" where
  "enroll_sample hw fresh_id s =
     enroll_complete plain_crypto (\<lambda>s. s) (\<lambda>_. []) (json_http JNull) (\<lambda>_. None) sample_rcgen sample_ca ''http://c''
       (Inr ''leaf'') fresh_id db_up 5 5 (V4 [10, 0, 0, 1]) [] (sample_enroll_request hw) s"

lemmas enroll_eval = enroll_sample_def enroll_complete_def enroll_plan_def enroll_commit_def upsert_node_def
  issue_cert_for_node_def issue_node_cert_def sample_rcgen_def sample_enroll_request_def node_str_def
  live_tokens_def token_matches_def plain_crypto_def

lemma sample_enrolled:
  "\<exists>resp s'. enroll_sample ''hw'' ''n1'' sample_enroll = (Inr resp, s') \<and> er_node_id resp = ''n1'' \<and>
     life_of s' ''n1'' = Some ''pending_approval'' \<and> enroll_inv s'"
  by (simp add: enroll_eval sample_enroll_def sample_token_def life_of_def enroll_inv_def Let_def secs_def)

subsection \<open>Properties\<close>

text \<open>
  C8. Node administration refines its life cycle: whatever the interleaving of token creations,
  enrollments (each planned on any earlier state), approvals, revocations and drains, with any
  database failures, the statuses of the nodes only move as the life cycle allows, and the tables
  keep unique ids, unique non-empty fingerprints and unique token ids.
\<close>

theorem enroll_refines_life:
  assumes "enroll_inv s" and "enroll_step\<^sup>*\<^sup>* s s'"
  shows "enroll_inv s' \<and> node_life\<^sup>*\<^sup>* (life_of s) (life_of s')"
  by (rule enroll_steps_refine [OF assms(2,1)])

theorem enroll_refines_life_witness:
  "enroll_inv (snd (nodes_revoke db_up 5 ''n1'' sample_enroll)) \<and>
   node_life\<^sup>*\<^sup>* (life_of sample_enroll) (life_of (snd (nodes_revoke db_up 5 ''n1'' sample_enroll)))"
proof -
  have "enroll_inv sample_enroll" by (simp add: enroll_inv_def sample_enroll_def)
  moreover have "enroll_step\<^sup>*\<^sup>* sample_enroll (snd (nodes_revoke db_up 5 ''n1'' sample_enroll))"
    by (rule r_into_rtranclp) (rule enroll_step.revoke)
  ultimately show ?thesis by (rule enroll_refines_life)
qed

text \<open>
  C38. A revoked node stays revoked: no later sequence of enrollments and admin calls gives its id
  another status or removes it.
\<close>

theorem revoked_node_stays_revoked:
  assumes "enroll_inv s" and "nodes_revoke db t i s = (Inr ok, s')" and "i \<in> nr_id ` set (es_nodes s)"
    and "enroll_step\<^sup>*\<^sup>* s' s''"
  shows "life_of s'' i = Some ''revoked''"
proof -
  have n: "es_nodes s' = set_node_status i (\<lambda>_. True) ''revoked'' (es_nodes s)" and "es_tokens s' = es_tokens s"
    using assms(2) by (auto simp: nodes_revoke_def split: option.splits)
  with assms(1) have inv: "enroll_inv s'" by (blast intro: enroll_inv_status)
  have "life_of s i \<noteq> None" using assms(3) by (simp add: life_of_None)
  then have "life_of s' i = Some ''revoked''" by (auto simp: life_of_status [OF assms(1) n])
  with enroll_steps_refine [OF assms(4) inv] show ?thesis by (blast intro: node_life_revoked)
qed

theorem revoked_node_stays_revoked_witness:
  "\<exists>resp s'. enroll_sample ''hw'' ''n1'' sample_enroll = (Inr resp, s') \<and>
     life_of (snd (nodes_approve db_up 7 ''n1'' (snd (nodes_revoke db_up 6 ''n1'' s')))) ''n1'' = Some ''revoked''"
proof -
  obtain resp s' where e: "enroll_sample ''hw'' ''n1'' sample_enroll = (Inr resp, s')"
    and l: "life_of s' ''n1'' = Some ''pending_approval''" and inv: "enroll_inv s'"
    using sample_enrolled by blast
  obtain ok s'' where r: "nodes_revoke db_up 6 ''n1'' s' = (Inr ok, s'')" by (simp add: nodes_revoke_def)
  have "''n1'' \<in> nr_id ` set (es_nodes s')" using l life_of_None [of s' "''n1''"] by simp
  moreover have "enroll_step\<^sup>*\<^sup>* s'' (snd (nodes_approve db_up 7 ''n1'' s''))"
    by (rule r_into_rtranclp) (rule enroll_step.approve)
  ultimately have "life_of (snd (nodes_approve db_up 7 ''n1'' s'')) ''n1'' = Some ''revoked''"
    by (rule revoked_node_stays_revoked [OF inv r])
  with e r show ?thesis by simp
qed

text \<open>
  C9. An enrollment token is good once: after a successful enrollment with the only unused token row
  that verifies it, every later well-formed enrollment with that token is refused as unauthorized and
  changes nothing, as long as no new token for it is created.
\<close>

theorem enroll_token_single_use:
  assumes "enroll_complete c sha fmt h env rg ca ep gen fresh db now t addr headers req s = (Inr resp, s')"
    and "\<forall>r \<in> set (es_tokens s). \<forall>r' \<in> set (es_tokens s). token_matches c (eq_token req) r \<and> et_used_at r = None \<and>
      token_matches c (eq_token req) r' \<and> et_used_at r' = None \<longrightarrow> et_id r = et_id r'"
    and "(harmless_step c (eq_token req))\<^sup>*\<^sup>* s' s''"
    and "eq_token req' = eq_token req" and "node_str req' ''hw_fingerprint'' \<noteq> []" and "eq_pubkey_b64 req' \<noteq> []"
    and "db' 0 = None"
  shows "enroll_complete c sha fmt h env rg' ca' ep gen' fresh' db' now' t' addr' headers' req' s'' = (Inl Unauthorized, s'')"
proof -
  have "spent c (eq_token req) s''" using spent_steps [OF assms(3) enroll_spends [OF assms(1,2)]] .
  moreover from assms(1) obtain p where "enroll_plan c rg ca gen fresh db now addr headers req s = Inr p"
    by (rule enroll_complete_ok)
  then have "eq_token req \<noteq> []" by (auto simp: enroll_plan_def Let_def split: if_splits)
  ultimately show ?thesis
    using assms(4-7) spent_no_match [of c "eq_token req" s'' now']
    by (simp add: enroll_complete_def enroll_plan_def)
qed

theorem enroll_token_single_use_witness:
  "fst (enroll_sample ''hw2'' ''n2'' (snd (enroll_sample ''hw'' ''n1'' sample_enroll))) = Inl Unauthorized"
proof -
  obtain resp s' where e: "enroll_sample ''hw'' ''n1'' sample_enroll = (Inr resp, s')" using sample_enrolled by blast
  have u: "\<forall>r \<in> set (es_tokens sample_enroll). \<forall>r' \<in> set (es_tokens sample_enroll).
      token_matches plain_crypto (eq_token (sample_enroll_request ''hw'')) r \<and> et_used_at r = None \<and>
      token_matches plain_crypto (eq_token (sample_enroll_request ''hw'')) r' \<and> et_used_at r' = None \<longrightarrow> et_id r = et_id r'"
    by (simp add: sample_enroll_def)
  have "enroll_sample ''hw2'' ''n2'' s' = (Inl Unauthorized, s')"
    unfolding enroll_sample_def
    by (rule enroll_token_single_use [OF e [unfolded enroll_sample_def] u rtranclp.rtrancl_refl])
      (simp_all add: sample_enroll_request_def node_str_def)
  with e show ?thesis by simp
qed

text \<open>The id an enrollment gives a machine: the one it has, or a fresh one.\<close>

definition enrolled_id :: "string \<Rightarrow> string \<Rightarrow> EnrollState \<Rightarrow> string" where
  "enrolled_id fresh_id hw s =
     (case find (\<lambda>r. nr_hw_fingerprint r = hw) (es_nodes s) of Some r \<Rightarrow> nr_id r | None \<Rightarrow> fresh_id)"

lemma token_create_live:
  assumes "hash_correct c" and "token_create c fmt db now t en treq s = (Inr tr, s1)"
    and "now' < now + secs (clamp 60 (24 * 3600) (unwrap_or 900 (tq_ttl_secs treq)))"
  shows "\<exists>r. find (token_matches c (tr_token tr)) (live_tokens now' (es_tokens s1)) = Some r" "es_nodes s1 = es_nodes s"
proof -
  from assms(2) obtain hash where h: "hash_password c (tr_token tr) (en_salt en) = Inr hash"
    and s1: "\<exists>r \<in> set (es_tokens s1). et_token_hash r = hash \<and> et_used_at r = None \<and>
      et_expires_at r = now + secs (clamp 60 (24 * 3600) (unwrap_or 900 (tq_ttl_secs treq)))"
    and "es_nodes s1 = es_nodes s"
    by (auto simp: token_create_def Let_def split: option.splits sum.splits if_splits)
  then show "es_nodes s1 = es_nodes s" by simp
  from s1 obtain r where r: "r \<in> set (es_tokens s1)" "et_token_hash r = hash" "et_used_at r = None" "now' < et_expires_at r"
    using assms(3) by auto
  have "token_matches c (tr_token tr) r" using assms(1) h r(2) by (auto simp: token_matches_def hash_correct_def)
  with r show "\<exists>r. find (token_matches c (tr_token tr)) (live_tokens now' (es_tokens s1)) = Some r"
    by (cases "find (token_matches c (tr_token tr)) (live_tokens now' (es_tokens s1))")
      (auto simp: find_None_all live_tokens_def)
qed

text \<open>
  A commit of a plan for the id the fingerprint has, or for an id that is free, goes through when
  the database is up.
\<close>

lemma commit_ok:
  assumes "ep_node_id p = enrolled_id fresh (node_str req ''hw_fingerprint'') s" and "fresh \<notin> nr_id ` set (es_nodes s)"
  shows "\<exists>s'. enroll_commit sha db_up t req p s = (Inr (), s')"
proof (cases "find (\<lambda>r. nr_hw_fingerprint r = node_str req ''hw_fingerprint'') (es_nodes s)")
  case None
  with assms have "upsert_node (new_node sha req p) (es_nodes s) = Some (es_nodes s @ [new_node sha req p])"
    by (auto simp: upsert_node_def enrolled_id_def find_None_all)
  then show ?thesis by (simp add: enroll_commit_def)
next
  case (Some r)
  with assms(1) find_Some_D [OF Some] have "ep_node_id p \<in> nr_id ` set (es_nodes s)" by (auto simp: enrolled_id_def)
  then show ?thesis by (simp add: enroll_commit_def upsert_node_def)
qed

lemma commit_life:
  assumes inv: "enroll_inv s" and "enroll_commit sha db t req p s = (Inr (), s')"
  shows "life_of s' (ep_node_id p) = Some (unwrap_or ''pending_approval'' (life_of s (ep_node_id p)))"
proof -
  obtain nodes where n: "upsert_node (new_node sha req p) (es_nodes s) = Some nodes" "es_nodes s' = nodes"
    using assms(2) by (cases rule: enroll_commit_cases [of sha db t req p s]) auto
  from n(1) show ?thesis
  proof (cases rule: upsert_node_cases)
    case 1
    have "life_of s' = life_of s" unfolding life_of_def n(2) 1(2) map_map comp_def
      by (intro arg_cong [where f = map_of] map_cong) auto
    moreover have "life_of s (ep_node_id p) \<noteq> None" using 1(1) by (simp add: life_of_None)
    ultimately show ?thesis by (cases "life_of s (ep_node_id p)") simp_all
  next
    case 2
    then have "life_of s (ep_node_id p) = None" by (simp add: life_of_None)
    then show ?thesis by (simp add: life_of_def n(2) 2(3) map_add_def split: option.split)
  qed
qed

text \<open>
  C39. A fresh token enrolls a machine: until it expires, a well-formed request with the token that
  \<open>create\<close> handed out succeeds when the database is up and the certificate can be issued; the answer
  carries that certificate and the machine's id, which is the one it had before or a fresh one; a new
  node waits for approval and a known one keeps its status.
\<close>

theorem created_token_enrolls:
  assumes "hash_correct c" and "enroll_inv s"
    and "token_create c fmt db now t en treq s = (Inr tr, s1)"
    and "now' < now + secs (clamp 60 (24 * 3600) (unwrap_or 900 (tq_ttl_secs treq)))"
    and "eq_token req = tr_token tr" "tr_token tr \<noteq> []" "node_str req ''hw_fingerprint'' \<noteq> []" "eq_pubkey_b64 req \<noteq> []"
    and "fresh \<notin> nr_id ` set (es_nodes s)"
    and "issue_cert_for_node rg gen now' ca (enrolled_id fresh (node_str req ''hw_fingerprint'') s) NODE_CERT_VALID_DAYS
      = Inr issued"
  shows "\<exists>resp s2. enroll_complete c sha fmt h env rg ca ep gen fresh db_up now' t' addr headers req s1 = (Inr resp, s2) \<and>
    er_node_id resp = enrolled_id fresh (node_str req ''hw_fingerprint'') s \<and>
    er_client_cert_pem resp = ic_cert_pem issued \<and> er_ca_chain_pem resp = Ca_cert_pem rg ca \<and>
    life_of s2 (er_node_id resp) = Some (unwrap_or ''pending_approval'' (life_of s (er_node_id resp)))"
proof -
  obtain r where f: "find (token_matches c (tr_token tr)) (live_tokens now' (es_tokens s1)) = Some r"
    and n: "es_nodes s1 = es_nodes s" using token_create_live [OF assms(1,3,4)] by blast
  have id: "enrolled_id fresh hw s1 = enrolled_id fresh hw s" for hw by (simp add: enrolled_id_def n)
  obtain p where p: "enroll_plan c rg ca gen fresh db_up now' addr headers req s1 = Inr p"
    and pi: "ep_node_id p = enrolled_id fresh (node_str req ''hw_fingerprint'') s1" and pc: "ep_issued p = issued"
    using assms(5-8,10) f by (simp add: enroll_plan_def enrolled_id_def n)
  obtain s2 where c2: "enroll_commit sha db_up t' req p s1 = (Inr (), s2)"
    using commit_ok [OF pi, of sha t'] assms(9) n by auto
  have "enroll_step s s1" using assms(3) enroll_step.token [of s c fmt db now t en treq] by simp
  then have inv: "enroll_inv s1" using enroll_step_refines [OF assms(2)] by blast
  have "life_of s1 = life_of s" by (simp add: life_of_def n)
  with commit_life [OF inv c2] pi id p pc c2 show ?thesis by (simp add: enroll_complete_def)
qed

theorem created_token_enrolls_witness:
  "\<exists>tr s1 resp s2. token_create plain_crypto (\<lambda>_. []) db_up 0 0 \<lparr>en_random = Some ''secret'', en_salt = [], en_id = ''t1''\<rparr>
       \<lparr>tq_display_hint = None, tq_ttl_secs = None\<rparr>
       \<lparr>es_tokens = [], es_nodes = [], es_ip_history = [], es_audit = []\<rparr> = (Inr tr, s1) \<and>
     enroll_sample ''hw'' ''n1'' s1 = (Inr resp, s2) \<and> life_of s2 (er_node_id resp) = Some ''pending_approval''"
proof -
  let ?s = "\<lparr>es_tokens = [], es_nodes = [], es_ip_history = [], es_audit = []\<rparr>"
  let ?en = "\<lparr>en_random = Some ''secret'', en_salt = [], en_id = ''t1''\<rparr>"
  let ?tq = "\<lparr>tq_display_hint = None, tq_ttl_secs = None\<rparr>"
  obtain tr s1 where t: "token_create plain_crypto (\<lambda>_. []) db_up 0 0 ?en ?tq ?s = (Inr tr, s1)" and "tr_token tr = ''secret''"
    by (simp add: token_create_def plain_crypto_def Let_def)
  moreover have "enroll_inv ?s" by (simp add: enroll_inv_def)
  moreover have "issue_cert_for_node sample_rcgen (Inr ''leaf'') 5 sample_ca
      (enrolled_id ''n1'' (node_str (sample_enroll_request ''hw'') ''hw_fingerprint'') ?s) NODE_CERT_VALID_DAYS
      = Inr \<lparr>ic_cert_pem = ''cert'', ic_key_pem = ''leaf''\<rparr>"
    by (simp add: issue_cert_for_node_def issue_node_cert_def sample_rcgen_def)
  moreover have "(5::time) < 0 + secs (clamp 60 (24 * 3600) (unwrap_or 900 (tq_ttl_secs ?tq)))"
    by (simp add: clamp_def secs_def)
  ultimately obtain resp s2 where "enroll_sample ''hw'' ''n1'' s1 = (Inr resp, s2)"
    "life_of s2 (er_node_id resp) = Some (unwrap_or ''pending_approval'' (life_of ?s (er_node_id resp)))"
    using created_token_enrolls [OF plain_crypto_correct _ t, of 5 "sample_enroll_request ''hw''" "''n1''" sample_rcgen
        "Inr ''leaf''" sample_ca _ "\<lambda>s. s" "json_http JNull" "\<lambda>_. None" "''http://c''" 5 "V4 [10, 0, 0, 1]" "[]"]
    by (auto simp: enroll_sample_def sample_enroll_request_def node_str_def)
  with t show ?thesis by (auto simp: life_of_def)
qed

text \<open>
  C40. The CA survives a restart: if the key library reads back the PEM text it writes, then a later
  start, under whatever common name is configured, loads the CA that the first start generated: the
  same signing key, the same certificate text handed to workers, the same subject name, and the
  stored row unchanged.
\<close>

theorem ca_restart_stable:
  assumes "load_or_init rg gen db cn None = (Inr ca, stored)"
    and "\<forall>k. key_from_pem rg' (key_to_pem rg k) = Inr k"
    and "load_or_init rg' gen' db' cn' stored = (res, stored')"
  shows "stored' = stored \<and>
    (case res of
       Inr ca' \<Rightarrow> ca_key ca' = ca_key ca \<and> Ca_cert_pem rg' ca' = Ca_cert_pem rg ca \<and>
         ca_common_name ca' = ca_common_name ca \<and> self_signed rg' (root_params (ca_common_name ca)) (ca_key ca) = Inr (ca_cert ca')
     | Inl e \<Rightarrow> db' 0 \<noteq> None \<or> (\<exists>e. self_signed rg' (root_params (ca_common_name ca)) (ca_key ca) = Inl e))"
proof -
  have st: "stored = Some \<lparr>cr_common_name = cn, cr_cert_pem = Ca_cert_pem rg ca, cr_key_pem = Ca_key_pem rg ca\<rparr>"
    and cn: "ca_common_name ca = cn"
    using assms(1) by (auto simp: load_or_init_def generate_root_ca_def split: option.splits sum.splits)
  from assms(2,3) show ?thesis
    by (cases "db' 0"; cases "self_signed rg' (root_params cn) (ca_key ca)")
      (auto simp: load_or_init_def st cn load_ca_def build_root_cert_def Ca_key_pem_def Ca_cert_pem_def)
qed

theorem ca_restart_stable_witness:
  "\<exists>ca stored ca'. load_or_init sample_rcgen (Inr ''k'') db_up ''c'' None = (Inr ca, stored) \<and>
     load_or_init sample_rcgen (Inr ''other'') db_up ''d'' stored = (Inr ca', stored) \<and> ca_key ca' = ca_key ca"
proof -
  obtain ca stored where l: "load_or_init sample_rcgen (Inr ''k'') db_up ''c'' None = (Inr ca, stored)"
    by (simp add: load_or_init_def generate_root_ca_def build_root_cert_def sample_rcgen_def)
  have k: "\<forall>k. key_from_pem sample_rcgen (key_to_pem sample_rcgen k) = Inr k" by (simp add: sample_rcgen_def)
  have ss: "self_signed sample_rcgen p k = Inr p" for p k by (simp add: sample_rcgen_def)
  obtain res stored' where m: "load_or_init sample_rcgen (Inr ''other'') db_up ''d'' stored = (res, stored')" by fastforce
  from ca_restart_stable [OF l k m] l m show ?thesis by (cases res) (auto simp: ss)
qed

text \<open>
  A token can enroll two machines: both enrollments read the table before either commits, and the
  update that marks the token as used does not check that it is still unused.
\<close>

theorem token_used_twice:
  "\<exists>p1 p2 s1 s2.
     enroll_plan plain_crypto sample_rcgen sample_ca (Inr ''a'') ''n1'' db_up 5 (V4 [10, 0, 0, 1]) []
       (sample_enroll_request ''hw1'') sample_enroll = Inr p1 \<and>
     enroll_plan plain_crypto sample_rcgen sample_ca (Inr ''b'') ''n2'' db_up 5 (V4 [10, 0, 0, 2]) []
       (sample_enroll_request ''hw2'') sample_enroll = Inr p2 \<and>
     enroll_commit (\<lambda>s. s) db_up 5 (sample_enroll_request ''hw1'') p1 sample_enroll = (Inr (), s1) \<and>
     enroll_commit (\<lambda>s. s) db_up 5 (sample_enroll_request ''hw2'') p2 s1 = (Inr (), s2) \<and>
     life_of s2 ''n1'' = Some ''pending_approval'' \<and> life_of s2 ''n2'' = Some ''pending_approval''"
  by (simp add: enroll_eval sample_enroll_def sample_token_def life_of_def secs_def)

text \<open>
  A revoked machine still gets a new certificate: enrollment looks at the fingerprint only to reuse
  the id and never at the status of the node.
\<close>

theorem revoked_machine_gets_cert:
  "\<exists>resp s'. enroll_sample ''hw'' ''n2''
       (sample_enroll \<lparr>es_nodes := [(new_node (\<lambda>s. s) (sample_enroll_request ''hw'')
          \<lparr>ep_token_id = [], ep_display_hint = None, ep_node_id = ''n1'',
           ep_issued = \<lparr>ic_cert_pem = [], ic_key_pem = []\<rparr>, ep_now = 0, ep_ip = V4 []\<rparr>) \<lparr>nr_status := ''revoked''\<rparr>]\<rparr>)
     = (Inr resp, s') \<and> er_node_id resp = ''n1'' \<and> er_client_cert_pem resp = ''cert'' \<and>
     life_of s' ''n1'' = Some ''revoked''"
  by (simp add: enroll_eval sample_enroll_def sample_token_def life_of_def secs_def Let_def)

end
