(* ===== verification/MgmtApi.thy ===== *)
theory MgmtApi
  imports ApiKeys Models Inference Enroll
begin

section \<open>The management backend as one service (\<open>crates/mgmt-backend/src/server.rs\<close>)\<close>

text \<open>
  The router of the backend: the public routes, the admin routes and the bearer check in front of
  them, and the state behind them as the product of its components. A request that the router and the
  check let through performs one operation of its endpoint, in any outcome; the reconciler runs beside
  the requests. \<open>served\<close> is the resulting step relation. Path segments are taken without percent
  escapes, and the one audit table is split by the component that writes it.
\<close>

subsection \<open>Routes\<close>

datatype HttpMethod = MGet | MHead | MPost | MPut | MPatch | MDelete | MOther

datatype Endpoint =
    Health | EnrollComplete | TokenCreate
  | NodesList | NodesGet string | NodesApprove string | NodesRevoke string | NodesDrain string
  | AuditList
  | KeysCreate | KeysList | KeysUpdate string | KeysDelete string | KeysRevoke string | KeysVerify
  | SettingsGet | SettingsSet
  | ModelsList | ModelsCreate | ModelsUpdate string | ModelsDelete string | ModelsLoad string
  | InferenceLog | InferenceRecent

text \<open>The table: a path with the methods it has. A \<open>get\<close> route answers \<open>HEAD\<close> as well.\<close>

definition on_get :: "Endpoint \<Rightarrow> (HttpMethod \<times> Endpoint) list" where
  "on_get e = [(MGet, e), (MHead, e)]"

definition static_routes :: "(string \<times> (HttpMethod \<times> Endpoint) list) list" where
  "static_routes =
     [(''/health'', on_get Health),
      (''/api/v1/enroll'', [(MPost, EnrollComplete)]),
      (''/api/v1/enroll/tokens'', [(MPost, TokenCreate)]),
      (''/api/v1/nodes'', on_get NodesList),
      (''/api/v1/audit'', on_get AuditList),
      (''/api/v1/keys'', (MPost, KeysCreate) # on_get KeysList),
      (''/api/v1/keys/verify'', [(MPost, KeysVerify)]),
      (''/api/v1/settings'', on_get SettingsGet @ [(MPut, SettingsSet)]),
      (''/api/v1/models'', on_get ModelsList @ [(MPost, ModelsCreate)]),
      (''/api/v1/inference/log'', [(MPost, InferenceLog)]),
      (''/api/v1/inference/recent'', on_get InferenceRecent)]"

definition param_routes :: "(string \<times> string \<times> (string \<Rightarrow> (HttpMethod \<times> Endpoint) list)) list" where
  "param_routes =
     [(''/api/v1/nodes/'', [], \<lambda>i. on_get (NodesGet i)),
      (''/api/v1/nodes/'', ''/approve'', \<lambda>i. [(MPost, NodesApprove i)]),
      (''/api/v1/nodes/'', ''/revoke'', \<lambda>i. [(MPost, NodesRevoke i)]),
      (''/api/v1/nodes/'', ''/drain'', \<lambda>i. [(MPost, NodesDrain i)]),
      (''/api/v1/keys/'', [], \<lambda>i. [(MPatch, KeysUpdate i), (MDelete, KeysDelete i)]),
      (''/api/v1/keys/'', ''/revoke'', \<lambda>i. [(MPost, KeysRevoke i)]),
      (''/api/v1/models/'', [], \<lambda>i. [(MPatch, ModelsUpdate i), (MDelete, ModelsDelete i)]),
      (''/api/v1/models/'', ''/load'', \<lambda>i. [(MPost, ModelsLoad i)])]"

text \<open>A static path wins over a parameter, also when it lacks the method.\<close>

definition mgmt_route :: "HttpMethod \<Rightarrow> string \<Rightarrow> Endpoint option" where
  "mgmt_route m path =
     (case map_of static_routes path of
        Some methods \<Rightarrow> map_of methods m
      | None \<Rightarrow>
          (case List.map_filter (\<lambda>(before, after, methods). map_option methods (path_param before after path)) param_routes of
             methods # _ \<Rightarrow> map_of methods m
           | [] \<Rightarrow> None))"

definition public :: "Endpoint \<Rightarrow> bool" where
  "public e \<longleftrightarrow> e \<in> {Health, EnrollComplete}"

text \<open>The endpoint whose handler a request reaches.\<close>

definition mgmt_admit :: "string \<Rightarrow> HttpMethod \<Rightarrow> string \<Rightarrow> HeaderMap \<Rightarrow> Endpoint option" where
  "mgmt_admit admin_key m path headers =
     (case mgmt_route m path of
        None \<Rightarrow> None
      | Some e \<Rightarrow> if public e \<or> require_admin admin_key headers = Inr () then Some e else None)"

subsection \<open>State and operations\<close>

record MgmtState =
  mg_keys :: KeysState
  mg_models :: ModelsState
  mg_settings :: SettingsState
  mg_enroll :: EnrollState
  mg_log :: "LogRow list"

fun key_endpoint :: "KeyCmd \<Rightarrow> Endpoint" where
  "key_endpoint (KeyCreate db now t en req) = KeysCreate"
| "key_endpoint (KeyRevoke db t i) = KeysRevoke i"
| "key_endpoint (KeyUpdate db now t i req) = KeysUpdate i"
| "key_endpoint (KeyDelete db t i purge) = KeysDelete i"
| "key_endpoint (KeyVerify db now t tok) = KeysVerify"

text \<open>The reconciler is no endpoint.\<close>

fun model_endpoint :: "ModelCmd \<Rightarrow> Endpoint option" where
  "model_endpoint (ModelCreate db t req) = Some ModelsCreate"
| "model_endpoint (ModelUpdate db t i req) = Some (ModelsUpdate i)"
| "model_endpoint (ModelDelete db t i) = Some (ModelsDelete i)"
| "model_endpoint (ModelLoad h ep settings db t i node multi) = Some (ModelsLoad i)"
| "model_endpoint (Reconcile coord db now t) = None"

text \<open>
  What the handler of an endpoint may do to the state. An enrollment writes what it planned on an
  earlier state \<open>s0\<close>. A handler that only reads, or leaves early, changes nothing.
\<close>

inductive performs :: "crypto \<Rightarrow> ('x, 'k) rcgen \<Rightarrow> Endpoint \<Rightarrow> MgmtState \<Rightarrow> MgmtState \<Rightarrow> bool" for c rg where
  nothing: "performs c rg e s s"
| keys: "performs c rg (key_endpoint cmd) s (s \<lparr>mg_keys := apply_key_cmd c cmd (mg_keys s)\<rparr>)"
| models: "model_endpoint cmd = Some e \<Longrightarrow> performs c rg e s (s \<lparr>mg_models := apply_model_cmd cmd (mg_models s)\<rparr>)"
| settings: "performs c rg SettingsSet s (s \<lparr>mg_settings := apply_settings_cmd cmd (mg_settings s)\<rparr>)"
| log: "performs c rg InferenceLog s (s \<lparr>mg_log := snd (log_handler db i t lreq (mg_log s))\<rparr>)"
| token: "performs c rg TokenCreate s (s \<lparr>mg_enroll := snd (token_create c fmt db now t en treq (mg_enroll s))\<rparr>)"
| approve: "performs c rg (NodesApprove i) s (s \<lparr>mg_enroll := snd (nodes_approve db t i (mg_enroll s))\<rparr>)"
| revoke: "performs c rg (NodesRevoke i) s (s \<lparr>mg_enroll := snd (nodes_revoke db t i (mg_enroll s))\<rparr>)"
| drain: "performs c rg (NodesDrain i) s (s \<lparr>mg_enroll := snd (nodes_drain db t i (mg_enroll s))\<rparr>)"
| enroll: "enroll_plan c rg ca gen fresh db now addr headers req s0 = Inr p \<Longrightarrow>
    performs c rg EnrollComplete s (s \<lparr>mg_enroll := snd (enroll_commit sha db t req p (mg_enroll s))\<rparr>)"

inductive_cases performs_EnrollComplete: "performs c rg EnrollComplete s s'"
inductive_cases performs_Health: "performs c rg Health s s'"

text \<open>One request, or one reconciler pass.\<close>

definition served :: "crypto \<Rightarrow> ('x, 'k) rcgen \<Rightarrow> string \<Rightarrow> HttpMethod \<Rightarrow> string \<Rightarrow> HeaderMap \<Rightarrow> MgmtState \<Rightarrow> MgmtState \<Rightarrow> bool" where
  "served c rg admin_key m path headers s s' \<longleftrightarrow>
     (case mgmt_admit admin_key m path headers of None \<Rightarrow> s' = s | Some e \<Rightarrow> performs c rg e s s')"

inductive mgmt_step :: "crypto \<Rightarrow> ('x, 'k) rcgen \<Rightarrow> string \<Rightarrow> MgmtState \<Rightarrow> MgmtState \<Rightarrow> bool" for c rg admin_key where
  request: "served c rg admin_key m path headers s s' \<Longrightarrow> mgmt_step c rg admin_key s s'"
| reconcile: "mgmt_step c rg admin_key s (s \<lparr>mg_models := apply_model_cmd (Reconcile coord db now t) (mg_models s)\<rparr>)"

subsection \<open>Lemmas\<close>

definition mgmt_inv :: "MgmtState \<Rightarrow> bool" where
  "mgmt_inv s \<longleftrightarrow> keys_inv (mg_keys s) \<and> models_inv (mg_models s) \<and> settings_inv (mg_settings s) \<and> enroll_inv (mg_enroll s)"

definition mgmt_audit :: "MgmtState \<Rightarrow> AuditRow set" where
  "mgmt_audit s =
     set (ks_audit (mg_keys s)) \<union> set (ms_audit (mg_models s)) \<union> set (ss_audit (mg_settings s)) \<union> set (es_audit (mg_enroll s))"

text \<open>The audit entries of node administration are never lost either.\<close>

lemma enroll_step_audit: "enroll_step s s' \<Longrightarrow> prefix (es_audit s) (es_audit s')"
  by (induction rule: enroll_step.induct)
    (auto simp: token_create_def enroll_commit_def nodes_approve_def nodes_revoke_def nodes_drain_def Let_def
      split: option.splits sum.splits if_splits intro: write_audit_prefix)

lemma performs_enroll:
  assumes "performs c rg e s s'"
  shows "mg_enroll s' = mg_enroll s \<or> enroll_step (mg_enroll s) (mg_enroll s')"
  using assms
proof cases
  case (enroll ca gen fresh db now addr headers req s0 p sha t)
  from enroll(3) have "node_str req ''hw_fingerprint'' \<noteq> []" by (rule enroll_plan_ok)
  with enroll show ?thesis by (auto intro: enroll_step.commit)
qed (auto intro: enroll_step.intros)

lemma performs_parts:
  assumes "performs c rg e s s'"
  shows "mg_keys s' = mg_keys s \<or> (\<exists>cmd. mg_keys s' = apply_key_cmd c cmd (mg_keys s))"
    and "mg_models s' = mg_models s \<or> (\<exists>cmd. mg_models s' = apply_model_cmd cmd (mg_models s))"
    and "mg_settings s' = mg_settings s \<or> (\<exists>cmd. mg_settings s' = apply_settings_cmd cmd (mg_settings s))"
  using assms by (cases; auto)+

lemma step_parts:
  assumes "mgmt_step c rg k s s'"
  shows "mg_keys s' = mg_keys s \<or> (\<exists>cmd. mg_keys s' = apply_key_cmd c cmd (mg_keys s))"
    and "mg_models s' = mg_models s \<or> (\<exists>cmd. mg_models s' = apply_model_cmd cmd (mg_models s))"
    and "mg_settings s' = mg_settings s \<or> (\<exists>cmd. mg_settings s' = apply_settings_cmd cmd (mg_settings s))"
    and "mg_enroll s' = mg_enroll s \<or> enroll_step (mg_enroll s) (mg_enroll s')"
proof -
  consider "s' = s" | e where "performs c rg e s s'"
    | cmd where "s' = s \<lparr>mg_models := apply_model_cmd cmd (mg_models s)\<rparr>"
    using assms
  proof cases
    case (request m path headers)
    with that show thesis by (auto simp: served_def split: option.splits)
  next
    case (reconcile coord db now t)
    then show thesis by (rule that(3))
  qed
  note cases = this
  show "mg_keys s' = mg_keys s \<or> (\<exists>cmd. mg_keys s' = apply_key_cmd c cmd (mg_keys s))"
    by (cases rule: cases) (use performs_parts(1) in \<open>simp_all\<close>)
  show "mg_models s' = mg_models s \<or> (\<exists>cmd. mg_models s' = apply_model_cmd cmd (mg_models s))"
  proof (cases rule: cases)
    case (2 e)
    then show ?thesis by (rule performs_parts(2))
  next
    case (3 cmd)
    then have "mg_models s' = apply_model_cmd cmd (mg_models s)" by simp
    then show ?thesis by blast
  qed simp
  show "mg_settings s' = mg_settings s \<or> (\<exists>cmd. mg_settings s' = apply_settings_cmd cmd (mg_settings s))"
    by (cases rule: cases) (use performs_parts(3) in \<open>simp_all\<close>)
  show "mg_enroll s' = mg_enroll s \<or> enroll_step (mg_enroll s) (mg_enroll s')"
    by (cases rule: cases) (use performs_enroll in \<open>simp_all\<close>)
qed

lemma mgmt_step_inv: "mgmt_step c rg k s s' \<Longrightarrow> mgmt_inv s \<Longrightarrow> mgmt_inv s'"
  using step_parts [of c rg k s s'] keys.invar_cmd models.invar_cmd settings.invar_cmd enroll_step_refines
  unfolding mgmt_inv_def by metis

lemma mgmt_step_audit: "mgmt_step c rg k s s' \<Longrightarrow> mgmt_audit s \<subseteq> mgmt_audit s'"
proof -
  assume step: "mgmt_step c rg k s s'"
  have "set (ks_audit (mg_keys s)) \<subseteq> set (ks_audit (mg_keys s'))"
    using step_parts(1) [OF step] keys.audit_set by (elim disjE exE) (simp_all del: apply_key_cmd.simps)
  moreover have "set (ms_audit (mg_models s)) \<subseteq> set (ms_audit (mg_models s'))"
    using step_parts(2) [OF step] models.audit_set by (elim disjE exE) (simp_all del: apply_model_cmd.simps)
  moreover have "set (ss_audit (mg_settings s)) \<subseteq> set (ss_audit (mg_settings s'))"
    using step_parts(3) [OF step] settings.audit_set by (elim disjE exE) (simp_all del: apply_settings_cmd.simps)
  moreover have "set (es_audit (mg_enroll s)) \<subseteq> set (es_audit (mg_enroll s'))"
    using step_parts(4) [OF step] set_mono_prefix [OF enroll_step_audit] by (elim disjE) simp_all
  ultimately show ?thesis by (auto simp: mgmt_audit_def)
qed

text \<open>An enrollment changes the status of no node there is and adds at most a pending one.\<close>

lemma commit_statuses:
  assumes "s' = snd (enroll_commit sha db t req p s)"
  shows "life_of s \<subseteq>\<^sub>m life_of s' \<and> (\<forall>i. life_of s' i \<in> {life_of s i, Some ''pending_approval''})"
proof (cases rule: enroll_commit_cases [of sha db t req p s])
  case (1 e)
  with assms show ?thesis by (simp add: map_le_def)
next
  case (2 nodes)
  from 2(2) show ?thesis
  proof (cases rule: upsert_node_cases)
    case 1
    have "life_of s' = life_of s" unfolding life_of_def assms 2(3) 1(2) map_map comp_def
      by (intro arg_cong [where f = map_of] map_cong) auto
    then show ?thesis by (simp add: map_le_def)
  next
    case 2
    have "life_of s' = map_of (map (\<lambda>r. (nr_id r, nr_status r)) (es_nodes s) @ [(ep_node_id p, ''pending_approval'')])"
      using \<open>es_nodes (snd _) = nodes\<close> 2(3) assms by (simp add: life_of_def)
    then have l: "life_of s' = [ep_node_id p \<mapsto> ''pending_approval''] ++ life_of s" by (simp add: life_of_def)
    show ?thesis unfolding l by (auto simp: map_le_def map_add_def split: option.split)
  qed
qed

text \<open>Only one request reaches the enrollment handler.\<close>

lemma param_not_enroll: "(b, a, f) \<in> set param_routes \<Longrightarrow> map_of (f i) m \<noteq> Some EnrollComplete"
  by (auto simp: param_routes_def on_get_def split: if_splits)

lemma static_enroll: "(p, methods) \<in> set static_routes \<Longrightarrow> map_of methods m = Some EnrollComplete \<Longrightarrow>
    m = MPost \<and> p = ''/api/v1/enroll''"
  by (auto simp: static_routes_def on_get_def split: if_splits)

lemma route_enroll:
  assumes "mgmt_route m path = Some EnrollComplete"
  shows "m = MPost \<and> path = ''/api/v1/enroll''"
proof (cases "map_of static_routes path")
  case (Some methods)
  with assms show ?thesis by (intro static_enroll [OF map_of_SomeD]) (auto simp: mgmt_route_def)
next
  case None
  let ?ms = "List.map_filter (\<lambda>(before, after, methods). map_option methods (path_param before after path)) param_routes"
  from None assms obtain methods rest where ms: "?ms = methods # rest" "map_of methods m = Some EnrollComplete"
    by (auto simp: mgmt_route_def split: list.splits)
  then have "methods \<in> set ?ms" by simp
  then obtain b a f i where "(b, a, f) \<in> set param_routes" "methods = f i"
    by (auto simp: List.map_filter_def split: option.splits)
  with ms(2) param_not_enroll show ?thesis by blast
qed

lemma key_endpoint_public [simp]: "key_endpoint cmd \<noteq> Health" "key_endpoint cmd \<noteq> EnrollComplete"
  by (cases cmd; simp)+

lemma model_endpoint_public [simp]: "model_endpoint cmd \<noteq> Some Health" "model_endpoint cmd \<noteq> Some EnrollComplete"
  by (cases cmd; simp)+

lemma performs_health: "performs c rg Health s s' \<Longrightarrow> s' = s"
  by (erule performs_Health) (auto simp: eq_commute [of Health])

text \<open>What the public routes can do.\<close>

lemma performs_enrollment:
  assumes "performs c rg EnrollComplete s s'"
  shows "\<exists>e. s' = s \<lparr>mg_enroll := e\<rparr> \<and> life_of (mg_enroll s) \<subseteq>\<^sub>m life_of e \<and>
    (\<forall>i. life_of e i \<in> {life_of (mg_enroll s) i, Some ''pending_approval''})"
  using assms
proof (rule performs_EnrollComplete)
  assume "s' = s"
  then show ?thesis by (intro exI [of _ "mg_enroll s"]) simp
next
  fix ca gen fresh db now addr headers req s0 p sha t
  assume "s' = s \<lparr>mg_enroll := snd (enroll_commit sha db t req p (mg_enroll s))\<rparr>"
  then show ?thesis using commit_statuses [OF refl] by blast
qed (simp_all add: eq_commute [of EnrollComplete] eq_commute [of "Some EnrollComplete"])

subsection \<open>Properties\<close>

text \<open>
  C14. The backend as a whole keeps its invariants: from any state that satisfies them, after any sequence
  of requests (authenticated or not, with any database failures) and reconciler passes, key and model
  ids, node ids, fingerprints and token ids are unique, scopes and statuses are valid, at most one model
  is the default, every stored setting is a known one, the audit entries of settings carry no token, and
  no audit entry has disappeared.
\<close>

theorem backend_invariant:
  assumes "mgmt_inv s" and "(mgmt_step c rg admin_key)\<^sup>*\<^sup>* s s'"
  shows "mgmt_inv s' \<and> mgmt_audit s \<subseteq> mgmt_audit s'"
  using assms(2)
proof (induction rule: rtranclp_induct)
  case base
  with assms(1) show ?case by simp
next
  case (step t t')
  with mgmt_step_inv mgmt_step_audit show ?case by blast
qed

text \<open>A backend with one enrollment token, and the request that uses it up.\<close>

definition sample_mgmt :: MgmtState where
  "sample_mgmt =
     \<lparr>mg_keys = empty_keys, mg_models = \<lparr>ms_models = [], ms_audit = []\<rparr>,
      mg_settings = \<lparr>ss_settings = [], ss_audit = []\<rparr>,
      mg_enroll = sample_enroll, mg_log = []\<rparr>"

lemma sample_mgmt_inv: "mgmt_inv sample_mgmt"
  by (simp add: mgmt_inv_def sample_mgmt_def keys_inv_def empty_keys_def models_inv_def rows_inv_def settings_inv_def
      enroll_inv_def sample_enroll_def)

lemma sample_served:
  obtains s' where "served plain_crypto sample_rcgen ''k'' MPost ''/api/v1/enroll'' [] sample_mgmt s'"
    and "life_of (mg_enroll s') ''n1'' = Some ''pending_approval''"
proof -
  obtain resp e where e: "enroll_sample ''hw'' ''n1'' sample_enroll = (Inr resp, e)"
    and l: "life_of e ''n1'' = Some ''pending_approval''" using sample_enrolled by blast
  obtain p where p: "enroll_plan plain_crypto sample_rcgen sample_ca (Inr ''leaf'') ''n1'' db_up 5 (V4 [10, 0, 0, 1]) []
      (sample_enroll_request ''hw'') sample_enroll = Inr p"
    and c: "enroll_commit (\<lambda>s. s) db_up 5 (sample_enroll_request ''hw'') p sample_enroll = (Inr (), e)"
    using enroll_complete_ok [OF e [unfolded enroll_sample_def]] by blast
  have "mgmt_admit ''k'' MPost ''/api/v1/enroll'' [] = Some EnrollComplete"
    by (simp add: mgmt_admit_def mgmt_route_def static_routes_def public_def)
  moreover have "performs plain_crypto sample_rcgen EnrollComplete sample_mgmt (sample_mgmt \<lparr>mg_enroll := e\<rparr>)"
    using performs.enroll [OF p, where s = sample_mgmt and sha = "\<lambda>s. s" and t = 5] c by (simp add: sample_mgmt_def)
  ultimately have "served plain_crypto sample_rcgen ''k'' MPost ''/api/v1/enroll'' [] sample_mgmt (sample_mgmt \<lparr>mg_enroll := e\<rparr>)"
    by (simp add: served_def)
  with l show thesis by (intro that [of "sample_mgmt \<lparr>mg_enroll := e\<rparr>"]) simp_all
qed

theorem backend_invariant_witness:
  "\<exists>s'. mgmt_step plain_crypto sample_rcgen ''k'' sample_mgmt s' \<and> life_of (mg_enroll s') ''n1'' = Some ''pending_approval'' \<and>
     mgmt_inv s'"
proof -
  obtain s' where s: "served plain_crypto sample_rcgen ''k'' MPost ''/api/v1/enroll'' [] sample_mgmt s'"
    and l: "life_of (mg_enroll s') ''n1'' = Some ''pending_approval''" by (rule sample_served)
  have st: "mgmt_step plain_crypto sample_rcgen ''k'' sample_mgmt s'" by (rule mgmt_step.request [OF s])
  from backend_invariant [OF sample_mgmt_inv r_into_rtranclp [of "mgmt_step plain_crypto sample_rcgen ''k''", OF st]] st l show ?thesis by blast
qed

text \<open>
  C15. Nothing but the admin key opens the admin API: a request without the right bearer token changes no
  key, model, setting, log entry or node status; the most it can do is to enroll a machine with a
  token, which adds a node that waits for approval.
\<close>

theorem admin_key_guards_state:
  assumes "served c rg admin_key m path headers s s'" and "require_admin admin_key headers \<noteq> Inr ()"
  shows "mg_keys s' = mg_keys s \<and> mg_models s' = mg_models s \<and> mg_settings s' = mg_settings s \<and> mg_log s' = mg_log s \<and>
    life_of (mg_enroll s) \<subseteq>\<^sub>m life_of (mg_enroll s') \<and>
    (\<forall>i. life_of (mg_enroll s') i \<in> {life_of (mg_enroll s) i, Some ''pending_approval''}) \<and>
    (s' \<noteq> s \<longrightarrow> m = MPost \<and> path = ''/api/v1/enroll'')"
proof (cases "mgmt_admit admin_key m path headers")
  case None
  with assms(1) have "s' = s" by (simp add: served_def)
  then show ?thesis by simp
next
  case (Some e)
  with assms(2) have r: "mgmt_route m path = Some e" and pub: "e = Health \<or> e = EnrollComplete"
    by (auto simp: mgmt_admit_def public_def split: option.splits if_splits)
  from assms(1) Some have perf: "performs c rg e s s'" by (simp add: served_def)
  from pub show ?thesis
  proof
    assume "e = Health"
    with perf have "s' = s" by (simp add: performs_health)
    then show ?thesis by simp
  next
    assume "e = EnrollComplete"
    with perf r have "performs c rg EnrollComplete s s'" "m = MPost \<and> path = ''/api/v1/enroll''"
      by (simp_all add: route_enroll)
    then show ?thesis by (auto dest!: performs_enrollment)
  qed
qed

theorem admin_key_guards_state_witness:
  "\<exists>s'. served plain_crypto sample_rcgen ''k'' MPost ''/api/v1/enroll'' [] sample_mgmt s' \<and>
     mg_keys s' = mg_keys sample_mgmt \<and> life_of (mg_enroll s') ''n1'' = Some ''pending_approval''"
proof -
  obtain s' where s: "served plain_crypto sample_rcgen ''k'' MPost ''/api/v1/enroll'' [] sample_mgmt s'"
    and l: "life_of (mg_enroll s') ''n1'' = Some ''pending_approval''" by (rule sample_served)
  have "require_admin ''k'' [] \<noteq> Inr ()" by (simp add: require_admin_def header_get_def)
  from admin_key_guards_state [OF s this] s l show ?thesis by blast
qed

end
