(* ===== verification/Inventory.thy ===== *)
theory Inventory
  imports Views
begin

section \<open>Inventory rendering (\<open>crates/sysinfo/src/inventory.rs\<close>)\<close>

text \<open>
  \<open>to_json\<close>, the wire form of a node that enrollment and every heartbeat upload, and its
  parts. The theorem of this theory is the round trip between the two halves of the wire
  protocol, which live in different crates: what \<open>to_json\<close> writes, the derived reader of
  \<open>NodeInfoView\<close> reads back, field by field.
\<close>

definition status_label :: "i32 \<Rightarrow> string" where
  "status_label status =
     (case NodeStatus_of status of
        Unspecified \<Rightarrow> ''unspecified''
      | PendingApproval \<Rightarrow> ''pending_approval''
      | Online \<Rightarrow> ''online''
      | Degraded \<Rightarrow> ''degraded''
      | Draining \<Rightarrow> ''draining''
      | Offline \<Rightarrow> ''offline''
      | Quarantined \<Rightarrow> ''quarantined''
      | Revoked \<Rightarrow> ''revoked'')"

definition backend_label :: "i32 \<Rightarrow> string" where
  "backend_label backend =
     (case GpuBackend_of backend of
        Cuda \<Rightarrow> ''cuda''
      | Metal \<Rightarrow> ''metal''
      | Rocm \<Rightarrow> ''rocm''
      | Vulkan \<Rightarrow> ''vulkan''
      | BackendUnspecified \<Rightarrow> ''unspecified'')"

definition ju32 :: "u32 \<Rightarrow> json" where "ju32 w = JInt (uint w)"

definition ju64 :: "u64 \<Rightarrow> json" where "ju64 w = JInt (uint w)"

text \<open>A non-finite float has no JSON form; \<open>serde_json\<close> writes \<open>null\<close>.\<close>

fun jf32 :: "fp \<Rightarrow> json" where
  "jf32 (Finite x) = JFloat x"
| "jf32 NonFinite = JNull"

definition os_json :: "OsInfo \<Rightarrow> json" where
  "os_json os = JObj
     [(''family'', JStr (os_family os)), (''version'', JStr (os_version os)),
      (''kernel'', JStr (os_kernel os)), (''arch'', JStr (os_arch os)),
      (''device_name'', JStr (os_device_name os))]"

definition cpu_mem_json :: "CpuMemInfo \<Rightarrow> json" where
  "cpu_mem_json cm = JObj
     [(''cpu_model'', JStr (cm_cpu_model cm)), (''cpu_cores'', ju32 (cm_cpu_cores cm)),
      (''cpu_threads'', ju32 (cm_cpu_threads cm)),
      (''ram_total_bytes'', ju64 (cm_ram_total_bytes cm)),
      (''ram_free_bytes'', ju64 (cm_ram_free_bytes cm))]"

definition net_json :: "NetworkInfo \<Rightarrow> json" where
  "net_json n = JObj
     [(''public_ip_v4'', JStr (net_public_ip_v4 n)), (''public_ip_v6'', JStr (net_public_ip_v6 n)),
      (''local_ips'', JArr (map JStr (net_local_ips n))),
      (''primary_iface'', JStr (net_primary_iface n)),
      (''link_speed_mbps'', ju32 (net_link_speed_mbps n)), (''wg_ip'', JStr (net_wg_ip n)),
      (''wg_pubkey_sha'', JStr (net_wg_pubkey_sha n)),
      (''wg_listen_port'', ju32 (net_wg_listen_port n)),
      (''rtt_to_gateway_ms'', ju32 (net_rtt_to_gateway_ms n))]"

definition cap_json :: "GpuCapabilityProfile \<Rightarrow> json" where
  "cap_json c = JObj
     [(''architecture'', JStr (cap_architecture c)),
      (''compute_cap_major'', ju32 (cap_compute_cap_major c)),
      (''compute_cap_minor'', ju32 (cap_compute_cap_minor c)),
      (''vram_bytes'', ju64 (cap_vram_bytes c)),
      (''mem_bandwidth_gbs'', jf32 (cap_mem_bandwidth_gbs c)),
      (''supports_fp16'', JBool (supports_fp16 c)), (''supports_bf16'', JBool (supports_bf16 c)),
      (''supports_fp8'', JBool (supports_fp8 c)), (''supports_fp4'', JBool (supports_fp4 c)),
      (''supports_int8_tc'', JBool (supports_int8_tc c)),
      (''backend'', JStr (backend_label (cap_backend c))),
      (''unified_memory'', JBool (cap_unified_memory c))]"

definition gpu_json :: "GpuInfo \<Rightarrow> json" where
  "gpu_json g = JObj
     [(''index'', ju32 (g_index g)), (''uuid'', JStr (g_uuid g)), (''name'', JStr (g_name g)),
      (''architecture'', JStr (g_architecture g)),
      (''backend'', JStr (backend_label (g_backend g))),
      (''compute_cap_major'', ju32 (g_compute_cap_major g)),
      (''compute_cap_minor'', ju32 (g_compute_cap_minor g)),
      (''vram_total_bytes'', ju64 (vram_total_bytes g)),
      (''vram_free_bytes'', ju64 (vram_free_bytes g)),
      (''unified_memory'', JBool (g_unified_memory g)),
      (''gpu_core_count'', ju32 (g_gpu_core_count g)),
      (''metal_family'', JStr (g_metal_family g)),
      (''driver_version'', JStr (g_driver_version g)),
      (''cuda_version'', JStr (g_cuda_version g)), (''vbios_version'', JStr (g_vbios_version g)),
      (''power_limit_w'', ju32 (g_power_limit_w g)),
      (''nvlink_present'', JBool (g_nvlink_present g)),
      (''capability'', jopt cap_json (g_capability g))]"

definition to_json :: "NodeInfo \<Rightarrow> json" where
  "to_json info = JObj
     [(''node_id'', JStr (n_node_id info)), (''hostname'', JStr (n_hostname info)),
      (''display_name'', JStr (n_display_name info)),
      (''hw_fingerprint'', JStr (n_hw_fingerprint info)),
      (''agent_version'', JStr (n_agent_version info)),
      (''tags'', JArr (map JStr (n_tags info))),
      (''status'', JStr (status_label (n_status info))),
      (''os'', jopt os_json (n_os info)),
      (''cpu_mem'', jopt cpu_mem_json (n_cpu_mem info)),
      (''network'', jopt net_json (n_network info)),
      (''gpus'', JArr (map gpu_json (n_gpus info)))]"

subsection \<open>Reading back what was written\<close>

text \<open>The one value the wire form cannot carry is a float that is not a finite \<open>f32\<close>.\<close>

definition wire_cap :: "GpuCapabilityProfile \<Rightarrow> bool" where
  "wire_cap c \<longleftrightarrow> (\<exists>x. cap_mem_bandwidth_gbs c = Finite x \<and> is_f32 x)"

definition wire_info :: "NodeInfo \<Rightarrow> bool" where
  "wire_info info \<longleftrightarrow> (\<forall>g \<in> set (n_gpus info). \<forall>c. g_capability g = Some c \<longrightarrow> wire_cap c)"

lemma de_numbers [simp]: "de_u32 (ju32 w) = Some w" "de_u64 (ju64 v) = Some v"
  by (simp_all add: ju32_def ju64_def)

lemma those_map_Some: "(\<forall>x \<in> set xs. f x = Some (g x)) \<Longrightarrow> those (map f xs) = Some (map g xs)"
  by (induction xs) auto

lemma those_as_str [simp]: "those (map (as_str \<circ> JStr) xs) = Some xs"
  by (induction xs) auto

lemma de_status_label [simp]:
  "de_status (JStr (status_label s)) = Some (view_of_status (NodeStatus_of s))"
  by (cases "NodeStatus_of s") (simp_all add: status_label_def de_status_def status_names_def)

lemma de_backend_label [simp]:
  "de_backend (JStr (backend_label b)) = Some (view_of_backend (GpuBackend_of b))"
  by (cases "GpuBackend_of b") (simp_all add: backend_label_def de_backend_def backend_names_def)

lemma de_f32_jf32: "is_f32 x \<Longrightarrow> de_f32 (jf32 (Finite x)) = Some (Finite x)"
  by (simp add: f32_of_rat_exact)

lemma de_option_object: "j = JObj m \<Longrightarrow> de_option dec j = map_option Some (dec j)"
  by simp

lemma de_os_json: "de_os (os_json v) = Some (view_of_os v)"
  by (simp add: de_os_def os_json_def struct_fields_def de_field_def view_of_os_def)

lemma de_cpu_mem_json: "de_cpu_mem (cpu_mem_json v) = Some (view_of_cpu_mem v)"
  by (simp add: de_cpu_mem_def cpu_mem_json_def struct_fields_def de_field_def view_of_cpu_mem_def)

lemma de_net_json: "de_network (net_json v) = Some (view_of_network v)"
  by (simp add: de_network_def net_json_def struct_fields_def de_field_def view_of_network_def)

lemma de_cap_json: "wire_cap v \<Longrightarrow> de_cap (cap_json v) = Some (view_of_cap v)"
  by (auto simp add: wire_cap_def de_cap_def cap_json_def struct_fields_def de_field_def
      view_of_cap_def f32_of_rat_exact)

lemma de_option_jopt:
  assumes "\<And>v. x = Some v \<Longrightarrow> dec (f v) = Some (g v)" and "\<And>v. \<exists>m. f v = JObj m"
  shows "de_option dec (jopt f x) = Some (map_option g x)"
proof (cases x)
  case (Some v)
  obtain m where "f v = JObj m" using assms(2) by blast
  with Some assms(1) show ?thesis by simp
qed simp

lemma json_objects: "\<exists>m. os_json a = JObj m" "\<exists>m. cpu_mem_json b = JObj m"
  "\<exists>m. net_json c = JObj m" "\<exists>m. cap_json d = JObj m"
  by (simp_all add: os_json_def cpu_mem_json_def net_json_def cap_json_def)

lemma de_gpu_json:
  assumes "\<And>c. g_capability g = Some c \<Longrightarrow> wire_cap c"
  shows "de_gpu (gpu_json g) = Some (view_of_gpu g)"
proof -
  have "de_option de_cap (jopt cap_json (g_capability g)) =
      Some (map_option view_of_cap (g_capability g))"
    using assms by (intro de_option_jopt) (simp_all add: de_cap_json json_objects)
  then show ?thesis
    by (simp add: de_gpu_def gpu_json_def struct_fields_def de_field_def view_of_gpu_def)
qed

lemma de_sections [simp]:
  "de_option de_os (jopt os_json a) = Some (map_option view_of_os a)"
  "de_option de_cpu_mem (jopt cpu_mem_json b) = Some (map_option view_of_cpu_mem b)"
  "de_option de_network (jopt net_json c) = Some (map_option view_of_network c)"
  by (rule de_option_jopt; simp add: de_os_json de_cpu_mem_json de_net_json json_objects)+

text \<open>
  The sidecar fields a worker adds to the object (\<open>inference_endpoint\<close> and so on) are read from
  the same object, so the reader is characterised on any object that agrees with \<open>to_json\<close> on
  the eleven inventory keys.
\<close>

definition node_keys :: "string list" where
  "node_keys =
     [''node_id'', ''hostname'', ''display_name'', ''hw_fingerprint'', ''agent_version'', ''tags'',
      ''status'', ''os'', ''cpu_mem'', ''network'', ''gpus'']"

lemma de_gpus:
  assumes "wire_info info"
  shows "those (map (de_gpu \<circ> gpu_json) (n_gpus info)) = Some (map view_of_gpu (n_gpus info))"
  using assms by (intro those_map_Some) (simp add: wire_info_def de_gpu_json)

lemma to_json_lookup [simp]:
  "jget ''node_id'' (to_json i) = Some (JStr (n_node_id i))"
  "jget ''hostname'' (to_json i) = Some (JStr (n_hostname i))"
  "jget ''display_name'' (to_json i) = Some (JStr (n_display_name i))"
  "jget ''hw_fingerprint'' (to_json i) = Some (JStr (n_hw_fingerprint i))"
  "jget ''agent_version'' (to_json i) = Some (JStr (n_agent_version i))"
  "jget ''tags'' (to_json i) = Some (JArr (map JStr (n_tags i)))"
  "jget ''status'' (to_json i) = Some (JStr (status_label (n_status i)))"
  "jget ''os'' (to_json i) = Some (jopt os_json (n_os i))"
  "jget ''cpu_mem'' (to_json i) = Some (jopt cpu_mem_json (n_cpu_mem i))"
  "jget ''network'' (to_json i) = Some (jopt net_json (n_network i))"
  "jget ''gpus'' (to_json i) = Some (JArr (map gpu_json (n_gpus i)))"
  by (simp_all add: to_json_def)

lemma de_node_object:
  assumes wire: "wire_info info"
    and agree: "\<And>k. k \<in> set node_keys \<Longrightarrow> map_of m k = jget k (to_json info)"
    and ep: "map_of m ''inference_endpoint'' = map_option JStr ep"
    and ctl: "map_of m ''control_endpoint'' = map_option JStr ctl"
    and model: "map_of m ''current_model'' = map_option JStr model"
  shows "de_node (JObj m) =
    Some (view_of_info info
      \<lparr>nv_inference_endpoint := ep, nv_control_endpoint := ctl, nv_current_model := model\<rparr>)"
proof -
  note lookups = agree [unfolded node_keys_def, simplified]
  have side: "de_field None (de_option as_str) (map_of m) k = Some x"
    if "map_of m k = map_option JStr x" for k x
    using that by (cases x) (simp_all add: de_field_def)
  note sides = side [OF ep] side [OF ctl] side [OF model]
  have inventory: "de_field d dec (map_of m) k = dec j"
    if "k \<in> set node_keys" and "jget k (to_json info) = Some j" for d dec k j
    using agree [OF that(1)] that(2) by (simp add: de_field_def)
  show ?thesis
    by (simp add: de_node_def struct_fields_def sides inventory node_keys_def
        de_gpus [OF wire] view_of_info_def)
qed

lemma de_node_to_json:
  assumes "wire_info info"
  shows "de_node (to_json info) = Some (view_of_info info)"
proof -
  obtain m where m: "to_json info = JObj m" by (simp add: to_json_def)
  have "de_node (JObj m) = Some (view_of_info info
      \<lparr>nv_inference_endpoint := None, nv_control_endpoint := None, nv_current_model := None\<rparr>)"
  proof (rule de_node_object [OF assms])
    show "map_of m k = jget k (to_json info)" for k by (simp add: m)
  qed (use m in \<open>auto simp: to_json_def\<close>)
  then show ?thesis by (simp add: m view_of_info_def)
qed

text \<open>
  Storing the view and rendering it again gives the same wire form: the coordinator's listing is
  what the worker uploaded.
\<close>

lemma status_label_of [simp]: "status_label (NodeStatus_as_i32 (NodeStatus_of s)) = status_label s"
  by (simp add: status_label_def)

lemma backend_label_of [simp]: "backend_label (GpuBackend_as_i32 (GpuBackend_of b)) = backend_label b"
  by (simp add: backend_label_def)

lemma net_json_round: "net_json (network_of_view (view_of_network v)) = net_json v"
  by (simp add: net_json_def network_of_view_def view_of_network_def)

lemma cap_json_round: "cap_json (cap_of_view (view_of_cap v)) = cap_json v"
  by (simp add: cap_json_def cap_of_view_def view_of_cap_def)

lemma gpu_json_round: "gpu_json (gpu_of_view (view_of_gpu g)) = gpu_json g"
  by (cases "g_capability g") (simp_all add: gpu_json_def gpu_of_view_def view_of_gpu_def cap_json_round)

lemma to_json_round: "to_json (info_of_view (view_of_info info)) = to_json info"
  by (cases "n_network info"; cases "n_os info"; cases "n_cpu_mem info")
    (simp_all add: to_json_def info_of_view_def view_of_info_def net_json_round gpu_json_round)

end
