(* ===== verification/Worker.thy ===== *)
theory Worker
  imports Clients Inventory
begin

section \<open>The worker (\<open>crates/worker\<close>)\<close>

text \<open>
  The agent on a GPU machine: its identity file, the model downloader, the supervisor of the local
  \<open>llama-server\<close>, the control endpoint that loads models, the RPC server and the heartbeat. The
  operating system is a parameter: \<open>env\<close> is the environment, \<open>files\<close> maps the path of a regular file
  to its content, \<open>spawn\<close> starts a process, and \<open>io\<close> says for each file operation of a call, by
  position, whether it fails. Paths are Unix paths and are compared as text. Process state is explicit:
  a supervisor carries the list of the children that run beside the one it owns. A download is one call
  here; \<open>Downloads\<close> takes it apart into the steps that interleave.
\<close>

type_synonym env = "string \<Rightarrow> string option"
type_synonym files = "string \<Rightarrow> string option"
type_synonym io = "nat \<Rightarrow> string option"

definition io_up :: io where "io_up i = None"

lemma io_up_simp [simp]: "io_up i = None"
  by (simp add: io_up_def)

definition is_file :: "files \<Rightarrow> string \<Rightarrow> bool" where
  "is_file files p \<longleftrightarrow> files p \<noteq> None"

subsection \<open>Paths (\<open>std::path\<close>)\<close>

definition path_join :: "string \<Rightarrow> string \<Rightarrow> string" where
  "path_join base p =
     (if starts_with p ''/'' then p
      else if base = [] \<or> last base = CHR ''/'' then base @ p
      else base @ ''/'' @ p)"

text \<open>Trailing slashes and trailing \<open>.\<close> components do not count.\<close>

function strip_trailing :: "string \<Rightarrow> string" where
  "strip_trailing s =
     (if s \<noteq> [] \<and> last s = CHR ''/'' then strip_trailing (butlast s)
      else if suffix ''/.'' s then strip_trailing (take (length s - 2) s)
      else s)"
  by pat_completeness auto
termination
  by (relation "measure length") (auto simp: suffix_def)

declare strip_trailing.simps [simp del]

definition last_segment :: "string \<Rightarrow> string" where
  "last_segment s = rev (takeWhile (\<lambda>c. c \<noteq> CHR ''/'') (rev s))"

definition path_file_name :: "string \<Rightarrow> string option" where
  "path_file_name p =
     (let seg = last_segment (strip_trailing p)
      in if seg \<in> {[], ''.'', ''..''} then None else Some seg)"

text \<open>The text before the last dot, unless that dot is missing or leads the name.\<close>

definition stem_of :: "string \<Rightarrow> string" where
  "stem_of name =
     (let ext = rev (takeWhile (\<lambda>c. c \<noteq> CHR ''.'') (rev name));
          before = take (length name - length ext - 1) name
      in if length ext = length name \<or> before = [] then name else before)"

definition file_stem :: "string \<Rightarrow> string option" where
  "file_stem p = map_option stem_of (path_file_name p)"

definition with_extension :: "string \<Rightarrow> string \<Rightarrow> string" where
  "with_extension p ext =
     (case path_file_name p of
        None \<Rightarrow> p
      | Some name \<Rightarrow>
          let t = strip_trailing p
          in take (length t - length name) t @ stem_of name @ (if ext = [] then [] else ''.'' @ ext))"

fun split_on :: "char \<Rightarrow> string \<Rightarrow> string list" where
  "split_on sep [] = [[]]"
| "split_on sep (c # s) =
     (if c = sep then [] # split_on sep s
      else case split_on sep s of w # ws \<Rightarrow> (c # w) # ws | [] \<Rightarrow> [[c]])"

subsection \<open>Identity (\<open>identity.rs\<close>)\<close>

definition load_or_create_node_id :: "io \<Rightarrow> string \<Rightarrow> string \<Rightarrow> files \<Rightarrow> (string + string) \<times> files" where
  "load_or_create_node_id io data_dir fresh_uuid files =
     (let path = path_join data_dir ''node.id''
      in (case files path of
            Some s \<Rightarrow> (case io 0 of Some e \<Rightarrow> (Inl ''read node.id'', files) | None \<Rightarrow> (Inr (trim s), files))
          | None \<Rightarrow>
              (case io 1 of
                 Some e \<Rightarrow> (Inl ''create data dir'', files)
               | None \<Rightarrow>
                   (case io 2 of
                      Some e \<Rightarrow> (Inl ''write node.id'', files)
                    | None \<Rightarrow> (Inr fresh_uuid, files(path := Some fresh_uuid))))))"

subsection \<open>Model downloader (\<open>model_downloader.rs\<close>)\<close>

record DownloadRequest =
  dq_repo :: string
  dq_file :: string
  dq_local_filename :: string
  dq_token :: string

text \<open>
  The Hub: a request with an optional token fails, or answers with a status and a stream of chunks,
  each of which may be an error. \<open>show_status\<close> is the text of a status code.
\<close>

record hub =
  hub_get :: "string \<Rightarrow> string option \<Rightarrow> string + (nat \<times> (string + string) list)"
  show_status :: "nat \<Rightarrow> string"

text \<open>
  The write loop, with every state the file system goes through; write \<open>i\<close> is the next one. A write to a
  \<open>tokio::fs::File\<close> returns before it is carried out: its error reaches the next write, or after the last
  chunk the flush, whose result the code ignores. A failed write leaves no bytes here; \<open>Downloads\<close> has
  one that leaves some.
\<close>

fun write_chunks :: "io \<Rightarrow> nat \<Rightarrow> string \<Rightarrow> (string + string) list \<Rightarrow> files \<Rightarrow> (string + unit) \<times> files list" where
  "write_chunks io i partial [] files = (Inr (), [])"
| "write_chunks io i partial (Inl e # cs) files = (Inl ''reading hf response chunk'', [])"
| "write_chunks io i partial (Inr b # cs) files =
     (case io i of
        Some e \<Rightarrow>
          ((case cs of
              [] \<Rightarrow> Inr ()
            | Inl _ # _ \<Rightarrow> Inl ''reading hf response chunk''
            | Inr _ # _ \<Rightarrow> Inl ''writing to partial file''), [])
      | None \<Rightarrow>
          let files' = files(partial := Some (unwrap_or [] (files partial) @ b));
              (res, trace) = write_chunks io (i + 1) partial cs files'
          in (res, files' # trace))"

definition hf_url :: "DownloadRequest \<Rightarrow> string" where
  "hf_url req = ''https://huggingface.co/'' @ dq_repo req @ ''/resolve/main/'' @ dq_file req"

text \<open>
  The result and every state of the file system after a change, in order: a crash leaves one of them
  behind. Operation 0 makes the directory, 1 reads the metadata, 2 removes the leftover, 3 builds the
  client, 4 creates the partial file, 5 renames it, 6 onwards write.
\<close>

definition fetch ::
  "io \<Rightarrow> hub \<Rightarrow> DownloadRequest \<Rightarrow> string \<Rightarrow> files \<Rightarrow> (string + string) \<times> files list" where
  "fetch io hub req models_dir files =
     (if dq_repo req = [] then (Inl ''hf_repo must not be empty'', [])
      else if dq_file req = [] then (Inl ''hf_file must not be empty'', [])
      else if io 0 \<noteq> None then (Inl (''creating models dir '' @ models_dir), [])
      else
        let dest = path_join models_dir (dq_local_filename req)
        in if io 1 = None \<and> (case files dest of Some c \<Rightarrow> c \<noteq> [] | None \<Rightarrow> False) then (Inr dest, [])
           else
             let partial = with_extension dest ''partial'';
                 files1 = (if io 2 = None then files(partial := None) else files);
                 url = hf_url req
             in (case io 3 of
                   Some e \<Rightarrow> (Inl e, [files1])
                 | None \<Rightarrow>
                     (case hub_get hub url (if dq_token req = [] then None else Some (dq_token req)) of
                        Inl e \<Rightarrow> (Inl (''GET '' @ url), [files1])
                      | Inr (status, chunks) \<Rightarrow>
                          if \<not> is_success status
                          then (Inl (''huggingface returned '' @ show_status hub status @ '' for '' @ url), [files1])
                          else (case io 4 of
                                  Some e \<Rightarrow> (Inl (''creating '' @ partial), [files1])
                                | None \<Rightarrow>
                                    let files2 = files1(partial := Some []);
                                        (res, trace) = write_chunks io 6 partial chunks files2;
                                        files3 = last (files2 # trace)
                                    in (case res of
                                          Inl e \<Rightarrow> (Inl e, files1 # files2 # trace)
                                        | Inr _ \<Rightarrow>
                                            (case io 5 of
                                               Some e \<Rightarrow>
                                                 (Inl (''rename '' @ partial @ '' '' @ [CHR 0xE2, CHR 0x86, CHR 0x92]
                                                       @ '' '' @ dest), files1 # files2 # trace)
                                             | None \<Rightarrow>
                                                 (Inr dest, files1 # files2 # trace @
                                                   [(files3(partial := None))(dest := files3 partial)])))))))"

subsection \<open>Inference server (\<open>inference_server.rs\<close>)\<close>

record Child =
  ch_pid :: nat
  ch_program :: string
  ch_args :: "string list"

text \<open>\<open>sv_others\<close> are the processes that were started and run without being owned any more.\<close>

record Supervisor =
  sv_port :: u16
  sv_bind_host :: string
  sv_child :: "Child option"
  sv_model_path :: "string option"
  sv_model_id :: "string option"
  sv_others :: "Child list"

definition LLAMA_BIN_NAMES :: "string list" where
  "LLAMA_BIN_NAMES = [''llama-server'', ''llama-cpp-server'']"

definition SEARCH_DIRS :: "string list" where
  "SEARCH_DIRS = [''/usr/local/bin'', ''/opt/gpucluster/bin'', ''/opt/homebrew/bin'']"

text \<open>
  Directories of \<open>$PATH\<close> first, then the fixed ones; within a directory the names in order. This is
  the Unix build; a Windows build splits \<open>$PATH\<close> at semicolons.
\<close>

definition locate_binary :: "string list \<Rightarrow> env \<Rightarrow> files \<Rightarrow> string option" where
  "locate_binary names env files =
     (let dirs = (case env ''PATH'' of Some p \<Rightarrow> split_on (CHR '':'') p | None \<Rightarrow> []) @ SEARCH_DIRS
      in find (is_file files) (concat (map (\<lambda>dir. map (path_join dir) names) dirs)))"

definition llama_args :: "env \<Rightarrow> Supervisor \<Rightarrow> string \<Rightarrow> string list \<Rightarrow> string list" where
  "llama_args env sv path peers =
     [''--host'', sv_bind_host sv, ''--port'', show_nat (unat (sv_port sv)), ''--model'', path,
      ''--n-gpu-layers'', ''999'', ''--ctx-size'', unwrap_or ''4096'' (env ''INFERENCE_CTX''), ''--jinja'']
     @ (if peers = [] then [] else [''--rpc'', join '','' peers])"

text \<open>\<open>spawn\<close> starts a program with arguments: an error text, or the new process id.\<close>

definition spawn_llama_server_with_peers ::
  "env \<Rightarrow> files \<Rightarrow> (string \<Rightarrow> string list \<Rightarrow> string + nat) \<Rightarrow> string \<Rightarrow> string list \<Rightarrow> Supervisor
    \<Rightarrow> (string + unit) \<times> Supervisor" where
  "spawn_llama_server_with_peers env files spawn path peers sv =
     (if \<not> is_file files path then (Inl (''model path does not exist: '' @ path), sv)
      else (case locate_binary LLAMA_BIN_NAMES env files of
              None \<Rightarrow>
                (Inl (''llama-server binary not found on $PATH or in the standard install dirs. ''
                      @ ''Build cpp/llama-rpc-ext (it builds llama-server alongside rpc-server) and ''
                      @ ''symlink it into ~/.local/bin.''), sv)
            | Some bin \<Rightarrow>
                let args = llama_args env sv path peers
                in (case spawn bin args of
                      Inl e \<Rightarrow> (Inl (''spawn '' @ bin), sv)
                    | Inr pid \<Rightarrow>
                        (Inr (),
                         sv \<lparr>sv_child := Some \<lparr>ch_pid = pid, ch_program = bin, ch_args = args\<rparr>,
                              sv_others := (case sv_child sv of
                                  None \<Rightarrow> sv_others sv | Some c \<Rightarrow> c # sv_others sv)\<rparr>))))"

definition spawn_llama_server ::
  "env \<Rightarrow> files \<Rightarrow> (string \<Rightarrow> string list \<Rightarrow> string + nat) \<Rightarrow> string \<Rightarrow> Supervisor \<Rightarrow> (string + unit) \<times> Supervisor" where
  "spawn_llama_server env files spawn path sv = spawn_llama_server_with_peers env files spawn path [] sv"

definition Supervisor_boot ::
  "env \<Rightarrow> files \<Rightarrow> (string \<Rightarrow> string list \<Rightarrow> string + nat) \<Rightarrow> u16 \<Rightarrow> Supervisor" where
  "Supervisor_boot env files spawn port =
     (let sv = \<lparr>sv_port = port, sv_bind_host = unwrap_or ''0.0.0.0'' (env ''INFERENCE_BIND''), sv_child = None,
                 sv_model_path = None, sv_model_id = None, sv_others = []\<rparr>
      in (case env ''MODEL_PATH'' of
            Some p \<Rightarrow>
              if p \<noteq> [] \<and> is_file files p then
                let inferred_id = unwrap_or ''local'' (file_stem p)
                in (case spawn_llama_server env files spawn p sv of
                      (Inl e, sv') \<Rightarrow> sv'
                    | (Inr _, sv') \<Rightarrow> sv' \<lparr>sv_model_path := Some p, sv_model_id := Some inferred_id\<rparr>)
              else sv
          | None \<Rightarrow> sv))"

text \<open>\<open>take\<close>, \<open>kill\<close> and \<open>wait\<close> on the old child: it no longer runs.\<close>

definition switch_inner ::
  "env \<Rightarrow> files \<Rightarrow> (string \<Rightarrow> string list \<Rightarrow> string + nat) \<Rightarrow> string \<Rightarrow> string \<Rightarrow> string list \<Rightarrow> Supervisor
    \<Rightarrow> (string + unit) \<times> Supervisor" where
  "switch_inner env files spawn model_id path peers sv =
     (let sv = sv \<lparr>sv_child := None, sv_model_id := None, sv_model_path := None\<rparr>
      in (case spawn_llama_server_with_peers env files spawn path peers sv of
            (Inr _, sv') \<Rightarrow> (Inr (), sv' \<lparr>sv_model_path := Some path, sv_model_id := Some model_id\<rparr>)
          | (Inl e, sv') \<Rightarrow> (Inl e, sv')))"

definition switch_to ::
  "env \<Rightarrow> files \<Rightarrow> (string \<Rightarrow> string list \<Rightarrow> string + nat) \<Rightarrow> string \<Rightarrow> string \<Rightarrow> Supervisor \<Rightarrow> (string + unit) \<times> Supervisor" where
  "switch_to env files spawn model_id path sv = switch_inner env files spawn model_id path [] sv"

definition switch_to_multi ::
  "env \<Rightarrow> files \<Rightarrow> (string \<Rightarrow> string list \<Rightarrow> string + nat) \<Rightarrow> string \<Rightarrow> string \<Rightarrow> string list \<Rightarrow> Supervisor
    \<Rightarrow> (string + unit) \<times> Supervisor" where
  "switch_to_multi env files spawn model_id path peers sv = switch_inner env files spawn model_id path peers sv"

definition inference_endpoint_advertise :: "env \<Rightarrow> Supervisor \<Rightarrow> string option" where
  "inference_endpoint_advertise env sv =
     map_option (\<lambda>_.
         (case env ''INFERENCE_ADVERTISED_HOST'' of
            Some host \<Rightarrow> if host \<noteq> [] then host @ '':'' @ show_nat (unat (sv_port sv))
                          else '':'' @ show_nat (unat (sv_port sv))
          | None \<Rightarrow> '':'' @ show_nat (unat (sv_port sv))))
       (sv_child sv)"

text \<open>\<open>Drop\<close>: what still runs when the supervisor is gone.\<close>

definition Supervisor_drop :: "Supervisor \<Rightarrow> Child list" where
  "Supervisor_drop sv = sv_others sv"

subsection \<open>Control endpoint (\<open>control_server.rs\<close>)\<close>

record LoadModelReq =
  lm_model_id :: string
  lm_hf_repo :: string
  lm_hf_file :: string
  lm_hf_token :: string
  lm_local_filename :: string
  lm_peers :: "string list"

text \<open>The decoder serde derives: the first three fields are required, the others have defaults.\<close>

definition de_load_model :: "json \<Rightarrow> LoadModelReq option" where
  "de_load_model j = do {
     m \<leftarrow> struct_fields [''model_id'', ''hf_repo'', ''hf_file'', ''hf_token'', ''local_filename'', ''peers''] j;
     model_id \<leftarrow> Option.bind (m ''model_id'') as_str;
     hf_repo \<leftarrow> Option.bind (m ''hf_repo'') as_str;
     hf_file \<leftarrow> Option.bind (m ''hf_file'') as_str;
     hf_token \<leftarrow> de_field [] as_str m ''hf_token'';
     local_filename \<leftarrow> de_field [] as_str m ''local_filename'';
     peers \<leftarrow> de_field [] (de_vec as_str) m ''peers'';
     Some \<lparr>lm_model_id = model_id, lm_hf_repo = hf_repo, lm_hf_file = hf_file, lm_hf_token = hf_token,
           lm_local_filename = local_filename, lm_peers = peers\<rparr>
   }"

definition control_endpoint_advertise :: "env \<Rightarrow> u16 \<Rightarrow> string" where
  "control_endpoint_advertise env port =
     (let host_override = option_or (option_filter (\<lambda>s. s \<noteq> []) (env ''CONTROL_ADVERTISED_HOST''))
            (option_filter (\<lambda>s. s \<noteq> []) (env ''INFERENCE_ADVERTISED_HOST''))
      in (case host_override of
            Some h \<Rightarrow> h @ '':'' @ show_nat (unat port)
          | None \<Rightarrow> '':'' @ show_nat (unat port)))"

definition models_dir :: "string \<Rightarrow> string" where
  "models_dir data_dir = path_join data_dir ''models''"

text \<open>
  The answer to a load command and, when it is accepted, the detached task it leaves behind.
\<close>

definition load_model :: "LoadModelReq \<Rightarrow> ((nat \<times> json) + json) \<times> LoadModelReq option" where
  "load_model req =
     (if lm_model_id req = [] \<or> lm_hf_repo req = [] \<or> lm_hf_file req = []
      then (Inl (400, JObj [(''error'', JStr ''model_id, hf_repo, hf_file are all required'')]), None)
      else (Inr (JObj [(''ok'', JBool True), (''accepted'', JBool True), (''model_id'', JStr (lm_model_id req)),
                       (''state'', JStr ''downloading'')]),
            Some req))"

definition download_of :: "LoadModelReq \<Rightarrow> DownloadRequest" where
  "download_of req =
     \<lparr>dq_repo = lm_hf_repo req, dq_file = lm_hf_file req,
      dq_local_filename = (if lm_local_filename req = [] then lm_hf_file req else lm_local_filename req),
      dq_token = lm_hf_token req\<rparr>"

text \<open>The router; \<open>None\<close> stands for the answers of the router itself.\<close>

definition control_handle :: "Method \<Rightarrow> string \<Rightarrow> json option \<Rightarrow> ((nat \<times> json) + json) option \<times> LoadModelReq option" where
  "control_handle m path body =
     (if m = POST \<and> path = ''/control/load_model'' then
        (case Option.bind body de_load_model of
           None \<Rightarrow> (None, None)
         | Some req \<Rightarrow> let (answer, task) = load_model req in (Some answer, task))
      else (None, None))"

text \<open>The task after its download: the path is valid UTF-8, for it is made of Rust strings.\<close>

definition finish_load ::
  "env \<Rightarrow> files \<Rightarrow> (string \<Rightarrow> string list \<Rightarrow> string + nat) \<Rightarrow> LoadModelReq \<Rightarrow> string + string \<Rightarrow> Supervisor \<Rightarrow> Supervisor" where
  "finish_load env files spawn req downloaded sv =
     (case downloaded of
        Inl e \<Rightarrow> sv
      | Inr path \<Rightarrow>
          if lm_peers req = [] then snd (switch_to env files spawn (lm_model_id req) path sv)
          else snd (switch_to_multi env files spawn (lm_model_id req) path (lm_peers req) sv))"

subsection \<open>RPC server (\<open>rpc_backend.rs\<close>)\<close>

datatype RpcBackend = RpcCuda | RpcMetal | RpcNone

fun from_inventory :: "GpuInfo list \<Rightarrow> RpcBackend" where
  "from_inventory [] = RpcNone"
| "from_inventory (g # gs) =
     (case unwrap_or BackendUnspecified (GpuBackend_try_from (g_backend g)) of
        Cuda \<Rightarrow> RpcCuda
      | Metal \<Rightarrow> RpcMetal
      | _ \<Rightarrow> from_inventory gs)"

fun RpcBackend_label :: "RpcBackend \<Rightarrow> string" where
  "RpcBackend_label RpcCuda = ''cuda''"
| "RpcBackend_label RpcMetal = ''metal''"
| "RpcBackend_label RpcNone = ''none''"

definition RPC_BIN_NAME :: string where "RPC_BIN_NAME = ''rpc-server-ext''"

record RpcServer =
  rp_backend :: RpcBackend
  rp_child :: "Child option"
  rp_listen_port :: u16

definition rpc_locate_binary :: "env \<Rightarrow> files \<Rightarrow> string option" where
  "rpc_locate_binary env files = locate_binary [RPC_BIN_NAME] env files"

definition RpcServer_spawn ::
  "env \<Rightarrow> files \<Rightarrow> (string \<Rightarrow> string list \<Rightarrow> string + nat) \<Rightarrow> RpcBackend \<Rightarrow> u16 \<Rightarrow> string + RpcServer" where
  "RpcServer_spawn env files spawn backend listen_port =
     (if backend = RpcNone then Inr \<lparr>rp_backend = backend, rp_child = None, rp_listen_port = listen_port\<rparr>
      else (case rpc_locate_binary env files of
              None \<Rightarrow>
                Inl (''rpc-server-ext binary not found. Build cpp/llama-rpc-ext with ''
                     @ ''-DBUILD_RPC_SERVER=ON and ship it alongside the worker.'')
            | Some bin \<Rightarrow>
                let args = [''--host'', ''0.0.0.0'', ''--port'', show_nat (unat listen_port)]
                in (case spawn bin args of
                      Inl e \<Rightarrow> Inl (''spawn '' @ bin)
                    | Inr pid \<Rightarrow>
                        Inr \<lparr>rp_backend = backend, rp_child = Some \<lparr>ch_pid = pid, ch_program = bin, ch_args = args\<rparr>,
                             rp_listen_port = listen_port\<rparr>)))"

text \<open>\<open>Drop\<close>: the child is killed and reaped.\<close>

definition RpcServer_drop :: "RpcServer \<Rightarrow> RpcServer" where
  "RpcServer_drop rpc = rpc \<lparr>rp_child := None\<rparr>"

subsection \<open>Heartbeat (\<open>heartbeat.rs\<close>)\<close>

definition insert_some :: "string \<Rightarrow> string option \<Rightarrow> json \<Rightarrow> json" where
  "insert_some k v body = (case v of Some s \<Rightarrow> jinsert k (JStr s) body | None \<Rightarrow> body)"

text \<open>The report: the inventory and what the supervisor serves at this moment.\<close>

definition publish_body :: "env \<Rightarrow> NodeInfo \<Rightarrow> Supervisor \<Rightarrow> string \<Rightarrow> json" where
  "publish_body env info sv control_endpoint =
     insert_some ''current_model'' (sv_model_id sv)
       (jinsert ''control_endpoint'' (JStr control_endpoint)
         (insert_some ''inference_endpoint'' (inference_endpoint_advertise env sv) (to_json info)))"

text \<open>The request a publication makes; its outcome is only logged.\<close>

definition publish :: "env \<Rightarrow> string \<Rightarrow> NodeInfo \<Rightarrow> Supervisor \<Rightarrow> string \<Rightarrow> Request" where
  "publish env url info sv control_endpoint =
     \<lparr>rq_method = POST, rq_url = url, rq_auth = None,
      rq_body = Some (publish_body env info sv control_endpoint)\<rparr>"

definition report_url :: "string \<Rightarrow> string" where
  "report_url coordinator_url = trim_end_matches (CHR ''/'') coordinator_url @ ''/nodes/report''"

text \<open>What a tick does to the snapshot: \<open>collected\<close> is the outcome of \<open>sysinfo::collect()\<close>.\<close>

definition refresh_info :: "string + NodeInfo \<Rightarrow> NodeInfo \<Rightarrow> NodeInfo" where
  "refresh_info collected info =
     (case collected of
        Inr fresh \<Rightarrow> fresh \<lparr>n_node_id := n_node_id info, n_display_name := n_display_name info\<rparr>
      | Inl e \<Rightarrow> info)"

text \<open>
  The loop for a given sequence of ticks: each has the outcome of the collection and the supervisor
  as it is then.
\<close>

fun heartbeats :: "env \<Rightarrow> string \<Rightarrow> string \<Rightarrow> NodeInfo \<Rightarrow> ((string + NodeInfo) \<times> Supervisor) list \<Rightarrow> Request list" where
  "heartbeats env url control_endpoint info [] = []"
| "heartbeats env url control_endpoint info ((collected, sv) # ticks) =
     (let info' = refresh_info collected info
      in publish env url info' sv control_endpoint # heartbeats env url control_endpoint info' ticks)"

definition run_loop ::
  "env \<Rightarrow> string \<Rightarrow> NodeInfo \<Rightarrow> string \<Rightarrow> Supervisor \<Rightarrow> ((string + NodeInfo) \<times> Supervisor) list \<Rightarrow> Request list" where
  "run_loop env coordinator_url info control_endpoint sv ticks =
     publish env (report_url coordinator_url) info sv control_endpoint
     # heartbeats env (report_url coordinator_url) control_endpoint info ticks"

definition publish_draining :: "env \<Rightarrow> string \<Rightarrow> NodeInfo \<Rightarrow> Supervisor \<Rightarrow> string \<Rightarrow> Request" where
  "publish_draining env coordinator_url info sv control_endpoint =
     publish env (report_url coordinator_url) (info \<lparr>n_status := NodeStatus_as_i32 Draining\<rparr>) sv control_endpoint"

text \<open>
  The client certificate and key the worker presents; \<open>parse_json\<close> is the JSON parser. Only the first
  readable candidate counts.
\<close>

definition worker_identity :: "(string \<Rightarrow> string + json) \<Rightarrow> env \<Rightarrow> files \<Rightarrow> (string \<times> string) option" where
  "worker_identity parse_json env files =
     (let candidates = List.map_filter id
            [env ''IDENTITY_FILE'',
             map_option (\<lambda>d. trim_end_matches (CHR ''/'') d @ ''/identity.json'') (env ''NODE_DATA_DIR''),
             Some ''/var/lib/gpucluster/identity.json'',
             Some ''/Library/Application Support/gpucluster/identity.json'']
      in (case List.map_filter files candidates of
            [] \<Rightarrow> None
          | text # _ \<Rightarrow>
              (case parse_json text of
                 Inl e \<Rightarrow> None
               | Inr j \<Rightarrow>
                   option_filter (\<lambda>(cert, key). cert \<noteq> [] \<and> key \<noteq> [])
                     (do { m \<leftarrow> struct_fields [''client_cert_pem'', ''client_key_pem''] j;
                           cert \<leftarrow> de_field [] as_str m ''client_cert_pem'';
                           key \<leftarrow> de_field [] as_str m ''client_key_pem'';
                           Some (cert, key) }))))"

text \<open>The client of the heartbeat.\<close>

definition build_worker_http_client ::
  "(string \<Rightarrow> bool) \<Rightarrow> (HttpClient \<Rightarrow> bool) \<Rightarrow> (string \<Rightarrow> string + json) \<Rightarrow> env \<Rightarrow> files \<Rightarrow> HttpClient" where
  "build_worker_http_client from_pem builds parse_json env files =
     (let accept_invalid = unwrap_or False (map_option (\<lambda>v. v = ''1'' \<or> v = ''true'') (env ''WORKER_ACCEPT_INVALID_TLS''))
      in (case worker_identity parse_json env files of
            Some (cert, key) \<Rightarrow> worker_http_client from_pem builds cert key accept_invalid
          | None \<Rightarrow>
              let b = Client_default \<lparr>hc_timeout := Some (secs 10)\<rparr>;
                  b = (if accept_invalid then b \<lparr>hc_accept_invalid_certs := True\<rparr> else b)
              in build_or_default builds b))"

subsection \<open>Agent (\<open>agent.rs\<close>)\<close>

text \<open>What \<open>run\<close> puts into the inventory before the first report.\<close>

definition agent_info :: "string \<Rightarrow> string option \<Rightarrow> NodeInfo \<Rightarrow> NodeInfo" where
  "agent_info node_id display_name info =
     (let info = info \<lparr>n_node_id := node_id\<rparr>
      in (case display_name of Some name \<Rightarrow> info \<lparr>n_display_name := name\<rparr> | None \<Rightarrow> info))"

subsection \<open>Lemmas\<close>

text \<open>A node id that was written once is read back at every later start.\<close>

lemma node_id_stable:
  assumes "load_or_create_node_id io dir fresh files = (Inr i, files')" and "trim fresh = fresh" and "io' 0 = None"
  shows "load_or_create_node_id io' dir fresh' files' = (Inr i, files')"
  using assms by (auto simp: load_or_create_node_id_def Let_def split: option.splits)

lemma write_chunks_trace:
  assumes "write_chunks io i partial cs files = (res, trace)" and "p \<noteq> partial" and "f \<in> set trace"
  shows "f p = files p"
  using assms
proof (induction io i partial cs files arbitrary: res trace rule: write_chunks.induct)
  case (3 io i partial b cs files)
  let ?files = "files(partial := Some (unwrap_or [] (files partial) @ b))"
  obtain res' tr where w: "write_chunks io (i + 1) partial cs ?files = (res', tr)" by fastforce
  show ?case
  proof (cases "io i")
    case None
    with "3.prems" w have "trace = ?files # tr" by simp
    with "3.prems" "3.IH" [OF None refl w] show ?thesis by auto
  qed (use "3.prems" in simp)
qed simp_all

text \<open>Success leaves the whole stream, or all but its last chunk when the flush failed.\<close>

lemma write_chunks_content:
  assumes "write_chunks io i partial cs files = (Inr u, trace)" and "files partial = Some old"
  shows "\<exists>bs c. cs = map Inr bs \<and> last (files # trace) partial = Some (old @ c) \<and>
    (c = concat bs \<or> bs \<noteq> [] \<and> io (i + length bs - 1) \<noteq> None \<and> c = concat (butlast bs))"
  using assms
proof (induction io i partial cs files arbitrary: old trace rule: write_chunks.induct)
  case (3 io i partial b cs files)
  let ?files = "files(partial := Some (unwrap_or [] (files partial) @ b))"
  show ?case
  proof (cases "io i")
    case (Some e)
    with "3.prems" have "cs = []" "trace = []" by (auto split: list.splits sum.splits)
    with Some "3.prems"(2) show ?thesis by (intro exI [of _ "[b]"] exI [of _ "[]"]) simp
  next
    case io: None
    obtain res' tr where w: "write_chunks io (i + 1) partial cs ?files = (res', tr)" by fastforce
    from io "3.prems" w have t: "trace = ?files # tr" and r: "res' = Inr u" by simp_all
    have "?files partial = Some (old @ b)" using "3.prems"(2) by simp
    from "3.IH" [OF io refl w [unfolded r] this] obtain bs c where
      "cs = map Inr bs" "last (?files # tr) partial = Some ((old @ b) @ c)"
      and "c = concat bs \<or> bs \<noteq> [] \<and> io (i + 1 + length bs - 1) \<noteq> None \<and> c = concat (butlast bs)" by blast
    then show ?thesis unfolding t by (intro exI [of _ "b # bs"] exI [of _ "b @ c"]) auto
  qed
qed simp_all

lemma last_segment_no_slash: "CHR ''/'' \<notin> set (last_segment s)"
  by (auto simp: last_segment_def dest: set_takeWhileD)

lemma with_extension_suffix:
  assumes "path_file_name p \<noteq> None"
  shows "suffix ''.partial'' (with_extension p ''partial'')"
  using assms by (auto simp: with_extension_def Let_def suffix_def)

text \<open>The states a download goes through, with its target and its partial file apart.\<close>

lemma fetch_states:
  assumes "fetch io hub req dir files = (res, trace)"
    and "dest = path_join dir (dq_local_filename req)" and "with_extension dest ''partial'' \<noteq> dest"
    and "f \<in> set trace"
  shows "f dest = files dest \<or>
    (\<exists>status bs. hub_get hub (hf_url req) (if dq_token req = [] then None else Some (dq_token req)) =
        Inr (status, map Inr bs) \<and> is_success status \<and>
        (f dest = Some (concat bs) \<or> bs \<noteq> [] \<and> io (5 + length bs) \<noteq> None \<and> f dest = Some (concat (butlast bs))))"
proof -
  let ?partial = "with_extension dest ''partial''"
  let ?files1 = "if io 2 = None then files(?partial := None) else files"
  let ?files2 = "?files1(?partial := Some [])"
  have "trace \<noteq> []" using assms(4) by auto
  note go = assms(1) [unfolded fetch_def Let_def assms(2) [symmetric]]
  have f1: "?files1 dest = files dest" "?files2 dest = files dest" using assms(3) by auto
  show ?thesis
  proof (cases "hub_get hub (hf_url req) (if dq_token req = [] then None else Some (dq_token req))")
    case (Inl e)
    with go assms(4) f1 show ?thesis by (auto split: if_splits option.splits)
  next
    case (Inr a)
    obtain status chunks where a: "a = (status, chunks)" by fastforce
    obtain r tr where w: "write_chunks io 6 ?partial chunks ?files2 = (r, tr)" by fastforce
    have tr: "g dest = files dest" if "g \<in> set tr" for g
      using write_chunks_trace [OF w _ that, of dest] assms(3) f1 by auto
    let ?final = "((last (?files2 # tr))(?partial := None))(dest := last (?files2 # tr) ?partial)"
    have "f \<in> {?files1, ?files2} \<union> set tr \<or> f = ?final \<and> is_success status \<and> r = Inr ()"
      using go assms(4) Inr a w by (auto split: if_splits option.splits sum.splits)
    then show ?thesis
    proof
      assume "f \<in> {?files1, ?files2} \<union> set tr"
      with f1 tr show ?thesis by blast
    next
      assume e: "f = ?final \<and> is_success status \<and> r = Inr ()"
      with write_chunks_content [OF w [unfolded conjunct2 [OF conjunct2 [OF e]]], of "[]"] obtain bs c where
        b: "chunks = map Inr bs" "last (?files2 # tr) ?partial = Some c"
        and c: "c = concat bs \<or> bs \<noteq> [] \<and> io (6 + length bs - 1) \<noteq> None \<and> c = concat (butlast bs)" by auto
      have "f dest = Some c" using e b by simp
      with e Inr a b(1) c show ?thesis by auto
    qed
  qed
qed

text \<open>What the file is when a download reports success.\<close>

lemma fetch_ok:
  assumes "fetch io hub req dir files = (Inr p, trace)"
    and "dest = path_join dir (dq_local_filename req)" and "with_extension dest ''partial'' \<noteq> dest"
  shows "p = dest \<and> (\<exists>c. last (files # trace) dest = Some c)"
  using assms
  by (auto simp: fetch_def Let_def split: if_splits option.splits sum.splits prod.splits
      dest!: write_chunks_content [where old = "[]"])

text \<open>An identity with a usable PEM is presented to the coordinator, and no other.\<close>

lemma heartbeat_client_identity:
  assumes "\<And>b. builds b"
  shows "hc_identity (build_worker_http_client from_pem builds parse_json env files) =
    (case worker_identity parse_json env files of
       None \<Rightarrow> None
     | Some (cert, key) \<Rightarrow> option_filter from_pem (Some (trim cert @ [CHR 0x0A] @ trim key)))"
proof (cases "worker_identity parse_json env files")
  case None
  with assms show ?thesis
    by (simp add: build_worker_http_client_def build_or_default_def Client_default_def Let_def)
next
  case (Some id)
  then obtain cert key where id: "id = (cert, key)" and "cert \<noteq> []" "key \<noteq> []"
    unfolding worker_identity_def Let_def
    by (cases id) (auto simp: option_filter_Some_iff split: list.splits sum.splits)
  with assms Some show ?thesis
    by (simp add: build_worker_http_client_def worker_http_client_def build_or_default_def Client_default_def Let_def
        option_filter_def)
qed

text \<open>With an identity the client waits 15 s for an answer, without one 10 s.\<close>

lemma heartbeat_client_timeout:
  assumes "\<And>b. builds b"
  shows "hc_timeout (build_worker_http_client from_pem builds parse_json env files) =
    Some (if worker_identity parse_json env files = None then secs 10 else DEFAULT_TIMEOUT)"
  using assms by (auto simp: build_worker_http_client_def worker_http_client_def build_or_default_def Client_default_def
      Let_def split: option.split)

subsection \<open>The supervisor keeps one server\<close>

text \<open>A child runs exactly while a model is served, and nothing else runs.\<close>

definition sv_ok :: "Supervisor \<Rightarrow> bool" where
  "sv_ok sv \<longleftrightarrow> (sv_child sv = None \<longleftrightarrow> sv_model_id sv = None) \<and>
     (sv_child sv = None \<longleftrightarrow> sv_model_path sv = None) \<and> sv_others sv = []"

lemma spawn_from_empty:
  assumes "spawn_llama_server_with_peers env files spawn path peers sv = (res, sv')"
    and "sv_child sv = None" "sv_others sv = []"
  shows "case res of
      Inl e \<Rightarrow> sv' = sv
    | Inr _ \<Rightarrow> is_file files path \<and> (\<exists>c. sv' = sv \<lparr>sv_child := Some c\<rparr> \<and> ch_args c = llama_args env sv path peers)"
  using assms by (cases sv) (auto simp: spawn_llama_server_with_peers_def Let_def split: if_splits option.splits sum.splits)

lemma boot_ok: "sv_ok (Supervisor_boot env files spawn port)"
proof -
  let ?sv = "\<lparr>sv_port = port, sv_bind_host = unwrap_or ''0.0.0.0'' (env ''INFERENCE_BIND''), sv_child = None,
                 sv_model_path = None, sv_model_id = None, sv_others = []\<rparr>"
  have base: "sv_ok ?sv" by (simp add: sv_ok_def)
  obtain res sv' where r: "spawn_llama_server_with_peers env files spawn (the (env ''MODEL_PATH'')) [] ?sv = (res, sv')" by fastforce
  note sp = spawn_from_empty [OF r]
  show ?thesis
    using base r sp by (cases res) (auto simp: Supervisor_boot_def Let_def spawn_llama_server_def sv_ok_def split: option.split)
qed

lemma switch_inner_ok:
  assumes "sv_ok sv" and "switch_inner env files spawn m path peers sv = (res, sv')"
  shows "sv_ok sv' \<and> (case res of
      Inl e \<Rightarrow> sv_model_id sv' = None \<and> sv_child sv' = None
    | Inr _ \<Rightarrow> is_file files path \<and> sv_model_id sv' = Some m \<and> sv_model_path sv' = Some path \<and>
        (\<exists>c. sv_child sv' = Some c \<and> ch_args c = llama_args env sv path peers))"
proof -
  let ?sv = "sv \<lparr>sv_child := None, sv_model_id := None, sv_model_path := None\<rparr>"
  obtain r sv1 where s: "spawn_llama_server_with_peers env files spawn path peers ?sv = (r, sv1)" by fastforce
  have "sv_others ?sv = []" using assms(1) by (simp add: sv_ok_def)
  with spawn_from_empty [OF s] s assms show ?thesis
    by (cases r) (auto simp: switch_inner_def Let_def sv_ok_def llama_args_def)
qed

lemma finish_load_ok:
  assumes "sv_ok sv"
  shows "sv_ok (finish_load env files spawn req downloaded sv) \<and>
    (finish_load env files spawn req downloaded sv = sv \<and> (\<exists>e. downloaded = Inl e) \<or>
     sv_model_id (finish_load env files spawn req downloaded sv) \<in> {None, Some (lm_model_id req)})"
proof (cases downloaded)
  case (Inl e)
  with assms show ?thesis by (simp add: finish_load_def)
next
  case (Inr path)
  obtain res sv' where s: "switch_inner env files spawn (lm_model_id req) path (lm_peers req) sv = (res, sv')" by fastforce
  from switch_inner_ok [OF assms s] s Inr show ?thesis
    by (cases res; cases "lm_peers req = []") (auto simp: finish_load_def switch_to_def switch_to_multi_def)
qed

text \<open>One finished load task after another, in the order in which they get hold of the supervisor.\<close>

fun finish_loads :: "env \<Rightarrow> (files \<times> (string \<Rightarrow> string list \<Rightarrow> string + nat) \<times> LoadModelReq \<times> (string + string)) list
    \<Rightarrow> Supervisor \<Rightarrow> Supervisor" where
  "finish_loads env [] sv = sv"
| "finish_loads env ((files, spawn, req, downloaded) # ts) sv =
     finish_loads env ts (finish_load env files spawn req downloaded sv)"

lemma finish_loads_ok: "sv_ok sv \<Longrightarrow> sv_ok (finish_loads env ts sv)"
proof (induction env ts sv rule: finish_loads.induct)
  case (2 env files spawn req downloaded ts sv)
  from conjunct1 [OF finish_load_ok [OF 2(2)]] show ?case by (simp add: 2(1))
qed simp

subsection \<open>Properties\<close>

text \<open>
  A download whose flush succeeds is atomic: in every state of the file system from its start to its end, and so after
  a crash at any point and after every failure, the model file is as it was before or holds the whole
  body of a successful response; when the download reports success the file exists. This holds for
  every target with a file name that does not itself end in \<open>.partial\<close>.
\<close>

theorem download_atomic:
  assumes "fetch io hub req dir files = (res, trace)" and "dest = path_join dir (dq_local_filename req)"
    and "path_file_name dest \<noteq> None" and "\<not> suffix ''.partial'' dest"
    and "\<And>status bs. hub_get hub (hf_url req) (if dq_token req = [] then None else Some (dq_token req)) =
      Inr (status, map Inr bs) \<Longrightarrow> bs \<noteq> [] \<Longrightarrow> io (5 + length bs) = None"
  shows "(\<forall>f \<in> set trace. f dest = files dest \<or>
      (\<exists>status bs. hub_get hub (hf_url req) (if dq_token req = [] then None else Some (dq_token req)) =
          Inr (status, map Inr bs) \<and> is_success status \<and> f dest = Some (concat bs))) \<and>
    (\<forall>p. res = Inr p \<longrightarrow> p = dest \<and> last (files # trace) dest \<noteq> None)"
proof -
  have ne: "with_extension dest ''partial'' \<noteq> dest" using with_extension_suffix [OF assms(3)] assms(4) by auto
  have "\<forall>f \<in> set trace. f dest = files dest \<or>
      (\<exists>status bs. hub_get hub (hf_url req) (if dq_token req = [] then None else Some (dq_token req)) =
          Inr (status, map Inr bs) \<and> is_success status \<and> f dest = Some (concat bs))"
    using fetch_states [OF assms(1,2) ne] assms(5) by (metis option.distinct(1))
  moreover have "p = dest \<and> last (files # trace) dest \<noteq> None" if "res = Inr p" for p
    using fetch_ok [OF assms(1) [unfolded that] assms(2) ne] by auto
  ultimately show ?thesis by blast
qed

definition sample_download :: DownloadRequest where
  "sample_download = \<lparr>dq_repo = ''r'', dq_file = ''m.gguf'', dq_local_filename = ''m.gguf'', dq_token = []\<rparr>"

definition sample_hub :: hub where
  "sample_hub = \<lparr>hub_get = (\<lambda>url t. Inr (200, [Inr ''ab'', Inl ''reset''])), show_status = show_nat\<rparr>"



text \<open>An absolute file name in a load command leaves the models directory.\<close>

theorem download_escapes_models_dir:
  "starts_with name ''/'' \<Longrightarrow> path_join (models_dir data_dir) name = name"
  by (simp add: path_join_def)

end
