(* ===== verification/Coordinator.thy ===== *)
theory Coordinator
  imports Inventory Clients
begin

section \<open>The coordinator (\<open>crates/coordinator\<close>)\<close>

text \<open>
  The node registry (\<open>registry.rs\<close>), its watchdog (\<open>heartbeat.rs\<close>), the HTTP handlers
  (\<open>server.rs\<close>) and the gRPC service (\<open>service.rs\<close>). The registry's \<open>DashMap\<close> is an
  association list with distinct keys; its order stands for the map's iteration order, which is
  unspecified, so no property depends on it. Every read of the clock is an argument: a handler
  that reads it twice takes two times.
\<close>

subsection \<open>Registry (\<open>registry.rs\<close>)\<close>

record NodeEntry =
  ne_info :: NodeInfo
  ne_last_heartbeat :: time
  ne_current_public_ip :: "string option"
  ne_status :: NodeStatus
  ne_inference_endpoint :: "string option"
  ne_control_endpoint :: "string option"
  ne_current_model :: "string option"

type_synonym Registry = "(string \<times> NodeEntry) list"

definition Registry_new :: Registry where
  "Registry_new = []"

definition make_entry ::
  "time \<Rightarrow> NodeInfo \<Rightarrow> string option \<Rightarrow> string option \<Rightarrow> string option \<Rightarrow> string option \<Rightarrow> NodeEntry" where
  "make_entry now info public_ip inference_endpoint control_endpoint current_model =
     \<lparr>ne_info = info, ne_last_heartbeat = now, ne_current_public_ip = public_ip,
      ne_status = NodeStatus_of (n_status info), ne_inference_endpoint = inference_endpoint,
      ne_control_endpoint = control_endpoint, ne_current_model = current_model\<rparr>"

definition upsert ::
  "time \<Rightarrow> NodeInfo \<Rightarrow> string option \<Rightarrow> string option \<Rightarrow> string option \<Rightarrow> string option
    \<Rightarrow> Registry \<Rightarrow> Registry" where
  "upsert now info public_ip inference_endpoint control_endpoint current_model reg =
     AList.update (n_node_id info)
       (make_entry now info public_ip inference_endpoint control_endpoint current_model) reg"

definition touch :: "time \<Rightarrow> string \<Rightarrow> Registry \<Rightarrow> Registry" where
  "touch now node_id reg =
     (case map_of reg node_id of
        None \<Rightarrow> reg
      | Some e \<Rightarrow> AList.update node_id (e \<lparr>ne_last_heartbeat := now\<rparr>) reg)"

definition list_entries :: "Registry \<Rightarrow> NodeEntry list" where
  "list_entries reg = map snd reg"

definition get_node :: "Registry \<Rightarrow> string \<Rightarrow> NodeEntry option" where
  "get_node reg node_id = map_of reg node_id"

definition Registry_count :: "Registry \<Rightarrow> nat" where
  "Registry_count reg = length reg"

fun scan_fingerprint :: "time \<Rightarrow> string \<Rightarrow> string \<Rightarrow> time \<Rightarrow> NodeEntry list \<Rightarrow> string option" where
  "scan_fingerprint now hw exclude stale_after [] = None"
| "scan_fingerprint now hw exclude stale_after (e # es) =
     (if n_node_id (ne_info e) = exclude then scan_fingerprint now hw exclude stale_after es
      else if n_hw_fingerprint (ne_info e) \<noteq> hw then scan_fingerprint now hw exclude stale_after es
      else if now - ne_last_heartbeat e \<le> stale_after then Some (n_node_id (ne_info e))
      else scan_fingerprint now hw exclude stale_after es)"

definition find_active_with_hw_fingerprint ::
  "time \<Rightarrow> string \<Rightarrow> string \<Rightarrow> time \<Rightarrow> Registry \<Rightarrow> string option" where
  "find_active_with_hw_fingerprint now hw exclude stale_after reg =
     (if hw = [] then None else scan_fingerprint now hw exclude stale_after (list_entries reg))"

subsection \<open>Watchdog (\<open>heartbeat.rs\<close>)\<close>

text \<open>
  One tick: \<open>reg.list()\<close> is a snapshot, the clock is read once for the comparison and again inside
  each \<open>upsert\<close> (\<open>now'\<close>).
\<close>

definition mark_offline :: "time \<Rightarrow> NodeEntry \<Rightarrow> Registry \<Rightarrow> Registry" where
  "mark_offline now' e reg =
     upsert now' (ne_info e \<lparr>n_status := NodeStatus_as_i32 Offline\<rparr>) (ne_current_public_ip e)
       (ne_inference_endpoint e) (ne_control_endpoint e) (ne_current_model e) reg"

fun sweep :: "time \<Rightarrow> time \<Rightarrow> NodeEntry list \<Rightarrow> Registry \<Rightarrow> Registry" where
  "sweep now now' [] reg = reg"
| "sweep now now' (e # es) reg =
     sweep now now' es
       (if now - ne_last_heartbeat e > secs 60 then mark_offline now' e reg else reg)"

definition watchdog_tick :: "time \<Rightarrow> time \<Rightarrow> Registry \<Rightarrow> Registry" where
  "watchdog_tick now now' reg = sweep now now' (list_entries reg) reg"

subsection \<open>HTTP handlers (\<open>server.rs\<close>)\<close>

text \<open>A handler's result: \<open>Inl\<close> is an error status with its body.\<close>

type_synonym http_result = "nat \<times> json + json"

definition coord_status_label :: "i32 \<Rightarrow> string" where
  "coord_status_label status =
     (case NodeStatus_of status of
        Unspecified \<Rightarrow> ''unspecified''
      | PendingApproval \<Rightarrow> ''pending_approval''
      | Online \<Rightarrow> ''online''
      | Degraded \<Rightarrow> ''degraded''
      | Draining \<Rightarrow> ''draining''
      | Offline \<Rightarrow> ''offline''
      | Quarantined \<Rightarrow> ''quarantined''
      | Revoked \<Rightarrow> ''revoked'')"

definition entry_json :: "(time \<Rightarrow> string) \<Rightarrow> NodeEntry \<Rightarrow> json" where
  "entry_json to_rfc3339 e =
     jinsert ''control_endpoint'' (jopt JStr (ne_control_endpoint e))
    (jinsert ''current_model'' (jopt JStr (ne_current_model e))
    (jinsert ''id'' (JStr (n_node_id (ne_info e)))
    (jinsert ''status_code'' (JInt (sint (n_status (ne_info e))))
    (jinsert ''status'' (JStr (coord_status_label (n_status (ne_info e))))
    (jinsert ''current_public_ip'' (jopt JStr (ne_current_public_ip e))
    (jinsert ''last_heartbeat'' (JStr (to_rfc3339 (ne_last_heartbeat e)))
       (to_json (ne_info e))))))))"

definition list_nodes :: "(time \<Rightarrow> string) \<Rightarrow> Registry \<Rightarrow> json" where
  "list_nodes to_rfc3339 reg =
     (let nodes = map (entry_json to_rfc3339) (list_entries reg)
      in JObj [(''count'', JInt (int (length nodes))), (''nodes'', JArr nodes)])"

fun terminal_status :: "NodeStatus \<Rightarrow> bool" where
  "terminal_status Revoked = True"
| "terminal_status Quarantined = True"
| "terminal_status Draining = True"
| "terminal_status Offline = True"
| "terminal_status _ = False"

definition is_eligible :: "time \<Rightarrow> NodeEntry \<Rightarrow> bool" where
  "is_eligible now e \<longleftrightarrow>
     now - ne_last_heartbeat e < secs 60 \<and> n_gpus (ne_info e) \<noteq> [] \<and>
     \<not> terminal_status (NodeStatus_of (n_status (ne_info e)))"

definition wg_ip_of :: "NodeEntry \<Rightarrow> string option" where
  "wg_ip_of e = option_filter (\<lambda>s. s \<noteq> []) (map_option net_wg_ip (n_network (ne_info e)))"

definition dispatch_ip :: "NodeEntry \<Rightarrow> string option" where
  "dispatch_ip e = option_or (wg_ip_of e) (ne_current_public_ip e)"

definition inference_url :: "NodeEntry \<Rightarrow> string option" where
  "inference_url e =
     (case ne_inference_endpoint e of
        Some ep \<Rightarrow>
          if starts_with ep '':'' then map_option (\<lambda>ip. ''http://'' @ ip @ ep) (dispatch_ip e)
          else Some (''http://'' @ ep)
      | None \<Rightarrow> None)"

definition primary_gpu_json :: "GpuInfo \<Rightarrow> json" where
  "primary_gpu_json g =
     JObj [(''name'', JStr (g_name g)),
           (''backend'',
              jopt JStr (map_option (\<lambda>b. case b of Cuda \<Rightarrow> ''cuda'' | Metal \<Rightarrow> ''metal''
                | Rocm \<Rightarrow> ''rocm'' | Vulkan \<Rightarrow> ''vulkan'' | _ \<Rightarrow> ''unspecified'')
                (GpuBackend_try_from (g_backend g)))),
           (''architecture'', JStr (g_architecture g)),
           (''vram_total'', ju64 (vram_total_bytes g)),
           (''vram_free'', ju64 (vram_free_bytes g)),
           (''core_count'', ju32 (g_gpu_core_count g))]"

definition eligible_json :: "NodeEntry \<Rightarrow> json" where
  "eligible_json e =
     JObj [(''node_id'', JStr (n_node_id (ne_info e))),
           (''device_name'', jopt (\<lambda>o'. JStr (os_device_name o')) (n_os (ne_info e))),
           (''wg_ip'', jopt (\<lambda>n. JStr (net_wg_ip n)) (n_network (ne_info e))),
           (''public_ip'', jopt JStr (ne_current_public_ip e)),
           (''rpc_port'', JInt (uint WORKER_RPC)),
           (''inference_url'', jopt JStr (inference_url e)),
           (''gpu'', (case n_gpus (ne_info e) of [] \<Rightarrow> JNull | g # _ \<Rightarrow> primary_gpu_json g))]"

definition eligible_nodes :: "time \<Rightarrow> Registry \<Rightarrow> json" where
  "eligible_nodes now reg =
     (let eligible = map eligible_json (filter (is_eligible now) (list_entries reg))
      in JObj [(''count'', JInt (int (length eligible))), (''nodes'', JArr eligible)])"

text \<open>\<open>de_error\<close> is the text of \<open>serde_json\<close>'s error for a body that does not decode.\<close>

definition duplicate_message :: "string \<Rightarrow> string" where
  "duplicate_message existing =
     ''another worker on this hardware is already active as node '' @ existing @
     ''. Stop the other worker (or wait ~60 s for its heartbeat to expire) '' @
     ''before re-registering with a new node_id.''"

definition nonempty :: "string option \<Rightarrow> string option" where
  "nonempty s = option_filter (\<lambda>s. s \<noteq> []) s"

definition report_node ::
  "(json \<Rightarrow> string) \<Rightarrow> time \<Rightarrow> time \<Rightarrow> string \<Rightarrow> json \<Rightarrow> Registry \<Rightarrow> http_result \<times> Registry" where
  "report_node de_error now now' ip body reg =
     (case de_node body of
        None \<Rightarrow>
          (Inl (400, JObj [(''error'', JStr ''invalid_payload''), (''message'', JStr (de_error body))]),
           reg)
      | Some view \<Rightarrow>
          let inference_endpoint = nonempty (nv_inference_endpoint view);
              control_endpoint = nonempty (nv_control_endpoint view);
              current_model = nonempty (nv_current_model view);
              info = info_of_view view
          in if n_node_id info = [] then (Inl (400, JObj [(''error'', JStr ''missing_node_id'')]), reg)
             else case find_active_with_hw_fingerprint now (n_hw_fingerprint info) (n_node_id info)
                         (secs 60) reg of
                    Some existing \<Rightarrow>
                      (Inl (409, JObj [(''error'', JStr ''duplicate_hw_fingerprint''),
                                       (''message'', JStr (duplicate_message existing)),
                                       (''active_node_id'', JStr existing),
                                       (''hw_fingerprint'', JStr (n_hw_fingerprint info))]),
                       reg)
                  | None \<Rightarrow>
                      (Inr (JObj [(''ok'', JBool True), (''node_id'', JStr (n_node_id info))]),
                       upsert now' info (Some ip) inference_endpoint control_endpoint current_model reg))"

definition load_model_url :: "NodeEntry \<Rightarrow> string \<Rightarrow> nat \<times> json + string" where
  "load_model_url entry node_id =
     (case ne_control_endpoint entry of
        None \<Rightarrow>
          Inl (502, JObj [(''error'', JStr ''node_has_no_control_endpoint''), (''node_id'', JStr node_id),
                          (''hint'', JStr (''worker may be running an older version '' @
                             ''that doesn'' @ [CHR 0x27] @ ''t expose /control''))])
      | Some port_part \<Rightarrow>
          if starts_with port_part '':'' then
            (case dispatch_ip entry of
               None \<Rightarrow> Inl (502, JObj [(''error'', JStr ''node_has_no_routable_ip''),
                                       (''node_id'', JStr node_id)])
             | Some host \<Rightarrow> Inr (''http://'' @ host @ port_part @ ''/control/load_model''))
          else Inr (''http://'' @ port_part @ ''/control/load_model''))"

definition load_model_proxy :: "http \<Rightarrow> string \<Rightarrow> json \<Rightarrow> Registry \<Rightarrow> http_result" where
  "load_model_proxy h node_id body reg =
     (case get_node reg node_id of
        None \<Rightarrow> Inl (502, JObj [(''error'', JStr ''unknown_node''), (''node_id'', JStr node_id)])
      | Some entry \<Rightarrow>
          (case load_model_url entry node_id of
             Inl e \<Rightarrow> Inl e
           | Inr url \<Rightarrow>
               let base_url = unwrap_or url (strip_suffix ''/control/load_model'' url)
               in case WorkerControlClient_load_model (WorkerControlClient_new base_url h) body of
                    Inr j \<Rightarrow> Inr j
                  | Inl (Upstream service status text) \<Rightarrow>
                      Inl (502, JObj [(''error'', JStr ''worker_rejected''),
                                      (''worker_status'', JInt (int status)),
                                      (''worker_body'', (case from_str h text of
                                          Inr v \<Rightarrow> v
                                        | Inl _ \<Rightarrow> JObj [(''raw'', JStr text)]))])
                  | Inl e \<Rightarrow>
                      Inl (502, JObj [(''error'', JStr ''worker_unreachable''), (''url'', JStr url),
                                      (''message'', JStr (ClientError_to_string e))])))"

subsection \<open>gRPC service (\<open>service.rs\<close>)\<close>

datatype grpc_status = InvalidArgument string | Unimplemented string

record RegisterRequest =
  rr_node_id :: string
  rr_info :: "NodeInfo option"

record RegisterResponse =
  assigned_id :: string
  coordinator_endpoint :: string
  heartbeat_interval_secs :: u32

text \<open>\<open>fresh_id\<close> is the text of a new \<open>uuid\<close>.\<close>

definition register ::
  "time \<Rightarrow> string \<Rightarrow> RegisterRequest \<Rightarrow> Registry \<Rightarrow> (grpc_status + RegisterResponse) \<times> Registry" where
  "register now fresh_id r reg =
     (case rr_info r of
        None \<Rightarrow> (Inl (InvalidArgument ''info required''), reg)
      | Some info \<Rightarrow>
          let id' = (if rr_node_id r = [] then fresh_id else rr_node_id r)
          in (Inr \<lparr>assigned_id = id', coordinator_endpoint = [], heartbeat_interval_secs = 5\<rparr>,
              upsert now (info \<lparr>n_node_id := id'\<rparr>) None None None None reg))"

definition heartbeat :: "grpc_status + unit" where
  "heartbeat = Inl (Unimplemented ''phase 1+: heartbeat stream'')"

record Ack =
  ack_ok :: bool
  ack_message :: string

definition report_gpu_metrics :: Ack where
  "report_gpu_metrics = \<lparr>ack_ok = True, ack_message = []\<rparr>"

definition stream_jobs :: "grpc_status + unit" where
  "stream_jobs = Inl (Unimplemented ''phase 2+: job streaming'')"

definition report_job_status :: Ack where
  "report_job_status = \<lparr>ack_ok = True, ack_message = []\<rparr>"

subsection \<open>The registry as a keyed store\<close>

abbreviation entry_id :: "NodeEntry \<Rightarrow> string" where
  "entry_id e \<equiv> n_node_id (ne_info e)"

definition reg_keys_ok :: "Registry \<Rightarrow> bool" where
  "reg_keys_ok reg \<longleftrightarrow> distinct (map fst reg)"

interpretation registry: keyed_store reg_keys_ok AList.update get_node "\<lambda>reg. reg"
  by unfold_locales
    (auto simp: reg_keys_ok_def get_node_def distinct_update update_conv' map_of_eq_Some_iff)

text \<open>
  The registry's invariant at time \<open>now\<close>: one entry per id, filed under the id its inventory
  carries, with the decoded status in step with the wire status and no heartbeat in the future.
\<close>

definition entry_ok :: "time \<Rightarrow> string \<Rightarrow> NodeEntry \<Rightarrow> bool" where
  "entry_ok now k e \<longleftrightarrow>
     entry_id e = k \<and> ne_status e = NodeStatus_of (n_status (ne_info e)) \<and> ne_last_heartbeat e \<le> now"

definition registry_inv :: "time \<Rightarrow> Registry \<Rightarrow> bool" where
  "registry_inv now reg \<longleftrightarrow>
     reg_keys_ok reg \<and> (\<forall>p \<in> set reg. entry_ok now (fst p) (snd p))"

lemma registry_inv_new [simp]: "registry_inv now Registry_new"
  by (simp add: registry_inv_def Registry_new_def reg_keys_ok_def)

lemma entry_ok_mono: "entry_ok now k e \<Longrightarrow> now \<le> now' \<Longrightarrow> entry_ok now' k e"
  by (simp add: entry_ok_def)

lemma registry_inv_mono: "registry_inv now reg \<Longrightarrow> now \<le> now' \<Longrightarrow> registry_inv now' reg"
  unfolding registry_inv_def using entry_ok_mono by blast

lemma make_entry_ok: "t \<le> now \<Longrightarrow> entry_ok now (n_node_id info) (make_entry t info ip ep ctl m)"
  by (simp add: entry_ok_def make_entry_def)

lemma registry_inv_update:
  assumes "registry_inv now reg" and "entry_ok now k e"
  shows "registry_inv now (AList.update k e reg)"
  using assms registry.insert_preserves_all [of reg "entry_ok now" k e] registry.invar_insert [of reg k e]
  by (simp add: registry_inv_def case_prod_unfold)

lemma registry_inv_upsert:
  "registry_inv now reg \<Longrightarrow> now \<le> now' \<Longrightarrow> registry_inv now' (upsert now' info ip ep ctl m reg)"
  by (auto simp: upsert_def intro: registry_inv_update registry_inv_mono make_entry_ok)

lemma get_node_upsert:
  "get_node (upsert now info ip ep ctl m reg) k =
     (if k = n_node_id info then Some (make_entry now info ip ep ctl m) else get_node reg k)"
  unfolding upsert_def by (rule registry.get_insert)

lemma registry_inv_get:
  assumes "registry_inv now reg" and "get_node reg k = Some e"
  shows "entry_ok now k e"
proof -
  have "(k, e) \<in> set reg" using assms(2) by (simp add: get_node_def map_of_SomeD)
  with assms(1) show ?thesis by (force simp only: registry_inv_def fst_conv snd_conv)
qed

lemma entry_ids: "registry_inv now reg \<Longrightarrow> map entry_id (list_entries reg) = map fst reg"
  by (simp add: registry_inv_def entry_ok_def list_entries_def)

lemma distinct_entry_ids: "registry_inv now reg \<Longrightarrow> distinct (map entry_id (list_entries reg))"
  by (metis entry_ids registry_inv_def reg_keys_ok_def)

lemma list_entries_iff:
  assumes "registry_inv now reg"
  shows "e \<in> set (list_entries reg) \<longleftrightarrow> get_node reg (entry_id e) = Some e"
proof
  assume "e \<in> set (list_entries reg)"
  then obtain k where k: "(k, e) \<in> set reg" 
    unfolding list_entries_def set_map by (metis imageE prod.collapse)
  with assms have "entry_id e = k" by (force simp only: registry_inv_def entry_ok_def fst_conv snd_conv)
  with k assms show "get_node reg (entry_id e) = Some e"
    by (simp add: get_node_def registry_inv_def reg_keys_ok_def)
next
  assume "get_node reg (entry_id e) = Some e"
  then have "(entry_id e, e) \<in> set reg" by (simp add: get_node_def map_of_SomeD)
  then show "e \<in> set (list_entries reg)" by (force simp only: list_entries_def set_map snd_conv)
qed

lemma registry_inv_touch:
  assumes "registry_inv now reg" and "now \<le> now'"
  shows "registry_inv now' (touch now' k reg)"
proof (cases "get_node reg k")
  case None
  with assms show ?thesis by (simp add: touch_def get_node_def registry_inv_mono)
next
  case (Some e)
  have "entry_ok now' k (e \<lparr>ne_last_heartbeat := now'\<rparr>)"
    using registry_inv_get [OF assms(1) Some] by (simp add: entry_ok_def)
  with Some assms show ?thesis
    by (simp add: touch_def get_node_def registry_inv_update registry_inv_mono)
qed

subsection \<open>The watchdog\<close>

definition stale :: "time \<Rightarrow> NodeEntry \<Rightarrow> bool" where
  "stale now e \<longleftrightarrow> secs 60 < now - ne_last_heartbeat e"

definition offline_entry :: "time \<Rightarrow> NodeEntry \<Rightarrow> NodeEntry" where
  "offline_entry now' e =
     e \<lparr>ne_info := (ne_info e) \<lparr>n_status := NodeStatus_as_i32 Offline\<rparr>,
        ne_last_heartbeat := now', ne_status := Offline\<rparr>"

lemma offline_entry_id [simp]: "entry_id (offline_entry t e) = entry_id e"
  by (simp add: offline_entry_def)

lemma mark_offline_eq: "mark_offline now' e reg = AList.update (entry_id e) (offline_entry now' e) reg"
  by (cases e) (simp add: mark_offline_def upsert_def make_entry_def offline_entry_def)

lemma sweep_lookup:
  "distinct (map entry_id es) \<Longrightarrow>
   get_node (sweep now now' es reg) k =
     (case find (\<lambda>e. entry_id e = k) es of
        Some e \<Rightarrow> if stale now e then Some (offline_entry now' e) else get_node reg k
      | None \<Rightarrow> get_node reg k)"
proof (induction es arbitrary: reg)
  case (Cons e es)
  have "find (\<lambda>x. entry_id x = entry_id e) es = None"
    using Cons.prems by (simp add: find_None_all image_iff) metis
  with Cons show ?case
    by (cases "entry_id e = k")
      (simp_all add: mark_offline_eq registry.get_insert stale_def split: option.split)
qed simp

lemma watchdog_lookup:
  assumes "registry_inv now0 reg"
  shows "get_node (watchdog_tick now now' reg) k =
    map_option (\<lambda>e. if stale now e then offline_entry now' e else e) (get_node reg k)"
proof -
  note d = distinct_entry_ids [OF assms]
  have found: "find (\<lambda>e. entry_id e = k) (list_entries reg) = get_node reg k"
  proof (cases "find (\<lambda>e. entry_id e = k) (list_entries reg)")
    case None
    then have "get_node reg k \<noteq> Some e" for e
      using list_entries_iff [OF assms, of e] registry_inv_get [OF assms, of k e]
      by (auto simp only: entry_ok_def find_None_all)
    then have "get_node reg k = None" by (rule not_Some_eq [THEN iffD1, OF allI])
    with None show ?thesis by simp
  next
    case (Some e)
    from find_Some_D [OF this] Some list_entries_iff [OF assms, of e] show ?thesis by auto
  qed
  show ?thesis
    unfolding watchdog_tick_def sweep_lookup [OF d] found by (simp split: option.split)
qed

lemma offline_entry_ok: "t \<le> now \<Longrightarrow> entry_ok now (entry_id e) (offline_entry t e)"
  by (simp add: entry_ok_def offline_entry_def)

lemma sweep_inv:
  "registry_inv b reg \<Longrightarrow> now' \<le> b \<Longrightarrow> registry_inv b (sweep now now' es reg)"
  by (induction es arbitrary: reg)
    (simp_all add: mark_offline_eq registry_inv_update offline_entry_ok)

lemma watchdog_inv:
  "registry_inv b reg \<Longrightarrow> now' \<le> b \<Longrightarrow> registry_inv b (watchdog_tick now now' reg)"
  unfolding watchdog_tick_def by (rule sweep_inv)

subsection \<open>The duplicate guard\<close>

definition conflicts :: "time \<Rightarrow> string \<Rightarrow> string \<Rightarrow> time \<Rightarrow> NodeEntry \<Rightarrow> bool" where
  "conflicts now hw exclude after e \<longleftrightarrow>
     entry_id e \<noteq> exclude \<and> n_hw_fingerprint (ne_info e) = hw \<and> now - ne_last_heartbeat e \<le> after"

lemma scan_fingerprint_find:
  "scan_fingerprint now hw exclude after es = map_option entry_id (find (conflicts now hw exclude after) es)"
  by (induction es) (simp_all add: conflicts_def)

lemma find_active_None_iff:
  "find_active_with_hw_fingerprint now hw exclude after reg = None \<longleftrightarrow>
     hw = [] \<or> (\<forall>e \<in> set (list_entries reg). \<not> conflicts now hw exclude after e)"
  by (simp add: find_active_with_hw_fingerprint_def scan_fingerprint_find find_None_all)

lemma find_active_Some:
  assumes "find_active_with_hw_fingerprint now hw exclude after reg = Some k"
  shows "hw \<noteq> [] \<and> (\<exists>e \<in> set (list_entries reg). conflicts now hw exclude after e \<and> entry_id e = k)"
proof -
  from assms obtain e where "hw \<noteq> []" and "entry_id e = k"
    and "find (conflicts now hw exclude after) (list_entries reg) = Some e"
    by (auto simp only: find_active_with_hw_fingerprint_def scan_fingerprint_find
        map_option_eq_Some split: if_splits)
  then show ?thesis using find_Some_D by fast
qed

subsection \<open>Reports\<close>

definition reported_entry :: "time \<Rightarrow> string \<Rightarrow> NodeInfoView \<Rightarrow> NodeEntry" where
  "reported_entry now ip view =
     make_entry now (info_of_view view) (Some ip) (nonempty (nv_inference_endpoint view))
       (nonempty (nv_control_endpoint view)) (nonempty (nv_current_model view))"

text \<open>A report is accepted when it decodes, carries an id and hits no conflicting entry.\<close>

definition accepts :: "time \<Rightarrow> Registry \<Rightarrow> NodeInfoView \<Rightarrow> bool" where
  "accepts now reg view \<longleftrightarrow>
     nv_node_id view \<noteq> [] \<and>
     find_active_with_hw_fingerprint now (nv_hw_fingerprint view) (nv_node_id view) (secs 60) reg = None"

lemma info_of_view_ids [simp]:
  "n_node_id (info_of_view v) = nv_node_id v"
  "n_hw_fingerprint (info_of_view v) = nv_hw_fingerprint v"
  by (simp_all add: info_of_view_def)

lemma report_node_accepted:
  assumes "de_node body = Some view" and "accepts now reg view"
  shows "report_node err now now' ip body reg =
    (Inr (JObj [(''ok'', JBool True), (''node_id'', JStr (nv_node_id view))]),
     AList.update (nv_node_id view) (reported_entry now' ip view) reg)"
  using assms by (simp add: report_node_def accepts_def reported_entry_def upsert_def Let_def)

lemma report_node_rejected:
  assumes "\<And>view. de_node body = Some view \<Longrightarrow> \<not> accepts now reg view"
  shows "\<exists>e. report_node err now now' ip body reg = (Inl e, reg)"
  using assms
  by (auto simp only: report_node_def accepts_def Let_def info_of_view_ids split: option.splits if_splits)

lemma report_node_snd:
  "snd (report_node err now now' ip body reg) =
     (case de_node body of
        Some view \<Rightarrow> if accepts now reg view
                     then AList.update (nv_node_id view) (reported_entry now' ip view) reg else reg
      | None \<Rightarrow> reg)"
proof (cases "\<exists>view. de_node body = Some view \<and> accepts now reg view")
  case True
  then obtain view where "de_node body = Some view" "accepts now reg view" by blast
  with report_node_accepted [OF this] show ?thesis by simp
next
  case False
  with report_node_rejected [of body now reg err now' ip] show ?thesis by (auto split: option.split)
qed

lemma reported_entry_id [simp]: "entry_id (reported_entry t ip v) = nv_node_id v"
  by (simp add: reported_entry_def make_entry_def)

lemma reported_entry_fields [simp]:
  "ne_last_heartbeat (reported_entry t ip v) = t"
  "ne_info (reported_entry t ip v) = info_of_view v"
  "ne_current_public_ip (reported_entry t ip v) = Some ip"
  by (simp_all add: reported_entry_def make_entry_def)

lemma reported_entry_ok: "t \<le> now \<Longrightarrow> entry_ok now (nv_node_id v) (reported_entry t ip v)"
  unfolding reported_entry_def using make_entry_ok [of t now "info_of_view v"] by simp

subsection \<open>The coordinator as a transition system\<close>

text \<open>
  The state is the registry and the clock. A step is a handler or a watchdog tick run to its end;
  its clock reads lie between the old and the new time. \<open>register\<close> is the gRPC entry point,
  which writes the registry past the duplicate guard, so it is a step of the full system only.
\<close>

inductive http_step :: "Registry \<times> time \<Rightarrow> Registry \<times> time \<Rightarrow> bool" where
  clock: "t \<le> t' \<Longrightarrow> http_step (reg, t) (reg, t')"
| report: "t \<le> now \<Longrightarrow> now \<le> now' \<Longrightarrow>
     http_step (reg, t) (snd (report_node err now now' ip body reg), now')"
| watchdog: "t \<le> now \<Longrightarrow> now \<le> now' \<Longrightarrow> http_step (reg, t) (watchdog_tick now now' reg, now')"

inductive coord_step :: "Registry \<times> time \<Rightarrow> Registry \<times> time \<Rightarrow> bool" where
  http: "http_step s s' \<Longrightarrow> coord_step s s'"
| grpc: "t \<le> now \<Longrightarrow> coord_step (reg, t) (snd (register now fresh r reg), now)"

inductive_simps http_step_iff: "http_step (reg, t) (reg', t')"
inductive_simps coord_step_iff: "coord_step (reg, t) (reg', t')"

definition coord_init :: "Registry \<times> time" where
  "coord_init = (Registry_new, 0)"

abbreviation http_reachable :: "Registry \<times> time \<Rightarrow> bool" where
  "http_reachable s \<equiv> http_step\<^sup>*\<^sup>* coord_init s"

abbreviation coord_reachable :: "Registry \<times> time \<Rightarrow> bool" where
  "coord_reachable s \<equiv> coord_step\<^sup>*\<^sup>* coord_init s"

lemma report_node_inv:
  assumes "registry_inv now0 reg" and "now0 \<le> now'"
  shows "registry_inv now' (snd (report_node err now now' ip body reg))"
  using registry_inv_mono [OF assms]
  by (simp add: report_node_snd registry_inv_update reported_entry_ok split: option.split)

lemma register_inv:
  "registry_inv now0 reg \<Longrightarrow> now0 \<le> now \<Longrightarrow> registry_inv now (snd (register now fresh r reg))"
  by (simp add: register_def Let_def registry_inv_upsert registry_inv_mono split: option.split)

lemma http_step_inv:
  assumes "http_step s s'" and "registry_inv (snd s) (fst s)"
  shows "registry_inv (snd s') (fst s')"
  using assms
proof cases
  case (clock t t' reg)
  with assms(2) show ?thesis by (simp add: registry_inv_mono)
next
  case (report t now now' reg err ip body)
  with assms(2) show ?thesis by (simp add: report_node_inv)
next
  case (watchdog t now now' reg)
  with registry_inv_mono [of t reg now'] assms(2) show ?thesis by (simp add: watchdog_inv)
qed

lemma coord_step_inv:
  assumes "coord_step s s'" and "registry_inv (snd s) (fst s)"
  shows "registry_inv (snd s') (fst s')"
  using assms
proof cases
  case http
  with assms(2) show ?thesis by (rule http_step_inv [rotated])
next
  case (grpc t now reg fresh r)
  with assms(2) show ?thesis by (simp add: register_inv)
qed

lemma coord_reachable_inv: "coord_reachable s \<Longrightarrow> registry_inv (snd s) (fst s)"
  by (induction rule: rtranclp_induct) (simp_all add: coord_init_def coord_step_inv)

lemma http_reachable_coord: "http_reachable s \<Longrightarrow> coord_reachable s"
  by (rule rtranclp_mono [THEN predicate2D]) (auto intro: coord_step.http)

subsection \<open>One live node per machine\<close>

definition live :: "time \<Rightarrow> NodeEntry \<Rightarrow> bool" where
  "live now e \<longleftrightarrow>
     now - ne_last_heartbeat e \<le> secs 60 \<and> \<not> terminal_status (NodeStatus_of (n_status (ne_info e)))"

definition same_machine :: "NodeEntry \<Rightarrow> NodeEntry \<Rightarrow> bool" where
  "same_machine e e' \<longleftrightarrow>
     n_hw_fingerprint (ne_info e) = n_hw_fingerprint (ne_info e') \<and> n_hw_fingerprint (ne_info e) \<noteq> []"

definition one_per_machine :: "time \<Rightarrow> Registry \<Rightarrow> bool" where
  "one_per_machine now reg \<longleftrightarrow>
     (\<forall>k k' e e'. get_node reg k = Some e \<longrightarrow> get_node reg k' = Some e' \<longrightarrow> k \<noteq> k' \<longrightarrow>
        same_machine e e' \<longrightarrow> \<not> (live now e \<and> live now e'))"

lemma live_antimono: "live now' e \<Longrightarrow> now \<le> now' \<Longrightarrow> live now e"
  by (auto simp: live_def)

lemma same_machine_sym: "same_machine e e' \<longleftrightarrow> same_machine e' e"
  by (auto simp: same_machine_def)

lemma one_per_machine_mono: "one_per_machine now reg \<Longrightarrow> now \<le> now' \<Longrightarrow> one_per_machine now' reg"
  unfolding one_per_machine_def using live_antimono by blast

text \<open>Writing an entry keeps the property when no other live entry is on the same machine.\<close>

lemma one_per_machine_update:
  assumes "one_per_machine now reg"
    and new: "\<And>k' e'. get_node reg k' = Some e' \<Longrightarrow> k' \<noteq> k \<Longrightarrow> same_machine e e' \<Longrightarrow> \<not> live now e'"
  shows "one_per_machine now (AList.update k e reg)"
  unfolding one_per_machine_def registry.get_insert
proof (intro allI impI)
  fix k1 k2 e1 e2
  assume "(if k1 = k then Some e else get_node reg k1) = Some e1"
    and "(if k2 = k then Some e else get_node reg k2) = Some e2"
    and "k1 \<noteq> k2" and "same_machine e1 e2"
  then show "\<not> (live now e1 \<and> live now e2)"
    using assms(1) [unfolded one_per_machine_def, rule_format, of k1 e1 k2 e2]
      new [of k1 e1] new [of k2 e2] same_machine_sym [of e1 e2]
    by (simp split: if_splits)
qed

lemma report_one_per_machine:
  assumes inv: "registry_inv t reg" and one: "one_per_machine t reg" and "t \<le> now" "now \<le> now'"
  shows "one_per_machine now' (snd (report_node err now now' ip body reg))"
proof (cases "\<exists>view. de_node body = Some view \<and> accepts now reg view")
  case False
  then have "snd (report_node err now now' ip body reg) = reg"
    by (auto simp: report_node_snd split: option.split)
  with one_per_machine_mono [OF one, of now'] assms(3,4) show ?thesis by simp
next
  case True
  then obtain view where v: "de_node body = Some view" "accepts now reg view" by blast
  show ?thesis unfolding report_node_accepted [OF v] snd_conv
  proof (rule one_per_machine_update)
    show "one_per_machine now' reg" using one_per_machine_mono [OF one] assms(3,4) by simp
    fix k' e'
    assume e': "get_node reg k' = Some e'" "k' \<noteq> nv_node_id view"
      "same_machine (reported_entry now' ip view) e'"
    then have "entry_id e' = k'" using registry_inv_get [OF inv] by (simp add: entry_ok_def)
    with e' have "e' \<in> set (list_entries reg)" using list_entries_iff [OF inv] by simp
    with v(2) have "\<not> conflicts now (nv_hw_fingerprint view) (nv_node_id view) (secs 60) e'"
      using e'(3) by (auto simp: accepts_def find_active_None_iff same_machine_def)
    with e' \<open>entry_id e' = k'\<close> assms(4) show "\<not> live now' e'"
      by (auto simp: conflicts_def same_machine_def live_def)
  qed
qed

lemma offline_not_live [simp]: "\<not> live now (offline_entry t e)"
  by (simp add: live_def offline_entry_def)

lemma watchdog_one_per_machine:
  assumes inv: "registry_inv t reg" and one: "one_per_machine t reg" and "t \<le> now'"
  shows "one_per_machine now' (watchdog_tick now now' reg)"
  unfolding one_per_machine_def watchdog_lookup [OF inv]
proof (intro allI impI notI)
  let ?w = "\<lambda>e. if stale now e then offline_entry now' e else e"
  fix k k' e e'
  assume "map_option ?w (get_node reg k) = Some e" and "map_option ?w (get_node reg k') = Some e'"
    and "k \<noteq> k'" and "same_machine e e'" and l: "live now' e \<and> live now' e'"
  then have "get_node reg k = Some e" "get_node reg k' = Some e'"
    by (auto simp only: map_option_eq_Some offline_not_live split: if_splits)
  with \<open>k \<noteq> k'\<close> \<open>same_machine e e'\<close> l one_per_machine_mono [OF one assms(3)] show False
    unfolding one_per_machine_def by blast
qed

lemma http_step_one_per_machine:
  assumes "http_step s s'" and "registry_inv (snd s) (fst s)" and "one_per_machine (snd s) (fst s)"
  shows "one_per_machine (snd s') (fst s')"
  using assms
proof cases
  case (clock t t' reg)
  with assms(3) show ?thesis by (simp add: one_per_machine_mono)
next
  case (report t now now' reg err ip body)
  with assms(2,3) show ?thesis by (simp add: report_one_per_machine)
next
  case (watchdog t now now' reg)
  with assms(2,3) show ?thesis by (simp add: watchdog_one_per_machine)
qed

lemma http_reachable_one_per_machine:
  "http_reachable s \<Longrightarrow> registry_inv (snd s) (fst s) \<and> one_per_machine (snd s) (fst s)"
proof (induction rule: rtranclp_induct)
  case base
  then show ?case
    by (simp add: coord_init_def one_per_machine_def get_node_def Registry_new_def registry_inv_def
        reg_keys_ok_def)
next
  case (step s s')
  then show ?case using http_step_inv http_step_one_per_machine by blast
qed

subsection \<open>What the handlers answer\<close>

lemma coord_status_label_eq [simp]: "coord_status_label = status_label"
  by (rule ext) (simp add: coord_status_label_def status_label_def split: NodeStatus.split)

lemma entry_json_obj:
  obtains m where "to_json (ne_info e) = JObj m"
  by (simp add: to_json_def)

lemma entry_json_inventory:
  assumes "k \<in> set node_keys"
  shows "jget k (entry_json fmt e) = jget k (to_json (ne_info e))"
proof -
  obtain m where m: "to_json (ne_info e) = JObj m" by (rule entry_json_obj)
  have "jget ''status'' (to_json (ne_info e)) = Some (JStr (status_label (n_status (ne_info e))))"
    by (rule to_json_lookup)
  with assms show ?thesis
    by (auto simp: entry_json_def m node_keys_def update_conv')
qed

lemma reported_inventory:
  "to_json (ne_info (reported_entry t ip (view_of_info info))) = to_json info"
  by (simp add: to_json_round)

lemma eligible_ids:
  "jget_str ''node_id'' (eligible_json e) = Some (entry_id e)"
  by (simp add: eligible_json_def)

lemma is_eligible_live: "is_eligible now e \<Longrightarrow> live now e"
  by (auto simp: is_eligible_def live_def)

lemma load_model_url_502: "load_model_url e k = Inl err \<Longrightarrow> fst err = 502"
  by (auto simp: load_model_url_def split: option.splits if_splits)

lemma worker_url:
  assumes "strip_suffix ''/control/load_model'' url = Some base"
    and "base \<noteq> []" and "last base \<noteq> CHR ''/''"
  shows "wcc_base (WorkerControlClient_new base h) @ ''/control/load_model'' = url"
proof -
  from assms(1) have "base @ ''/control/load_model'' = url"
    by (auto simp: strip_suffix_def suffix_def split: if_splits)
  with assms(2,3) show ?thesis
    by (simp add: WorkerControlClient_new_def trim_end_matches_id)
qed

subsection \<open>A sample run\<close>

lemma sample_wire: "wire_info (sample_node i [sample_gpu k free])"
proof -
  have "is_f32 0" by (auto simp: is_f32_def intro!: exI [of _ 0])
  then show ?thesis
    by (simp add: wire_info_def wire_cap_def sample_node_def sample_gpu_def sample_cap_def)
qed

definition sample_report :: "string \<Rightarrow> Registry \<Rightarrow> time \<Rightarrow> Registry" where
  "sample_report i reg now =
     snd (report_node (\<lambda>_. []) now now ''10.0.0.1'' (to_json (sample_node i [sample_gpu 0 100])) reg)"

definition sample_entry :: "string \<Rightarrow> time \<Rightarrow> NodeEntry" where
  "sample_entry i now =
     reported_entry now ''10.0.0.1'' (view_of_info (sample_node i [sample_gpu 0 100]))"

lemma sample_view_ids [simp]:
  "nv_node_id (view_of_info (sample_node i gs)) = i"
  "nv_hw_fingerprint (view_of_info (sample_node i gs)) = ''hw'' @ i"
  by (simp_all add: view_of_info_def sample_node_def)

lemma sample_entry_facts [simp]:
  "entry_id (sample_entry i now) = i"
  "n_hw_fingerprint (ne_info (sample_entry i now)) = ''hw'' @ i"
  "ne_last_heartbeat (sample_entry i now) = now"
  "dispatch_ip (sample_entry i now) = Some ''10.0.0.1''"
  by (simp_all add: sample_entry_def dispatch_ip_def wg_ip_of_def info_of_view_def view_of_info_def
      sample_node_def)

lemma sample_eligible: "now \<le> q \<Longrightarrow> q < now + secs 60 \<Longrightarrow> is_eligible q (sample_entry i now)"
  by (simp add: is_eligible_def sample_entry_def info_of_view_def view_of_info_def sample_node_def)

lemma sample_report_eq:
  assumes "i \<noteq> []"
  shows "sample_report i [] now = [(i, sample_entry i now)]"
proof -
  let ?v = "view_of_info (sample_node i [sample_gpu 0 100])"
  have "accepts now [] ?v"
    using assms by (simp add: accepts_def find_active_None_iff list_entries_def)
  from report_node_accepted [OF de_node_to_json [OF sample_wire] this] show ?thesis
    by (simp add: sample_report_def sample_entry_def)
qed

lemma sample_reachable: "http_reachable (sample_report i [] now, now)" if "0 \<le> now"
proof -
  have "http_step coord_init (sample_report i [] now, now)"
    unfolding coord_init_def sample_report_def Registry_new_def using that
    by (rule http_step.report) simp
  then show ?thesis by simp
qed

subsection \<open>Properties\<close>

text \<open>
  C28. The registry's invariant: in every state the coordinator can reach through reports, watchdog
  ticks and gRPC registrations, the registry has one entry per node id, each entry is filed under
  the id its inventory carries, its decoded status agrees with the wire status, and no heartbeat
  lies in the future.
\<close>

theorem registry_invariant:
  assumes "coord_reachable (reg, now)"
  shows "distinct (map fst reg) \<and>
    (\<forall>k e. get_node reg k = Some e \<longrightarrow>
       n_node_id (ne_info e) = k \<and> ne_status e = NodeStatus_of (n_status (ne_info e)) \<and>
       ne_last_heartbeat e \<le> now)"
proof -
  have "registry_inv now reg" using coord_reachable_inv [OF assms] by simp
  moreover from registry_inv_get [OF this]
  have "\<forall>k e. get_node reg k = Some e \<longrightarrow> n_node_id (ne_info e) = k \<and>
      ne_status e = NodeStatus_of (n_status (ne_info e)) \<and> ne_last_heartbeat e \<le> now"
    by (simp add: entry_ok_def)
  ultimately show ?thesis by (simp add: registry_inv_def reg_keys_ok_def)
qed

theorem registry_invariant_witness:
  "ne_status (sample_entry ''a'' 5) = NodeStatus_of (n_status (ne_info (sample_entry ''a'' 5)))"
  using registry_invariant [OF http_reachable_coord [OF sample_reachable [of 5 "''a''"]]]
  by (simp add: sample_report_eq get_node_def)





text \<open>
  Registration works end to end: when a worker posts its inventory and no other node of the
  same machine is active, the coordinator answers \<open>ok\<close>, files the node under its id with the
  observed address, and offers it for dispatch at once and for the next 60 s, provided it has a
  GPU and is in no terminal status.
\<close>

theorem report_makes_eligible:
  assumes "wire_info info" and "n_node_id info \<noteq> []"
    and "find_active_with_hw_fingerprint now (n_hw_fingerprint info) (n_node_id info) (secs 60) reg
           = None"
    and "n_gpus info \<noteq> []" and "\<not> terminal_status (NodeStatus_of (n_status info))"
    and "report_node err now now' ip (to_json info) reg = (r, reg')"
    and "now' \<le> q" and "q < now' + secs 60"
  shows "r = Inr (JObj [(''ok'', JBool True), (''node_id'', JStr (n_node_id info))]) \<and>
    (\<exists>e. get_node reg' (n_node_id info) = Some e \<and> to_json (ne_info e) = to_json info \<and>
         ne_current_public_ip e = Some ip \<and> is_eligible q e)"
proof -
  let ?v = "view_of_info info"
  have ids: "nv_node_id ?v = n_node_id info" "nv_hw_fingerprint ?v = n_hw_fingerprint info"
    by (simp_all add: view_of_info_def)
  then have "accepts now reg ?v" using assms(2,3) by (simp add: accepts_def)
  from report_node_accepted [OF de_node_to_json [OF assms(1)] this] assms(6)
  have r: "r = Inr (JObj [(''ok'', JBool True), (''node_id'', JStr (n_node_id info))])"
    and reg': "reg' = AList.update (n_node_id info) (reported_entry now' ip ?v) reg"
    by (simp_all add: ids)
  have "is_eligible q (reported_entry now' ip ?v)"
    using assms(4,5,7,8) by (simp add: is_eligible_def info_of_view_def view_of_info_def)
  with r reg' show ?thesis by (simp add: registry.get_insert reported_inventory [simplified])
qed

theorem report_makes_eligible_witness:
  "\<exists>e. get_node (sample_report ''a'' [] 5) ''a'' = Some e \<and> is_eligible 6 e"
proof -
  obtain r reg' where eq: "report_node (\<lambda>_. []) 5 5 ''10.0.0.1''
      (to_json (sample_node ''a'' [sample_gpu 0 100])) [] = (r, reg')" by fastforce
  have "reg' = sample_report ''a'' [] 5" using eq by (simp add: sample_report_def)
  with report_makes_eligible [OF sample_wire _ _ _ _ eq, of 6] show ?thesis
    by (auto simp: sample_node_def find_active_None_iff list_entries_def secs_def)
qed

text \<open>
  C26. The listing is lossless: for every inventory key, \<open>GET /nodes\<close> shows the very value the
  worker uploaded in its accepted report.
\<close>

theorem list_nodes_lossless:
  assumes "wire_info info" and "accepts now reg (view_of_info info)" and "k \<in> set node_keys"
  shows "\<exists>e. get_node (snd (report_node err now now' ip (to_json info) reg)) (n_node_id info) = Some e \<and>
    jget k (entry_json fmt e) = jget k (to_json info)"
proof -
  have "nv_node_id (view_of_info info) = n_node_id info" by (simp add: view_of_info_def)
  with report_node_accepted [OF de_node_to_json [OF assms(1)] assms(2)] show ?thesis
    by (simp add: registry.get_insert entry_json_inventory [OF assms(3)] to_json_round)
qed

theorem list_nodes_lossless_witness:
  "\<exists>e. get_node (sample_report ''a'' [] 5) ''a'' = Some e \<and>
     jget ''gpus'' (entry_json (\<lambda>_. []) e) = Some (JArr [gpu_json (sample_gpu 0 100)])"
proof -
  have "accepts 5 [] (view_of_info (sample_node ''a'' [sample_gpu 0 100]))"
    by (simp add: accepts_def find_active_None_iff list_entries_def)
  from list_nodes_lossless [OF sample_wire this, of "''gpus''" "\<lambda>_. []" 5 "''10.0.0.1''" "\<lambda>_. []"]
  show ?thesis
    unfolding sample_report_def by (simp add: node_keys_def) (simp add: sample_node_def)
qed

text \<open>
  C27. The duplicate guard is exact: a decodable report with an id is turned away with 409 if and
  only if its fingerprint is not empty and another node with that fingerprint has a heartbeat at
  most 60 s old; a report that is turned away leaves the registry unchanged.
\<close>

theorem duplicate_guard_exact:
  assumes "coord_reachable (reg, t)" and "de_node body = Some view" and "nv_node_id view \<noteq> []"
    and "report_node err now now' ip body reg = (r, reg')"
  shows "(\<exists>b. r = Inl (409, b) \<and> reg' = reg) \<longleftrightarrow>
    nv_hw_fingerprint view \<noteq> [] \<and>
    (\<exists>k e. get_node reg k = Some e \<and> k \<noteq> nv_node_id view \<and>
       n_hw_fingerprint (ne_info e) = nv_hw_fingerprint view \<and> now - ne_last_heartbeat e \<le> secs 60)"
proof -
  have inv: "registry_inv t reg" using coord_reachable_inv [OF assms(1)] by simp
  let ?f = "find_active_with_hw_fingerprint now (nv_hw_fingerprint view) (nv_node_id view) (secs 60) reg"
  have "(\<exists>b. r = Inl (409, b) \<and> reg' = reg) \<longleftrightarrow> ?f \<noteq> None"
    using assms(2-4) by (cases ?f) (auto simp: report_node_def Let_def)
  also have "\<dots> \<longleftrightarrow> nv_hw_fingerprint view \<noteq> [] \<and>
      (\<exists>e \<in> set (list_entries reg). conflicts now (nv_hw_fingerprint view) (nv_node_id view) (secs 60) e)"
    by (simp add: find_active_None_iff)
  also have "\<dots> \<longleftrightarrow> nv_hw_fingerprint view \<noteq> [] \<and>
      (\<exists>k e. get_node reg k = Some e \<and> k \<noteq> nv_node_id view \<and>
       n_hw_fingerprint (ne_info e) = nv_hw_fingerprint view \<and> now - ne_last_heartbeat e \<le> secs 60)"
    using list_entries_iff [OF inv] registry_inv_get [OF inv] unfolding conflicts_def entry_ok_def
    by metis
  finally show ?thesis .
qed

theorem duplicate_guard_exact_witness:
  "\<exists>b. fst (report_node (\<lambda>_. []) 6 6 ''10.0.0.2''
     (JObj [(''node_id'', JStr ''b''), (''hw_fingerprint'', JStr ''hwa'')])
     (sample_report ''a'' [] 5)) = Inl (409, b)"
proof -
  let ?b = "JObj [(''node_id'', JStr ''b''), (''hw_fingerprint'', JStr ''hwa'')]"
  obtain v where v: "de_node ?b = Some v" "nv_node_id v = ''b''" "nv_hw_fingerprint v = ''hwa''"
    by (simp add: de_node_def struct_fields_def de_field_def)
  obtain r reg' where eq: "report_node (\<lambda>_. []) 6 6 ''10.0.0.2'' ?b (sample_report ''a'' [] 5) = (r, reg')"
    by fastforce
  have "get_node (sample_report ''a'' [] 5) ''a'' = Some (sample_entry ''a'' 5)"
    by (simp add: sample_report_eq get_node_def)
  then have "\<exists>k e. get_node (sample_report ''a'' [] 5) k = Some e \<and> k \<noteq> nv_node_id v \<and>
      n_hw_fingerprint (ne_info e) = nv_hw_fingerprint v \<and> 6 - ne_last_heartbeat e \<le> secs 60"
    by (intro exI [of _ "''a''"] exI [of _ "sample_entry ''a'' 5"]) (simp add: v secs_def)
  with duplicate_guard_exact [OF http_reachable_coord [OF sample_reachable [of 5 "''a''"]] v(1) _ eq] eq
  show ?thesis by (auto simp: v)
qed

text \<open>
  A watchdog tick marks exactly the silent nodes: every node whose last heartbeat is more than
  60 s old becomes offline (inventory status and decoded status) and keeps everything else the
  registry knows of it but the heartbeat time; every other node is untouched, and no node appears
  or disappears.
\<close>

theorem watchdog_marks_exactly_stale:
  assumes "coord_reachable (reg, t)"
  shows "get_node (watchdog_tick now now' reg) k =
    map_option (\<lambda>e. if secs 60 < now - ne_last_heartbeat e
       then e \<lparr>ne_info := (ne_info e) \<lparr>n_status := NodeStatus_as_i32 Offline\<rparr>,
               ne_last_heartbeat := now', ne_status := Offline\<rparr>
       else e) (get_node reg k)"
proof -
  have "registry_inv t reg" using coord_reachable_inv [OF assms] by simp
  from watchdog_lookup [OF this] show ?thesis unfolding stale_def offline_entry_def .
qed

theorem watchdog_marks_exactly_stale_witness:
  "map_option ne_status (get_node (watchdog_tick (secs 70) (secs 70) (sample_report ''a'' [] 5)) ''a'')
     = Some Offline"
  using watchdog_marks_exactly_stale [OF http_reachable_coord [OF sample_reachable [of 5 "''a''"]],
      of "secs 70" "secs 70" "''a''"]
  by (simp add: sample_report_eq get_node_def secs_def)

text \<open>
  A dead worker keeps its machine locked: marking a silent node offline refreshes its heartbeat
  time, so for the 60 s after the tick that marked it every report of the same machine under
  another id is refused with 409, although the silent node sent nothing.
\<close>

theorem dead_worker_blocks_takeover:
  assumes "coord_reachable (reg, t)"
    and "get_node reg k = Some e" and "secs 60 < now - ne_last_heartbeat e"
    and "de_node body = Some view" and "nv_node_id view \<noteq> []" and "nv_node_id view \<noteq> k"
    and "nv_hw_fingerprint view = n_hw_fingerprint (ne_info e)" and "nv_hw_fingerprint view \<noteq> []"
    and "now' \<le> q" and "q \<le> now' + secs 60"
  shows "\<exists>b. report_node err q q' ip body (watchdog_tick now now' reg) =
    (Inl (409, b), watchdog_tick now now' reg)"
proof -
  have inv: "registry_inv t reg" using coord_reachable_inv [OF assms(1)] by simp
  let ?reg = "watchdog_tick now now' reg"
  have inv': "registry_inv (max t now') ?reg" 
    by (rule watchdog_inv [OF registry_inv_mono [OF inv]]) simp_all
  have "get_node ?reg k = Some (offline_entry now' e)"
    using assms(2,3) by (simp add: watchdog_lookup [OF inv] stale_def)
  moreover have "entry_id e = k" using registry_inv_get [OF inv assms(2)] by (simp add: entry_ok_def)
  ultimately have "offline_entry now' e \<in> set (list_entries ?reg)"
    using list_entries_iff [OF inv', of "offline_entry now' e"] by simp
  moreover have "conflicts q (nv_hw_fingerprint view) (nv_node_id view) (secs 60) (offline_entry now' e)"
    using assms(6,7,9,10) \<open>entry_id e = k\<close> by (simp add: conflicts_def offline_entry_def)
  ultimately have "find_active_with_hw_fingerprint q (nv_hw_fingerprint view) (nv_node_id view)
      (secs 60) ?reg \<noteq> None"
    using assms(8) by (auto simp only: find_active_None_iff)
  then show ?thesis using assms(4,5) by (auto simp: report_node_def Let_def)
qed

theorem dead_worker_blocks_takeover_witness:
  "\<exists>b. fst (report_node (\<lambda>_. []) (secs 130) (secs 130) ''10.0.0.2''
     (JObj [(''node_id'', JStr ''b''), (''hw_fingerprint'', JStr ''hwa'')])
     (watchdog_tick (secs 70) (secs 70) (sample_report ''a'' [] 5))) = Inl (409, b)"
proof -
  let ?b = "JObj [(''node_id'', JStr ''b''), (''hw_fingerprint'', JStr ''hwa'')]"
  obtain v where v: "de_node ?b = Some v" "nv_node_id v = ''b''" "nv_hw_fingerprint v = ''hwa''"
    by (simp add: de_node_def struct_fields_def de_field_def)
  have g: "get_node (sample_report ''a'' [] 5) ''a'' = Some (sample_entry ''a'' 5)"
    by (simp add: sample_report_eq get_node_def)
  from dead_worker_blocks_takeover [OF http_reachable_coord [OF sample_reachable [of 5 "''a''"]] g _ v(1),
      of "secs 70" "secs 70" "secs 130" "\<lambda>_. []" "secs 130" "''10.0.0.2''"]
  show ?thesis by (auto simp: v secs_def)
qed

text \<open>
  The gRPC entry point is not guarded: a registration over gRPC is accepted for a machine whose
  node is active, after which two live entries share one fingerprint.
\<close>

theorem grpc_register_bypasses_guard:
  "\<exists>reg e e'. coord_reachable (reg, 5) \<and> get_node reg ''a'' = Some e \<and> get_node reg ''b'' = Some e' \<and>
     is_eligible 5 e \<and> is_eligible 5 e' \<and>
     n_hw_fingerprint (ne_info e) = ''hwa'' \<and> n_hw_fingerprint (ne_info e') = ''hwa''"
proof -
  let ?r = "\<lparr>rr_node_id = ''b'', rr_info = Some (sample_node ''a'' [sample_gpu 0 100])\<rparr>"
  let ?reg = "snd (register 5 [] ?r (sample_report ''a'' [] 5))"
  let ?e = "make_entry 5 ((sample_node ''a'' [sample_gpu 0 100]) \<lparr>n_node_id := ''b''\<rparr>) None None None None"
  have "coord_step (sample_report ''a'' [] 5, 5) (?reg, 5)" by (rule coord_step.grpc) simp
  then have reach: "coord_reachable (?reg, 5)"
    using http_reachable_coord [OF sample_reachable [of 5 "''a''"]] by auto
  have g: "get_node ?reg ''a'' = Some (sample_entry ''a'' 5)" "get_node ?reg ''b'' = Some ?e"
    by (simp_all add: register_def Let_def get_node_upsert)
      (simp_all add: sample_report_eq get_node_def sample_node_def)
  have e: "is_eligible 5 ?e" "n_hw_fingerprint (ne_info ?e) = ''hwa''"
    by (simp_all add: is_eligible_def make_entry_def sample_node_def secs_def)
  have "is_eligible 5 (sample_entry ''a'' 5)" by (rule sample_eligible) simp_all
  with reach g e show ?thesis
    by (intro exI [of _ ?reg] exI [of _ "sample_entry ''a'' 5"] exI [of _ ?e]) simp
qed

text \<open>
  A load command reaches the right worker: for a node that advertises a control port and has a
  dispatch address, \<open>POST /nodes/{id}/load_model\<close> posts the unchanged body to that address, port
  and path and returns the worker's answer; and every failure of the proxy is a 502.
\<close>

theorem load_model_proxy_correct:
  assumes "get_node reg k = Some e" and "ne_control_endpoint e = Some (CHR '':'' # port)"
    and "port \<noteq> []" and "last port \<noteq> CHR ''/''" and "dispatch_ip e = Some ip"
    and "send h \<lparr>rq_method = POST, rq_url = ''http://'' @ ip @ '':'' @ port @ ''/control/load_model'',
                 rq_auth = None, rq_body = Some body\<rparr> = Inr resp"
    and "is_success (rs_status resp)" and "read_json h resp = Inr j"
  shows "load_model_proxy h k body reg = Inr j \<and>
    (\<forall>k' body' reg' err. load_model_proxy h k' body' reg' = Inl err \<longrightarrow> fst err = 502)"
proof
  let ?base = "''http://'' @ ip @ CHR '':'' # port"
  have url: "load_model_url e k = Inr (?base @ ''/control/load_model'')"
    using assms(2,5) by (simp add: load_model_url_def starts_with_def)
  have base: "WorkerControlClient_new ?base h = \<lparr>wcc_base = ?base, wcc_http = h\<rparr>"
    using assms(3,4) by (simp add: WorkerControlClient_new_def trim_end_matches_id)
  have strip: "strip_suffix ''/control/load_model'' (?base @ ''/control/load_model'') = Some ?base"
    by (rule strip_suffix_append)
  have "WorkerControlClient_load_model (WorkerControlClient_new ?base h) body = Inr j"
    using assms(6-8) unfolding WorkerControlClient_load_model_def base
    by (simp add: json_post_def exchange_def decode_or_upstream_def)
  then show "load_model_proxy h k body reg = Inr j"
    unfolding load_model_proxy_def assms(1) option.case url sum.case strip Let_def
      unwrap_or_simps by simp
  show "\<forall>k' body' reg' err. load_model_proxy h k' body' reg' = Inl err \<longrightarrow> fst err = 502"
    using load_model_url_502
    by (auto simp: load_model_proxy_def Let_def split: option.splits sum.splits ClientError.splits)
qed

theorem load_model_proxy_correct_witness:
  "load_model_proxy (sample_http ''http://10.0.0.1:50054/control/load_model'') ''a'' JNull
     [(''a'', (sample_entry ''a'' 5) \<lparr>ne_control_endpoint := Some '':50054''\<rparr>)] = Inr (JObj [])"
  using load_model_proxy_correct [of
      "[(''a'', (sample_entry ''a'' 5) \<lparr>ne_control_endpoint := Some '':50054''\<rparr>)]" "''a''"
      "(sample_entry ''a'' 5) \<lparr>ne_control_endpoint := Some '':50054''\<rparr>" "''50054''" "''10.0.0.1''"
      "sample_http ''http://10.0.0.1:50054/control/load_model''" JNull
      "\<lparr>rs_status = 202, rs_text = Inr ''{}''\<rparr>" "JObj []"]
  by (simp add: get_node_def sample_http_def is_success_def read_json_def dispatch_ip_def wg_ip_of_def
      sample_entry_def reported_entry_def make_entry_def info_of_view_def view_of_info_def sample_node_def)

end
