(* ===== verification/OpenAI.thy ===== *)
theory OpenAI
  imports Clients Inference
begin

section \<open>The OpenAI-compatible dispatcher (\<open>crates/openai-api/src/server.rs\<close>)\<close>

text \<open>
  The service behind \<open>/v1/*\<close>: it asks the coordinator for the eligible nodes, forwards a chat
  completion to the first one with an inference server, maps every failure to a status, an error
  type and a body, and reports each request to the inference log. A handler returns the response
  and the list of log bodies it posts to the management backend; the outcome of that post is only
  written to the process log, so nothing depends on it. \<open>elapsed\<close> is the time since the request
  arrived, in milliseconds, when the log entry is written.
\<close>

subsection \<open>State and start-up\<close>

record ApiState =
  as_coord :: CoordClient
  as_mgmt :: "MgmtClient option"
  as_http :: http

text \<open>The state \<open>run\<close> builds; the clients share one HTTP client.\<close>

definition ApiState_of_config :: "string \<Rightarrow> string option \<Rightarrow> string option \<Rightarrow> http \<Rightarrow> ApiState" where
  "ApiState_of_config coord_url mgmt_url mgmt_token h =
     \<lparr>as_coord = CoordClient_new coord_url h,
      as_mgmt = (case (mgmt_url, mgmt_token) of
          (Some u, Some t) \<Rightarrow> if u \<noteq> [] \<and> t \<noteq> [] then Some (MgmtClient_new u (Some t) h) else None
        | _ \<Rightarrow> None),
      as_http = h\<rparr>"

subsection \<open>Model list\<close>

record ModelEntry =
  me_id :: string
  me_object :: string
  me_owned_by :: string

record ModelList =
  ml_object :: string
  ml_data :: "ModelEntry list"

definition probe_cluster_size :: "ApiState \<Rightarrow> nat" where
  "probe_cluster_size s =
     (case CoordClient_list_nodes (as_coord s) of
        Inl _ \<Rightarrow> 0
      | Inr v \<Rightarrow> unwrap_or 0 (map_option unat (Option.bind (jget ''count'' v) as_u64)))"

definition fetch_registry :: "ApiState \<Rightarrow> json list option" where
  "fetch_registry s =
     (case as_mgmt s of
        None \<Rightarrow> None
      | Some mgmt \<Rightarrow> (case MgmtClient_list_models mgmt of Inl _ \<Rightarrow> None | Inr rows \<Rightarrow> Some rows))"

definition listed :: "json \<Rightarrow> bool" where
  "listed m = unwrap_or True (map_option (\<lambda>s. s \<noteq> ''disabled'') (jget_str ''status'' m))"

definition model_entry :: "string \<Rightarrow> ModelEntry" where
  "model_entry i = \<lparr>me_id = i, me_object = ''model'', me_owned_by = ''gpucluster''\<rparr>"

definition list_models :: "ApiState \<Rightarrow> ModelList" where
  "list_models s =
     (case option_filter (\<lambda>rows. rows \<noteq> []) (fetch_registry s) of
        Some rows \<Rightarrow>
          \<lparr>ml_object = ''list'',
           ml_data = map (\<lambda>m. model_entry (unwrap_or [] (jget_str ''id'' m))) (filter listed rows)\<rparr>
      | None \<Rightarrow>
          \<lparr>ml_object = ''list'',
           ml_data = [model_entry (''auto (cluster: '' @ show_nat (probe_cluster_size s) @ '' nodes)'')]\<rparr>)"

subsection \<open>Request trace\<close>

record RequestTrace =
  rt_request_id :: "string option"
  rt_api_key_prefix :: "string option"
  rt_model :: string
  rt_node_id :: "string option"
  rt_inference_url :: "string option"
  rt_prompt_tokens :: "i32 option"
  rt_completion_tokens :: "i32 option"
  rt_total_tokens :: "i32 option"
  rt_status_code :: i32
  rt_error_type :: "string option"
  rt_error_message :: "string option"

definition RequestTrace_default :: RequestTrace where
  "RequestTrace_default =
     \<lparr>rt_request_id = None, rt_api_key_prefix = None, rt_model = [], rt_node_id = None,
      rt_inference_url = None, rt_prompt_tokens = None, rt_completion_tokens = None,
      rt_total_tokens = None, rt_status_code = 0, rt_error_type = None, rt_error_message = None\<rparr>"

definition populate_trace :: "HeaderMap \<Rightarrow> json \<Rightarrow> RequestTrace \<Rightarrow> RequestTrace" where
  "populate_trace headers req trace =
     trace \<lparr>rt_request_id := Option.bind (header_get ''x-request-id'' headers) to_str,
            rt_api_key_prefix := option_filter (\<lambda>p. starts_with p ''mgc_'')
              (map_option (take_chars 12)
                (Option.bind (Option.bind (header_get ''authorization'' headers) to_str)
                  (strip_prefix ''Bearer ''))),
            rt_model := unwrap_or ''auto'' (jget_str ''model'' req)\<rparr>"

subsection \<open>Dispatch\<close>

datatype DispatchFailure =
    CoordError nat string
  | CoordUnreachable string
  | NoEligibleNodes
  | NoInferenceEndpoint json

definition choose_node :: "json list \<Rightarrow> json option" where
  "choose_node nodes =
     option_or (find (\<lambda>n. jget_str ''inference_url'' n \<noteq> None) nodes)
       (case nodes of [] \<Rightarrow> None | n # _ \<Rightarrow> Some n)"

definition dispatch :: "ApiState \<Rightarrow> RequestTrace \<Rightarrow> (DispatchFailure + string) \<times> RequestTrace" where
  "dispatch s trace =
     (case CoordClient_eligible_nodes (as_coord s) of
        Inl (Upstream service status body) \<Rightarrow> (Inl (CoordError status body), trace)
      | Inl other \<Rightarrow> (Inl (CoordUnreachable (ClientError_to_string other)), trace)
      | Inr resp \<Rightarrow>
          let nodes = unwrap_or [] (Option.bind (jget ''nodes'' resp) as_array)
          in (case choose_node nodes of
                None \<Rightarrow> (Inl NoEligibleNodes, trace)
              | Some chosen \<Rightarrow>
                  let trace = trace \<lparr>rt_node_id := jget_str ''node_id'' chosen,
                                     rt_inference_url := jget_str ''inference_url'' chosen\<rparr>
                  in (case rt_inference_url trace of
                        Some url \<Rightarrow> (Inr url, trace)
                      | None \<Rightarrow> (Inl (NoInferenceEndpoint chosen), trace))))"

subsection \<open>Failures\<close>

definition no_eligible_message :: string where
  "no_eligible_message = ''no worker is currently online with a usable GPU''"

fun stream_failure_payload :: "DispatchFailure \<Rightarrow> nat \<times> string \<times> string" where
  "stream_failure_payload (CoordError status body) =
     (502, ''coordinator_error'', ''coordinator returned '' @ show_nat status @ '': '' @ body)"
| "stream_failure_payload (CoordUnreachable msg) = (502, ''coordinator_unreachable'', msg)"
| "stream_failure_payload NoEligibleNodes = (503, ''no_eligible_nodes'', no_eligible_message)"
| "stream_failure_payload (NoInferenceEndpoint chosen) =
     (501, ''no_inference_endpoint'', ''a worker is online but no model is loaded'')"

fun json_failure_payload :: "RequestTrace \<Rightarrow> DispatchFailure \<Rightarrow> nat \<times> string \<times> string \<times> json" where
  "json_failure_payload trace (CoordError status body) =
     (502, ''coordinator_error'', ''coordinator returned '' @ show_nat status @ '': '' @ body,
      JObj [(''error'', JObj [(''type'', JStr ''coordinator_error''), (''status'', JInt (int status))])])"
| "json_failure_payload trace (CoordUnreachable msg) =
     (502, ''coordinator_unreachable'', msg,
      JObj [(''error'', JObj [(''type'', JStr ''coordinator_unreachable''), (''message'', JStr msg)])])"
| "json_failure_payload trace NoEligibleNodes =
     (503, ''no_eligible_nodes'', no_eligible_message,
      JObj [(''error'', JObj [(''type'', JStr ''no_eligible_nodes''), (''message'', JStr no_eligible_message),
                              (''request_model'', JStr (rt_model trace))])])"
| "json_failure_payload trace (NoInferenceEndpoint chosen) =
     (501, ''no_inference_endpoint'', ''a worker is online but no model is loaded'',
      JObj [(''error'', JObj [(''type'', JStr ''no_inference_endpoint''),
        (''message'', JStr (''a worker is online but no model is loaded '' @ [CHR 0xE2, CHR 0x80, CHR 0x94]
                            @ '' load a model from the admin UI'')),
        (''phase'', JStr ''2-dispatcher''), (''request_model'', JStr (rt_model trace)),
        (''chosen_worker'', chosen)])])"

text \<open>\<open>as_millis().min(i32::MAX) as i32\<close>.\<close>

definition log_body :: "RequestTrace \<Rightarrow> nat \<Rightarrow> json" where
  "log_body trace elapsed =
     (let i32 = (\<lambda>w :: i32. JInt (sint w))
      in JObj [(''request_id'', jopt JStr (rt_request_id trace)),
               (''endpoint'', JStr ''chat.completions''),
               (''model'', JStr (rt_model trace)),
               (''node_id'', jopt JStr (rt_node_id trace)),
               (''inference_url'', jopt JStr (rt_inference_url trace)),
               (''api_key_prefix'', jopt JStr (rt_api_key_prefix trace)),
               (''prompt_tokens'', jopt i32 (rt_prompt_tokens trace)),
               (''completion_tokens'', jopt i32 (rt_completion_tokens trace)),
               (''total_tokens'', jopt i32 (rt_total_tokens trace)),
               (''latency_ms'', i32 (of_nat (min elapsed (2 ^ 31 - 1)))),
               (''status_code'', i32 (rt_status_code trace)),
               (''error_type'', jopt JStr (rt_error_type trace)),
               (''error_message'', jopt JStr (rt_error_message trace))])"

definition flush_log :: "ApiState \<Rightarrow> RequestTrace \<Rightarrow> nat \<Rightarrow> json list" where
  "flush_log s trace elapsed = (case as_mgmt s of None \<Rightarrow> [] | Some mgmt \<Rightarrow> [log_body trace elapsed])"

definition set_failure :: "nat \<Rightarrow> string \<Rightarrow> string \<Rightarrow> RequestTrace \<Rightarrow> RequestTrace" where
  "set_failure status error_type message trace =
     trace \<lparr>rt_status_code := of_nat status, rt_error_type := Some error_type,
            rt_error_message := Some message\<rparr>"

text \<open>
  A response is a JSON document with a status, or the event stream of the worker with its headers;
  the stream's text may break off (\<open>Inl\<close>).
\<close>

datatype ApiResponse =
    JsonResponse nat json
  | SseResponse nat HeaderMap "string + string"

definition finalize_error ::
  "ApiState \<Rightarrow> RequestTrace \<Rightarrow> nat \<Rightarrow> nat \<Rightarrow> string \<Rightarrow> string \<Rightarrow> json
    \<Rightarrow> ((nat \<times> json) + json) \<times> json list" where
  "finalize_error s trace elapsed status error_type message body =
     (Inl (status, body), flush_log s (set_failure status error_type message trace) elapsed)"

definition stream_error ::
  "ApiState \<Rightarrow> RequestTrace \<Rightarrow> nat \<Rightarrow> nat \<Rightarrow> string \<Rightarrow> string \<Rightarrow> ApiResponse \<times> json list" where
  "stream_error s trace elapsed status error_type message =
     (JsonResponse status
        (JObj [(''error'', JObj [(''type'', JStr error_type), (''message'', JStr message)])]),
      flush_log s (set_failure status error_type message trace) elapsed)"

subsection \<open>Forwarding\<close>

text \<open>\<open>StatusCode::from_u16\<close> accepts 100 to 999; a 5xx and anything it rejects become 502.\<close>

definition client_status :: "nat \<Rightarrow> nat" where
  "client_status status =
     (if 500 \<le> status \<and> status < 600 then 502
      else if 100 \<le> status \<and> status < 1000 then status else 502)"

definition usage_count :: "string \<Rightarrow> json \<Rightarrow> i32 option" where
  "usage_count k usage = map_option word_of_int (Option.bind (jget k usage) as_i64)"

definition with_usage :: "json \<Rightarrow> RequestTrace \<Rightarrow> RequestTrace" where
  "with_usage parsed trace =
     (case jget ''usage'' parsed of
        None \<Rightarrow> trace
      | Some usage \<Rightarrow>
          trace \<lparr>rt_prompt_tokens := usage_count ''prompt_tokens'' usage,
                 rt_completion_tokens := usage_count ''completion_tokens'' usage,
                 rt_total_tokens := usage_count ''total_tokens'' usage\<rparr>)"

definition forward_chat_to_worker ::
  "ApiState \<Rightarrow> string \<Rightarrow> json \<Rightarrow> RequestTrace \<Rightarrow> nat \<Rightarrow> ((nat \<times> json) + json) \<times> json list" where
  "forward_chat_to_worker s inference_url req trace elapsed =
     (case WorkerClient_chat_completions (WorkerClient_new inference_url (as_http s)) req of
        Inr parsed \<Rightarrow>
          (Inr parsed, flush_log s ((with_usage parsed trace) \<lparr>rt_status_code := 200\<rparr>) elapsed)
      | Inl (Upstream service status body) \<Rightarrow>
          finalize_error s trace elapsed (client_status status) ''worker_returned_error''
            (''worker '' @ inference_url @ '' returned '' @ show_nat status @ '': '' @ body)
            (JObj [(''error'', JObj [(''type'', JStr ''worker_returned_error''),
              (''upstream_status'', JInt (int status)), (''upstream_body'', JStr body)])])
      | Inl (Decode msg) \<Rightarrow>
          finalize_error s trace elapsed 502 ''worker_response_parse_error'' msg
            (JObj [(''error'', JObj [(''type'', JStr ''worker_response_parse_error''), (''message'', JStr msg)])])
      | Inl (Transport msg) \<Rightarrow>
          finalize_error s trace elapsed 502 ''worker_unreachable'' msg
            (JObj [(''error'', JObj [(''type'', JStr ''worker_unreachable''), (''upstream'', JStr inference_url),
              (''message'', JStr msg)])]))"

definition chat_completions_json ::
  "ApiState \<Rightarrow> HeaderMap \<Rightarrow> json \<Rightarrow> nat \<Rightarrow> ((nat \<times> json) + json) \<times> json list" where
  "chat_completions_json s headers req elapsed =
     (case dispatch s (populate_trace headers req RequestTrace_default) of
        (Inr inference_url, trace) \<Rightarrow> forward_chat_to_worker s inference_url req trace elapsed
      | (Inl failure, trace) \<Rightarrow>
          (let (status, error_type, message, body) = json_failure_payload trace failure
           in finalize_error s trace elapsed status error_type message body))"

definition sse_headers :: HeaderMap where
  "sse_headers =
     [(''content-type'', ''text/event-stream; charset=utf-8''),
      (''cache-control'', ''no-cache, no-transform''), (''connection'', ''keep-alive''),
      (''x-accel-buffering'', ''no'')]"

definition chat_completions_stream ::
  "ApiState \<Rightarrow> HeaderMap \<Rightarrow> json \<Rightarrow> nat \<Rightarrow> ApiResponse \<times> json list" where
  "chat_completions_stream s headers req elapsed =
     (case dispatch s (populate_trace headers req RequestTrace_default) of
        (Inl failure, trace) \<Rightarrow>
          (let (status, error_type, message) = stream_failure_payload failure
           in stream_error s trace elapsed status error_type message)
      | (Inr inference_url, trace) \<Rightarrow>
          (case send (as_http s)
                  \<lparr>rq_method = POST, rq_url = trim_end_matches (CHR ''/'') inference_url @ ''/v1/chat/completions'',
                   rq_auth = None, rq_body = Some req\<rparr> of
             Inl e \<Rightarrow> stream_error s trace elapsed 502 ''worker_unreachable'' e
           | Inr resp \<Rightarrow>
               if \<not> is_success (rs_status resp)
               then stream_error s trace elapsed (client_status (rs_status resp)) ''worker_returned_error''
                      (''worker '' @ inference_url @ '' returned '' @ show_nat (rs_status resp) @ '': ''
                        @ text_or_default resp)
               else (SseResponse 200 sse_headers (rs_text resp),
                     flush_log s (trace \<lparr>rt_status_code := 200\<rparr>) elapsed)))"

definition chat_completions :: "ApiState \<Rightarrow> HeaderMap \<Rightarrow> json \<Rightarrow> nat \<Rightarrow> ApiResponse \<times> json list" where
  "chat_completions s headers req elapsed =
     (if unwrap_or False (Option.bind (jget ''stream'' req) as_bool)
      then chat_completions_stream s headers req elapsed
      else (case chat_completions_json s headers req elapsed of
              (Inr j, logs) \<Rightarrow> (JsonResponse 200 j, logs)
            | (Inl (status, body), logs) \<Rightarrow> (JsonResponse status body, logs)))"

subsection \<open>Lemmas\<close>

definition response_status :: "ApiResponse \<Rightarrow> nat" where
  "response_status r = (case r of JsonResponse st _ \<Rightarrow> st | SseResponse st _ _ \<Rightarrow> st)"

lemma response_status_simps [simp]:
  "response_status (JsonResponse st j) = st" "response_status (SseResponse st hs b) = st"
  by (simp_all add: response_status_def)

text \<open>What the log endpoint reads from the body the dispatcher writes.\<close>

definition entry_of :: "RequestTrace \<Rightarrow> nat \<Rightarrow> LogRequest" where
  "entry_of trace elapsed =
     \<lparr>lq_request_id = rt_request_id trace, lq_endpoint = default_endpoint, lq_model = rt_model trace,
      lq_node_id = rt_node_id trace, lq_inference_url = rt_inference_url trace,
      lq_api_key_prefix = rt_api_key_prefix trace, lq_prompt_tokens = rt_prompt_tokens trace,
      lq_completion_tokens = rt_completion_tokens trace, lq_total_tokens = rt_total_tokens trace,
      lq_latency_ms = Some (of_nat (min elapsed (2 ^ 31 - 1))), lq_status_code = rt_status_code trace,
      lq_error_type = rt_error_type trace, lq_error_message = rt_error_message trace\<rparr>"

lemma de_option_JStr [simp]: "de_option as_str (jopt JStr x) = Some x"
  by (cases x) simp_all

lemma de_option_i32 [simp]: "de_option de_i32 (jopt (\<lambda>w. JInt (sint w)) x) = Some x"
  by (cases x) (simp_all del: de_i32.simps)

lemma de_option_i32_int [simp]: "de_option de_i32 (JInt (sint w)) = Some (Some w)"
  by (simp del: de_i32.simps)

lemma log_body_decodes: "de_log_request (log_body trace elapsed) = Some (entry_of trace elapsed)"
  unfolding log_body_def Let_def de_log_request_def struct_fields_def json.case bind.simps de_field_def
  by (simp add: entry_of_def default_endpoint_def del: de_i32.simps de_option.simps)

text \<open>What the trace of one request keeps from \<open>populate_trace\<close> on.\<close>

definition attributed :: "HeaderMap \<Rightarrow> json \<Rightarrow> RequestTrace \<Rightarrow> bool" where
  "attributed headers req trace \<longleftrightarrow>
     rt_request_id trace = rt_request_id (populate_trace headers req RequestTrace_default) \<and>
     rt_api_key_prefix trace = rt_api_key_prefix (populate_trace headers req RequestTrace_default) \<and>
     rt_model trace = unwrap_or ''auto'' (jget_str ''model'' req)"

lemma dispatch_trace:
  assumes "dispatch s (populate_trace headers req RequestTrace_default) = (res, trace)"
  shows "attributed headers req trace \<and> rt_error_type trace = None"
proof -
  define tr where "tr = populate_trace headers req RequestTrace_default"
  have "\<exists>n u. trace = tr \<or> trace = tr \<lparr>rt_node_id := n, rt_inference_url := u\<rparr>"
    using assms unfolding tr_def [symmetric]
    by (auto simp: dispatch_def Let_def split: sum.splits ClientError.splits option.splits)
  then show ?thesis
    by (auto simp: attributed_def tr_def populate_trace_def RequestTrace_default_def)
qed

lemma key_prefix_attribution:
  assumes "rt_api_key_prefix (populate_trace headers req RequestTrace_default) = Some p"
  shows "\<exists>tok. header_get ''authorization'' headers = Some (''Bearer '' @ tok) \<and> p = take_chars 12 tok \<and>
    starts_with p ''mgc_''"
proof -
  from assms obtain h where "header_get ''authorization'' headers = Some h"
    and p: "option_filter (\<lambda>p. starts_with p ''mgc_'')
      (map_option (take_chars 12) (Option.bind (to_str h) (strip_prefix ''Bearer ''))) = Some p"
    by (cases "header_get ''authorization'' headers") (simp_all add: populate_trace_def)
  moreover from p obtain tok where "Option.bind (to_str h) (strip_prefix ''Bearer '') = Some tok"
    "p = take_chars 12 tok" "starts_with p ''mgc_''"
    by (auto simp only: option_filter_Some_iff map_option_eq_Some)
  moreover from this(1) have "h = ''Bearer '' @ tok"
    by (cases "to_str h") (simp_all only: Option.bind.simps strip_prefix_eq_Some to_str_def split: if_splits, auto)
  ultimately show ?thesis by blast
qed

lemma client_status_bounds: "100 \<le> client_status st \<and> client_status st < 1000"
  by (simp add: client_status_def)

lemma client_status_failure: "\<not> is_success st \<Longrightarrow> client_status st \<noteq> 200"
  by (auto simp: client_status_def is_success_def)

lemma payload_agree:
  "(case json_failure_payload trace f of (st, ty, msg, body) \<Rightarrow> (st, ty, msg)) = stream_failure_payload f"
  by (cases f) simp_all

lemma stream_failure_bounds:
  "stream_failure_payload f = (st, ty, msg) \<Longrightarrow> st \<in> {501, 502, 503}"
  by (cases f) auto

text \<open>
  Every way out of the handler: the posted log entry is \<open>flush_log\<close> of a trace that carries the
  status of the response and an error type exactly when that status is not 200.
\<close>

definition accounted :: "ApiState \<Rightarrow> HeaderMap \<Rightarrow> json \<Rightarrow> nat \<Rightarrow> nat \<Rightarrow> json list \<Rightarrow> bool" where
  "accounted s headers req elapsed status logs \<longleftrightarrow>
     (\<exists>trace. logs = flush_log s trace elapsed \<and> attributed headers req trace \<and>
        rt_status_code trace = of_nat status \<and> (rt_error_type trace = None \<longleftrightarrow> status = 200) \<and>
        100 \<le> status \<and> status < 1000)"

lemma accounted_failure:
  assumes "attributed headers req trace" and "status \<noteq> 200" "100 \<le> status" "status < 1000"
  shows "accounted s headers req elapsed status (flush_log s (set_failure status ty msg trace) elapsed)"
  unfolding accounted_def using assms
  by (intro exI [of _ "set_failure status ty msg trace"]) (simp add: attributed_def set_failure_def)

lemma accounted_success:
  assumes "attributed headers req trace" and "rt_error_type trace = None"
  shows "accounted s headers req elapsed 200 (flush_log s (trace \<lparr>rt_status_code := 200\<rparr>) elapsed)"
  unfolding accounted_def using assms
  by (intro exI [of _ "trace \<lparr>rt_status_code := 200\<rparr>"]) (simp add: attributed_def)

lemma with_usage_keeps:
  "attributed headers req trace \<Longrightarrow> attributed headers req (with_usage parsed trace)"
  "rt_error_type (with_usage parsed trace) = rt_error_type trace"
  by (simp_all add: with_usage_def attributed_def split: option.split)

lemma forward_accounted:
  assumes "attributed headers req trace" and "rt_error_type trace = None"
    and "forward_chat_to_worker s url req trace elapsed = (res, logs)"
  shows "accounted s headers req elapsed (case res of Inr _ \<Rightarrow> 200 | Inl (st, _) \<Rightarrow> st) logs"
proof (cases "WorkerClient_chat_completions (WorkerClient_new url (as_http s)) req")
  case (Inr parsed)
  with assms show ?thesis
    using accounted_success [OF with_usage_keeps(1), of headers req trace parsed s elapsed]
    by (auto simp: forward_chat_to_worker_def with_usage_keeps(2))
next
  case (Inl e)
  show ?thesis
  proof (cases e)
    case (Upstream service st body)
    with Inl have "\<not> is_success st"
      by (auto simp: WorkerClient_chat_completions_def json_post_def dest: exchange_Upstream)
    then have "client_status st \<noteq> 200" by (rule client_status_failure)
    with Inl Upstream assms client_status_bounds [of st] show ?thesis
      by (auto simp: forward_chat_to_worker_def finalize_error_def intro!: accounted_failure)
  qed (use Inl assms in \<open>auto simp: forward_chat_to_worker_def finalize_error_def intro!: accounted_failure\<close>)
qed

lemma json_accounted:
  assumes "chat_completions_json s headers req elapsed = (res, logs)"
  shows "accounted s headers req elapsed (case res of Inr _ \<Rightarrow> 200 | Inl (st, _) \<Rightarrow> st) logs"
proof -
  obtain d trace where d: "dispatch s (populate_trace headers req RequestTrace_default) = (d, trace)" by fastforce
  note tr = dispatch_trace [OF d]
  show ?thesis
  proof (cases d)
    case (Inr url)
    with assms d have "forward_chat_to_worker s url req trace elapsed = (res, logs)"
      by (simp add: chat_completions_json_def)
    with tr show ?thesis by (blast intro: forward_accounted)
  next
    case (Inl f)
    obtain st ty msg body where p: "json_failure_payload trace f = (st, ty, msg, body)" by (metis prod_cases4)
    with payload_agree [of trace f] have "st \<in> {501, 502, 503}" by (auto dest!: stream_failure_bounds [OF sym])
    with Inl assms d p tr show ?thesis
      by (auto simp: chat_completions_json_def finalize_error_def intro!: accounted_failure)
  qed
qed

lemma stream_accounted:
  assumes "chat_completions_stream s headers req elapsed = (resp, logs)"
  shows "accounted s headers req elapsed (response_status resp) logs"
proof -
  obtain d trace where d: "dispatch s (populate_trace headers req RequestTrace_default) = (d, trace)" by fastforce
  note tr = dispatch_trace [OF d]
  show ?thesis
  proof (cases d)
    case (Inl f)
    obtain st ty msg where p: "stream_failure_payload f = (st, ty, msg)" by (metis prod_cases3)
    from stream_failure_bounds [OF p] Inl assms d p tr show ?thesis
      by (auto simp: chat_completions_stream_def stream_error_def intro!: accounted_failure)
  next
    case (Inr url)
    with assms d tr client_status_bounds client_status_failure show ?thesis
      by (auto simp: chat_completions_stream_def stream_error_def intro!: accounted_failure accounted_success
          split: sum.splits if_splits)
  qed
qed

lemma chat_accounted:
  assumes "chat_completions s headers req elapsed = (resp, logs)"
  shows "accounted s headers req elapsed (response_status resp) logs"
proof -
  obtain res logs' where j: "chat_completions_json s headers req elapsed = (res, logs')" by fastforce
  from json_accounted [OF j] stream_accounted [of s headers req elapsed resp logs] assms j show ?thesis
    by (auto simp: chat_completions_def split: if_splits sum.splits prod.splits)
qed

subsection \<open>Properties\<close>


definition refusing_http :: http where
  "refusing_http = \<lparr>send = (\<lambda>_. Inl ''refused''), from_str = (\<lambda>_. Inl ''eof''), not_array = (\<lambda>_. [])\<rparr>"


text \<open>
  Dispatch is exact: given the coordinator's list, a request goes to the first node that has an
  inference server; it fails with \<open>NoEligibleNodes\<close> exactly when the list is empty and with
  \<open>NoInferenceEndpoint\<close> exactly when no listed node has one; the trace names the node it tried.
\<close>

theorem dispatch_exact:
  assumes "CoordClient_eligible_nodes (as_coord s) = Inr listing"
    and "jget ''nodes'' listing = Some (JArr nodes)"
    and "dispatch s trace = (res, trace')"
  shows "case res of
      Inr url \<Rightarrow> \<exists>before n after. nodes = before @ n # after \<and> jget_str ''inference_url'' n = Some url \<and>
        (\<forall>m \<in> set before. jget_str ''inference_url'' m = None) \<and> rt_node_id trace' = jget_str ''node_id'' n
    | Inl f \<Rightarrow> (\<forall>m \<in> set nodes. jget_str ''inference_url'' m = None) \<and>
        f = (case nodes of [] \<Rightarrow> NoEligibleNodes | n # _ \<Rightarrow> NoInferenceEndpoint n)"
proof (cases "find (\<lambda>n. jget_str ''inference_url'' n \<noteq> None) nodes")
  case None
  then have no: "\<forall>m \<in> set nodes. jget_str ''inference_url'' m = None" by (simp add: find_None_all)
  from None have "choose_node nodes = (case nodes of [] \<Rightarrow> None | n # _ \<Rightarrow> Some n)" by (simp add: choose_node_def)
  with assms no show ?thesis by (cases nodes) (auto simp: dispatch_def)
next
  case (Some n)
  then have "choose_node nodes = Some n" by (simp add: choose_node_def)
  moreover obtain before after where split: "nodes = before @ n # after" "\<forall>m \<in> set before. jget_str ''inference_url'' m = None"
    and "jget_str ''inference_url'' n \<noteq> None"
    using find_Some_split [OF Some] by auto
  then obtain url where "jget_str ''inference_url'' n = Some url" by blast
  ultimately have "res = Inr url" "rt_node_id trace' = jget_str ''node_id'' n" using assms by (auto simp: dispatch_def Let_def)
  with split \<open>jget_str ''inference_url'' n = Some url\<close> show ?thesis by auto
qed

definition sample_listing :: json where
  "sample_listing = JObj [(''nodes'', JArr [JObj [(''node_id'', JStr ''n1'')],
     JObj [(''node_id'', JStr ''n2''), (''inference_url'', JStr ''http://w'')]])]"

theorem dispatch_exact_witness:
  "\<exists>trace'. dispatch (ApiState_of_config ''http://c'' None None (json_http sample_listing)) RequestTrace_default =
     (Inr ''http://w'', trace') \<and> rt_node_id trace' = Some ''n2''"
proof -
  let ?s = "ApiState_of_config ''http://c'' None None (json_http sample_listing)"
  let ?nodes = "[JObj [(''node_id'', JStr ''n1'')],
     JObj [(''node_id'', JStr ''n2''), (''inference_url'', JStr ''http://w'')]]"
  have c: "CoordClient_eligible_nodes (as_coord ?s) = Inr sample_listing"
    by (simp add: ApiState_of_config_def CoordClient_new_def CoordClient_eligible_nodes_def json_get_def
        exchange_def decode_or_upstream_def json_http_def is_success_def read_json_def)
  have n: "jget ''nodes'' sample_listing = Some (JArr ?nodes)" by (simp add: sample_listing_def)
  obtain res trace' where d: "dispatch ?s RequestTrace_default = (res, trace')" by fastforce
  have r: "res = Inr ''http://w''" using d c n by (simp add: dispatch_def choose_node_def Let_def)
  from dispatch_exact [OF c n d] obtain before n' after where
    "?nodes = before @ n' # after" "jget_str ''inference_url'' n' = Some ''http://w''"
    "rt_node_id trace' = jget_str ''node_id'' n'"
    unfolding r by auto
  then have "rt_node_id trace' = Some ''n2''" by (cases before) (auto simp: Cons_eq_append_conv)
  with d r show ?thesis by simp
qed

text \<open>
  C34. The plain and the streaming handler agree when no worker can be asked: for every dispatch
  failure and every unreachable or failing worker they answer with the same status and the same
  error type, and log the same entry.
\<close>

theorem stream_agrees_with_json:
  assumes "\<not> (\<exists>url trace resp. dispatch s (populate_trace headers req RequestTrace_default) = (Inr url, trace) \<and>
      send (as_http s) \<lparr>rq_method = POST, rq_url = trim_end_matches (CHR ''/'') url @ ''/v1/chat/completions'',
        rq_auth = None, rq_body = Some req\<rparr> = Inr resp \<and> is_success (rs_status resp))"
    and "chat_completions_json s headers req elapsed = (res, logs)"
    and "chat_completions_stream s headers req elapsed = (resp, logs')"
  shows "logs' = logs \<and> (\<exists>st ty body body' fields fields'. res = Inl (st, body) \<and> resp = JsonResponse st body' \<and>
    jget ''error'' body = Some fields \<and> jget ''error'' body' = Some fields' \<and>
    jget_str ''type'' fields = Some ty \<and> jget_str ''type'' fields' = Some ty)"
proof -
  obtain d trace where d: "dispatch s (populate_trace headers req RequestTrace_default) = (d, trace)" by fastforce
  show ?thesis
  proof (cases d)
    case (Inl f)
    with assms(2,3) d show ?thesis
      by (cases f) (auto simp: chat_completions_json_def chat_completions_stream_def finalize_error_def stream_error_def)
  next
    case (Inr url)
    show ?thesis
    proof (cases "send (as_http s) \<lparr>rq_method = POST, rq_url = trim_end_matches (CHR ''/'') url @ ''/v1/chat/completions'',
        rq_auth = None, rq_body = Some req\<rparr>")
      case (Inl e)
      with Inr assms(2,3) d show ?thesis
        by (auto simp: chat_completions_json_def chat_completions_stream_def forward_chat_to_worker_def
            WorkerClient_chat_completions_def WorkerClient_new_def json_post_def exchange_def
            finalize_error_def stream_error_def)
    next
      case w: (Inr r)
      with assms(1) d Inr have "\<not> is_success (rs_status r)" by blast
      with w Inr assms(2,3) d show ?thesis
        by (auto simp: chat_completions_json_def chat_completions_stream_def forward_chat_to_worker_def
            WorkerClient_chat_completions_def WorkerClient_new_def json_post_def exchange_def
            decode_or_upstream_def finalize_error_def stream_error_def)
    qed
  qed
qed

theorem stream_agrees_with_json_witness:
  "snd (chat_completions_stream (ApiState_of_config ''http://c'' None None refusing_http) [] (JObj []) 3) =
   snd (chat_completions_json (ApiState_of_config ''http://c'' None None refusing_http) [] (JObj []) 3)"
proof -
  let ?s = "ApiState_of_config ''http://c'' None None refusing_http"
  have r: "send (as_http ?s) rq = Inl ''refused''" for rq by (simp add: ApiState_of_config_def refusing_http_def)
  obtain res logs where j: "chat_completions_json ?s [] (JObj []) 3 = (res, logs)" by fastforce
  obtain resp logs' where t: "chat_completions_stream ?s [] (JObj []) 3 = (resp, logs')" by fastforce
  from stream_agrees_with_json [OF _ j t] show ?thesis by (simp add: r j t)
qed

text \<open>
  The model list advertises exactly the models of a non-empty registry that are not disabled, in
  its order; without a reachable, non-empty registry it holds the one synthetic entry with the
  coordinator's node count.
\<close>

theorem list_models_exact:
  "ml_data (list_models s) =
    (if \<exists>mgmt m ms. as_mgmt s = Some mgmt \<and> MgmtClient_list_models mgmt = Inr (m # ms)
     then map (\<lambda>m. model_entry (unwrap_or [] (jget_str ''id'' m)))
            (filter (\<lambda>m. jget_str ''status'' m \<noteq> Some ''disabled'') (unwrap_or [] (fetch_registry s)))
     else [model_entry (''auto (cluster: '' @ show_nat (probe_cluster_size s) @ '' nodes)'')])"
proof -
  have l: "listed = (\<lambda>m. jget_str ''status'' m \<noteq> Some ''disabled'')"
  proof
    show "listed m \<longleftrightarrow> jget_str ''status'' m \<noteq> Some ''disabled''" for m
      by (cases "jget_str ''status'' m") (simp_all add: listed_def)
  qed
  show ?thesis
  proof (cases "fetch_registry s")
    case None
    then show ?thesis by (auto simp: list_models_def fetch_registry_def split: option.splits sum.splits)
  next
    case (Some rows)
    then obtain mgmt where "as_mgmt s = Some mgmt" "MgmtClient_list_models mgmt = Inr rows"
      by (auto simp: fetch_registry_def split: option.splits sum.splits)
    with Some show ?thesis by (cases rows) (simp_all add: list_models_def l)
  qed
qed

end
