(* ===== verification/ClusterFlow.thy ===== *)
theory ClusterFlow
  imports Worker Coordinator Models OpenAI
begin

section \<open>The paths through worker, coordinator, dispatcher and reconciler\<close>

text \<open>
  The coordinator's router over its handlers, and the network on which it answers. The lemmas carry a
  worker's report into the registry, the registry into what the dispatcher and the reconciler read, and
  a load command from the backend through the coordinator to the worker.
\<close>

subsection \<open>The coordinator's router (\<open>coordinator/src/server.rs\<close>)\<close>

fun http_answer :: "http_result \<Rightarrow> nat \<times> json" where
  "http_answer (Inl answer) = answer"
| "http_answer (Inr j) = (200, j)"

text \<open>
  One request, with \<open>ip\<close> the address it comes from and \<open>h\<close> the network to the workers. \<open>None\<close> stands
  for the answers of the router itself (no such route or method, no JSON body).
\<close>

definition coord_handle ::
  "http \<Rightarrow> (json \<Rightarrow> string) \<Rightarrow> (time \<Rightarrow> string) \<Rightarrow> time \<Rightarrow> time \<Rightarrow> string \<Rightarrow> Method \<Rightarrow> string \<Rightarrow> json option \<Rightarrow> Registry
    \<Rightarrow> (nat \<times> json) option \<times> Registry" where
  "coord_handle h de_error to_rfc3339 now now' ip m path body reg =
     (if m = GET \<and> path = ''/health'' then (Some (200, JObj [(''status'', JStr ''ok'')]), reg)
      else if m = GET \<and> path = ''/nodes'' then (Some (200, list_nodes to_rfc3339 reg), reg)
      else if m = GET \<and> path = ''/nodes/eligible'' then (Some (200, eligible_nodes now reg), reg)
      else if m = POST \<and> path = ''/nodes/report'' then
        (case body of
           None \<Rightarrow> (None, reg)
         | Some j \<Rightarrow> let (r, reg') = report_node de_error now now' ip j reg in (Some (http_answer r), reg'))
      else if m = POST then
        (case (path_param ''/nodes/'' ''/load_model'' path, body) of
           (Some node_id, Some j) \<Rightarrow> (Some (http_answer (load_model_proxy h node_id j reg)), reg)
         | _ \<Rightarrow> (None, reg))
      else (None, reg))"

definition coord_net ::
  "wire \<Rightarrow> http \<Rightarrow> (json \<Rightarrow> string) \<Rightarrow> (time \<Rightarrow> string) \<Rightarrow> time \<Rightarrow> time \<Rightarrow> string \<Rightarrow> string \<Rightarrow> Registry \<Rightarrow> http" where
  "coord_net w h de_error to_rfc3339 now now' ip base reg =
     \<lparr>send = (\<lambda>rq.
        case strip_prefix base (rq_url rq) of
          None \<Rightarrow> Inl ''unreachable''
        | Some path \<Rightarrow>
            (case fst (coord_handle h de_error to_rfc3339 now now' ip (rq_method rq) path (rq_body rq) reg) of
               None \<Rightarrow> Inr \<lparr>rs_status = 404, rs_text = Inr []\<rparr>
             | Some (status, j) \<Rightarrow> Inr \<lparr>rs_status = status, rs_text = Inr (render w j)\<rparr>)),
      from_str = parse w, not_array = (\<lambda>_. [])\<rparr>"

text \<open>The same where no worker can be reached.\<close>

definition coord_http :: "wire \<Rightarrow> (time \<Rightarrow> string) \<Rightarrow> time \<Rightarrow> string \<Rightarrow> Registry \<Rightarrow> http" where
  "coord_http w to_rfc3339 now base reg =
     coord_net w \<lparr>send = (\<lambda>_. Inl ''unreachable''), from_str = parse w, not_array = (\<lambda>_. [])\<rparr> (\<lambda>_. []) to_rfc3339
       now now [] base reg"

lemma coord_http_list:
  assumes "wire_ok w" and "trim_end_matches (CHR ''/'') base = base"
  shows "CoordClient_list_nodes (CoordClient_new base (coord_http w fmt now base reg)) = Inr (list_nodes fmt reg)"
  using assms
  by (simp add: CoordClient_list_nodes_def CoordClient_new_def json_get_def exchange_def decode_or_upstream_def
      coord_http_def coord_net_def coord_handle_def is_success_def read_json_def wire_ok_def)

lemma coord_http_eligible:
  assumes "wire_ok w" and "trim_end_matches (CHR ''/'') base = base"
  shows "CoordClient_eligible_nodes (CoordClient_new base (coord_http w fmt now base reg)) = Inr (eligible_nodes now reg)"
  using assms
  by (simp add: CoordClient_eligible_nodes_def CoordClient_new_def json_get_def exchange_def decode_or_upstream_def
      coord_http_def coord_net_def coord_handle_def is_success_def read_json_def wire_ok_def)

subsection \<open>From the worker into the registry\<close>

lemma publish_decodes:
  assumes "wire_info info"
  shows "de_node (publish_body env info sv ctl) = Some (view_of_info info
    \<lparr>nv_inference_endpoint := inference_endpoint_advertise env sv, nv_control_endpoint := Some ctl,
     nv_current_model := sv_model_id sv\<rparr>)"
proof -
  obtain m where m: "to_json info = JObj m" by (simp add: to_json_def)
  have fresh: "map_of m ''inference_endpoint'' = None" "map_of m ''control_endpoint'' = None" "map_of m ''current_model'' = None"
    using m by (auto simp: to_json_def)
  let ?m1 = "case inference_endpoint_advertise env sv of Some s \<Rightarrow> AList.update ''inference_endpoint'' (JStr s) m | None \<Rightarrow> m"
  let ?m2 = "AList.update ''control_endpoint'' (JStr ctl) ?m1"
  let ?m3 = "case sv_model_id sv of Some s \<Rightarrow> AList.update ''current_model'' (JStr s) ?m2 | None \<Rightarrow> ?m2"
  have body: "publish_body env info sv ctl = JObj ?m3"
    by (simp add: publish_body_def insert_some_def m split: option.split)
  show ?thesis unfolding body
  proof (rule de_node_object [OF assms])
    show "map_of ?m3 k = jget k (to_json info)" if "k \<in> set node_keys" for k
      using that by (auto simp: m node_keys_def update_conv' split: option.split)
    show "map_of ?m3 ''inference_endpoint'' = map_option JStr (inference_endpoint_advertise env sv)"
      using fresh by (simp add: update_conv' split: option.split)
    show "map_of ?m3 ''control_endpoint'' = map_option JStr (Some ctl)"
      by (simp add: update_conv' split: option.split)
    show "map_of ?m3 ''current_model'' = map_option JStr (sv_model_id sv)"
      using fresh by (simp add: update_conv' split: option.split)
  qed
qed

text \<open>The entry an accepted report leaves.\<close>

lemma publish_entry:
  assumes "wire_info info"
    and "report_node err now now' ip (publish_body env info sv ctl) reg = (Inr ack, reg')"
  obtains e where "get_node reg' (n_node_id info) = Some e" and "ne_info e = info_of_view (view_of_info info)"
    and "ne_current_model e = nonempty (sv_model_id sv)" and "ne_last_heartbeat e = now'"
    and "ne_inference_endpoint e = nonempty (inference_endpoint_advertise env sv)"
    and "ne_control_endpoint e = nonempty (Some ctl)" and "ne_current_public_ip e = Some ip"
    and "reg' = AList.update (n_node_id info) e reg"
proof -
  let ?v = "view_of_info info \<lparr>nv_inference_endpoint := inference_endpoint_advertise env sv,
     nv_control_endpoint := Some ctl, nv_current_model := sv_model_id sv\<rparr>"
  note dec = publish_decodes [OF assms(1), of env sv ctl]
  have id: "nv_node_id ?v = n_node_id info" by (simp add: view_of_info_def)
  have iv: "info_of_view ?v = info_of_view (view_of_info info)" by (simp add: info_of_view_def)
  have acc: "accepts now reg ?v"
  proof (rule ccontr)
    assume "\<not> accepts now reg ?v"
    with dec have "\<exists>e. report_node err now now' ip (publish_body env info sv ctl) reg = (Inl e, reg)"
      by (intro report_node_rejected) simp
    with assms(2) show False by auto
  qed
  from report_node_accepted [OF dec acc, of err now' ip] assms(2)
  have "reg' = AList.update (n_node_id info) (reported_entry now' ip ?v) reg" by (simp add: id)
  then show thesis
    by (intro that [of "reported_entry now' ip ?v"])
      (simp_all add: registry.get_insert iv reported_entry_def make_entry_def)
qed

text \<open>A draining report leaves an entry that is never eligible, however fresh the report is.\<close>

lemma draining_report_not_eligible:
  assumes "wire_info info"
    and "rq_body (publish_draining env url info sv ctl) = Some body"
    and "report_node err now now' ip body reg = (Inr ack, reg')"
  shows "\<exists>e. get_node reg' (n_node_id info) = Some e \<and> ne_last_heartbeat e = now' \<and> \<not> is_eligible q e"
proof -
  let ?d = "info \<lparr>n_status := NodeStatus_as_i32 Draining\<rparr>"
  have b: "body = publish_body env ?d sv ctl" using assms(2) by (simp add: publish_draining_def publish_def)
  have w: "wire_info ?d" using assms(1) by (simp add: wire_info_def)
  obtain e where e: "get_node reg' (n_node_id info) = Some e" "ne_info e = info_of_view (view_of_info ?d)"
    "ne_last_heartbeat e = now'"
    using publish_entry [OF w assms(3) [unfolded b]] by auto
  have "NodeStatus_of (n_status (ne_info e)) = Draining"
    by (simp add: e(2) info_of_view_def view_of_info_def)
  with e show ?thesis by (auto simp: is_eligible_def)
qed

subsection \<open>From the registry to its readers\<close>

lemma entry_reports:
  assumes "ne_current_model e = Some m" and "m \<noteq> []" and "n_node_id (ne_info e) \<noteq> []"
  shows "reports (entry_json fmt e) m (n_node_id (ne_info e))"
proof -
  obtain mm where "to_json (ne_info e) = JObj mm" by (rule entry_json_obj)
  moreover have "jget ''node_id'' (entry_json fmt e) = Some (JStr (n_node_id (ne_info e)))"
    using entry_json_inventory [of "''node_id''" fmt e] by (simp add: node_keys_def)
  ultimately show ?thesis using assms by (simp add: reports_def jget_str_def entry_json_def update_conv')
qed

lemma entry_reported:
  assumes "reports (entry_json fmt e) m k"
  shows "ne_current_model e = Some m \<and> n_node_id (ne_info e) = k"
proof -
  obtain mm where "to_json (ne_info e) = JObj mm" by (rule entry_json_obj)
  moreover have "jget ''node_id'' (entry_json fmt e) = Some (JStr (n_node_id (ne_info e)))"
    using entry_json_inventory [of "''node_id''" fmt e] by (simp add: node_keys_def)
  ultimately show ?thesis using assms
    by (cases "ne_current_model e") (auto simp: reports_def jget_str_def entry_json_def update_conv')
qed

text \<open>A model some entry serves is observed, on a node whose entry serves it.\<close>

lemma observed_in_registry:
  assumes "registry_inv t reg" and "get_node reg i = Some e" and "ne_current_model e = Some m" "m \<noteq> []" "i \<noteq> []"
  shows "\<exists>k e'. map_of (observed_models (list_nodes fmt reg)) m = Some k \<and> get_node reg k = Some e' \<and>
    ne_current_model e' = Some m"
proof -
  have obs: "observed_models (list_nodes fmt reg) = collect_loaded (map (entry_json fmt) (list_entries reg)) []"
    by (rule observed_models_nodes) (simp add: list_nodes_def)
  have id: "n_node_id (ne_info e) = i" using registry_inv_get [OF assms(1,2)] by (simp add: entry_ok_def)
  have "e \<in> set (list_entries reg)" using list_entries_iff [OF assms(1), of e] assms(2) by (simp add: id)
  then have "entry_json fmt e \<in> set (map (entry_json fmt) (list_entries reg))" by simp
  from collect_loaded_dom [OF this entry_reports [OF assms(3,4)]] id assms(5) obtain k where
    k: "map_of (collect_loaded (map (entry_json fmt) (list_entries reg)) []) m = Some k" by auto
  from collect_loaded_Some [OF k] obtain e' where "e' \<in> set (list_entries reg)" "reports (entry_json fmt e') m k" by auto
  with entry_reported [of fmt e' m k] list_entries_iff [OF assms(1), of e']
  have "get_node reg k = Some e' \<and> ne_current_model e' = Some m" by simp
  with k obs show ?thesis by auto
qed

subsection \<open>From the backend through the coordinator to the worker\<close>

text \<open>The network on which the control server of one worker answers under \<open>addr\<close>.\<close>

definition control_net :: "wire \<Rightarrow> string \<Rightarrow> http" where
  "control_net w addr =
     \<lparr>send = (\<lambda>rq.
        case strip_prefix addr (rq_url rq) of
          None \<Rightarrow> Inl ''unreachable''
        | Some path \<Rightarrow>
            (case fst (control_handle (rq_method rq) path (rq_body rq)) of
               None \<Rightarrow> Inr \<lparr>rs_status = 404, rs_text = Inr []\<rparr>
             | Some r \<Rightarrow> let (status, j) = http_answer r in Inr \<lparr>rs_status = status, rs_text = Inr (render w j)\<rparr>)),
      from_str = parse w, not_array = (\<lambda>_. [])\<rparr>"

definition load_request :: "ModelRow \<Rightarrow> string \<Rightarrow> string list \<Rightarrow> LoadModelReq" where
  "load_request model token peers =
     \<lparr>lm_model_id = m_id model, lm_hf_repo = m_hf_repo model, lm_hf_file = m_hf_file model, lm_hf_token = token,
      lm_local_filename = (if m_local_filename model = [] then m_hf_file model else m_local_filename model),
      lm_peers = peers\<rparr>"

lemma load_body_decodes: "de_load_model (load_body model token peers) = Some (load_request model token peers)"
  by (simp add: de_load_model_def load_body_def load_request_def struct_fields_def de_field_def)

lemma load_model_url_suffix: "load_model_url e k = Inr url \<Longrightarrow> \<exists>b. url = b @ ''/control/load_model''"
  by (auto simp: load_model_url_def split: option.splits if_splits)

lemma load_model_proxy_502: "load_model_proxy h k body reg = Inl e \<Longrightarrow> fst e = 502"
  using load_model_url_502
  by (auto simp: load_model_proxy_def Let_def split: option.splits sum.splits ClientError.splits)

text \<open>The coordinator acknowledges a load command only when its proxy did.\<close>

lemma coord_load_answered:
  assumes "CoordClient_load_model (CoordClient_new ep (coord_net w h de fmt now now' ip base reg)) node body = Inr ack"
    and "trim_end_matches (CHR ''/'') ep = base"
  shows "\<exists>j. load_model_proxy h node body reg = Inr j"
proof -
  let ?path = "''/nodes/'' @ node @ ''/load_model''"
  let ?rq = "\<lparr>rq_method = POST, rq_url = base @ ?path, rq_auth = None, rq_body = Some body\<rparr>"
  from assms obtain resp where resp: "send (coord_net w h de fmt now now' ip base reg) ?rq = Inr resp"
    and ok: "is_success (rs_status resp)"
    by (auto simp: CoordClient_load_model_def CoordClient_new_def json_post_def dest!: exchange_Inr)
  obtain a where a: "fst (coord_handle h de fmt now now' ip POST ?path (Some body) reg) = a" by simp
  with resp ok obtain status j where "a = Some (status, j)" and st: "is_success status"
    by (cases a) (auto simp: coord_net_def is_success_def)
  with a have "http_answer (load_model_proxy h node body reg) = (status, j)"
    by (auto simp: coord_handle_def path_param_eq_Some split: option.splits if_splits)
  with st load_model_proxy_502 show ?thesis
    by (cases "load_model_proxy h node body reg") (force simp: is_success_def)+
qed

text \<open>The proxy succeeds only when the worker it addresses accepted the command.\<close>

lemma proxy_reaches_worker:
  assumes "load_model_proxy (control_net w addr) k body reg = Inr j"
  shows "\<exists>e b req answer. get_node reg k = Some e \<and> load_model_url e k = Inr (b @ ''/control/load_model'') \<and>
    trim_end_matches (CHR ''/'') b = addr \<and> de_load_model body = Some req \<and> load_model req = (Inr answer, Some req)"
proof -
  from assms obtain e url where e: "get_node reg k = Some e" and url: "load_model_url e k = Inr url"
    and ok: "\<exists>j. WorkerControlClient_load_model (WorkerControlClient_new (unwrap_or url
           (strip_suffix ''/control/load_model'' url)) (control_net w addr)) body = Inr j"
    by (auto simp: load_model_proxy_def Let_def split: option.splits sum.splits ClientError.splits)
  from load_model_url_suffix [OF url] obtain b where b: "url = b @ ''/control/load_model''" ..
  let ?t = "trim_end_matches (CHR ''/'') b"
  let ?rq = "\<lparr>rq_method = POST, rq_url = ?t @ ''/control/load_model'', rq_auth = None, rq_body = Some body\<rparr>"
  from ok obtain resp where resp: "send (control_net w addr) ?rq = Inr resp" and st: "is_success (rs_status resp)"
    by (auto simp: b strip_suffix_append WorkerControlClient_load_model_def WorkerControlClient_new_def json_post_def
        dest!: exchange_Inr)
  then obtain path where path: "strip_prefix addr (?t @ ''/control/load_model'') = Some path"
    by (auto simp: control_net_def split: option.splits)
  from resp st path obtain r where r: "fst (control_handle POST path (Some body)) = Some r"
      and ok: "is_success (fst (http_answer r))"
    by (auto simp: control_net_def is_success_def Let_def split: option.splits prod.splits)
  from r have p: "path = ''/control/load_model''" by (auto simp: control_handle_def split: if_splits)
  from path p have t: "?t = addr" by (simp add: strip_prefix_eq_Some)
  from r p obtain req where req: "de_load_model body = Some req" and a: "fst (load_model req) = r"
    by (auto simp: control_handle_def Let_def split: option.splits prod.splits)
  from a ok have "\<exists>answer. load_model req = (Inr answer, Some req)"
    by (auto simp: load_model_def is_success_def split: if_splits)
  with e url b t req show ?thesis by blast
qed

text \<open>Conversely, a command the worker accepts is acknowledged with the worker's answer.\<close>

lemma proxy_accepts:
  assumes "wire_ok w" and "get_node reg k = Some e" and "load_model_url e k = Inr (b @ ''/control/load_model'')"
    and "trim_end_matches (CHR ''/'') b = addr" and "de_load_model body = Some req"
    and "load_model req = (Inr answer, Some req)"
  shows "load_model_proxy (control_net w addr) k body reg = Inr answer"
proof -
  have suf: "strip_suffix ''/control/load_model'' (b @ ''/control/load_model'') = Some b" by (rule strip_suffix_append)
  have pre: "strip_prefix addr (addr @ ''/control/load_model'') = Some ''/control/load_model''"
    by (simp add: strip_prefix_def)
  have "WorkerControlClient_load_model (WorkerControlClient_new b (control_net w addr)) body = Inr answer"
    using assms(1,5,6)
    unfolding WorkerControlClient_load_model_def WorkerControlClient_new_def json_post_def exchange_def
      decode_or_upstream_def control_net_def read_json_def WorkerControlClient.simps http.simps Request.simps assms(4) pre
    by (simp add: control_handle_def is_success_def wire_ok_def)
  then show ?thesis
    unfolding load_model_proxy_def assms(2,3) option.case sum.case suf Let_def unwrap_or_simps by simp
qed

definition sample_worker_reg :: Registry where
  "sample_worker_reg = [(''a'', (sample_entry ''a'' 5) \<lparr>ne_control_endpoint := Some '':50054''\<rparr>)]"

lemma sample_load_url:
  "get_node sample_worker_reg ''a'' = Some ((sample_entry ''a'' 5) \<lparr>ne_control_endpoint := Some '':50054''\<rparr>)"
  "load_model_url ((sample_entry ''a'' 5) \<lparr>ne_control_endpoint := Some '':50054''\<rparr>) ''a'' =
     Inr (''http://10.0.0.1:50054'' @ ''/control/load_model'')"
  by (simp_all add: sample_worker_reg_def get_node_def load_model_url_def starts_with_def dispatch_ip_def wg_ip_of_def
      sample_entry_def reported_entry_def make_entry_def info_of_view_def view_of_info_def sample_node_def)

lemma sample_load:
  obtains j s' where "models_load (coord_net numbered_wire (control_net numbered_wire ''http://10.0.0.1:50054'')
       (\<lambda>_. []) (\<lambda>_. []) 7 7 [] ''http://c:7001'' sample_worker_reg)
       ''http://c:7001/'' [] db_up 5 ''m1'' ''a'' False sample_models = (Inr j, s')"
proof -
  let ?c = "''http://c:7001''"
  let ?net = "coord_net numbered_wire (control_net numbered_wire ''http://10.0.0.1:50054'') (\<lambda>_. []) (\<lambda>_. []) 7 7 []
       ?c sample_worker_reg"
  let ?m = "sample_model ''m1'' ''downloading''"
  have trim: "trim_end_matches (CHR ''/'') ''http://c:7001/'' = ?c"
    by (simp add: trim_end_matches_def)
  have find: "find (\<lambda>r. m_id r = ''m1'') (ms_models sample_models) = Some ?m"
    by (simp add: sample_models_def sample_model_def)
  obtain answer where load: "load_model (load_request ?m [] []) = (Inr answer, Some (load_request ?m [] []))"
    by (simp add: load_model_def load_request_def sample_model_def)
  have base: "trim_end_matches (CHR ''/'') ''http://10.0.0.1:50054'' = ''http://10.0.0.1:50054''"
    by (simp add: trim_end_matches_id)
  have proxy: "load_model_proxy (control_net numbered_wire ''http://10.0.0.1:50054'') ''a'' (load_body ?m [] [])
      sample_worker_reg = Inr answer"
    by (rule proxy_accepts [OF numbered_wire_ok sample_load_url base load_body_decodes load])
  have path: "path_param ''/nodes/'' ''/load_model'' ''/nodes/a/load_model'' = Some ''a''"
    by (simp add: path_param_eq_Some)
  have "CoordClient_load_model (CoordClient_new ''http://c:7001/'' ?net) ''a'' (load_body ?m [] []) = Inr answer"
    using numbered_wire_ok path
    unfolding CoordClient_load_model_def CoordClient_new_def json_post_def exchange_def trim
    by (simp add: coord_net_def coord_handle_def strip_prefix_def proxy decode_or_upstream_def is_success_def
        read_json_def wire_ok_def)
  then obtain j s' where "models_load ?net ''http://c:7001/'' [] db_up 5 ''m1'' ''a'' False sample_models = (Inr j, s')"
    using find by (simp add: models_load_def peers_of_def Let_def is_ascii_alphanumeric_def sample_model_def)
  then show thesis by (rule that)
qed

lemma models_load_reaches:
  assumes "models_load (coord_net w (control_net w addr) de fmt now now' ip (trim_end_matches (CHR ''/'') ep) reg)
       ep settings db t i node multi s = (Inr j, s')"
    and "find (\<lambda>r. m_id r = i) (ms_models s) = Some model"
    and "req = load_request model (unwrap_or [] (Option.bind (map_of settings ''huggingface_api_token'') as_str))
       (peers_of (CoordClient_new ep (coord_net w (control_net w addr) de fmt now now' ip (trim_end_matches (CHR ''/'') ep) reg))
         multi node)"
  shows "\<exists>e b answer. get_node reg node = Some e \<and> load_model_url e node = Inr (b @ ''/control/load_model'') \<and>
    trim_end_matches (CHR ''/'') b = addr \<and> load_model req = (Inr answer, Some req)"
proof -
  let ?net = "coord_net w (control_net w addr) de fmt now now' ip (trim_end_matches (CHR ''/'') ep) reg"
  let ?token = "unwrap_or [] (Option.bind (map_of settings ''huggingface_api_token'') as_str)"
  let ?body = "load_body model ?token (peers_of (CoordClient_new ep ?net) multi node)"
  from models_load_ok [OF assms(1)] obtain model' ack where found: "find (\<lambda>r. m_id r = i) (ms_models s) = Some model'"
    and sent: "CoordClient_load_model (CoordClient_new ep ?net) node (load_body model' ?token
      (peers_of (CoordClient_new ep ?net) multi node)) = Inr ack" by blast
  have "model' = model" using found assms(2) by simp
  from coord_load_answered [OF sent [unfolded this] refl] obtain pj where "load_model_proxy (control_net w addr) node ?body reg = Inr pj" by blast
  from proxy_reaches_worker [OF this] show ?thesis unfolding load_body_decodes option.inject assms(3) by blast
qed

text \<open>
  C6. A load command the backend answers with success has reached the worker: the coordinator has the node
  in its registry and posted the command to that node's control address, the worker's control server
  accepted it, and the task it started downloads exactly the repository and file of the model in the
  table, under the file name and with the token the table and the settings give, with no peers unless the
  command asked for several nodes.
\<close>

theorem load_command_reaches_worker:
  assumes "models_load (coord_net w (control_net w addr) de fmt now now' ip (trim_end_matches (CHR ''/'') ep) reg)
       ep settings db t i node multi s = (Inr j, s')"
  shows "\<exists>model e b peers answer req. find (\<lambda>r. m_id r = i) (ms_models s) = Some model \<and> get_node reg node = Some e \<and>
    load_model_url e node = Inr (b @ ''/control/load_model'') \<and> trim_end_matches (CHR ''/'') b = addr \<and>
    req = load_request model (unwrap_or [] (Option.bind (map_of settings ''huggingface_api_token'') as_str)) peers \<and>
    (multi \<or> peers = []) \<and> load_model req = (Inr answer, Some req) \<and>
    download_of req = \<lparr>dq_repo = m_hf_repo model, dq_file = m_hf_file model,
      dq_local_filename = (if m_local_filename model = [] then m_hf_file model else m_local_filename model),
      dq_token = lm_hf_token req\<rparr>"
proof -
  let ?coord = "CoordClient_new ep (coord_net w (control_net w addr) de fmt now now' ip (trim_end_matches (CHR ''/'') ep) reg)"
  let ?token = "unwrap_or [] (Option.bind (map_of settings ''huggingface_api_token'') as_str)"
  from models_load_ok [OF assms] obtain model where model: "find (\<lambda>r. m_id r = i) (ms_models s) = Some model" by blast
  let ?req = "load_request model ?token (peers_of ?coord multi node)"
  from models_load_reaches [OF assms model refl] obtain e b answer where
    "get_node reg node = Some e" "load_model_url e node = Inr (b @ ''/control/load_model'')" "trim_end_matches (CHR ''/'') b = addr"
    "load_model ?req = (Inr answer, Some ?req)"
    by blast
  moreover have "multi \<or> peers_of ?coord multi node = []" by (simp add: peers_of_def)
  moreover have "download_of ?req = \<lparr>dq_repo = m_hf_repo model, dq_file = m_hf_file model,
      dq_local_filename = (if m_local_filename model = [] then m_hf_file model else m_local_filename model),
      dq_token = lm_hf_token ?req\<rparr>"
    by (auto simp: download_of_def load_request_def)
  ultimately show ?thesis using model by blast
qed

theorem load_command_reaches_worker_witness:
  "\<exists>j s' req answer. models_load (coord_net numbered_wire (control_net numbered_wire ''http://10.0.0.1:50054'')
       (\<lambda>_. []) (\<lambda>_. []) 7 7 [] ''http://c:7001'' sample_worker_reg)
       ''http://c:7001/'' [] db_up 5 ''m1'' ''a'' False sample_models = (Inr j, s') \<and>
     load_model req = (Inr answer, Some req) \<and> lm_model_id req = ''m1'' \<and> lm_peers req = []"
proof -
  let ?c = "''http://c:7001''"
  let ?m = "sample_model ''m1'' ''downloading''"
  have trim: "trim_end_matches (CHR ''/'') ''http://c:7001/'' = ?c"
    by (simp add: trim_end_matches_def)
  have find: "find (\<lambda>r. m_id r = ''m1'') (ms_models sample_models) = Some ?m"
    by (simp add: sample_models_def sample_model_def)
  obtain j s' where ok: "models_load (coord_net numbered_wire (control_net numbered_wire ''http://10.0.0.1:50054'')
       (\<lambda>_. []) (\<lambda>_. []) 7 7 [] ?c sample_worker_reg) ''http://c:7001/'' [] db_up 5 ''m1'' ''a'' False sample_models = (Inr j, s')"
    by (rule sample_load)
  from load_command_reaches_worker [of numbered_wire "''http://10.0.0.1:50054''" "\<lambda>_. []" "\<lambda>_. []" 7 7 "[]"
      "''http://c:7001/''" sample_worker_reg, unfolded trim, OF ok]
  obtain model peers answer where m: "find (\<lambda>r. m_id r = ''m1'') (ms_models sample_models) = Some model"
    and p: "peers = []" and l: "load_model (load_request model
        (unwrap_or [] (Option.bind (map_of [] ''huggingface_api_token'') as_str)) peers) =
      (Inr answer, Some (load_request model (unwrap_or [] (Option.bind (map_of [] ''huggingface_api_token'') as_str)) peers))"
    by auto
  from m find have "model = ?m" by simp
  with p have "lm_model_id (load_request model t peers) = ''m1'' \<and> lm_peers (load_request model t peers) = []" for t
    by (simp add: load_request_def sample_model_def)
  with ok l show ?thesis by blast
qed

end
