(* ===== verification/Sysinfo.thy ===== *)
theory Sysinfo
  imports Inventory Scheduler IpAddr "HOL-Library.Signed_Division"
begin

section \<open>Hardware inventory (\<open>crates/sysinfo\<close>)\<close>

text \<open>
  What a machine reports about itself: operating system, CPU and memory (\<open>os.rs\<close>), NVIDIA GPUs
  (\<open>gpu.rs\<close>), Apple GPUs (\<open>gpu_metal.rs\<close>), network (\<open>network.rs\<close>), the hardware fingerprint
  (\<open>fingerprint.rs\<close>), all put together by \<open>collect\<close> (\<open>lib.rs\<close>), and the block of text an
  operator reads (\<open>format_human\<close> of \<open>inventory.rs\<close>). The machine is the record \<open>host\<close>: the
  compile-time target, the answers of the \<open>sysinfo\<close>, \<open>mac_address\<close> and NVML libraries, the commands
  it can run and its environment.
  The lemmas: every collected inventory survives the wire and carries a fingerprint, and the
  precisions of a detected GPU are closed downwards, so that negotiation gives the weakest GPU's.
\<close>

subsection \<open>Text\<close>

text \<open>\<open>from_str\<close> of the integer types: an optional sign, digits, and the value in range.\<close>

definition parse_digits :: "string \<Rightarrow> nat option" where
  "parse_digits s = (if s \<noteq> [] \<and> list_all is_digit s then Some (parse_nat s) else None)"

definition parse_unsigned :: "nat \<Rightarrow> string \<Rightarrow> nat option" where
  "parse_unsigned w s =
     option_filter (\<lambda>n. n < 2 ^ w)
       (parse_digits (case s of c # cs \<Rightarrow> if c = CHR ''+'' then cs else s | [] \<Rightarrow> []))"

definition parse_u32 :: "string \<Rightarrow> u32 option" where
  "parse_u32 s = map_option of_nat (parse_unsigned 32 s)"

definition parse_u64 :: "string \<Rightarrow> u64 option" where
  "parse_u64 s = map_option of_nat (parse_unsigned 64 s)"

definition parse_i32 :: "string \<Rightarrow> i32 option" where
  "parse_i32 s =
     (case s of
        c # cs \<Rightarrow>
          if c = CHR ''-'' then map_option (\<lambda>n. word_of_int (- int n)) (option_filter (\<lambda>n. n \<le> 2 ^ 31) (parse_digits cs))
          else map_option of_nat (parse_unsigned 31 s)
      | [] \<Rightarrow> None)"

definition show_int :: "int \<Rightarrow> string" where
  "show_int n = (if n < 0 then ''-'' @ show_nat (nat (- n)) else show_nat (nat n))"

definition show_i32 :: "i32 \<Rightarrow> string" where
  "show_i32 w = show_int (sint w)"

text \<open>\<open>split_whitespace\<close>: the maximal runs of code points that are not white space.\<close>

definition at_space :: "string \<Rightarrow> bool" where
  "at_space s \<longleftrightarrow> list_ex (\<lambda>w. prefix w s) white_space"

fun span_word :: "string \<Rightarrow> string \<times> string" where
  "span_word [] = ([], [])"
| "span_word (c # s) =
     (if at_space (c # s) then ([], c # s) else let (w, rest) = span_word s in (c # w, rest))"

lemma span_word_length: "length (snd (span_word s)) \<le> length s"
  by (induction s) (auto simp: split_def Let_def)

lemma trim_start_length: "length (trim_start s) \<le> length s"
  unfolding trim_start_def by (rule suffix_length_le [OF trim_with_suffix])

lemma trim_start_at_space: "\<not> at_space (trim_start s)"
  using trim_with_no_prefix [of _ white_space s] white_space_nonempty
  by (auto simp: at_space_def trim_start_def list_ex_iff)

function split_whitespace :: "string \<Rightarrow> string list" where
  "split_whitespace s =
     (let t = trim_start s
      in if t = [] then [] else let (w, rest) = span_word t in w # split_whitespace rest)"
  by pat_completeness auto
termination
proof (relation "measure length")
  fix s t w rest and p :: "string \<times> string"
  assume t: "t = trim_start s" "t \<noteq> []" and p: "p = span_word t" "(w, rest) = p"
  obtain c u where u: "t = c # u" using t(2) by (cases t) auto
  have "\<not> at_space t" unfolding t(1) by (rule trim_start_at_space)
  with u p have "rest = snd (span_word u)" by (simp add: split_def Let_def)
  with span_word_length [of u] u have "length rest < length t" by simp
  with trim_start_length [of s] t(1) show "(rest, s) \<in> measure length" by simp
qed simp

declare split_whitespace.simps [simp del]

subsection \<open>The machine\<close>

datatype TargetOs = Linux | Windows | MacOs | OtherOs

text \<open>A command that starts ends with a status (success or not) and a standard output.\<close>

type_synonym exec = "string \<Rightarrow> string list \<Rightarrow> (bool \<times> string) option"

record nvml_device =
  nd_memory_info :: "(u64 \<times> u64) option"
  nd_compute_capability :: "(i32 \<times> i32) option"
  nd_bus_id :: "string option"
  nd_uuid :: "string option"
  nd_name :: "string option"
  nd_vbios_version :: "string option"
  nd_power_limit :: "u32 option"

text \<open>\<open>nd_memory_info\<close> is the total and the free amount.\<close>

record nvml =
  nv_device_count :: "u32 option"
  nv_sys_driver_version :: "string option"
  nv_cuda_driver_version :: "i32 option"
  nv_device_by_index :: "u32 \<Rightarrow> nvml_device option"

text \<open>
  \<open>h_default_hash\<close> is the standard library's \<open>DefaultHasher\<close>, whose algorithm is unspecified,
  applied to the byte strings hashed in turn.
\<close>

record host =
  h_target :: TargetOs
  h_arch :: string
  h_os :: string
  h_env :: "string \<Rightarrow> string option"
  h_exec :: exec
  h_parse_json :: "string \<Rightarrow> string + json"
  h_os_version :: "string option"
  h_kernel_version :: "string option"
  h_host_name :: "string option"
  h_cpu_brands :: "string list"
  h_physical_cores :: "nat option"
  h_total_memory :: u64
  h_available_memory :: u64
  h_mac_address :: "string option"
  h_default_hash :: "string list \<Rightarrow> u64"
  h_local_addr :: "IpAddr option"
  h_nvml :: "nvml option"
  h_pkg_version :: string

subsection \<open>Operating system (\<open>os.rs\<close>)\<close>

definition hostname :: "host \<Rightarrow> string" where
  "hostname h =
     unwrap_or ''unknown-host''
       (option_or (h_host_name h) (option_or (h_env h ''HOSTNAME'') (h_env h ''COMPUTERNAME'')))"

text \<open>The trimmed output of a command that succeeded.\<close>

definition output_of :: "exec \<Rightarrow> string \<Rightarrow> string list \<Rightarrow> string option" where
  "output_of exec prog args =
     (case exec prog args of Some (True, out) \<Rightarrow> Some (trim out) | _ \<Rightarrow> None)"

definition detect_device_name :: "host \<Rightarrow> string" where
  "detect_device_name h =
     (let label = (case h_target h of
                     MacOs \<Rightarrow> output_of (h_exec h) ''scutil'' [''--get'', ''ComputerName'']
                   | Linux \<Rightarrow> output_of (h_exec h) ''hostnamectl'' [''--pretty'']
                   | _ \<Rightarrow> None)
      in unwrap_or (hostname h) (option_filter (\<lambda>s. s \<noteq> []) label))"

definition os_detect :: "host \<Rightarrow> OsInfo" where
  "os_detect h =
     \<lparr>os_family = (case h_target h of Linux \<Rightarrow> ''linux'' | Windows \<Rightarrow> ''windows'' | MacOs \<Rightarrow> ''macos''
                                    | OtherOs \<Rightarrow> ''unknown''),
      os_version = unwrap_or [] (h_os_version h), os_kernel = unwrap_or [] (h_kernel_version h),
      os_arch = h_arch h, os_device_name = detect_device_name h\<rparr>"

definition cpu_mem :: "host \<Rightarrow> CpuMemInfo" where
  "cpu_mem h =
     (let cpu_threads = of_nat (length (h_cpu_brands h))
      in \<lparr>cm_cpu_model = (case h_cpu_brands h of [] \<Rightarrow> [] | b # _ \<Rightarrow> b),
          cm_cpu_cores = unwrap_or cpu_threads (map_option of_nat (h_physical_cores h)),
          cm_cpu_threads = cpu_threads, cm_ram_total_bytes = h_total_memory h,
          cm_ram_free_bytes = h_available_memory h\<rparr>)"

subsection \<open>NVIDIA GPUs (\<open>gpu.rs\<close>)\<close>

definition classify_arch :: "i32 \<Rightarrow> i32 \<Rightarrow> string" where
  "classify_arch major minor =
     (if major = 12 then ''Blackwell''
      else if major = 9 then ''Hopper''
      else if major = 8 \<and> minor = 9 then ''Ada''
      else if major = 8 then ''Ampere''
      else if major = 7 \<and> minor = 5 then ''Turing''
      else if major = 7 then ''Volta''
      else if major = 6 then ''Pascal''
      else ''sm_'' @ show_i32 major @ show_i32 minor)"

text \<open>\<open>as u32\<close> between integers of one width keeps the bits, so \<open>i32\<close> and \<open>u32\<close> share a type here.\<close>

definition build_capability :: "string \<Rightarrow> (i32 \<times> i32) option \<Rightarrow> u64 \<Rightarrow> GpuCapabilityProfile" where
  "build_capability arch cc vram =
     (let major = unwrap_or 0 (map_option (\<lambda>c. fst c :: u32) cc);
          minor = unwrap_or 0 (map_option (\<lambda>c. snd c :: u32) cc)
      in \<lparr>cap_architecture = arch, cap_compute_cap_major = major, cap_compute_cap_minor = minor,
          cap_vram_bytes = vram, cap_mem_bandwidth_gbs = Finite 0,
          supports_fp16 = 6 \<le> major, supports_bf16 = 8 \<le> major,
          supports_fp8 = (major = 8 \<and> 9 \<le> minor \<or> 9 \<le> major), supports_fp4 = 12 \<le> major,
          supports_int8_tc = 7 \<le> major, cap_benchmark = None,
          cap_backend = GpuBackend_as_i32 Cuda, cap_unified_memory = False\<rparr>)"

definition cuda_version_text :: "i32 \<Rightarrow> string" where
  "cuda_version_text v = show_int (sint v sdiv 1000) @ ''.'' @ show_int ((sint v smod 1000) sdiv 10)"

definition nvml_gpu :: "nvml \<Rightarrow> u32 \<Rightarrow> nvml_device \<Rightarrow> GpuInfo" where
  "nvml_gpu nv i dev =
     (let cc_pair = nd_compute_capability dev;
          arch = unwrap_or [] (map_option (\<lambda>(maj, min). classify_arch maj min) cc_pair);
          total = unwrap_or 0 (map_option fst (nd_memory_info dev))
      in \<lparr>g_index = i, g_uuid = unwrap_or [] (nd_uuid dev), g_name = unwrap_or [] (nd_name dev),
          g_architecture = arch, g_compute_cap_major = unwrap_or 0 (map_option fst cc_pair),
          g_compute_cap_minor = unwrap_or 0 (map_option snd cc_pair), vram_total_bytes = total,
          vram_free_bytes = unwrap_or 0 (map_option snd (nd_memory_info dev)),
          g_pci_bus_id = unwrap_or [] (nd_bus_id dev),
          g_driver_version = unwrap_or [] (nv_sys_driver_version nv),
          g_cuda_version = unwrap_or [] (map_option cuda_version_text (nv_cuda_driver_version nv)),
          g_vbios_version = unwrap_or [] (nd_vbios_version dev),
          g_power_limit_w = unwrap_or 0 (nd_power_limit dev) div 1000, g_nvlink_present = False,
          g_capability = Some (build_capability arch cc_pair total), g_backend = GpuBackend_as_i32 Cuda,
          g_unified_memory = False, g_gpu_core_count = 0, g_metal_family = []\<rparr>)"

definition nvml_detect :: "nvml option \<Rightarrow> GpuInfo list" where
  "nvml_detect init =
     (case init of
        None \<Rightarrow> []
      | Some nv \<Rightarrow>
          List.map_filter (\<lambda>i. map_option (nvml_gpu nv (of_nat i)) (nv_device_by_index nv (of_nat i)))
            [0 ..< unat (unwrap_or 0 (nv_device_count nv))])"

subsection \<open>Apple GPUs (\<open>gpu_metal.rs\<close>)\<close>

record AppleFamily =
  af_generation :: u32
  af_variant :: string

definition AppleFamily_generic :: "string \<Rightarrow> AppleFamily" where
  "AppleFamily_generic label = \<lparr>af_generation = 0, af_variant = []\<rparr>"

definition arch_string :: "AppleFamily \<Rightarrow> string" where
  "arch_string f =
     (if af_variant f = [] then ''Apple-M'' @ show_u32 (af_generation f)
      else ''Apple-M'' @ show_u32 (af_generation f) @ ''-'' @ af_variant f)"

text \<open>A table of the code: the row of a generation holds the plain, Pro, Max and Ultra values.\<close>

definition family_table :: "(nat \<times> 'a list) list \<Rightarrow> 'a \<Rightarrow> AppleFamily \<Rightarrow> 'a" where
  "family_table rows d f =
     (case map_of rows (unat (af_generation f)) of
        None \<Rightarrow> d
      | Some vs \<Rightarrow> unwrap_or d (map_of (zip [[], ''Pro'', ''Max'', ''Ultra''] vs) (af_variant f)))"

definition default_cores :: "AppleFamily \<Rightarrow> u32" where
  "default_cores =
     family_table
       [(1, [8, 16, 32, 64]), (2, [10, 19, 38, 76]), (3, [10, 18, 40, 80]), (4, [10, 20, 40, 80]),
        (5, [10, 20, 40, 80])] 8"

definition estimated_bandwidth_gbs :: "AppleFamily \<Rightarrow> u32 \<Rightarrow> fp" where
  "estimated_bandwidth_gbs f cores =
     Finite (family_table
       [(1, [68, 200, 400, 800]), (2, [100, 200, 400, 800]), (3, [100, 150, 300, 800]),
        (4, [120, 273, 546, 1092]), (5, [153, 307, 614, 1228])] 100 f)"

definition parse_family :: "string \<Rightarrow> AppleFamily option" where
  "parse_family name = do {
     rest \<leftarrow> strip_prefix ''Apple M'' name;
     case split_whitespace rest of
       [] \<Rightarrow> None
     | gen_str # parts \<Rightarrow> do {
         generation \<leftarrow> parse_u32 gen_str;
         Some \<lparr>af_generation = generation,
               af_variant = (case parts of
                               v # _ \<Rightarrow> if v \<in> {''Pro'', ''Max'', ''Ultra''} then v else []
                             | [] \<Rightarrow> [])\<rparr> } }"

definition sysctl_u64 :: "exec \<Rightarrow> string \<Rightarrow> u64 option" where
  "sysctl_u64 exec key = Option.bind (output_of exec ''sysctl'' [''-n'', key]) parse_u64"

definition is_apple_silicon :: "exec \<Rightarrow> bool" where
  "is_apple_silicon exec \<longleftrightarrow> unwrap_or 0 (sysctl_u64 exec ''hw.optional.arm64'') = 1"

text \<open>\<open>system_profiler\<close>'s output is parsed as it is, without trimming.\<close>

definition run_system_profiler :: "exec \<Rightarrow> string option" where
  "run_system_profiler exec =
     (case exec ''system_profiler'' [''-json'', ''SPDisplaysDataType''] of
        Some (True, out) \<Rightarrow> Some out | _ \<Rightarrow> None)"

record SpDisplay =
  sp_name :: "string option"
  sp_cores :: "string option"

definition de_display :: "json \<Rightarrow> SpDisplay option" where
  "de_display j = do {
     m \<leftarrow> (case j of JObj m \<Rightarrow> Some (map_of m)
                    | JArr vs \<Rightarrow> if length vs = 2 then Some (map_of (zip [''_name'', ''sppci_cores''] vs)) else None
                    | _ \<Rightarrow> None);
     name \<leftarrow> de_field None (de_option as_str) m ''_name'';
     cores \<leftarrow> de_field None (de_option as_str) m ''sppci_cores'';
     Some \<lparr>sp_name = name, sp_cores = cores\<rparr>
   }"

definition de_report :: "json \<Rightarrow> SpDisplay list option" where
  "de_report j = do {
     m \<leftarrow> struct_fields [''SPDisplaysDataType''] j;
     displays \<leftarrow> m ''SPDisplaysDataType'';
     de_vec de_display displays
   }"

definition metal_family :: "AppleFamily \<Rightarrow> string" where
  "metal_family f =
     (if af_generation f \<in> {1, 2} then ''Metal3''
      else if af_generation f \<in> {3, 4, 5} then ''Metal4'' else ''Metal'')"

definition metal_gpu :: "u64 \<Rightarrow> string \<Rightarrow> string \<Rightarrow> nat \<Rightarrow> SpDisplay \<Rightarrow> GpuInfo option" where
  "metal_gpu total_ram chip_brand os_build i dev =
     (let name = unwrap_or [] (sp_name dev)
      in if \<not> starts_with name ''Apple M'' then None
         else
           let family = unwrap_or (AppleFamily_generic name) (parse_family name);
               cores = unwrap_or (default_cores family) (Option.bind (sp_cores dev) parse_u32);
               cap = \<lparr>cap_architecture = arch_string family, cap_compute_cap_major = 0,
                      cap_compute_cap_minor = 0, cap_vram_bytes = total_ram,
                      cap_mem_bandwidth_gbs = estimated_bandwidth_gbs family cores, supports_fp16 = True,
                      supports_bf16 = 3 \<le> af_generation family, supports_fp8 = False, supports_fp4 = False,
                      supports_int8_tc = True, cap_benchmark = None, cap_backend = GpuBackend_as_i32 Metal,
                      cap_unified_memory = True\<rparr>
           in Some \<lparr>g_index = of_nat i,
                    g_uuid = ''metal-'' @ map (\<lambda>c. if c = CHR '' '' then CHR ''-'' else c) chip_brand,
                    g_name = name, g_architecture = arch_string family, g_compute_cap_major = 0,
                    g_compute_cap_minor = 0, vram_total_bytes = total_ram, vram_free_bytes = total_ram,
                    g_pci_bus_id = [], g_driver_version = os_build, g_cuda_version = [], g_vbios_version = [],
                    g_power_limit_w = 0, g_nvlink_present = False, g_capability = Some cap,
                    g_backend = GpuBackend_as_i32 Metal, g_unified_memory = True, g_gpu_core_count = cores,
                    g_metal_family = metal_family family\<rparr>)"

definition metal_detect :: "exec \<Rightarrow> (string \<Rightarrow> string + json) \<Rightarrow> GpuInfo list" where
  "metal_detect exec parse_json =
     (if \<not> is_apple_silicon exec then []
      else (case run_system_profiler exec of
              None \<Rightarrow> []
            | Some raw \<Rightarrow>
                (case parse_json raw of
                   Inl e \<Rightarrow> []
                 | Inr j \<Rightarrow>
                     (case de_report j of
                        None \<Rightarrow> []
                      | Some displays \<Rightarrow>
                          let total_ram = unwrap_or 0 (sysctl_u64 exec ''hw.memsize'');
                              chip_brand = unwrap_or [] (output_of exec ''sysctl'' [''-n'', ''machdep.cpu.brand_string'']);
                              os_build = unwrap_or [] (output_of exec ''sysctl'' [''-n'', ''kern.osversion''])
                          in List.map_filter (\<lambda>(i, dev). metal_gpu total_ram chip_brand os_build i dev)
                               (List.enumerate 0 displays)))))"

definition gpu_detect :: "host \<Rightarrow> GpuInfo list" where
  "gpu_detect h =
     (case h_target h of
        Linux \<Rightarrow> nvml_detect (h_nvml h)
      | Windows \<Rightarrow> nvml_detect (h_nvml h)
      | MacOs \<Rightarrow> metal_detect (h_exec h) (h_parse_json h)
      | OtherOs \<Rightarrow> [])"

subsection \<open>Network (\<open>network.rs\<close>) and fingerprint (\<open>fingerprint.rs\<close>)\<close>

definition network_detect :: "host \<Rightarrow> NetworkInfo" where
  "network_detect h =
     \<lparr>net_public_ip_v4 = [], net_public_ip_v6 = [], net_asn = [], net_isp = [], net_country_code = [],
      net_city = [], net_public_ip_is_dynamic = False, net_public_ip_changed_at = 0,
      net_local_ips = (case h_local_addr h of Some a \<Rightarrow> [show_ip a] | None \<Rightarrow> []),
      net_primary_iface = [], net_link_speed_mbps = 0, net_wg_ip = [], net_wg_pubkey_sha = [],
      net_wg_listen_port = 0, net_rtt_to_gateway_ms = 0\<rparr>"

definition pad_left :: "nat \<Rightarrow> char \<Rightarrow> string \<Rightarrow> string" where
  "pad_left n c s = replicate (n - length s) c @ s"

definition compute :: "host \<Rightarrow> string" where
  "compute h =
     (let v = h_default_hash h ((case h_mac_address h of Some mac \<Rightarrow> [mac] | None \<Rightarrow> []) @ [h_arch h, h_os h])
      in ''hwfp-'' @ pad_left 16 (CHR ''0'') (show_hex (unat v)))"

subsection \<open>\<open>collect\<close> (\<open>lib.rs\<close>)\<close>

definition collect :: "host \<Rightarrow> NodeInfo" where
  "collect h =
     \<lparr>n_node_id = [], n_hostname = hostname h, n_display_name = [], n_hw_fingerprint = compute h,
      n_owner_user_id = [], n_tags = [], n_os = Some (os_detect h), n_gpus = gpu_detect h,
      n_network = Some (network_detect h), n_cpu_mem = Some (cpu_mem h), n_geo = None,
      n_status = NodeStatus_as_i32 Online, n_first_seen = 0, n_last_heartbeat = 0,
      n_agent_version = h_pkg_version h, n_client_cert_sha = []\<rparr>"

subsection \<open>The block an operator reads (\<open>format_human\<close> of \<open>inventory.rs\<close>)\<close>

text \<open>\<open>{:.2}\<close> of a float: its exact value rounded to two decimals, ties to even.\<close>

definition show_fixed2 :: "rat \<Rightarrow> string" where
  "show_fixed2 x =
     (let n = nat (round_even (100 * x))
      in show_nat (n div 100) @ ''.'' @ pad_left 2 (CHR ''0'') (show_nat (n mod 100)))"

definition in_unit :: "u64 \<Rightarrow> nat \<Rightarrow> rat" where
  "in_unit b k = f64_round (f64_round (of_nat (unat b)) / f64_round (1024 ^ k))"

definition human_bytes :: "u64 \<Rightarrow> string" where
  "human_bytes b =
     (if 1024 ^ 4 \<le> unat b then show_fixed2 (in_unit b 4) @ '' TB''
      else if 1024 ^ 3 \<le> unat b then show_fixed2 (in_unit b 3) @ '' GB''
      else if 1024 ^ 2 \<le> unat b then show_fixed2 (in_unit b 2) @ '' MB''
      else if 1024 \<le> unat b then show_fixed2 (in_unit b 1) @ '' KB''
      else show_nat (unat b) @ '' B'')"

definition text_line :: "string \<Rightarrow> string" where
  "text_line s = s @ [CHR 0x0A]"

definition unless_empty :: "string \<Rightarrow> string \<Rightarrow> string" where
  "unless_empty v s = (if v = [] then [] else s)"

definition human_host :: "NodeInfo \<Rightarrow> string" where
  "human_host info =
     text_line ''== Host ==''
     @ (case n_os info of
          Some os \<Rightarrow>
            text_line (''  device:        '' @ (if os_device_name os = [] then n_hostname info else os_device_name os))
            @ text_line (''  hostname:      '' @ n_hostname info)
            @ text_line (''  os:            '' @ os_family os @ '' '' @ os_version os)
            @ unless_empty (os_kernel os) (text_line (''  kernel:        '' @ os_kernel os))
            @ text_line (''  arch:          '' @ os_arch os)
        | None \<Rightarrow> text_line (''  hostname:      '' @ n_hostname info))
     @ unless_empty (n_hw_fingerprint info) (text_line (''  fingerprint:   '' @ n_hw_fingerprint info))
     @ text_line (''  agent:         v'' @ n_agent_version info)"

definition human_cpu :: "CpuMemInfo \<Rightarrow> string" where
  "human_cpu cm =
     text_line ''== CPU / RAM ==''
     @ text_line (''  cpu:           '' @ cm_cpu_model cm @ '' ('' @ show_u32 (cm_cpu_cores cm) @ ''c / ''
           @ show_u32 (cm_cpu_threads cm) @ ''t)'')
     @ text_line (''  ram:           '' @ human_bytes (cm_ram_total_bytes cm) @ '' (free ''
           @ human_bytes (cm_ram_free_bytes cm) @ '')'')"

definition precisions :: "GpuCapabilityProfile \<Rightarrow> string list" where
  "precisions c =
     (if supports_fp16 c then [''FP16''] else []) @ (if supports_bf16 c then [''BF16''] else [])
     @ (if supports_fp8 c then [''FP8''] else []) @ (if supports_fp4 c then [''FP4''] else [])
     @ (if supports_int8_tc c then [''INT8-TC''] else [])"

definition human_gpu :: "GpuInfo \<Rightarrow> string" where
  "human_gpu g =
     (let arch_disp =
            (if 0 < g_compute_cap_major g \<or> 0 < g_compute_cap_minor g
             then g_architecture g @ '' (sm_'' @ show_u32 (g_compute_cap_major g) @ show_u32 (g_compute_cap_minor g) @ '')''
             else g_architecture g)
      in text_line (''  ['' @ show_u32 (g_index g) @ ''] '' @ g_name g)
         @ text_line (''       backend:    '' @ backend_label (g_backend g))
         @ text_line (''       arch:       '' @ arch_disp)
         @ (if g_unified_memory g then text_line (''       memory:     '' @ human_bytes (vram_total_bytes g) @ '' (unified)'')
            else text_line (''       vram:       '' @ human_bytes (vram_total_bytes g) @ '' (free ''
                     @ human_bytes (vram_free_bytes g) @ '')''))
         @ (if 0 < g_gpu_core_count g then text_line (''       cores:      '' @ show_u32 (g_gpu_core_count g) @ '' GPU cores'') else [])
         @ unless_empty (g_driver_version g) (text_line (''       driver:     '' @ g_driver_version g))
         @ unless_empty (g_cuda_version g) (text_line (''       cuda:       '' @ g_cuda_version g))
         @ unless_empty (g_metal_family g) (text_line (''       metal:      '' @ g_metal_family g))
         @ (case g_capability g of
              Some c \<Rightarrow>
                if precisions c = [] then []
                else text_line (''       precision:  '' @ join ('' '' @ [CHR 0xC2, CHR 0xB7] @ '' '') (precisions c))
            | None \<Rightarrow> []))"

definition human_network :: "NetworkInfo \<Rightarrow> string" where
  "human_network net =
     text_line ''== Network ==''
     @ unless_empty (net_public_ip_v4 net) (text_line (''  public-v4:     '' @ net_public_ip_v4 net))
     @ (if net_local_ips net = [] then [] else text_line (''  local:         '' @ join '', '' (net_local_ips net)))
     @ unless_empty (net_wg_ip net)
         (text_line (''  wg:            '' @ net_wg_ip net @ '' (rtt-gw '' @ show_u32 (net_rtt_to_gateway_ms net) @ '' ms)''))"

definition format_human :: "NodeInfo \<Rightarrow> string" where
  "format_human info =
     human_host info
     @ (case n_cpu_mem info of Some cm \<Rightarrow> human_cpu cm | None \<Rightarrow> [])
     @ text_line (''== GPUs ('' @ show_nat (length (n_gpus info)) @ '') =='')
     @ (if n_gpus info = []
        then text_line (''  (none '' @ [CHR 0xE2, CHR 0x80, CHR 0x94] @ '' node will enroll but stay inference-ineligible)'')
        else concat (map human_gpu (n_gpus info)))
     @ (case n_network info of Some net \<Rightarrow> human_network net | None \<Rightarrow> [])"

subsection \<open>Lemmas\<close>

text \<open>What an operator reads leaves out fields the wire form has.\<close>

lemma format_human_omits:
  "format_human (info \<lparr>n_node_id := i, n_display_name := d, n_tags := t, n_status := st\<rparr>) = format_human info"
  by (simp add: format_human_def human_host_def split: option.split)

text \<open>\<open>parse\<close> reads back what \<open>Display\<close> writes.\<close>

lemma digit_not_sign: "is_digit c \<Longrightarrow> c \<noteq> CHR ''+'' \<and> c \<noteq> CHR ''-''"
  by (auto simp: is_digit_def)

lemma parse_digits_show [simp]: "parse_digits (show_nat n) = Some n"
  by (simp add: parse_digits_def show_nat_digits)

lemma parse_unsigned_show: "n < 2 ^ w \<Longrightarrow> parse_unsigned w (show_nat n) = Some n"
proof -
  assume n: "n < 2 ^ w"
  obtain c cs where c: "show_nat n = c # cs" by (cases "show_nat n") auto
  have "is_digit c" using show_nat_digits [of n] c by simp
  with c have "(case show_nat n of [] \<Rightarrow> [] | c # cs \<Rightarrow> if c = CHR ''+'' then cs else show_nat n) = show_nat n"
    using digit_not_sign by simp
  with n show ?thesis unfolding parse_unsigned_def by simp
qed

lemma parse_u32_show [simp]: "parse_u32 (show_u32 w) = Some w"
proof -
  have "unat w < 2 ^ 32" using unsigned_less [of w] by simp
  from parse_unsigned_show [OF this] show ?thesis by (simp add: parse_u32_def show_u32_def)
qed

text \<open>White space neither starts nor continues inside printable ASCII.\<close>

lemma at_space_graph: "is_graph c \<Longrightarrow> \<not> at_space (c # s)"
  using white_space_not_graph white_space_nonempty
  by (auto simp: at_space_def list_ex_iff dest!: hd_in_prefix)

lemma span_word_graph: "list_all is_graph w \<Longrightarrow> span_word (w @ s) = (let (v, r) = span_word s in (w @ v, r))"
  by (induction w) (auto simp: at_space_graph split_def Let_def)

lemma byte_eq_iff: "byte n = c \<longleftrightarrow> n mod 256 = of_char c"
  using char_of_eq_iff [of n c] by (simp add: byte_def take_bit_eq_mod)

lemma blank_white_space: "[CHR '' ''] \<in> set white_space"
  by (simp add: white_space_def byte_eq_iff eq_commute [of "CHR '' ''"])

lemma at_blank [simp]: "at_space (CHR '' '' # s)"
  unfolding at_space_def list_ex_iff by (rule bexI [OF _ blank_white_space]) simp

lemma white_space_blank: "w \<in> set white_space \<Longrightarrow> hd w = CHR '' '' \<Longrightarrow> w = [CHR '' '']"
  by (auto simp: white_space_def byte_eq_iff)

lemma trim_start_graph: "s \<noteq> [] \<Longrightarrow> is_graph (hd s) \<Longrightarrow> trim_start s = s"
  using at_space_graph [of "hd s" "tl s"] white_space_nonempty unfolding trim_start_def
  by (intro trim_with_id) (auto simp: at_space_def list_ex_iff)

lemma trim_start_space: "s \<noteq> [] \<Longrightarrow> is_graph (hd s) \<Longrightarrow> trim_start (CHR '' '' # s) = s"
proof -
  assume s: "s \<noteq> []" "is_graph (hd s)"
  obtain w where w: "find (\<lambda>w. w \<noteq> [] \<and> prefix w (CHR '' '' # s)) white_space = Some w"
    using blank_white_space find_None_all [of "\<lambda>w. w \<noteq> [] \<and> prefix w (CHR '' '' # s)" white_space]
    by (cases "find (\<lambda>w. w \<noteq> [] \<and> prefix w (CHR '' '' # s)) white_space") (auto dest!: bspec [OF _ blank_white_space])
  from find_Some_D [OF w] have "w = [CHR '' '']" using white_space_blank [of w] by (cases w) auto
  with w have "trim_start (CHR '' '' # s) = trim_start s"
    by (simp add: trim_start_def trim_with.simps [of _ "CHR '' '' # s"])
  with trim_start_graph [OF s] show ?thesis by simp
qed

lemma split_whitespace_Nil [simp]: "split_whitespace [] = []"
  by (simp add: split_whitespace.simps [of "[]"] trim_start_def trim_with_id white_space_nonempty)

lemma split_whitespace_word: "w \<noteq> [] \<Longrightarrow> list_all is_graph w \<Longrightarrow> split_whitespace w = [w]"
  using span_word_graph [of w "[]"] trim_start_graph [of w]
  by (cases w) (simp_all add: split_whitespace.simps [of "w"] split_whitespace.simps [of "_ # _"])

lemma split_whitespace_two:
  assumes "v \<noteq> []" "list_all is_graph v" "w \<noteq> []" "list_all is_graph w"
  shows "split_whitespace (v @ CHR '' '' # w) = [v, w]"
proof -
  have h: "is_graph (hd v)" "is_graph (hd w)" using assms by (cases v; cases w; simp)+
  have "trim_start (v @ CHR '' '' # w) = v @ CHR '' '' # w" using assms(1) h(1) by (intro trim_start_graph) auto
  then have "split_whitespace (v @ CHR '' '' # w) = v # split_whitespace (CHR '' '' # w)"
    using assms(1) span_word_graph [OF assms(2), of "CHR '' '' # w"]
    by (simp add: split_whitespace.simps [of "v @ _"])
  also have "split_whitespace (CHR '' '' # w) = split_whitespace w"
    using trim_start_space [OF assms(3) h(2)] trim_start_graph [OF assms(3) h(2)]
    by (simp add: split_whitespace.simps [of "CHR '' '' # w"] split_whitespace.simps [of w])
  also have "split_whitespace w = [w]" by (rule split_whitespace_word [OF assms(3,4)])
  finally show ?thesis .
qed

lemma digits_graph: "list_all is_digit s \<Longrightarrow> list_all is_graph s"
  by (induction s) (auto simp: is_digit_def is_graph_def)

text \<open>A marketing name is read back into the generation and the variant it was made of.\<close>

lemma parse_family_name:
  assumes "v \<in> {[], ''Pro'', ''Max'', ''Ultra''}"
  shows "parse_family (''Apple M'' @ show_u32 gen @ (if v = [] then [] else '' '' @ v)) =
    Some \<lparr>af_generation = gen, af_variant = v\<rparr>"
proof -
  have g: "list_all is_graph (show_u32 gen)" "show_u32 gen \<noteq> []"
    by (simp_all add: show_u32_def digits_graph show_nat_digits)
  have "split_whitespace (show_u32 gen @ (if v = [] then [] else '' '' @ v)) =
      show_u32 gen # (if v = [] then [] else [v])"
    using split_whitespace_word [OF g(2,1)] split_whitespace_two [OF g(2,1), of v] assms
    by (auto simp: is_graph_def)
  then show ?thesis using assms unfolding parse_family_def strip_prefix_append by auto
qed

subsubsection \<open>The detected GPUs\<close>

text \<open>Where a detected GPU comes from.\<close>

lemma gpu_detect_cases:
  assumes "g \<in> set (gpu_detect h)"
  obtains (nvml) nv i dev where "g = nvml_gpu nv i dev"
  | (metal) ram brand build i dev where "metal_gpu ram brand build i dev = Some g"
  using assms
  by (auto simp: gpu_detect_def nvml_detect_def metal_detect_def Let_def List.map_filter_def
      split: TargetOs.splits option.splits sum.splits if_splits)

lemma is_f32_int: "\<bar>n\<bar> < 2 ^ 24 \<Longrightarrow> is_f32 (of_int n)"
proof -
  assume n: "\<bar>n\<bar> < 2 ^ 24"
  have "\<bar>of_int n :: rat\<bar> = of_int \<bar>n\<bar>" by simp
  also have "\<dots> < of_int (2 ^ 24)" using n by (simp only: of_int_less_iff)
  also have "\<dots> < 2 ^ 128" by simp
  finally have "\<bar>of_int n :: rat\<bar> < 2 ^ 128" .
  moreover have "(of_int n :: rat) = of_int n * 2 powi 0" by simp
  ultimately show ?thesis unfolding is_f32_def using n by (intro conjI exI [of _ n] exI [of _ 0]) simp_all
qed

lemma family_table_in: "family_table rows d f \<in> insert d (\<Union>(_, vs) \<in> set rows. set vs)"
proof (cases "map_of rows (unat (af_generation f))")
  case (Some vs)
  show ?thesis
  proof (cases "map_of (zip [[], ''Pro'', ''Max'', ''Ultra''] vs) (af_variant f)")
    case (Some v)
    then have "v \<in> set vs" by (blast dest: map_of_SomeD set_zip_rightD)
    with Some \<open>map_of rows _ = _\<close> show ?thesis by (force simp: family_table_def dest: map_of_SomeD)
  qed (simp add: family_table_def Some)
qed (simp add: family_table_def)

lemma bandwidth_f32: "\<exists>x. estimated_bandwidth_gbs f cores = Finite x \<and> is_f32 x"
proof -
  let ?t = "family_table [(1, [68, 200, 400, 800]), (2, [100, 200, 400, 800]), (3, [100, 150, 300, 800]),
        (4, [120, 273, 546, 1092]), (5, [153, 307, 614, 1228])] 100 f :: rat"
  have "\<exists>n. ?t = of_int n \<and> \<bar>n\<bar> < 2 ^ 24"
    using family_table_in [of "[(1, [68, 200, 400, 800]), (2, [100, 200, 400, 800]), (3, [100, 150, 300, 800]),
        (4, [120, 273, 546, 1092]), (5, [153, 307, 614, 1228])]" "100 :: rat" f]
    by (auto intro: exI [of _ "numeral n" for n])
  then show ?thesis unfolding estimated_bandwidth_gbs_def using is_f32_int by fastforce
qed

text \<open>Every collected inventory survives the wire.\<close>

lemma detected_wire:
  assumes "g \<in> set (gpu_detect h)" and "g_capability g = Some c"
  shows "wire_cap c"
  using assms(1)
proof (cases rule: gpu_detect_cases)
  case (nvml nv i dev)
  with assms(2) have "cap_mem_bandwidth_gbs c = Finite (of_int 0)"
    by (auto simp: nvml_gpu_def build_capability_def Let_def)
  with is_f32_int [of 0] show ?thesis by (simp add: wire_cap_def)
next
  case (metal ram brand build i dev)
  with assms(2) obtain f cores where "cap_mem_bandwidth_gbs c = estimated_bandwidth_gbs f cores"
    by (auto simp: metal_gpu_def Let_def split: if_splits)
  with bandwidth_f32 [of f cores] show ?thesis by (simp add: wire_cap_def)
qed

lemma collected_wire: "n_gpus info = gpu_detect h \<Longrightarrow> wire_info info"
  by (auto simp: wire_info_def intro: detected_wire)

text \<open>The precisions of a detected GPU are closed downwards.\<close>

definition precision_chain :: "GpuCapabilityProfile \<Rightarrow> bool" where
  "precision_chain c \<longleftrightarrow>
     (supports_fp4 c \<longrightarrow> supports_fp8 c) \<and> (supports_fp8 c \<longrightarrow> supports_bf16 c) \<and>
     (supports_bf16 c \<longrightarrow> supports_fp16 c)"

lemma precision_chain_mono:
  "precision_chain c \<Longrightarrow> supported_by p c \<Longrightarrow> aggressiveness q \<le> aggressiveness p \<Longrightarrow> supported_by q c"
  by (cases p; cases q) (auto simp: precision_chain_def)

lemma build_capability_chain: "precision_chain (build_capability arch cc vram)"
  by (auto simp: build_capability_def precision_chain_def Let_def word_le_nat_alt)

lemma nvml_gpu_capability:
  "g_capability (nvml_gpu nv i dev) =
     Some (build_capability (unwrap_or [] (map_option (\<lambda>(maj, min). classify_arch maj min) (nd_compute_capability dev)))
       (nd_compute_capability dev) (unwrap_or 0 (map_option fst (nd_memory_info dev))))"
  by (simp add: nvml_gpu_def Let_def)

lemma detected_chain:
  assumes "g \<in> set (gpu_detect h)"
  shows "\<exists>c. g_capability g = Some c \<and> precision_chain c"
  using assms
proof (cases rule: gpu_detect_cases)
  case (nvml nv i dev)
  then show ?thesis using build_capability_chain by (auto simp: nvml_gpu_def Let_def)
next
  case (metal ram brand build i dev)
  then show ?thesis by (auto simp: metal_gpu_def Let_def precision_chain_def split: if_splits)
qed

lemma detected_supports_mono:
  assumes "g \<in> set (gpu_detect h)" and "gpu_supports p g" and "aggressiveness q \<le> aggressiveness p"
  shows "gpu_supports q g"
  using detected_chain [OF assms(1)] precision_chain_mono [OF _ _ assms(3)] assms(2)
  by (auto simp: gpu_supports_def)

lemma cluster_gcd_supported: "cluster_gcd gpus = Fp16 \<or> list_all (gpu_supports (cluster_gcd gpus)) gpus"
  by (auto simp: cluster_gcd_def)

lemma aggressiveness_inj: "aggressiveness p = aggressiveness q \<Longrightarrow> p = q"
  by (cases p; cases q) simp_all

lemma gcd_le_each:
  assumes "g \<in> set gpus"
  shows "aggressiveness (cluster_gcd gpus) \<le> aggressiveness (cluster_gcd [g])"
proof -
  consider "cluster_gcd gpus = Fp16" | "list_all (gpu_supports (cluster_gcd gpus)) gpus"
    using cluster_gcd_supported by blast
  then show ?thesis
  proof cases
    case 2
    with assms have "list_all (gpu_supports (cluster_gcd gpus)) [g]" by (simp add: list_all_iff)
    then show ?thesis by (blast dest: cluster_gcd_best)
  qed simp
qed

text \<open>Where precisions are closed downwards, the GPU with the weakest best precision decides.\<close>

lemma gcd_attained:
  assumes "\<And>g p q. g \<in> set gpus \<Longrightarrow> gpu_supports p g \<Longrightarrow> aggressiveness q \<le> aggressiveness p \<Longrightarrow> gpu_supports q g"
    and "gpus \<noteq> []"
  shows "\<exists>g \<in> set gpus. cluster_gcd [g] = cluster_gcd gpus"
proof (rule ccontr)
  assume none: "\<not> ?thesis"
  let ?best = "\<lambda>g. aggressiveness (cluster_gcd [g])"
  have less: "aggressiveness (cluster_gcd gpus) < ?best g" if "g \<in> set gpus" for g
  proof -
    have "cluster_gcd [g] \<noteq> cluster_gcd gpus" using none that by blast
    then have "?best g \<noteq> aggressiveness (cluster_gcd gpus)" by (blast dest: aggressiveness_inj)
    with gcd_le_each [OF that] show ?thesis by simp
  qed
  obtain g0 where g0: "g0 \<in> set gpus" "\<And>g. g \<in> set gpus \<Longrightarrow> ?best g0 \<le> ?best g"
    using ex_min_if_finite [of "?best ` set gpus"] assms(2) by (force simp: not_less)
  have "gpu_supports (cluster_gcd [g0]) g" if "g \<in> set gpus" for g
  proof -
    have "cluster_gcd [g] \<noteq> Fp16" using less [OF that] by auto
    then have "gpu_supports (cluster_gcd [g]) g" using cluster_gcd_supported [of "[g]"] by simp
    with assms(1) [OF that] g0(2) [OF that] show ?thesis by blast
  qed
  then have "list_all (gpu_supports (cluster_gcd [g0])) gpus" by (simp add: list_all_iff)
  from cluster_gcd_best [OF this] less [OF g0(1)] show False by simp
qed

subsection \<open>Properties\<close>

text \<open>
  C31. Precision negotiation among GPUs as the machines report them gives the precision of the weakest
  one: no GPU alone would get a less aggressive precision, and one of them would get this very one.
  So a cluster of detected GPUs never negotiates a precision some member lacks, unless a member has
  none at all.
\<close>

theorem detected_gcd_weakest:
  assumes "\<forall>g \<in> set gpus. \<exists>h. g \<in> set (gpu_detect h)" and "gpus \<noteq> []"
  shows "(\<forall>g \<in> set gpus. aggressiveness (cluster_gcd gpus) \<le> aggressiveness (cluster_gcd [g])) \<and>
    (\<exists>g \<in> set gpus. cluster_gcd [g] = cluster_gcd gpus) \<and>
    ((\<forall>g \<in> set gpus. gpu_supports Fp16 g) \<longrightarrow> list_all (gpu_supports (cluster_gcd gpus)) gpus)"
proof (intro conjI)
  show "\<forall>g \<in> set gpus. aggressiveness (cluster_gcd gpus) \<le> aggressiveness (cluster_gcd [g])"
    using gcd_le_each by blast
  show "\<exists>g \<in> set gpus. cluster_gcd [g] = cluster_gcd gpus"
    using assms detected_supports_mono by (intro gcd_attained) blast+
  show "(\<forall>g \<in> set gpus. gpu_supports Fp16 g) \<longrightarrow> list_all (gpu_supports (cluster_gcd gpus)) gpus"
    using cluster_gcd_best [of Fp16 gpus] by (simp add: list_all_iff)
qed

text \<open>A Linux machine with two devices, an Ada card and a Volta card.\<close>

definition sample_device :: "i32 \<Rightarrow> i32 \<Rightarrow> nvml_device" where
  "sample_device major minor =
     \<lparr>nd_memory_info = Some (100, 90), nd_compute_capability = Some (major, minor), nd_bus_id = None,
      nd_uuid = Some ''GPU-1'', nd_name = Some ''RTX'', nd_vbios_version = None, nd_power_limit = Some 450000\<rparr>"

definition sample_host :: host where
  "sample_host =
     \<lparr>h_target = Linux, h_arch = ''x86_64'', h_os = ''linux'', h_env = (\<lambda>_. None), h_exec = (\<lambda>_ _. None),
      h_parse_json = (\<lambda>_. Inl []), h_os_version = None, h_kernel_version = None, h_host_name = Some ''gpu1'',
      h_cpu_brands = [''cpu''], h_physical_cores = None, h_total_memory = 0, h_available_memory = 0,
      h_mac_address = None, h_default_hash = (\<lambda>_. 7), h_local_addr = Some (V4 [10, 0, 0, 7]),
      h_nvml = Some \<lparr>nv_device_count = Some 2, nv_sys_driver_version = Some ''555.1'',
                     nv_cuda_driver_version = Some 12080,
                     nv_device_by_index = (\<lambda>i. if i = 0 then Some (sample_device 8 9)
                                               else if i = 1 then Some (sample_device 7 0) else None)\<rparr>,
      h_pkg_version = ''0.1.0''\<rparr>"

definition sample_nvml :: nvml where
  "sample_nvml = the (h_nvml sample_host)"

lemma sample_detected:
  "gpu_detect sample_host = [nvml_gpu sample_nvml 0 (sample_device 8 9), nvml_gpu sample_nvml 1 (sample_device 7 0)]"
proof -
  have "unat (2 :: u32) = Suc (Suc 0)" by simp
  then have "[0 ..< unat (2 :: u32)] = [0, 1]" by (simp only: upt_Suc) simp
  moreover have "h_nvml sample_host = Some sample_nvml" "nv_device_count sample_nvml = Some 2"
    "nv_device_by_index sample_nvml 0 = Some (sample_device 8 9)" "nv_device_by_index sample_nvml 1 = Some (sample_device 7 0)"
    by (simp_all add: sample_host_def sample_nvml_def)
  ultimately show ?thesis by (simp add: gpu_detect_def sample_host_def nvml_detect_def List.map_filter_def)
qed

lemma sample_supports:
  "gpu_supports p (nvml_gpu sample_nvml 0 (sample_device 8 9)) = (p \<noteq> Fp4)"
  "gpu_supports p (nvml_gpu sample_nvml 1 (sample_device 7 0)) = (p = Fp16)"
  by (cases p; simp add: gpu_supports_def nvml_gpu_capability sample_device_def build_capability_def)+

theorem detected_gcd_weakest_witness:
  "cluster_gcd [nvml_gpu sample_nvml 0 (sample_device 8 9)] = Fp8 \<and>
   cluster_gcd (gpu_detect sample_host) = Fp16 \<and>
   list_all (gpu_supports (cluster_gcd (gpu_detect sample_host))) (gpu_detect sample_host)"
proof -
  have "\<forall>g \<in> set (gpu_detect sample_host). \<exists>h. g \<in> set (gpu_detect h)" by blast
  moreover have "gpu_detect sample_host \<noteq> []" by (simp add: sample_detected)
  moreover have "\<forall>g \<in> set (gpu_detect sample_host). gpu_supports Fp16 g"
    by (simp add: sample_detected sample_supports)
  ultimately have "list_all (gpu_supports (cluster_gcd (gpu_detect sample_host))) (gpu_detect sample_host)"
    using detected_gcd_weakest by blast
  moreover have "cluster_gcd (gpu_detect sample_host) = Fp16"
    by (simp add: sample_detected sample_supports cluster_gcd_def)
  moreover have "cluster_gcd [nvml_gpu sample_nvml 0 (sample_device 8 9)] = Fp8"
    by (simp add: sample_supports cluster_gcd_def)
  ultimately show ?thesis by blast
qed

end
