(* ===== verification/Bootstrap.thy ===== *)
theory Bootstrap
  imports Sysinfo Worker Enroll
begin

section \<open>The host agent (\<open>bootstrapper\<close>)\<close>

text \<open>
  \<open>gpucluster-agent\<close> on a worker machine: the preflight report (\<open>preflight.rs\<close>), the identity file
  (\<open>state.rs\<close>), enrollment (\<open>enroll.rs\<close>), the container and native start paths (\<open>docker.rs\<close>,
  \<open>native.rs\<close>) and the service commands (\<open>service.rs\<close>). The machine is the \<open>host\<close> of
  \<open>Sysinfo\<close>; \<open>files\<close> and \<open>io\<close> are those of \<open>Worker\<close>; an operation also returns the commands it
  runs for their effect. Paths are joined with \<open>/\<close>; file modes are not modelled, nor is what is
  printed for the operator.
  The theorems: what an enrollment writes is what the agent and the worker it starts read back; the
  exact condition under which \<open>install\<close> succeeds; what \<open>uninstall\<close> leaves.
\<close>

datatype AgentError =
    RngFailed
  | RequestFailed string
  | EnrollFailed nat string
  | ParseResponse
  | CreateDir
  | WriteIdentity string
  | ReadIdentity
  | BadIdentity
  | NotEnrolled
  | NativeBinaryMissing
  | NotAppleSilicon
  | DockerMissing
  | WorkerNotFound
  | SpawnFailed string
  | DockerNotStarted
  | DockerRunFailed

type_synonym command = "string \<times> string list"

subsection \<open>Preflight (\<open>preflight.rs\<close>)\<close>

record Report =
  pf_docker_present :: bool
  pf_nvidia_smi_present :: bool
  pf_is_windows :: bool
  pf_is_macos :: bool
  pf_is_wsl :: bool
  pf_is_apple_silicon :: bool
  pf_driver_version :: "string option"
  pf_cpu_brand :: "string option"

definition which :: "exec \<Rightarrow> string \<Rightarrow> bool" where
  "which exec bin = (case exec bin [''--version''] of Some (ok, _) \<Rightarrow> ok | None \<Rightarrow> False)"

text \<open>
  Lower-casing matters to the search for an ASCII word only on ASCII letters: no other code point has
  a lower-case form that is one of the letters of that word alone.
\<close>

definition to_ascii_lower :: "string \<Rightarrow> string" where
  "to_ascii_lower s = map (\<lambda>c. if 65 \<le> (of_char c :: nat) \<and> (of_char c :: nat) \<le> 90
                               then char_of ((of_char c :: nat) + 32) else c) s"

definition str_contains :: "string \<Rightarrow> string \<Rightarrow> bool" where
  "str_contains p s \<longleftrightarrow> list_ex (\<lambda>t. prefix p t) (suffixes s)"

definition preflight_check :: "host \<Rightarrow> files \<Rightarrow> Report" where
  "preflight_check h files =
     (let exec = h_exec h; mac = (h_target h = MacOs)
      in \<lparr>pf_docker_present = which exec ''docker'', pf_nvidia_smi_present = which exec ''nvidia-smi'',
          pf_is_windows = (h_target h = Windows), pf_is_macos = mac,
          pf_is_wsl = (case files ''/proc/version'' of
                         Some s \<Rightarrow> str_contains ''microsoft'' (to_ascii_lower s) | None \<Rightarrow> False),
          pf_is_apple_silicon = (mac \<and> output_of exec ''sysctl'' [''-n'', ''hw.optional.arm64''] = Some ''1''),
          pf_driver_version = output_of exec ''nvidia-smi'' [''--query-gpu=driver_version'', ''--format=csv,noheader''],
          pf_cpu_brand = (if mac then output_of exec ''sysctl'' [''-n'', ''machdep.cpu.brand_string''] else None)\<rparr>)"

definition native_worker_required :: "Report \<Rightarrow> bool" where
  "native_worker_required pf = pf_is_macos pf"

definition os_label :: "Report \<Rightarrow> string" where
  "os_label pf =
     (if pf_is_macos pf then ''macos'' else if pf_is_windows pf then ''windows''
      else if pf_is_wsl pf then ''linux (WSL)'' else ''linux'')"

subsection \<open>Identity file (\<open>state.rs\<close>)\<close>

record Identity =
  id_node_id :: string
  id_signing_key_b64 :: string
  id_client_cert_pem :: string
  id_client_key_pem :: string
  id_ca_chain_pem :: string
  id_wg_config_ini :: "string option"
  id_coordinator_endpoint :: string

definition identity_json :: "Identity \<Rightarrow> json" where
  "identity_json i =
     JObj [(''node_id'', JStr (id_node_id i)), (''signing_key_b64'', JStr (id_signing_key_b64 i)),
           (''client_cert_pem'', JStr (id_client_cert_pem i)), (''client_key_pem'', JStr (id_client_key_pem i)),
           (''ca_chain_pem'', JStr (id_ca_chain_pem i)), (''wg_config_ini'', jopt JStr (id_wg_config_ini i)),
           (''coordinator_endpoint'', JStr (id_coordinator_endpoint i))]"

definition de_identity :: "json \<Rightarrow> Identity option" where
  "de_identity j = do {
     m \<leftarrow> struct_fields [''node_id'', ''signing_key_b64'', ''client_cert_pem'', ''client_key_pem'', ''ca_chain_pem'',
           ''wg_config_ini'', ''coordinator_endpoint''] j;
     node_id \<leftarrow> Option.bind (m ''node_id'') as_str;
     signing_key \<leftarrow> Option.bind (m ''signing_key_b64'') as_str;
     cert \<leftarrow> Option.bind (m ''client_cert_pem'') as_str;
     key \<leftarrow> de_field [] as_str m ''client_key_pem'';
     chain \<leftarrow> Option.bind (m ''ca_chain_pem'') as_str;
     wg \<leftarrow> de_field None (de_option as_str) m ''wg_config_ini'';
     endpoint \<leftarrow> Option.bind (m ''coordinator_endpoint'') as_str;
     Some \<lparr>id_node_id = node_id, id_signing_key_b64 = signing_key, id_client_cert_pem = cert,
           id_client_key_pem = key, id_ca_chain_pem = chain, id_wg_config_ini = wg,
           id_coordinator_endpoint = endpoint\<rparr>
   }"

definition data_dir :: "host \<Rightarrow> string" where
  "data_dir h =
     (case h_env h ''NODE_DATA_DIR'' of
        Some p \<Rightarrow> p
      | None \<Rightarrow>
          (case h_target h of
             Windows \<Rightarrow> ''C:'' @ [CHR 0x5C] @ ''ProgramData'' @ [CHR 0x5C] @ ''gpucluster''
           | MacOs \<Rightarrow> ''/Library/Application Support/gpucluster''
           | _ \<Rightarrow> ''/var/lib/gpucluster''))"

definition identity_path :: "host \<Rightarrow> string" where
  "identity_path h = path_join (data_dir h) ''identity.json''"

text \<open>
  Opening truncates the file; a write that fails afterwards leaves a prefix of \<open>written\<close> bytes.
\<close>

definition write_secure :: "io \<Rightarrow> nat \<Rightarrow> string \<Rightarrow> string \<Rightarrow> files \<Rightarrow> (AgentError + unit) \<times> files" where
  "write_secure io written path data files =
     (case io 1 of
        Some e \<Rightarrow> (Inl (WriteIdentity e), files)
      | None \<Rightarrow>
          (case io 2 of
             Some e \<Rightarrow> (Inl (WriteIdentity e), files(path := Some (take written data)))
           | None \<Rightarrow> (Inr (), files(path := Some data))))"

definition persist_identity :: "host \<Rightarrow> wire \<Rightarrow> io \<Rightarrow> nat \<Rightarrow> Identity \<Rightarrow> files \<Rightarrow> (AgentError + unit) \<times> files" where
  "persist_identity h w io written i files =
     (case io 0 of
        Some e \<Rightarrow> (Inl CreateDir, files)
      | None \<Rightarrow> write_secure io written (identity_path h) (render w (identity_json i)) files)"

definition load_identity :: "host \<Rightarrow> wire \<Rightarrow> io \<Rightarrow> files \<Rightarrow> AgentError + Identity option" where
  "load_identity h w io files =
     (case files (identity_path h) of
        None \<Rightarrow> Inr None
      | Some data \<Rightarrow>
          (case io 0 of
             Some e \<Rightarrow> Inl ReadIdentity
           | None \<Rightarrow>
               (case parse w data of
                  Inl e \<Rightarrow> Inl BadIdentity
                | Inr j \<Rightarrow> (case de_identity j of None \<Rightarrow> Inl BadIdentity | Some i \<Rightarrow> Inr (Some i)))))"

subsection \<open>Enrollment (\<open>enroll.rs\<close>)\<close>

definition enroll_payload :: "string \<Rightarrow> string \<Rightarrow> string option \<Rightarrow> json \<Rightarrow> json" where
  "enroll_payload token pubkey display_name node =
     JObj [(''token'', JStr token), (''pubkey_b64'', JStr pubkey), (''display_name'', jopt JStr display_name),
           (''node'', node)]"

text \<open>The fields of the answer the agent reads.\<close>

definition de_enroll_response :: "json \<Rightarrow> string \<Rightarrow> Identity option" where
  "de_enroll_response j signing_key = do {
     m \<leftarrow> struct_fields [''node_id'', ''client_cert_pem'', ''client_key_pem'', ''ca_chain_pem'', ''wg_config_ini'',
           ''coordinator_endpoint''] j;
     node_id \<leftarrow> Option.bind (m ''node_id'') as_str;
     cert \<leftarrow> Option.bind (m ''client_cert_pem'') as_str;
     key \<leftarrow> de_field [] as_str m ''client_key_pem'';
     chain \<leftarrow> Option.bind (m ''ca_chain_pem'') as_str;
     wg \<leftarrow> de_field None (de_option as_str) m ''wg_config_ini'';
     endpoint \<leftarrow> Option.bind (m ''coordinator_endpoint'') as_str;
     Some \<lparr>id_node_id = node_id, id_signing_key_b64 = signing_key, id_client_cert_pem = cert,
           id_client_key_pem = key, id_ca_chain_pem = chain, id_wg_config_ini = wg,
           id_coordinator_endpoint = endpoint\<rparr>
   }"

definition submitted_info :: "host \<Rightarrow> string option \<Rightarrow> NodeInfo" where
  "submitted_info h display_name =
     (case display_name of
        Some name \<Rightarrow> collect h \<lparr>n_display_name := name\<rparr> | None \<Rightarrow> collect h)"

definition enroll_request :: "host \<Rightarrow> string \<Rightarrow> string \<Rightarrow> string \<Rightarrow> string option \<Rightarrow> Request" where
  "enroll_request h pub_b64 backend token display_name =
     \<lparr>rq_method = POST, rq_url = trim_end_matches (CHR ''/'') backend @ ''/enroll'', rq_auth = None,
      rq_body = Some (enroll_payload token pub_b64 display_name (to_json (submitted_info h display_name)))\<rparr>"

text \<open>
  \<open>fill\<close> is the seed the system's random generator gives, if it does; \<open>public_key\<close> is what \<open>ring\<close>
  derives from a seed and \<open>encode\<close> is base64. \<open>enroll_run\<close> takes the pair as \<open>keypair\<close>.
\<close>

definition generate_ed25519_keypair ::
  "string option \<Rightarrow> (string \<Rightarrow> string option) \<Rightarrow> (string \<Rightarrow> string) \<Rightarrow> (string \<times> string) option" where
  "generate_ed25519_keypair fill public_key encode = do {
     seed \<leftarrow> fill;
     pub \<leftarrow> public_key seed;
     Some (encode seed, encode pub)
   }"

definition enroll_run ::
  "host \<Rightarrow> http \<Rightarrow> wire \<Rightarrow> io \<Rightarrow> nat \<Rightarrow> (string \<times> string) option \<Rightarrow> string \<Rightarrow> string \<Rightarrow> string option \<Rightarrow> files
    \<Rightarrow> (AgentError + unit) \<times> files" where
  "enroll_run h net w io written keypair backend token display_name files =
     (case keypair of
        None \<Rightarrow> (Inl RngFailed, files)
      | Some (priv_b64, pub_b64) \<Rightarrow>
          (case send net (enroll_request h pub_b64 backend token display_name) of
             Inl e \<Rightarrow> (Inl (RequestFailed e), files)
           | Inr resp \<Rightarrow>
               if \<not> is_success (rs_status resp)
               then (Inl (EnrollFailed (rs_status resp) (text_or_default resp)), files)
               else (case read_json net resp of
                       Inl e \<Rightarrow> (Inl ParseResponse, files)
                     | Inr j \<Rightarrow>
                         (case de_enroll_response j priv_b64 of
                            None \<Rightarrow> (Inl ParseResponse, files)
                          | Some i \<Rightarrow> persist_identity h w io written i files))))"

subsection \<open>Container start (\<open>docker.rs\<close>)\<close>

definition parse_major :: "string \<Rightarrow> u32 option" where
  "parse_major s = parse_u32 (trim (takeWhile (\<lambda>c. c \<noteq> CHR ''.'') s))"

definition pick_image_tag_for_driver :: "string option \<Rightarrow> string" where
  "pick_image_tag_for_driver driver_version =
     (case Option.bind driver_version parse_major of
        Some m \<Rightarrow>
          if 555 \<le> m then ''ghcr.io/dzurmuehle/gpucluster-worker:0.1.0-cuda12.8''
          else if 535 \<le> m then ''ghcr.io/dzurmuehle/gpucluster-worker:0.1.0-cuda12.4''
          else if 520 \<le> m then ''ghcr.io/dzurmuehle/gpucluster-worker:0.1.0-cuda11.8''
          else ''ghcr.io/dzurmuehle/gpucluster-worker:0.1.0-cuda12.4''
      | None \<Rightarrow> ''ghcr.io/dzurmuehle/gpucluster-worker:0.1.0-cuda12.4'')"

text \<open>The results of \<open>docker pull\<close> and \<open>docker stop\<close> are ignored by their callers; what is left is the command.\<close>

definition pull_image :: "string \<Rightarrow> command list" where
  [simp]: "pull_image tag = [(''docker'', [''pull'', tag])]"

definition docker_stop_worker :: "command list" where
  [simp]: "docker_stop_worker = [(''docker'', [''stop'', ''gpucluster-worker''])]"

definition docker_args :: "string \<Rightarrow> string \<Rightarrow> (string \<times> string) list \<Rightarrow> string list" where
  "docker_args tag dir env =
     [''run'', ''--rm'', ''-d'', ''--name'', ''gpucluster-worker'', ''--gpus'', ''all'', ''--network'', ''host'',
      ''--ipc'', ''host'', ''--cap-add'', ''NET_ADMIN'', ''--ulimit'', ''memlock=-1'', ''--ulimit'', ''stack=67108864'',
      ''-v'', dir @ '':/var/lib/gpucluster'']
     @ concat (map (\<lambda>(k, v). [''-e'', k @ ''='' @ v]) env) @ [tag]"

definition docker_run_worker :: "exec \<Rightarrow> string \<Rightarrow> string \<Rightarrow> (string \<times> string) list \<Rightarrow> AgentError + unit" where
  "docker_run_worker exec tag dir env =
     (case exec ''docker'' (docker_args tag dir env) of
        None \<Rightarrow> Inl DockerNotStarted
      | Some (ok, _) \<Rightarrow> if ok then Inr () else Inl DockerRunFailed)"

subsection \<open>Native start (\<open>native.rs\<close>)\<close>

definition WORKER_BIN_NAMES :: "string list" where
  "WORKER_BIN_NAMES = [''gpucluster-worker'']"

definition NATIVE_SEARCH_DIRS :: "string list" where
  "NATIVE_SEARCH_DIRS = [''/usr/local/bin'', ''/opt/homebrew/bin'', ''/opt/gpucluster/bin'']"

definition worker_binary_path :: "env \<Rightarrow> files \<Rightarrow> string option" where
  "worker_binary_path env files =
     (let dirs = (case env ''PATH'' of Some p \<Rightarrow> split_on (CHR '':'') p | None \<Rightarrow> []) @ NATIVE_SEARCH_DIRS
      in find (is_file files) (concat (map (\<lambda>dir. map (path_join dir) WORKER_BIN_NAMES) dirs)))"

definition worker_binary_present :: "env \<Rightarrow> files \<Rightarrow> bool" where
  [simp]: "worker_binary_present env files \<longleftrightarrow> worker_binary_path env files \<noteq> None"

definition pid_file :: "host \<Rightarrow> string" where
  "pid_file h = path_join (data_dir h) ''worker.pid''"

text \<open>The environment of a child: the variables set for it and the parent's for the rest.\<close>

definition child_env :: "env \<Rightarrow> (string \<times> string) list \<Rightarrow> env" where
  "child_env parent sets k = (case map_of (rev sets) k of Some v \<Rightarrow> Some v | None \<Rightarrow> parent k)"

text \<open>\<open>spawn\<close> starts a program in an environment and gives its process id.\<close>

definition native_run_worker ::
  "host \<Rightarrow> (string \<Rightarrow> env \<Rightarrow> string + nat) \<Rightarrow> io \<Rightarrow> string \<Rightarrow> (string \<times> string) list \<Rightarrow> files
    \<Rightarrow> (AgentError + env) \<times> files" where
  "native_run_worker h spawn io dir env files =
     (case worker_binary_path (h_env h) files of
        None \<Rightarrow> (Inl WorkerNotFound, files)
      | Some bin \<Rightarrow>
          let e = child_env (h_env h) ((''NODE_DATA_DIR'', dir) # env)
          in (case spawn bin e of
                Inl err \<Rightarrow> (Inl (SpawnFailed bin), files)
              | Inr pid \<Rightarrow>
                  (Inr e, case io 1 of Some _ \<Rightarrow> files | None \<Rightarrow> files(pid_file h := Some (show_nat pid)))))"

definition native_stop_worker :: "host \<Rightarrow> io \<Rightarrow> files \<Rightarrow> command list \<times> files" where
  "native_stop_worker h io files =
     (case (io 0, files (pid_file h)) of
        (None, Some pid_raw) \<Rightarrow>
          ((case parse_i32 (trim pid_raw) of Some pid \<Rightarrow> [(''kill'', [show_i32 pid])] | None \<Rightarrow> []),
           (case io 1 of Some _ \<Rightarrow> files | None \<Rightarrow> files(pid_file h := None)))
      | _ \<Rightarrow> ([], files))"

subsection \<open>Service commands (\<open>service.rs\<close>)\<close>

definition UNIT_PATH :: string where
  "UNIT_PATH = ''/etc/systemd/system/gpucluster-agent.service''"

definition UNIT :: string where
  "UNIT = concat (map text_line
     [''[Unit]'', ''Description=GPU Cluster Agent'', ''After=network-online.target docker.service'',
      ''Wants=network-online.target'', ''Requires=docker.service'', [],
      ''[Service]'', ''Type=simple'', ''ExecStart=/usr/local/bin/gpucluster-agent run'', ''Restart=always'',
      ''RestartSec=5'', ''LimitNOFILE=1048576'', [],
      ''[Install]'', ''WantedBy=multi-user.target''])"

definition LAUNCHD_PLIST_PATH :: string where
  "LAUNCHD_PLIST_PATH = ''/Library/LaunchDaemons/com.gpucluster.agent.plist''"

definition PLIST :: string where
  \<open>PLIST = concat (map text_line
     [''<?xml version="1.0" encoding="UTF-8"?>'',
      ''<!DOCTYPE plist PUBLIC "-//Apple//DTD PLIST 1.0//EN" "http://www.apple.com/DTDs/PropertyList-1.0.dtd">'',
      ''<plist version="1.0">'', ''<dict>'',
      ''    <key>Label</key>'', ''    <string>com.gpucluster.agent</string>'',
      ''    <key>ProgramArguments</key>'', ''    <array>'',
      ''        <string>/usr/local/bin/gpucluster-agent</string>'', ''        <string>run</string>'', ''    </array>'',
      ''    <key>RunAtLoad</key>'', ''    <true/>'', ''    <key>KeepAlive</key>'', ''    <true/>'',
      ''    <key>ThrottleInterval</key>'', ''    <integer>5</integer>'',
      ''    <key>StandardOutPath</key>'', ''    <string>/Library/Logs/gpucluster/agent.log</string>'',
      ''    <key>StandardErrorPath</key>'', ''    <string>/Library/Logs/gpucluster/agent.err.log</string>'',
      ''    <key>EnvironmentVariables</key>'', ''    <dict>'', ''        <key>RUST_LOG</key>'',
      ''        <string>info,gpucluster_agent=debug</string>'', ''    </dict>'', ''</dict>'', ''</plist>''])\<close>

text \<open>\<open>io 0\<close> is the outcome of the write; when it fails a prefix may be there, which is not modelled.\<close>

definition write_systemd_unit :: "io \<Rightarrow> files \<Rightarrow> files" where
  "write_systemd_unit io files = (case io 0 of Some _ \<Rightarrow> files | None \<Rightarrow> files(UNIT_PATH := Some UNIT))"

definition write_launchd_plist :: "io \<Rightarrow> files \<Rightarrow> command list \<times> files" where
  "write_launchd_plist io files =
     (case io 0 of
        Some _ \<Rightarrow> ([], files)
      | None \<Rightarrow> ([(''launchctl'', [''bootstrap'', ''system'', LAUNCHD_PLIST_PATH])],
                 files(LAUNCHD_PLIST_PATH := Some PLIST)))"

definition install :: "host \<Rightarrow> io \<Rightarrow> files \<Rightarrow> (AgentError + unit) \<times> command list \<times> files" where
  "install h io files =
     (let pf = preflight_check h files
      in if native_worker_required pf \<and> \<not> worker_binary_present (h_env h) files
         then (Inl NativeBinaryMissing, [], files)
         else if native_worker_required pf \<and> \<not> pf_is_apple_silicon pf then (Inl NotAppleSilicon, [], files)
         else if \<not> native_worker_required pf \<and> \<not> pf_docker_present pf then (Inl DockerMissing, [], files)
         else (Inr (),
               (case h_target h of
                  Linux \<Rightarrow> ([], write_systemd_unit io files)
                | MacOs \<Rightarrow> write_launchd_plist io files
                | _ \<Rightarrow> ([], files))))"

text \<open>\<open>kept\<close> says which files survive a removal of the directory that fails half way.\<close>

definition remove_dir_all :: "io \<Rightarrow> (string \<Rightarrow> bool) \<Rightarrow> string \<Rightarrow> files \<Rightarrow> files" where
  "remove_dir_all io kept dir files =
     (\<lambda>p. if starts_with p (path_join dir []) \<and> (io 3 = None \<or> \<not> kept p) then None else files p)"

definition remove_file :: "string option \<Rightarrow> string \<Rightarrow> files \<Rightarrow> files" where
  "remove_file failed p files = (case failed of Some _ \<Rightarrow> files | None \<Rightarrow> files(p := None))"

definition uninstall :: "host \<Rightarrow> io \<Rightarrow> (string \<Rightarrow> bool) \<Rightarrow> bool \<Rightarrow> files \<Rightarrow> command list \<times> files" where
  "uninstall h io kept purge files =
     (let (stop, files) =
            (if native_worker_required (preflight_check h files) then native_stop_worker h io files
             else (docker_stop_worker, files));
          (service, files) =
            (case h_target h of
               Linux \<Rightarrow> ([(''systemctl'', [''disable'', ''--now'', ''gpucluster-agent''])], remove_file (io 2) UNIT_PATH files)
             | MacOs \<Rightarrow> ([(''launchctl'', [''bootout'', ''system'', LAUNCHD_PLIST_PATH])],
                         remove_file (io 2) LAUNCHD_PLIST_PATH files)
             | _ \<Rightarrow> ([], files))
      in (stop @ service, if purge then remove_dir_all io kept (data_dir h) files else files))"

text \<open>
  \<open>run\<close> until its idle loop: the started worker is a native process with its environment or a
  container with its command line.
\<close>

datatype Started = NativeWorker env | Container "string list"

definition agent_vars :: "Identity \<Rightarrow> (string \<times> string) list" where
  "agent_vars i = [(''COORDINATOR_URL'', id_coordinator_endpoint i), (''NODE_ID'', id_node_id i)]"

definition agent_start ::
  "host \<Rightarrow> wire \<Rightarrow> (string \<Rightarrow> env \<Rightarrow> string + nat) \<Rightarrow> io \<Rightarrow> files \<Rightarrow> (AgentError + Started) \<times> command list \<times> files" where
  "agent_start h w spawn io files =
     (case load_identity h w io files of
        Inl e \<Rightarrow> (Inl e, [], files)
      | Inr None \<Rightarrow> (Inl NotEnrolled, [], files)
      | Inr (Some i) \<Rightarrow>
          let pf = preflight_check h files
          in if native_worker_required pf
             then (case native_run_worker h spawn io (data_dir h) (agent_vars i) files of
                     (Inl e, files') \<Rightarrow> (Inl e, [], files')
                   | (Inr env, files') \<Rightarrow> (Inr (NativeWorker env), [], files'))
             else
               let tag = pick_image_tag_for_driver (pf_driver_version pf);
                   args = docker_args tag (data_dir h) (agent_vars i)
               in (case docker_run_worker (h_exec h) tag (data_dir h) (agent_vars i) of
                     Inl e \<Rightarrow> (Inl e, pull_image tag @ [(''docker'', args)], files)
                   | Inr _ \<Rightarrow> (Inr (Container args), pull_image tag @ [(''docker'', args)], files)))"

subsection \<open>The worker's configuration (\<open>worker/src/main.rs\<close>, \<open>config.rs\<close>)\<close>

text \<open>Options come from the environment when the command line has none.\<close>

record WorkerConfig =
  wc_coordinator_url :: string
  wc_data_dir :: string
  wc_display_name :: "string option"

definition worker_config :: "env \<Rightarrow> WorkerConfig" where
  "worker_config env =
     \<lparr>wc_coordinator_url = unwrap_or ''http://coordinator:7000'' (env ''COORDINATOR_URL''),
      wc_data_dir = unwrap_or ''/var/lib/gpucluster'' (env ''NODE_DATA_DIR''),
      wc_display_name = env ''NODE_DISPLAY_NAME''\<rparr>"

subsection \<open>The backend's end of an enrollment\<close>

text \<open>What serde derives for the request and the answer of \<open>handlers/enroll.rs\<close>.\<close>

definition de_enroll_request :: "json \<Rightarrow> EnrollRequest option" where
  "de_enroll_request j = do {
     m \<leftarrow> struct_fields [''token'', ''pubkey_b64'', ''display_name'', ''node''] j;
     token \<leftarrow> Option.bind (m ''token'') as_str;
     pubkey \<leftarrow> Option.bind (m ''pubkey_b64'') as_str;
     display_name \<leftarrow> de_field None (de_option as_str) m ''display_name'';
     node \<leftarrow> de_field JNull Some m ''node'';
     Some \<lparr>eq_token = token, eq_pubkey_b64 = pubkey, eq_display_name = display_name, eq_node = node\<rparr>
   }"

definition enroll_response_json :: "EnrollResponse \<Rightarrow> json" where
  "enroll_response_json r =
     JObj ([(''node_id'', JStr (er_node_id r)), (''client_cert_pem'', JStr (er_client_cert_pem r)),
            (''client_key_pem'', JStr (er_client_key_pem r)), (''ca_chain_pem'', JStr (er_ca_chain_pem r)),
            (''coordinator_endpoint'', JStr (er_coordinator_endpoint r)),
            (''cert_expires_at'', JStr (er_cert_expires_at r))]
           @ (case er_wg_config_ini r of Some c \<Rightarrow> [(''wg_config_ini'', JStr c)] | None \<Rightarrow> []))"

text \<open>A network on which \<open>complete\<close> answers the enrollment URL of a backend.\<close>

definition enroll_http :: "wire \<Rightarrow> string \<Rightarrow> (EnrollRequest \<Rightarrow> ApiError + EnrollResponse) \<Rightarrow> http" where
  "enroll_http w base handler =
     \<lparr>send = (\<lambda>rq.
        if rq_method rq = POST \<and> rq_url rq = base @ ''/enroll''
        then Inr (case Option.bind (rq_body rq) de_enroll_request of
                    None \<Rightarrow> \<lparr>rs_status = 422, rs_text = Inr []\<rparr>
                  | Some req \<Rightarrow>
                      (case handler req of
                         Inl e \<Rightarrow> \<lparr>rs_status = fst (into_response e), rs_text = Inr (render w (snd (into_response e)))\<rparr>
                       | Inr r \<Rightarrow> \<lparr>rs_status = 200, rs_text = Inr (render w (enroll_response_json r))\<rparr>))
        else Inl ''unreachable''),
      from_str = parse w, not_array = (\<lambda>_. [])\<rparr>"

subsection \<open>Lemmas\<close>

lemma de_opt_str [simp]: "de_option as_str (jopt JStr x) = Some x"
  by (cases x) simp_all

lemma identity_round [simp]: "de_identity (identity_json i) = Some i"
  by (simp add: de_identity_def identity_json_def struct_fields_def de_field_def)

lemma payload_round:
  "de_enroll_request (enroll_payload token pub dn node) =
     Some \<lparr>eq_token = token, eq_pubkey_b64 = pub, eq_display_name = dn, eq_node = node\<rparr>"
  by (simp add: de_enroll_request_def enroll_payload_def struct_fields_def de_field_def)

definition identity_of :: "string \<Rightarrow> EnrollResponse \<Rightarrow> Identity" where
  "identity_of signing_key r =
     \<lparr>id_node_id = er_node_id r, id_signing_key_b64 = signing_key, id_client_cert_pem = er_client_cert_pem r,
      id_client_key_pem = er_client_key_pem r, id_ca_chain_pem = er_ca_chain_pem r,
      id_wg_config_ini = er_wg_config_ini r, id_coordinator_endpoint = er_coordinator_endpoint r\<rparr>"

lemma response_round: "de_enroll_response (enroll_response_json r) signing_key = Some (identity_of signing_key r)"
  by (cases "er_wg_config_ini r")
    (simp_all add: de_enroll_response_def enroll_response_json_def struct_fields_def de_field_def identity_of_def)

lemma persist_load:
  assumes "wire_ok w" and "persist_identity h w io k i files = (Inr u, files')"
  shows "files' = files(identity_path h := Some (render w (identity_json i)))"
    and "io' 0 = None \<Longrightarrow> load_identity h w io' files' = Inr (Some i)"
proof -
  show f: "files' = files(identity_path h := Some (render w (identity_json i)))"
    using assms(2) by (auto simp: persist_identity_def write_secure_def split: option.splits)
  show "load_identity h w io' files' = Inr (Some i)" if "io' 0 = None"
    using assms(1) that by (simp add: f load_identity_def wire_ok_def)
qed

lemma enroll_run_accepted:
  assumes "wire_ok w" and "handler \<lparr>eq_token = token, eq_pubkey_b64 = pub, eq_display_name = dn,
        eq_node = to_json (submitted_info h dn)\<rparr> = Inr resp"
  shows "enroll_run h (enroll_http w (trim_end_matches (CHR ''/'') backend) handler) w io k (Some (priv, pub)) backend token dn files
    = persist_identity h w io k (identity_of priv resp) files"
  using assms
  by (simp add: enroll_run_def enroll_http_def enroll_request_def payload_round is_success_def read_json_def
      wire_ok_def response_round)

text \<open>A successful enrollment: what the backend answered is what was persisted.\<close>

lemma enroll_run_ok:
  assumes "wire_ok w"
    and "enroll_run h (enroll_http w (trim_end_matches (CHR ''/'') backend) handler) w io k (Some (priv, pub)) backend token dn files
      = (Inr u, files')"
  obtains resp where "handler \<lparr>eq_token = token, eq_pubkey_b64 = pub, eq_display_name = dn,
        eq_node = to_json (submitted_info h dn)\<rparr> = Inr resp"
    and "persist_identity h w io k (identity_of priv resp) files = (Inr u, files')"
proof -
  let ?req = "\<lparr>eq_token = token, eq_pubkey_b64 = pub, eq_display_name = dn, eq_node = to_json (submitted_info h dn)\<rparr>"
  show thesis
  proof (cases "handler ?req")
    case (Inl e)
    have "\<not> is_success (fst (into_response e))" by (cases e) (simp_all add: is_success_def)
    with assms(2) Inl show thesis
      by (simp add: enroll_run_def enroll_http_def enroll_request_def payload_round)
  next
    case (Inr resp)
    with assms(2) enroll_run_accepted [OF assms(1), of handler] show thesis by (intro that [OF Inr]) simp
  qed
qed

text \<open>A native start: where the worker's environment comes from and what it does to the files.\<close>

lemma agent_start_native:
  assumes "agent_start h w spawn io files = (Inr (NativeWorker e), cmds, files')"
  obtains i where "load_identity h w io files = Inr (Some i)"
    and "e = child_env (h_env h) ((''NODE_DATA_DIR'', data_dir h) # agent_vars i)"
    and "\<And>p. p \<noteq> pid_file h \<Longrightarrow> files' p = files p"
proof -
  obtain i where i: "load_identity h w io files = Inr (Some i)"
    using assms by (auto simp: agent_start_def split: sum.splits option.splits)
  have nat: "native_run_worker h spawn io (data_dir h) (agent_vars i) files = (Inr e, files')"
    using assms i by (auto simp: agent_start_def Let_def split: sum.splits if_splits prod.splits)
  show thesis
  proof (rule that [OF i])
    show "e = child_env (h_env h) ((''NODE_DATA_DIR'', data_dir h) # agent_vars i)"
      using nat by (auto simp: native_run_worker_def Let_def split: option.splits sum.splits)
    show "files' p = files p" if "p \<noteq> pid_file h" for p
      using nat that by (auto simp: native_run_worker_def Let_def split: option.splits sum.splits)
  qed
qed

lemma child_env_agent:
  "child_env p ((''NODE_DATA_DIR'', d) # agent_vars i) ''NODE_DATA_DIR'' = Some d"
  "child_env p ((''NODE_DATA_DIR'', d) # agent_vars i) ''COORDINATOR_URL'' = Some (id_coordinator_endpoint i)"
  "child_env p ((''NODE_DATA_DIR'', d) # agent_vars i) ''IDENTITY_FILE'' = p ''IDENTITY_FILE''"
  by (simp_all add: child_env_def agent_vars_def)

lemma path_join_distinct: "d \<noteq> [] \<Longrightarrow> path_join d ''identity.json'' \<noteq> path_join d ''worker.pid''"
  by (simp add: path_join_def starts_with_def)

text \<open>
  The id the enrollment gave is handed to the worker as \<open>NODE_ID\<close>, which the worker never reads: it
  reports under the id of its own file, a fresh one at the first start.
\<close>

lemma enrolled_id_unused:
  assumes "agent_start h w spawn io files = (Inr (NativeWorker e), cmds, files')"
    and "files (path_join (data_dir h) ''node.id'') = None"
  shows "fst (load_or_create_node_id io_up (wc_data_dir (worker_config e)) uuid files') = Inr uuid"
proof -
  obtain i where e: "e = child_env (h_env h) ((''NODE_DATA_DIR'', data_dir h) # agent_vars i)"
    and f: "\<And>p. p \<noteq> pid_file h \<Longrightarrow> files' p = files p" using agent_start_native [OF assms(1)] by blast
  have "path_join (data_dir h) ''node.id'' \<noteq> pid_file h" by (simp add: pid_file_def path_join_def starts_with_def)
  with f assms(2) have "files' (path_join (data_dir h) ''node.id'') = None" by simp
  then show ?thesis by (simp add: load_or_create_node_id_def worker_config_def e child_env_agent)
qed

subsection \<open>Properties\<close>


text \<open>A Mac with the worker binary installed, enrolled with the sample token.\<close>

definition sample_mac :: host where
  "sample_mac = sample_host \<lparr>h_target := MacOs\<rparr>"

definition sample_files :: files where
  "sample_files p = (if p = ''/usr/local/bin/gpucluster-worker'' then Some ''ELF'' else None)"

definition sample_backend :: "EnrollRequest \<Rightarrow> (ApiError + EnrollResponse) \<times> EnrollState" where
  "sample_backend req =
     enroll_complete plain_crypto (\<lambda>s. s) (\<lambda>_. []) (json_http JNull) (\<lambda>_. None) sample_rcgen sample_ca ''http://c''
       (Inr ''leaf'') ''n1'' db_up 5 5 (V4 [10, 0, 0, 1]) [] req sample_enroll"

lemma sample_backend_answer:
  assumes "eq_token req = ''secret''" "eq_pubkey_b64 req \<noteq> []" "node_str req ''hw_fingerprint'' \<noteq> []"
  obtains resp where "fst (sample_backend req) = Inr resp" "er_client_cert_pem resp = ''cert''" "er_client_key_pem resp = ''leaf''"
  using assms
  by (simp add: sample_backend_def enroll_complete_def enroll_plan_def enroll_commit_def upsert_node_def
      issue_cert_for_node_def issue_node_cert_def sample_rcgen_def live_tokens_def token_matches_def plain_crypto_def
      sample_enroll_def sample_token_def Let_def secs_def)

lemma sample_start:
  assumes "load_identity sample_mac w io_up files = Inr (Some i)" and "files ''/usr/local/bin/gpucluster-worker'' = Some b"
  obtains e files' where "agent_start sample_mac w (\<lambda>_ _. Inr 42) io_up files = (Inr (NativeWorker e), [], files')"
proof -
  have "worker_binary_path (h_env sample_mac) files = Some ''/usr/local/bin/gpucluster-worker''"
    using assms(2)
    by (simp add: worker_binary_path_def sample_mac_def sample_host_def NATIVE_SEARCH_DIRS_def WORKER_BIN_NAMES_def
        path_join_def starts_with_def is_file_def)
  then have "\<exists>e f. native_run_worker sample_mac (\<lambda>_ _. Inr 42) io_up (data_dir sample_mac) (agent_vars i) files = (Inr e, f)"
    by (simp add: native_run_worker_def Let_def)
  moreover have "native_worker_required (preflight_check sample_mac files)"
    by (simp add: native_worker_required_def preflight_check_def Let_def sample_mac_def)
  ultimately show thesis using assms(1) that by (auto simp: agent_start_def Let_def)
qed


text \<open>
  \<open>install\<close> succeeds exactly on Apple Silicon with the worker binary in place, and elsewhere exactly
  where Docker answers; a refused install changes nothing, and a successful one on Linux leaves the
  systemd unit if the file can be written.
\<close>

theorem install_exact:
  "(fst (install h io files) = Inr () \<longleftrightarrow>
      (if h_target h = MacOs
       then worker_binary_path (h_env h) files \<noteq> None \<and>
            output_of (h_exec h) ''sysctl'' [''-n'', ''hw.optional.arm64''] = Some ''1''
       else which (h_exec h) ''docker'')) \<and>
   (\<forall>e. fst (install h io files) = Inl e \<longrightarrow> snd (install h io files) = ([], files)) \<and>
   (fst (install h io files) = Inr () \<and> h_target h = Linux \<and> io 0 = None \<longrightarrow>
      snd (snd (install h io files)) UNIT_PATH = Some UNIT)"
  by (auto simp: install_def Let_def preflight_check_def native_worker_required_def write_systemd_unit_def)

text \<open>
  \<open>uninstall --purge\<close> without file errors leaves no file of the data directory (identity and keys
  included) and no service file, and touches nothing else.
\<close>

theorem uninstall_purges:
  "snd (uninstall h io_up kept True files) p =
     (if starts_with p (path_join (data_dir h) []) \<or> h_target h = Linux \<and> p = UNIT_PATH \<or>
         h_target h = MacOs \<and> p = LAUNCHD_PLIST_PATH
      then None else files p)"
proof -
  have pid: "starts_with (pid_file h) (path_join (data_dir h) [])"
    by (simp add: pid_file_def path_join_def starts_with_def)
  have "h_target h \<noteq> MacOs \<Longrightarrow> \<not> native_worker_required (preflight_check h files)"
    by (simp add: native_worker_required_def preflight_check_def Let_def)
  moreover have "snd (native_stop_worker h io_up files) q = (if q = pid_file h then None else files q)" for q
    by (auto simp: native_stop_worker_def split: option.splits)
  ultimately show ?thesis using pid
    by (cases "h_target h")
      (auto simp: uninstall_def Let_def split_def remove_file_def remove_dir_all_def native_worker_required_def
        preflight_check_def)
qed

end
