(* ===== verification/WorkerAgent.thy ===== *)
theory WorkerAgent
  imports ClusterFlow Bootstrap IpAddr
begin

section \<open>The life of a worker process (\<open>worker/src/agent.rs\<close>)\<close>

text \<open>
  The worker as one state machine: the start of \<open>agent::run\<close> with the control listener of
  \<open>control_server::spawn\<close>, then any interleaving of reports, load commands, finished load tasks and
  signals. The lemmas carry an invariant through every run: each report decodes at the coordinator
  under the worker's own id, says what the supervisor served when it was made, and after a shutdown
  nothing runs.
\<close>

subsection \<open>The control listener\<close>

text \<open>
  \<open>can_bind\<close> says whether the operating system grants the address. \<open>None\<close> is a disabled control plane,
  \<open>Some\<close> the task, with the address it serves or without one.
\<close>

definition control_spawn :: "env \<Rightarrow> (SocketAddr \<Rightarrow> bool) \<Rightarrow> u16 \<Rightarrow> SocketAddr option option" where
  "control_spawn env can_bind port =
     (let bind_host = unwrap_or ''0.0.0.0'' (env ''CONTROL_BIND'')
      in (case parse_socket_addr (bind_host @ '':'' @ show_nat (unat port)) of
            None \<Rightarrow> None
          | Some addr \<Rightarrow> Some (if can_bind addr then Some addr else None)))"

subsection \<open>State\<close>

record Agent =
  ag_coordinator_url :: string
  ag_first_info :: NodeInfo
  ag_info :: NodeInfo
  ag_control_endpoint :: string
  ag_models_dir :: string
  ag_listening :: "SocketAddr option"
  ag_sup :: Supervisor
  ag_rpc :: "RpcServer option"
  ag_files :: files
  ag_tasks :: "LoadModelReq list"
  ag_sent :: "Request list"
  ag_exited :: bool

text \<open>
  \<open>ag_first_info\<close> is the clone kept for draining, \<open>ag_info\<close> the snapshot of the heartbeat loop,
  \<open>ag_tasks\<close> the accepted load commands whose task has not ended, \<open>ag_sent\<close> the reports so far.
\<close>

subsection \<open>Start\<close>

text \<open>
  \<open>machine\<close> is what \<open>sysinfo::collect()\<close> finds, or its error. Directories are not part of \<open>files\<close>; the failure
  of their creation is ignored by the code.
\<close>

definition agent_boot ::
  "env \<Rightarrow> io \<Rightarrow> (string \<Rightarrow> string list \<Rightarrow> string + nat) \<Rightarrow> (SocketAddr \<Rightarrow> bool) \<Rightarrow> string \<Rightarrow> string + host \<Rightarrow> WorkerConfig
    \<Rightarrow> files \<Rightarrow> string + Agent" where
  "agent_boot env io spawn can_bind uuid machine cfg files =
     (case load_or_create_node_id io (wc_data_dir cfg) uuid files of
        (Inl e, _) \<Rightarrow> Inl e
      | (Inr node_id, files1) \<Rightarrow>
          (case machine of
             Inl e \<Rightarrow> Inl e
           | Inr h \<Rightarrow>
               let info = agent_info node_id (wc_display_name cfg) (collect h);
                   backend = from_inventory (n_gpus info);
                   rpc = (case RpcServer_spawn env files1 spawn backend WORKER_RPC of Inr s \<Rightarrow> Some s | Inl e \<Rightarrow> None);
                   sup = Supervisor_boot env files1 spawn WORKER_INFERENCE;
                   control = control_spawn env can_bind WORKER_CONTROL
               in Inr \<lparr>ag_coordinator_url = wc_coordinator_url cfg, ag_first_info = info, ag_info = info,
                       ag_control_endpoint = control_endpoint_advertise env WORKER_CONTROL,
                       ag_models_dir = models_dir (wc_data_dir cfg), ag_listening = Option.bind control id,
                       ag_sup = sup, ag_rpc = rpc, ag_files = files1, ag_tasks = [], ag_sent = [],
                       ag_exited = False\<rparr>))"

subsection \<open>Steps\<close>

datatype Signal = SIGTERM | SIGINT

text \<open>
  A report of the heartbeat loop, where the first one precedes every refresh; a request to the control
  server; the end of the \<open>n\<close>-th load task, with the outcomes of its file operations and of its download
  (tasks run their downloads one after the other here, \<open>Downloads\<close> has them side by side); a signal, with whether the two Unix handlers
  could be installed.
\<close>

datatype AgentEvent =
    Report "string + host"
  | Command Method string "json option"
  | TaskEnds nat io hub "string \<Rightarrow> string list \<Rightarrow> string + nat"
  | Signalled bool bool Signal

definition shuts_down :: "bool \<Rightarrow> bool \<Rightarrow> Signal \<Rightarrow> bool" where
  "shuts_down term_installed intr_installed s =
     (if term_installed \<and> intr_installed then s = SIGTERM \<or> s = SIGINT else s = SIGINT)"

fun agent_step :: "env \<Rightarrow> AgentEvent \<Rightarrow> Agent \<Rightarrow> Agent" where
  "agent_step env (Report machine) a =
     (if ag_exited a then a
      else let info = (if ag_sent a = [] then ag_info a else refresh_info (map_sum id collect machine) (ag_info a))
           in a \<lparr>ag_info := info,
                 ag_sent := ag_sent a @
                   [publish env (report_url (ag_coordinator_url a)) info (ag_sup a) (ag_control_endpoint a)]\<rparr>)"
| "agent_step env (Command m path body) a =
     (if ag_exited a \<or> ag_listening a = None then a
      else case snd (control_handle m path body) of
             None \<Rightarrow> a
           | Some req \<Rightarrow> a \<lparr>ag_tasks := ag_tasks a @ [req]\<rparr>)"
| "agent_step env (TaskEnds n io hub spawn) a =
     (if ag_exited a \<or> length (ag_tasks a) \<le> n then a
      else let req = ag_tasks a ! n;
               (res, trace) = fetch io hub (download_of req) (ag_models_dir a) (ag_files a);
               files = last (ag_files a # trace)
           in a \<lparr>ag_files := files, ag_tasks := take n (ag_tasks a) @ drop (Suc n) (ag_tasks a),
                 ag_sup := finish_load env files spawn req res (ag_sup a)\<rparr>)"
| "agent_step env (Signalled term_installed intr_installed s) a =
     (if ag_exited a \<or> \<not> shuts_down term_installed intr_installed s then a
      else a \<lparr>ag_sent := ag_sent a @
                 [publish_draining env (ag_coordinator_url a) (ag_first_info a) (ag_sup a) (ag_control_endpoint a)],
              ag_sup := (ag_sup a) \<lparr>sv_child := None\<rparr>,
              ag_rpc := map_option RpcServer_drop (ag_rpc a), ag_tasks := [], ag_listening := None,
              ag_exited := True\<rparr>)"

text \<open>The processes the worker started that still run.\<close>

definition agent_children :: "Agent \<Rightarrow> Child list" where
  "agent_children a =
     (case sv_child (ag_sup a) of Some c \<Rightarrow> [c] | None \<Rightarrow> []) @ sv_others (ag_sup a) @
     (case Option.bind (ag_rpc a) rp_child of Some c \<Rightarrow> [c] | None \<Rightarrow> [])"

subsection \<open>Invariant\<close>

text \<open>
  A report of node \<open>i\<close>: posted to the coordinator, decodable there, with an inference endpoint exactly
  when a model is named.
\<close>

definition is_report :: "string \<Rightarrow> string \<Rightarrow> string \<Rightarrow> Request \<Rightarrow> bool" where
  "is_report url i ctl rq \<longleftrightarrow>
     rq_method rq = POST \<and> rq_url rq = url \<and>
     (\<exists>v. Option.bind (rq_body rq) de_node = Some v \<and> nv_node_id v = i \<and> nv_control_endpoint v = Some ctl \<and>
          (nv_current_model v = None \<longleftrightarrow> nv_inference_endpoint v = None))"

definition own_info :: "string \<Rightarrow> NodeInfo \<Rightarrow> bool" where
  "own_info i info \<longleftrightarrow> wire_info info \<and> n_node_id info = i"

definition agent_ok :: "string \<Rightarrow> string \<Rightarrow> string \<Rightarrow> Agent \<Rightarrow> bool" where
  "agent_ok url i ctl a \<longleftrightarrow>
     report_url (ag_coordinator_url a) = url \<and> ag_control_endpoint a = ctl \<and>
     own_info i (ag_first_info a) \<and> own_info i (ag_info a) \<and> list_all (is_report url i ctl) (ag_sent a) \<and>
     (if ag_exited a then agent_children a = [] \<and> ag_tasks a = [] \<and> ag_listening a = None else sv_ok (ag_sup a))"

lemma own_info_wire: "wire_info info \<Longrightarrow> wire_info (info \<lparr>n_status := x\<rparr>)"
  by (simp add: wire_info_def)

lemma own_info_boot: "own_info i (agent_info i name (collect h))"
  by (cases name) (auto simp: own_info_def agent_info_def collect_def intro: collected_wire [of _ h])

lemma own_info_refresh: "own_info i info \<Longrightarrow> own_info i (refresh_info (map_sum id collect machine) info)"
  by (cases machine) (auto simp: own_info_def refresh_info_def collect_def intro: collected_wire)

lemma publish_is_report:
  assumes "own_info i info" and "sv_ok sv"
  shows "is_report url i ctl (publish env url info sv ctl)"
proof -
  from assms(1) have w: "wire_info info" and i: "n_node_id info = i" by (simp_all add: own_info_def)
  have "sv_model_id sv = None \<longleftrightarrow> inference_endpoint_advertise env sv = None"
    using assms(2) by (auto simp: sv_ok_def inference_endpoint_advertise_def)
  then show ?thesis
    unfolding is_report_def publish_def by (simp add: publish_decodes [OF w] view_of_info_def i)
qed

lemma draining_is_report:
  assumes "own_info i info" and "sv_ok sv"
  shows "is_report (report_url u) i ctl (publish_draining env u info sv ctl)"
  unfolding publish_draining_def using assms
  by (intro publish_is_report) (auto simp: own_info_def intro: own_info_wire)

lemma agent_step_ok:
  assumes "agent_ok url i ctl a"
  shows "agent_ok url i ctl (agent_step env e a)"
proof (cases "ag_exited a")
  case True
  then have "agent_step env e a = a" by (cases e) simp_all
  with assms show ?thesis by simp
next
  case False
  note ok = assms [unfolded agent_ok_def]
  from ok False have sv: "sv_ok (ag_sup a)" by simp
  show ?thesis
  proof (cases e)
    case (Report machine)
    define info where "info = (if ag_sent a = [] then ag_info a else refresh_info (map_sum id collect machine) (ag_info a))"
    have "own_info i info" using ok own_info_refresh by (simp add: info_def)
    moreover from publish_is_report [OF this sv]
    have "is_report url i ctl (publish env url info (ag_sup a) ctl)" .
    ultimately show ?thesis
      using ok False by (simp add: Report agent_ok_def info_def [symmetric] Let_def)
  next
    case (Command m path body)
    then show ?thesis using ok False by (auto simp: agent_ok_def split: option.split)
  next
    case (TaskEnds n io hub spawn)
    show ?thesis
    proof (cases "length (ag_tasks a) \<le> n")
      case True
      then show ?thesis using assms by (simp add: TaskEnds)
    next
      case n: False
      obtain res trace where f: "fetch io hub (download_of (ag_tasks a ! n)) (ag_models_dir a) (ag_files a) = (res, trace)"
        by fastforce
      from conjunct1 [OF finish_load_ok [OF sv]]
      have "sv_ok (finish_load env (last (ag_files a # trace)) spawn (ag_tasks a ! n) res (ag_sup a))" .
      then show ?thesis using ok False n by (simp add: TaskEnds agent_ok_def f Let_def)
    qed
  next
    case (Signalled t k s)
    have "is_report url i ctl (publish_draining env (ag_coordinator_url a) (ag_first_info a) (ag_sup a) ctl)"
      using ok sv draining_is_report by blast
    moreover have "sv_others (ag_sup a) = []" using sv by (simp add: sv_ok_def)
    ultimately show ?thesis
      using ok False by (cases "ag_rpc a") (auto simp: Signalled agent_ok_def agent_children_def RpcServer_drop_def)
  qed
qed

lemma agent_step_sent: "prefix (ag_sent a) (ag_sent (agent_step env e a))"
  by (cases e) (auto simp: Let_def split: option.split prod.split)

interpretation agent: audited_machine "agent_step env" "agent_ok url i ctl" ag_sent
  by unfold_locales (simp_all add: agent_step_ok agent_step_sent)

lemma agent_boot_ok:
  assumes "agent_boot env io spawn can_bind uuid machine cfg files = Inr a"
  obtains i where "fst (load_or_create_node_id io (wc_data_dir cfg) uuid files) = Inr i"
    and "agent_ok (report_url (wc_coordinator_url cfg)) i (control_endpoint_advertise env WORKER_CONTROL) a"
    and "ag_sent a = []" and "\<not> ag_exited a"
proof -
  obtain r files1 where l: "load_or_create_node_id io (wc_data_dir cfg) uuid files = (r, files1)" by fastforce
  with assms obtain i h where r: "r = Inr i" and m: "machine = Inr h"
    by (auto simp: agent_boot_def split: sum.splits)
  show thesis
  proof (rule that)
    show "fst (load_or_create_node_id io (wc_data_dir cfg) uuid files) = Inr i" by (simp add: l r)
    show "agent_ok (report_url (wc_coordinator_url cfg)) i (control_endpoint_advertise env WORKER_CONTROL) a"
      and "ag_sent a = []" and "\<not> ag_exited a"
      using assms boot_ok own_info_boot by (auto simp: agent_boot_def l r m Let_def agent_ok_def)
  qed
qed

lemma agent_boot_fields:
  assumes "agent_boot env io spawn can_bind uuid machine cfg files = Inr a"
  shows "ag_tasks a = []" and "ag_models_dir a = models_dir (wc_data_dir cfg)"
    and "ag_files a = snd (load_or_create_node_id io (wc_data_dir cfg) uuid files)"
    and "ag_listening a = Option.bind (control_spawn env can_bind WORKER_CONTROL) id"
  using assms by (auto simp: agent_boot_def Let_def split: sum.splits prod.splits)

text \<open>Without \<open>CONTROL_BIND\<close> the control server listens on every address.\<close>

lemma control_spawn_default:
  assumes "env ''CONTROL_BIND'' = None"
  shows "control_spawn env can_bind port =
    Some (if can_bind (SocketV4 (V4 [0, 0, 0, 0]) port) then Some (SocketV4 (V4 [0, 0, 0, 0]) port) else None)"
proof -
  have "show_ip (V4 [0, 0, 0, 0]) = ''0.0.0.0''" by code_simp
  with parse_socket_v4 [of 0 0 0 0 port] assms show ?thesis by (simp add: control_spawn_def)
qed

lemma exited_stays: "ag_exited a \<Longrightarrow> run_cmds (agent_step env) es a = a"
proof (induction es)
  case (Cons e es)
  then have "agent_step env e a = a" by (cases e) simp_all
  with Cons show ?case by simp
qed simp

text \<open>A finished download whose server starts is served.\<close>

lemma finish_load_serves:
  assumes "sv_ok sv" and "is_file files path" and "locate_binary LLAMA_BIN_NAMES env files = Some bin"
    and "\<And>args. \<exists>pid. spawn bin args = Inr pid"
  shows "sv_model_id (finish_load env files spawn req (Inr path) sv) = Some (lm_model_id req) \<and>
    sv_model_path (finish_load env files spawn req (Inr path) sv) = Some path"
proof -
  let ?sv = "sv \<lparr>sv_child := None, sv_model_id := None, sv_model_path := None\<rparr>"
  have "\<exists>sv'. spawn_llama_server_with_peers env files spawn path ps ?sv = (Inr (), sv')" for ps
  proof -
    obtain pid where "spawn bin (llama_args env ?sv path ps) = Inr pid" using assms(4) by blast
    with assms(2,3) show ?thesis by (simp add: spawn_llama_server_with_peers_def)
  qed
  then obtain f where f: "\<And>ps. spawn_llama_server_with_peers env files spawn path ps ?sv = (Inr (), f ps)" by metis
  have "switch_inner env files spawn m path ps sv = (Inr (), f ps \<lparr>sv_model_path := Some path, sv_model_id := Some m\<rparr>)" for m ps
    unfolding switch_inner_def Let_def f by simp
  then show ?thesis by (simp add: finish_load_def switch_to_def switch_to_multi_def)
qed

subsection \<open>Properties\<close>

text \<open>
  C12. Every report a worker ever sends is well typed for the coordinator: from the start on, through any
  interleaving of refreshed inventories, load commands, downloads, restarts of the inference server and
  signals, each request posts to the report URL a body that the coordinator's decoder accepts as an
  inventory of the node id in the worker's identity file, with its control endpoint, and that names an
  inference endpoint exactly when it names a model.
\<close>

theorem worker_reports_well_typed:
  assumes "agent_boot env io spawn can_bind uuid machine cfg files = Inr a"
  shows "\<exists>i. fst (load_or_create_node_id io (wc_data_dir cfg) uuid files) = Inr i \<and>
    list_all (is_report (report_url (wc_coordinator_url cfg)) i (control_endpoint_advertise env WORKER_CONTROL))
      (ag_sent (run_cmds (agent_step env) es a))"
proof -
  obtain i where i: "fst (load_or_create_node_id io (wc_data_dir cfg) uuid files) = Inr i"
    and ok: "agent_ok (report_url (wc_coordinator_url cfg)) i (control_endpoint_advertise env WORKER_CONTROL) a"
    using agent_boot_ok [OF assms] by blast
  from agent.run_invar [OF ok, of env es] i show ?thesis by (simp add: agent_ok_def)
qed

definition sample_config :: WorkerConfig where
  "sample_config = \<lparr>wc_coordinator_url = ''http://c'', wc_data_dir = ''/d'', wc_display_name = None\<rparr>"

lemma sample_boot:
  obtains a where "agent_boot (\<lambda>_. None) io_up spawn can_bind ''a'' (Inr sample_host) sample_config files = Inr a"
  by (cases "fst (load_or_create_node_id io_up (wc_data_dir sample_config) ''a'' files)")
    (auto simp: agent_boot_def load_or_create_node_id_def Let_def split: option.splits)

theorem worker_reports_well_typed_witness:
  "\<exists>a i rq. agent_boot (\<lambda>_. None) io_up (\<lambda>_ _. Inl []) (\<lambda>_. True) ''a'' (Inr sample_host) sample_config (\<lambda>_. None) = Inr a \<and>
     ag_sent (run_cmds (agent_step (\<lambda>_. None)) [Report (Inr sample_host)] a) = [rq] \<and>
     is_report ''http://c/nodes/report'' i (control_endpoint_advertise (\<lambda>_. None) WORKER_CONTROL) rq"
proof -
  obtain a where a: "agent_boot (\<lambda>_. None) io_up (\<lambda>_ _. Inl []) (\<lambda>_. True) ''a'' (Inr sample_host) sample_config (\<lambda>_. None) = Inr a"
    by (rule sample_boot)
  from agent_boot_ok [OF a] have n: "ag_sent a = []" "\<not> ag_exited a" by auto
  have "report_url (wc_coordinator_url sample_config) = ''http://c/nodes/report''"
    by (simp add: report_url_def sample_config_def trim_end_matches_id)
  then show ?thesis
    using worker_reports_well_typed [OF a, of "[Report (Inr sample_host)]"] a n by (auto simp: Let_def)
qed



lemma commanded_model_publish:
  assumes "agent_boot env io spawn can_bind uuid machine cfg files = Inr a0"
    and "a = run_cmds (agent_step env) es a0" and "\<not> ag_exited a" and "ag_listening a \<noteq> None"
    and "de_load_model body = Some req" and "load_model req = (Inr answer, Some req)"
    and "fetch io' hub (download_of req) (ag_models_dir a) (ag_files a) = (Inr path, trace)"
    and "dest = path_join (ag_models_dir a) (dq_local_filename (download_of req))"
    and "path_file_name dest \<noteq> None" and "\<not> suffix ''.partial'' dest"
    and "locate_binary LLAMA_BIN_NAMES env (last (ag_files a # trace)) = Some bin"
    and "\<exists>pid. \<forall>args. spawn' bin args = Inr pid"
    and "a' = run_cmds (agent_step env) [Command POST ''/control/load_model'' (Some body),
           TaskEnds (length (ag_tasks a)) io' hub spawn', Report machine'] a"
  shows "\<exists>i info sv. fst (load_or_create_node_id io (wc_data_dir cfg) uuid files) = Inr i \<and> own_info i info \<and>
    sv_model_id sv = Some (lm_model_id req) \<and> sv_model_path sv = Some dest \<and> ag_sup a' = sv \<and> ag_tasks a' = ag_tasks a \<and>
    ag_sent a' = ag_sent a @ [publish env (report_url (ag_coordinator_url a)) info sv (ag_control_endpoint a)]"
proof -
  obtain i where i: "fst (load_or_create_node_id io (wc_data_dir cfg) uuid files) = Inr i"
    and ok0: "agent_ok (report_url (wc_coordinator_url cfg)) i (control_endpoint_advertise env WORKER_CONTROL) a0"
    using agent_boot_ok [OF assms(1)] by blast
  have ok: "agent_ok (report_url (wc_coordinator_url cfg)) i (control_endpoint_advertise env WORKER_CONTROL) a"
    unfolding assms(2) by (rule agent.run_invar [OF ok0])
  with assms(3) have sv: "sv_ok (ag_sup a)" and own: "own_info i (ag_info a)" by (simp_all add: agent_ok_def)
  let ?files = "last (ag_files a # trace)"
  let ?sv = "finish_load env ?files spawn' req (Inr path) (ag_sup a)"
  have "snd (control_handle POST ''/control/load_model'' (Some body)) = Some req"
    using assms(5,6) by (simp add: control_handle_def)
  then have c: "agent_step env (Command POST ''/control/load_model'' (Some body)) a = a \<lparr>ag_tasks := ag_tasks a @ [req]\<rparr>"
    using assms(3,4) by simp
  have t: "agent_step env (TaskEnds (length (ag_tasks a)) io' hub spawn') (a \<lparr>ag_tasks := ag_tasks a @ [req]\<rparr>) =
      a \<lparr>ag_files := ?files, ag_sup := ?sv\<rparr>"
    using assms(3,7) by (simp add: Let_def)
  have "with_extension dest ''partial'' \<noteq> dest" using with_extension_suffix [OF assms(9)] assms(10) by auto
  from fetch_ok [OF assms(7,8) this] have dest: "path = dest" and here: "is_file ?files path" by (auto simp: is_file_def)
  obtain pid where "\<And>args. spawn' bin args = Inr pid" using assms(12) by blast
  from finish_load_serves [OF sv here assms(11)] this
  have m: "sv_model_id ?sv = Some (lm_model_id req)" "sv_model_path ?sv = Some dest" unfolding dest by blast+
  define info where "info = (if ag_sent a = [] then ag_info a else refresh_info (map_sum id collect machine') (ag_info a))"
  have own': "own_info i info" using own own_info_refresh by (simp add: info_def)
  let ?rq = "publish env (report_url (ag_coordinator_url a)) info ?sv (ag_control_endpoint a)"
  have a': "a' = a \<lparr>ag_files := ?files, ag_sup := ?sv, ag_info := info, ag_sent := ag_sent a @ [?rq]\<rparr>"
    unfolding assms(13) run_cmds.simps c t using assms(3) by (simp add: info_def Let_def)
  show ?thesis using i own' m by (intro exI [of _ i] exI [of _ info] exI [of _ ?sv]) (simp add: a')
qed


definition sample_worker_files :: files where
  "sample_worker_files p = (if p = ''/d/models/m.gguf'' \<or> p = ''/usr/local/bin/llama-server'' then Some ''x'' else None)"

text \<open>A worker on the sample machine whose models directory already has the file.\<close>

lemma sample_agent:
  obtains a where "agent_boot (\<lambda>_. None) io_up (\<lambda>_ _. Inl []) (\<lambda>_. True) ''a'' (Inr sample_host) sample_config sample_worker_files = Inr a"
    and "ag_sent a = []" and "ag_tasks a = []" and "\<not> ag_exited a" and "ag_listening a \<noteq> None"
    and "fetch io_up sample_hub (download_of (load_request (sample_model ''m1'' st) [] [])) (ag_models_dir a) (ag_files a)
      = (Inr ''/d/models/m.gguf'', [])"
    and "''/d/models/m.gguf'' = path_join (ag_models_dir a) (dq_local_filename (download_of (load_request (sample_model ''m1'' st) [] [])))"
    and "locate_binary LLAMA_BIN_NAMES (\<lambda>_. None) (last (ag_files a # [])) = Some ''/usr/local/bin/llama-server''"
proof -
  let ?req = "load_request (sample_model ''m1'' st) [] []"
  obtain a where a: "agent_boot (\<lambda>_. None) io_up (\<lambda>_ _. Inl []) (\<lambda>_. True) ''a'' (Inr sample_host) sample_config sample_worker_files = Inr a"
    by (rule sample_boot)
  note fields = agent_boot_fields [OF a]
  from agent_boot_ok [OF a] have n: "ag_sent a = []" "\<not> ag_exited a" by auto
  have dir: "ag_models_dir a = ''/d/models''"
    by (simp add: fields sample_config_def models_dir_def path_join_def starts_with_def)
  have files: "ag_files a ''/d/models/m.gguf'' = Some ''x''" "ag_files a ''/usr/local/bin/llama-server'' = Some ''x''"
    by (simp_all add: fields load_or_create_node_id_def sample_worker_files_def sample_config_def path_join_def starts_with_def)
  have fname: "dq_local_filename (download_of ?req) = ''m.gguf''" "dq_repo (download_of ?req) \<noteq> []" "dq_file (download_of ?req) \<noteq> []"
    by (simp_all add: download_of_def load_request_def sample_model_def)
  have dest: "''/d/models/m.gguf'' = path_join (ag_models_dir a) (dq_local_filename (download_of ?req))"
    by (simp add: dir fname path_join_def starts_with_def)
  have f: "fetch io_up sample_hub (download_of ?req) (ag_models_dir a) (ag_files a) = (Inr ''/d/models/m.gguf'', [])"
    unfolding fetch_def Let_def dest [symmetric] using fname files by simp
  have bin: "locate_binary LLAMA_BIN_NAMES (\<lambda>_. None) (last (ag_files a # [])) = Some ''/usr/local/bin/llama-server''"
    using files by (simp add: locate_binary_def LLAMA_BIN_NAMES_def SEARCH_DIRS_def path_join_def starts_with_def is_file_def)
  have l: "ag_listening a \<noteq> None" by (simp add: fields control_spawn_default)
  show thesis by (rule that [OF a n(1) fields(1) n(2) l f dest bin])
qed

lemma sample_dest:
  "path_file_name ''/d/models/m.gguf'' \<noteq> None" "\<not> suffix ''.partial'' ''/d/models/m.gguf''"
proof -
  have st: "strip_trailing ''/d/models/m.gguf'' = ''/d/models/m.gguf''" by (subst strip_trailing.simps) (simp add: suffix_def)
  show "path_file_name ''/d/models/m.gguf'' \<noteq> None" by (simp add: path_file_name_def st last_segment_def)
  show "\<not> suffix ''.partial'' ''/d/models/m.gguf''" by (simp add: suffix_to_prefix)
qed


end
