(* ===== verification/Services.thy ===== *)
theory Services
  imports AuthPath MgmtApi WorkerAgent
begin

section \<open>The services as deployed\<close>

text \<open>
  How each service turns its options into its state and a listening socket (\<open>main.rs\<close>, \<open>config.rs\<close> and
  the \<open>run\<close> functions of the four services), the reconciler's loop, the router of the OpenAI API, and
  the path of a request through the gateway's \<open>/cluster\<close> route to the coordinator. \<open>opts\<close> are the long
  options of the command line and \<open>env\<close> is the environment, both of which \<open>clap\<close> reads; \<open>can_bind\<close> says
  whether the operating system grants a socket address.
\<close>

subsection \<open>Options\<close>

type_synonym opts = "string \<Rightarrow> string option"

definition arg :: "opts \<Rightarrow> env \<Rightarrow> string \<Rightarrow> string \<Rightarrow> string option" where
  "arg opts env long var = option_or (opts long) (env var)"

record GatewayConfig =
  gc_bind :: string
  gc_mgmt_backend_url :: string
  gc_coordinator_url :: string
  gc_openai_api_url :: string
  gc_admin_api_key :: "string option"
  gc_tls_cert :: "string option"
  gc_tls_key :: "string option"
  gc_client_ca :: "string option"

definition gateway_config :: "opts \<Rightarrow> env \<Rightarrow> GatewayConfig" where
  "gateway_config opts env =
     \<lparr>gc_bind = unwrap_or ''0.0.0.0:8443'' (arg opts env ''bind'' ''GATEWAY_BIND''),
      gc_mgmt_backend_url = unwrap_or ''http://mgmt:7100'' (arg opts env ''mgmt-backend-url'' ''MGMT_BACKEND_URL''),
      gc_coordinator_url = unwrap_or ''http://coordinator:7001'' (arg opts env ''coordinator-url'' ''COORDINATOR_HTTP_URL''),
      gc_openai_api_url = unwrap_or ''http://openai-api:7200'' (arg opts env ''openai-api-url'' ''OPENAI_API_URL''),
      gc_admin_api_key = arg opts env ''admin-api-key'' ''ADMIN_API_KEY'',
      gc_tls_cert = arg opts env ''tls-cert'' ''TLS_CERT_PATH'',
      gc_tls_key = arg opts env ''tls-key'' ''TLS_KEY_PATH'',
      gc_client_ca = arg opts env ''client-ca'' ''CLIENT_CA_PATH''\<rparr>"

record CoordConfig =
  co_grpc_bind :: string
  co_http_bind :: string
  co_database_url :: "string option"

definition coord_config :: "opts \<Rightarrow> env \<Rightarrow> CoordConfig" where
  "coord_config opts env =
     \<lparr>co_grpc_bind = unwrap_or ''0.0.0.0:7000'' (arg opts env ''grpc-bind'' ''COORD_GRPC_BIND''),
      co_http_bind = unwrap_or ''0.0.0.0:7001'' (arg opts env ''http-bind'' ''COORD_HTTP_BIND''),
      co_database_url = arg opts env ''database-url'' ''DATABASE_URL''\<rparr>"

record MgmtConfig =
  mc_bind :: string
  mc_database_url :: string
  mc_jwt_secret :: string
  mc_admin_api_key :: string
  mc_coordinator_endpoint :: string
  mc_ca_common_name :: string

text \<open>The database URL is required: without it the process ends with a usage error.\<close>

definition mgmt_config :: "opts \<Rightarrow> env \<Rightarrow> MgmtConfig option" where
  "mgmt_config opts env =
     map_option (\<lambda>database_url.
       \<lparr>mc_bind = unwrap_or ''0.0.0.0:7100'' (arg opts env ''bind'' ''MGMT_BIND''),
        mc_database_url = database_url,
        mc_jwt_secret = unwrap_or ''dev-only-change-me'' (arg opts env ''jwt-secret'' ''JWT_SECRET''),
        mc_admin_api_key = unwrap_or ''dev-admin-key'' (arg opts env ''admin-api-key'' ''ADMIN_API_KEY''),
        mc_coordinator_endpoint =
          unwrap_or ''https://localhost/cluster'' (arg opts env ''coordinator-endpoint'' ''COORDINATOR_ENDPOINT''),
        mc_ca_common_name =
          unwrap_or ''MultiGPUCluster Root CA'' (arg opts env ''ca-common-name'' ''CA_COMMON_NAME'')\<rparr>)
     (arg opts env ''database-url'' ''DATABASE_URL'')"

record OpenaiArgs =
  oa_bind :: string
  oa_coordinator_url :: string
  oa_mgmt_url :: string
  oa_mgmt_token :: "string option"

definition openai_args :: "opts \<Rightarrow> env \<Rightarrow> OpenaiArgs" where
  "openai_args opts env =
     \<lparr>oa_bind = unwrap_or ''0.0.0.0:7200'' (arg opts env ''bind'' ''OPENAI_API_BIND''),
      oa_coordinator_url = unwrap_or ''http://coordinator:7001'' (arg opts env ''coordinator-url'' ''COORDINATOR_HTTP_URL''),
      oa_mgmt_url = unwrap_or ''http://mgmt:7100'' (arg opts env ''mgmt-url'' ''MGMT_BACKEND_URL''),
      oa_mgmt_token = arg opts env ''mgmt-token'' ''ADMIN_API_KEY''\<rparr>"

subsection \<open>Start of the services\<close>

definition listen :: "(SocketAddr \<Rightarrow> bool) \<Rightarrow> string \<Rightarrow> string + SocketAddr" where
  "listen can_bind bind_to =
     (case parse_socket_addr bind_to of
        None \<Rightarrow> Inl ''invalid socket address syntax''
      | Some addr \<Rightarrow> if can_bind addr then Inr addr else Inl ''bind failed'')"

definition gateway_run :: "(SocketAddr \<Rightarrow> bool) \<Rightarrow> GatewayConfig \<Rightarrow> string + GatewayState \<times> SocketAddr" where
  "gateway_run can_bind cfg =
     (let state = GatewayState_new (gc_mgmt_backend_url cfg) (gc_coordinator_url cfg) (gc_openai_api_url cfg)
                    (gc_admin_api_key cfg)
      in map_sum id (Pair state) (listen can_bind (gc_bind cfg)))"

text \<open>Two listeners on one registry, with the watchdog beside them; the first failure ends both.\<close>

definition coord_run_http :: "(SocketAddr \<Rightarrow> bool) \<Rightarrow> string \<Rightarrow> string + SocketAddr" where
  "coord_run_http can_bind bind_to = listen can_bind bind_to"

definition coord_run_grpc :: "(SocketAddr \<Rightarrow> bool) \<Rightarrow> string \<Rightarrow> string + SocketAddr" where
  "coord_run_grpc can_bind bind_to = listen can_bind bind_to"

definition coord_run :: "(SocketAddr \<Rightarrow> bool) \<Rightarrow> CoordConfig \<Rightarrow> string + Registry \<times> SocketAddr \<times> SocketAddr" where
  "coord_run can_bind cfg =
     (case coord_run_http can_bind (co_http_bind cfg) of
        Inl e \<Rightarrow> Inl e
      | Inr http \<Rightarrow>
          (case coord_run_grpc can_bind (co_grpc_bind cfg) of
             Inl e \<Rightarrow> Inl e
           | Inr grpc \<Rightarrow> Inr ([], http, grpc)))"

definition openai_run :: "(SocketAddr \<Rightarrow> bool) \<Rightarrow> http \<Rightarrow> OpenaiArgs \<Rightarrow> string + ApiState \<times> SocketAddr" where
  "openai_run can_bind h a =
     map_sum id (Pair (ApiState_of_config (oa_coordinator_url a) (Some (oa_mgmt_url a)) (oa_mgmt_token a) h))
       (listen can_bind (oa_bind a))"

record ('c, 'k) AppState =
  app_ca :: "('c, 'k) Ca"
  app_admin_api_key :: string
  app_coordinator_endpoint :: string

text \<open>\<open>reconciler::spawn\<close>: whether the loop runs.\<close>

definition reconciler_spawn :: "string \<Rightarrow> bool" where
  "reconciler_spawn endpoint \<longleftrightarrow> endpoint \<noteq> []"

text \<open>
  Its loop: one pass per tick, each with the network, database and clocks it meets; a failed pass is
  only logged.
\<close>

fun reconciler_loop :: "string \<Rightarrow> (http \<times> db \<times> time \<times> time) list \<Rightarrow> ModelsState \<Rightarrow> ModelsState" where
  "reconciler_loop endpoint [] s = s"
| "reconciler_loop endpoint ((h, db, now, db_now) # ticks) s =
     reconciler_loop endpoint ticks (snd (reconcile_once (CoordClient_new endpoint h) db now db_now s))"

text \<open>
  \<open>connect\<close> and \<open>migrate\<close> stand for the database driver: the first takes the URL, both may fail. The
  certificate of a fresh CA is stored before the socket is bound.
\<close>

definition mgmt_run ::
  "(string \<Rightarrow> string option) \<Rightarrow> string option \<Rightarrow> ('c, 'k) rcgen \<Rightarrow> string + 'k \<Rightarrow> db \<Rightarrow> (SocketAddr \<Rightarrow> bool) \<Rightarrow> MgmtConfig
    \<Rightarrow> CaRow option \<Rightarrow> (string + ('c, 'k) AppState \<times> bool \<times> SocketAddr) \<times> CaRow option" where
  "mgmt_run connect migrate rg generated db can_bind cfg stored =
     (case connect (mc_database_url cfg) of
        Some e \<Rightarrow> (Inl (''connect to '' @ mc_database_url cfg), stored)
      | None \<Rightarrow>
          (case migrate of
             Some e \<Rightarrow> (Inl ''running database migrations'', stored)
           | None \<Rightarrow>
               (case load_or_init rg generated db (mc_ca_common_name cfg) stored of
                  (Inl e, stored') \<Rightarrow> (Inl e, stored')
                | (Inr ca, stored') \<Rightarrow>
                    let state = \<lparr>app_ca = ca, app_admin_api_key = mc_admin_api_key cfg,
                                 app_coordinator_endpoint = mc_coordinator_endpoint cfg\<rparr>
                    in (map_sum id (\<lambda>addr. (state, reconciler_spawn (app_coordinator_endpoint state), addr))
                          (listen can_bind (mc_bind cfg)),
                        stored'))))"

subsection \<open>The router of the OpenAI API\<close>

text \<open>\<open>None\<close> stands for the answers of the router itself; the second part are the log entries posted.\<close>

datatype OpenaiAnswer = HealthText string | Models ModelList | Chat ApiResponse

definition openai_handle ::
  "ApiState \<Rightarrow> Method \<Rightarrow> string \<Rightarrow> HeaderMap \<Rightarrow> json option \<Rightarrow> nat \<Rightarrow> OpenaiAnswer option \<times> json list" where
  "openai_handle s m path headers body elapsed =
     (if m = GET \<and> path = ''/health'' then (Some (HealthText ''ok''), [])
      else if m = GET \<and> path = ''/v1/models'' then (Some (Models (list_models s)), [])
      else if m = POST \<and> path = ''/v1/chat/completions'' then
        (case body of
           None \<Rightarrow> (None, [])
         | Some req \<Rightarrow> let (resp, logs) = chat_completions s headers req elapsed in (Some (Chat resp), logs))
      else (None, []))"

subsection \<open>The gateway in front of the coordinator\<close>

text \<open>
  The proxy's network with the coordinator as the upstream at \<open>base_url\<close>; \<open>gateway_ip\<close> is the address
  the gateway's connections come from, and \<open>h\<close> is the coordinator's own network. A body counts as JSON
  when the header says so.
\<close>

definition coord_upstream ::
  "wire \<Rightarrow> http \<Rightarrow> (json \<Rightarrow> string) \<Rightarrow> (time \<Rightarrow> string) \<Rightarrow> time \<Rightarrow> time \<Rightarrow> string \<Rightarrow> Registry
    \<Rightarrow> string \<Rightarrow> string \<Rightarrow> HeaderMap \<Rightarrow> string \<Rightarrow> (nat \<times> json) option \<times> Registry" where
  "coord_upstream w h de fmt now now' gateway_ip reg m pq headers bytes =
     (let path = takeWhile (\<lambda>c. c \<noteq> CHR ''?'') pq;
          body = (if header_get ''content-type'' headers = Some ''application/json''
                  then (case parse w bytes of Inr j \<Rightarrow> Some j | Inl _ \<Rightarrow> None) else None)
      in if m = ''GET'' then coord_handle h de fmt now now' gateway_ip GET path body reg
         else if m = ''POST'' then coord_handle h de fmt now now' gateway_ip POST path body reg
         else (None, reg))"

definition cluster_net ::
  "wire \<Rightarrow> http \<Rightarrow> (json \<Rightarrow> string) \<Rightarrow> (time \<Rightarrow> string) \<Rightarrow> time \<Rightarrow> time \<Rightarrow> string \<Rightarrow> string \<Rightarrow> Registry \<Rightarrow> net" where
  "cluster_net w h de fmt now now' gateway_ip base_url reg =
     \<lparr>parse_uri = Inr,
      transfer = (\<lambda>m url headers bytes.
        case strip_prefix base_url url of
          None \<Rightarrow> Inl ''unreachable''
        | Some pq \<Rightarrow>
            (case fst (coord_upstream w h de fmt now now' gateway_ip reg m pq headers bytes) of
               None \<Rightarrow> Inr \<lparr>pr_status = 404, pr_headers = [], pr_bytes = Inr []\<rparr>
             | Some (status, j) \<Rightarrow>
                 Inr \<lparr>pr_status = status, pr_headers = header_insert ''content-type'' ''application/json'' [],
                      pr_bytes = Inr (render w j)\<rparr>))\<rparr>"

subsection \<open>Helpers that no handler uses (\<open>enroll.rs\<close>, \<open>audit.rs\<close>, \<open>nccl-wrapper\<close>)\<close>

record EnrollToken =
  ent_id :: string
  ent_token :: string
  ent_created_at :: time
  ent_expires_at :: time
  ent_used :: bool

text \<open>\<open>random\<close> is the base64 text of the 32 random bytes; \<open>None\<close> is the panic when the generator fails.\<close>

definition issue :: "time \<Rightarrow> string \<Rightarrow> string option \<Rightarrow> time \<Rightarrow> EnrollToken option" where
  "issue now fresh_id random ttl =
     map_option (\<lambda>token. \<lparr>ent_id = fresh_id, ent_token = token, ent_created_at = now, ent_expires_at = now + ttl,
                          ent_used = False\<rparr>) random"

definition validate :: "time \<Rightarrow> EnrollToken \<Rightarrow> string + unit" where
  "validate now token =
     (if ent_used token then Inl ''token already used''
      else if ent_expires_at token < now then Inl ''token expired''
      else Inr ())"

record AuditEntry =
  aen_id :: string
  aen_ts :: time
  aen_actor :: string
  aen_action :: string
  aen_resource :: "string option"
  aen_ip :: "string option"
  aen_details :: json

definition entry :: "string \<Rightarrow> time \<Rightarrow> string \<Rightarrow> string \<Rightarrow> AuditEntry" where
  "entry fresh_id now actor action =
     \<lparr>aen_id = fresh_id, aen_ts = now, aen_actor = actor, aen_action = action, aen_resource = None, aen_ip = None,
      aen_details = JObj []\<rparr>"

datatype NcclError = NotAvailable | Native string

text \<open>Neither build has a communicator: \<open>nccl\<close> is the cargo feature.\<close>

definition Communicator_new :: "bool \<Rightarrow> u32 \<Rightarrow> u32 \<Rightarrow> NcclError + unit" where
  "Communicator_new nccl world_size rank = (if nccl then Inl (Native ''not implemented'') else Inl NotAvailable)"

lemma issued_token_valid_until:
  "issue t0 i r ttl = Some token \<Longrightarrow> validate now token = Inr () \<longleftrightarrow> now \<le> t0 + ttl"
  by (auto simp: issue_def validate_def)

subsection \<open>Lemmas\<close>

text \<open>The loop is a run of reconciler passes, so what holds of every run of the registry holds of it.\<close>

lemma reconciler_loop_run:
  "reconciler_loop ep ticks s =
     run_cmds apply_model_cmd (map (\<lambda>(h, db, now, t). Reconcile (CoordClient_new ep h) db now t) ticks) s"
  by (induction ep ticks s rule: reconciler_loop.induct) simp_all

lemma reconciler_loop_inv: "models_inv s \<Longrightarrow> models_inv (reconciler_loop ep ticks s)"
  unfolding reconciler_loop_run by (rule models.run_invar)

text \<open>The addresses the services listen on and reach each other at when nothing is configured.\<close>

definition at_port :: "string \<Rightarrow> u16 \<Rightarrow> string" where
  "at_port host port = host @ '':'' @ show_nat (unat port)"

definition nothing :: "string \<Rightarrow> string option" where
  "nothing k = None"

lemmas [rust_str] = arg_def option_or_def nothing_def at_port_def

lemma default_binds:
  "gc_bind (gateway_config nothing nothing) = at_port ''0.0.0.0'' GATEWAY_HTTP"
  "co_grpc_bind (coord_config nothing nothing) = at_port ''0.0.0.0'' COORDINATOR_GRPC"
  "co_http_bind (coord_config nothing nothing) = at_port ''0.0.0.0'' COORDINATOR_HTTP"
  "oa_bind (openai_args nothing nothing) = at_port ''0.0.0.0'' OPENAI_API_HTTP"
  "mgmt_config opts nothing = Some cfg \<Longrightarrow> opts ''bind'' = None \<Longrightarrow> mc_bind cfg = at_port ''0.0.0.0'' MGMT_BACKEND_HTTP"
  by (auto simp: gateway_config_def coord_config_def openai_args_def mgmt_config_def port_texts rust_str)

lemma default_upstreams:
  "gc_mgmt_backend_url (gateway_config nothing nothing) = at_port ''http://mgmt'' MGMT_BACKEND_HTTP"
  "gc_coordinator_url (gateway_config nothing nothing) = at_port ''http://coordinator'' COORDINATOR_HTTP"
  "gc_openai_api_url (gateway_config nothing nothing) = at_port ''http://openai-api'' OPENAI_API_HTTP"
  "oa_coordinator_url (openai_args nothing nothing) = at_port ''http://coordinator'' COORDINATOR_HTTP"
  "oa_mgmt_url (openai_args nothing nothing) = at_port ''http://mgmt'' MGMT_BACKEND_HTTP"
  by (simp_all add: gateway_config_def openai_args_def port_texts rust_str)

text \<open>The worker's default is the port of the coordinator's gRPC listener, where no report is served.\<close>

lemma worker_default_is_grpc_port:
  "report_url (wc_coordinator_url (worker_config nothing)) = at_port ''http://coordinator'' COORDINATOR_GRPC @ ''/nodes/report''"
  by (simp add: report_url_def worker_config_def port_texts rust_str)

text \<open>A service whose bind address is a host and a port of the table listens there.\<close>

lemma listen_at_port:
  assumes "\<And>a. can_bind a"
  shows "listen can_bind (at_port ''0.0.0.0'' port) = Inr (SocketV4 (V4 [0, 0, 0, 0]) port)"
proof -
  have "show_ip (V4 [0, 0, 0, 0]) = ''0.0.0.0''" by code_simp
  with parse_socket_v4 [of 0 0 0 0 port] assms show ?thesis by (simp add: listen_def at_port_def)
qed

text \<open>
  An \<open>ADMIN_API_KEY\<close> that is set but empty, as the compose file passes it when the operator sets none,
  makes the empty text the key: the insecure default is not used, and a bearer header without a token
  passes the check.
\<close>

lemma empty_admin_key_admits:
  assumes "env ''ADMIN_API_KEY'' = Some []" and "opts ''admin-api-key'' = None" and "mgmt_config opts env = Some cfg"
  shows "require_admin (mc_admin_api_key cfg) [(''authorization'', ''Bearer '')] = Inr ()"
proof -
  have "mc_admin_api_key cfg = []"
    using assms by (auto simp: mgmt_config_def arg_def option_or_def split: option.splits)
  then show ?thesis using require_admin_ok [of "[]"] by (simp add: to_str_def)
qed

lemma cluster_forwarded:
  assumes "gq_path_and_query req = Some (''/cluster/'' @ rest)"
    and "gq_body req = Inr bytes" and "length bytes \<le> body_limit" and "rest \<noteq> []" and "hd rest \<noteq> CHR ''?''"
    and "net = cluster_net w h de fmt now now' gateway_ip (trim_end_matches (CHR ''/'') (gs_coordinator_http_url st)) reg"
    and "fst (coord_upstream w h de fmt now now' gateway_ip reg (gq_method req) (CHR ''/'' # rest)
           (strip_hop_by_hop (gq_headers req)) bytes) = Some (status, j)"
  shows "gr_status (fst (gateway_app a gh net i t0 t1 t2 req st)) = status \<and>
    gr_body (fst (gateway_app a gh net i t0 t1 t2 req st)) = Raw (render w j) \<and>
    snd (gateway_app a gh net i t0 t1 t2 req st) = st"
proof -
  obtain c cs where rest: "rest = c # cs" "c \<noteq> CHR ''?''" using assms(4,5) by (cases rest) auto
  have r: "route (path_of req) = ToCluster"
    by (simp add: path_of_def assms(1) route_def under_def starts_with_def rest)
  have uri: "parse_uri net = Inr" by (simp add: assms(6) cluster_net_def)
  have "cluster_proxy net st req = forward net st CoordinatorUp (req \<lparr>gq_path_and_query := Some (CHR ''/'' # rest)\<rparr>)"
    unfolding cluster_proxy_def cluster_path_def by (simp add: assms(1) uri strip_prefix_def)
  also have "\<dots> = \<lparr>gr_status = status, gr_headers = strip_hop_by_hop (header_insert ''content-type'' ''application/json'' []),
      gr_body = Raw (render w j)\<rparr>"
    using assms(2,3,7) by (simp add: forward_def uri to_bytes_def assms(6) cluster_net_def strip_prefix_def)
  finally show ?thesis by (simp add: gateway_app_def handle_def r request_id_def)
qed

text \<open>
  The address of a worker that reports through the gateway is the gateway's: the coordinator takes the
  peer of the connection, no header changes it, and no worker detects a WireGuard address.
\<close>

lemma proxied_report_hides_worker:
  assumes "wire_ok w" and "info = agent_info i name (collect machine)"
    and "header_get ''content-type'' headers = Some ''application/json''"
    and "coord_upstream w h de fmt now now' gateway_ip reg ''POST'' ''/nodes/report'' headers
           (render w (publish_body env info sv ctl)) = (Some (200, ack), reg')"
  shows "\<exists>e. get_node reg' i = Some e \<and> dispatch_ip e = Some gateway_ip"
proof -
  from own_info_boot [of i name machine] have w: "wire_info info" and id: "n_node_id info = i"
    by (simp_all add: own_info_def assms(2))
  have wg: "map_option net_wg_ip (n_network info) = Some []"
    unfolding assms(2) by (cases name) (simp_all add: agent_info_def collect_def network_detect_def Let_def)
  obtain r where r: "report_node de now now' gateway_ip (publish_body env info sv ctl) reg = (r, reg')"
      and a: "http_answer r = (200, ack)"
    using assms(1,3,4) by (auto simp: coord_upstream_def coord_handle_def wire_ok_def Let_def split: prod.splits)
  obtain j where "r = Inr j"
  proof (cases r)
    case (Inl e)
    have "fst e \<noteq> 200" using r Inl by (auto simp: report_node_def Let_def split: option.splits if_splits)
    with a Inl show thesis by simp
  qed (rule that)
  from publish_entry [OF w r [unfolded this]] obtain e where e: "get_node reg' i = Some e"
      "ne_info e = info_of_view (view_of_info info)" "ne_current_public_ip e = Some gateway_ip"
    unfolding id by blast
  have "wg_ip_of e = None"
    using wg by (cases "n_network info") (auto simp: wg_ip_of_def e(2) info_of_view_def view_of_info_def option_filter_def
        network_of_view_def view_of_network_def)
  with e show ?thesis by (auto simp: dispatch_ip_def option_or_def)
qed

subsection \<open>Properties\<close>

text \<open>
  C16. The \<open>/cluster\<close> route of the gateway is open: a load command for a registered node needs no
  credentials. Whatever other headers the request has, the gateway forwards it, the coordinator proxies
  it, and the worker's control server accepts it; the caller gets the worker's acknowledgement.
\<close>

theorem cluster_route_open:
  assumes "wire_ok w" and "gq_method req = ''POST''"
    and "gq_path_and_query req = Some (''/cluster/nodes/'' @ i @ ''/load_model'')"
    and "i \<noteq> []" and "CHR ''/'' \<notin> set i" and "CHR ''?'' \<notin> set i"
    and "header_get ''content-type'' (gq_headers req) = Some ''application/json''"
    and "gq_body req = Inr (render w j)" and "length (render w j) \<le> body_limit"
    and "get_node reg i = Some e" and "load_model_url e i = Inr (b @ ''/control/load_model'')"
    and "trim_end_matches (CHR ''/'') b = addr"
    and "de_load_model j = Some lreq" and "load_model lreq = (Inr ack, Some lreq)"
    and "net = cluster_net w (control_net w addr) de fmt now now' gateway_ip
           (trim_end_matches (CHR ''/'') (gs_coordinator_http_url st)) reg"
    and "resp = fst (gateway_app a gh net uuid t0 t1 t2 req st)"
  shows "gr_status resp = 200 \<and> gr_body resp = Raw (render w ack) \<and>
    control_handle POST ''/control/load_model'' (Some j) = (Some (Inr ack), Some lreq)"
proof -
  let ?rest = "''nodes/'' @ i @ ''/load_model''"
  have q: "takeWhile (\<lambda>c. c \<noteq> CHR ''?'') (i @ ''/load_model'') = i @ ''/load_model''"
    using assms(6) by (auto simp: takeWhile_eq_all_conv)
  have path: "path_param ''/nodes/'' ''/load_model'' (''/nodes/'' @ i @ ''/load_model'') = Some i"
    using assms(4,5) by (simp add: path_param_eq_Some)
  have ne: "''/nodes/'' @ i @ ''/load_model'' \<noteq> ''/nodes/report''"
  proof
    assume "''/nodes/'' @ i @ ''/load_model'' = ''/nodes/report''"
    then have "length (i @ ''/load_model'') = length ''report''" by simp
    then show False by simp
  qed
  have "header_get ''content-type'' (strip_hop_by_hop (gq_headers req)) = Some ''application/json''"
    by (simp add: header_get_strip hop_by_hop_def assms(7))
  then have up: "fst (coord_upstream w (control_net w addr) de fmt now now' gateway_ip reg (gq_method req) (CHR ''/'' # ?rest)
      (strip_hop_by_hop (gq_headers req)) (render w j)) = Some (200, ack)"
    using assms(1) path q ne proxy_accepts [OF assms(1,10-14)]
    by (simp add: coord_upstream_def coord_handle_def assms(2) wire_ok_def)
  have pq: "gq_path_and_query req = Some (''/cluster/'' @ ?rest)" using assms(3) by simp
  from cluster_forwarded [OF pq assms(8,9) _ _ assms(15) up, of a gh uuid t0 t1 t2]
  have "gr_status resp = 200 \<and> gr_body resp = Raw (render w ack)" by (simp add: assms(16))
  moreover have "control_handle POST ''/control/load_model'' (Some j) = (Some (Inr ack), Some lreq)"
    using assms(13,14) by (simp add: control_handle_def)
  ultimately show ?thesis by blast
qed

text \<open>A wire format that writes one document as the empty text and numbers the others.\<close>

definition short_wire :: "json \<Rightarrow> wire" where
  "short_wire j0 =
     \<lparr>render = (\<lambda>j. if j = j0 then [] else render numbered_wire j),
      parse = (\<lambda>t. if t = [] then Inr j0 else parse numbered_wire t)\<rparr>"

lemma short_wire_ok: "wire_ok (short_wire j0)"
proof -
  have "show_nat n \<noteq> []" for n by (subst show_nat.simps) simp
  then show ?thesis using numbered_wire_ok by (simp add: wire_ok_def short_wire_def) (simp add: numbered_wire_def)
qed

theorem cluster_route_open_witness:
  "\<exists>j resp. resp = fst (gateway_app \<lparr>ADMIN_HTML = [], ADMIN_CSS = [], ADMIN_JS = []\<rparr> (json_http JNull)
       (cluster_net (short_wire j) (control_net (short_wire j) ''http://10.0.0.1:50054'') (\<lambda>_. []) (\<lambda>_. []) 7 7 ''172.18.0.5''
         ''http://coord:7001'' sample_worker_reg) ''u'' 7 7 7
       \<lparr>gq_method = ''POST'', gq_path_and_query = Some ''/cluster/nodes/a/load_model'',
        gq_headers = [(''content-type'', ''application/json'')], gq_body = Inr []\<rparr> sample_gateway) \<and>
     gr_status resp = 200"
proof -
  let ?j = "load_body (sample_model ''m1'' ''available'') [] []"
  let ?lreq = "load_request (sample_model ''m1'' ''available'') [] []"
  let ?w = "short_wire ?j"
  let ?net = "cluster_net ?w (control_net ?w ''http://10.0.0.1:50054'') (\<lambda>_. []) (\<lambda>_. []) 7 7 ''172.18.0.5''
         ''http://coord:7001'' sample_worker_reg"
  let ?req = "\<lparr>gq_method = ''POST'', gq_path_and_query = Some ''/cluster/nodes/a/load_model'',
        gq_headers = [(''content-type'', ''application/json'')], gq_body = Inr []\<rparr>"
  have r: "render ?w ?j = []" by (simp add: short_wire_def)
  obtain ack where load: "load_model ?lreq = (Inr ack, Some ?lreq)"
    by (simp add: load_model_def load_request_def sample_model_def)
  have base: "trim_end_matches (CHR ''/'') ''http://10.0.0.1:50054'' = ''http://10.0.0.1:50054''"
    by (simp add: trim_end_matches_id)
  have coord: "trim_end_matches (CHR ''/'') (gs_coordinator_http_url sample_gateway) = ''http://coord:7001''"
    by (simp add: sample_gateway_def GatewayState_new_def trim_end_matches_id)
  have "gr_status (fst (gateway_app \<lparr>ADMIN_HTML = [], ADMIN_CSS = [], ADMIN_JS = []\<rparr> (json_http JNull) ?net ''u'' 7 7 7 ?req
      sample_gateway)) = 200"
    using cluster_route_open [OF short_wire_ok _ _ _ _ _ _ _ _ sample_load_url base load_body_decodes load _ refl,
        of ?req ?j ?net "\<lambda>_. []" "\<lambda>_. []" 7 7 "''172.18.0.5''" sample_gateway] r
    by (simp add: coord header_get_def)
  then show ?thesis by blast
qed

end
