(* ===== verification/Cli.thy ===== *)
theory Cli
  imports Bootstrap IpAddr
begin

section \<open>The command lines (\<open>bootstrapper/src/main.rs\<close>, \<open>cli/src/main.rs\<close>)\<close>

text \<open>
  The subcommands of the host agent, each with the operation of \<open>Bootstrap\<close> behind it and the text of
  \<open>status\<close>, and those of the admin command line, which only print. The parser of the command line is
  \<open>clap\<close>; a parsed command is a value of the source's enum. The theorem says which commands can change the
  identity file.
\<close>

subsection \<open>\<open>status\<close>\<close>

text \<open>\<open>{:?}\<close> of a string, for ASCII; the bytes of other code points are taken to be printable.\<close>

definition debug_char :: "char \<Rightarrow> string" where
  "debug_char c =
     (let n = (of_char c :: nat)
      in if n = 0x09 then [CHR 0x5C, CHR ''t'']
         else if n = 0x0D then [CHR 0x5C, CHR ''r'']
         else if n = 0x0A then [CHR 0x5C, CHR ''n'']
         else if n = 0 then [CHR 0x5C, CHR ''0'']
         else if n = 0x22 \<or> n = 0x5C then [CHR 0x5C, c]
         else if n < 0x20 \<or> n = 0x7F then CHR 0x5C # ''u{'' @ show_hex n @ ''}''
         else [c])"

definition debug_str :: "string \<Rightarrow> string" where
  "debug_str s = CHR 0x22 # concat (map debug_char s) @ [CHR 0x22]"

fun debug_opt :: "string option \<Rightarrow> string" where
  "debug_opt None = ''None''"
| "debug_opt (Some s) = ''Some('' @ debug_str s @ '')''"

definition show_bool :: "bool \<Rightarrow> string" where
  "show_bool b = (if b then ''true'' else ''false'')"

definition status :: "host \<Rightarrow> wire \<Rightarrow> io \<Rightarrow> files \<Rightarrow> AgentError + string" where
  "status h w io files =
     (let pf = preflight_check h files
      in (case load_identity h w io files of
            Inl e \<Rightarrow> Inl e
          | Inr identity \<Rightarrow>
              Inr (concat (map text_line
                     ([''== preflight =='',
                       ''  os:            '' @ os_label pf,
                       ''  docker:        '' @ show_bool (pf_docker_present pf),
                       ''  nvidia-smi:    '' @ show_bool (pf_nvidia_smi_present pf),
                       ''  apple-silicon: '' @ show_bool (pf_is_apple_silicon pf),
                       ''  driver:        '' @ debug_opt (pf_driver_version pf)]
                      @ (case pf_cpu_brand pf of Some cpu \<Rightarrow> [''  cpu:           '' @ cpu] | None \<Rightarrow> [])
                      @ [''== identity ==='']
                      @ (case identity of
                           Some i \<Rightarrow> [''  node_id:       '' @ id_node_id i,
                                      ''  coordinator:   '' @ id_coordinator_endpoint i,
                                      ''  enrolled:      yes'']
                         | None \<Rightarrow> [''  enrolled:      no''])
                      @ [[]]))
                   @ format_human (collect h))))"

subsection \<open>The host agent\<close>

datatype AgentCmd =
    Install
  | Uninstall bool
  | Enroll string string "string option" bool
  | Run
  | Status
  | ReEnroll string string

text \<open>The client of an enrollment; a client that cannot be built is an error.\<close>

definition enroll_client :: "bool \<Rightarrow> HttpClient" where
  "enroll_client insecure =
     (if insecure then Client_default \<lparr>hc_accept_invalid_certs := True\<rparr> else Client_default)"

record outcome =
  oc_result :: "AgentError + string"
  oc_commands :: "command list"
  oc_files :: files

text \<open>
  \<open>net\<close> is the network as a client sees it, \<open>written\<close> and \<open>kept\<close> describe how far a failing write or
  removal gets, and \<open>spawn\<close> starts the native worker. \<open>Run\<close> is given until its idle loop.
\<close>

fun agent_main ::
  "host \<Rightarrow> (HttpClient \<Rightarrow> http) \<Rightarrow> wire \<Rightarrow> (string \<Rightarrow> env \<Rightarrow> string + nat) \<Rightarrow> io \<Rightarrow> nat \<Rightarrow> (string \<Rightarrow> bool)
    \<Rightarrow> (string \<times> string) option \<Rightarrow> AgentCmd \<Rightarrow> files \<Rightarrow> outcome" where
  "agent_main h net w spawn io written kept keypair Install files =
     (let (r, cmds, files') = install h io files
      in \<lparr>oc_result = map_sum id (\<lambda>_. []) r, oc_commands = cmds, oc_files = files'\<rparr>)"
| "agent_main h net w spawn io written kept keypair (Uninstall purge) files =
     (let (cmds, files') = uninstall h io kept purge files
      in \<lparr>oc_result = Inr [], oc_commands = cmds, oc_files = files'\<rparr>)"
| "agent_main h net w spawn io written kept keypair (Enroll backend token display_name insecure) files =
     (let (r, files') = enroll_run h (net (enroll_client insecure)) w io written keypair backend token display_name files
      in \<lparr>oc_result = map_sum id (\<lambda>_. []) r, oc_commands = [], oc_files = files'\<rparr>)"
| "agent_main h net w spawn io written kept keypair Run files =
     (let (r, cmds, files') = agent_start h w spawn io files
      in \<lparr>oc_result = map_sum id (\<lambda>_. []) r, oc_commands = cmds, oc_files = files'\<rparr>)"
| "agent_main h net w spawn io written kept keypair Status files =
     \<lparr>oc_result = status h w io files, oc_commands = [], oc_files = files\<rparr>"
| "agent_main h net w spawn io written kept keypair (ReEnroll backend token) files =
     (let (r, files') = enroll_run h (net (enroll_client False)) w io written keypair backend token None files
      in \<lparr>oc_result = map_sum id (\<lambda>_. []) r, oc_commands = [], oc_files = files'\<rparr>)"

subsection \<open>The admin command line\<close>

datatype NodesCmd =
    NodesCmd_List
  | NodesCmd_Show string
  | NodesCmd_Approve string
  | NodesCmd_Revoke string "string option"
  | NodesCmd_Drain string
  | NodesCmd_Token "string option"

datatype JobsCmd =
    JobsCmd_List
  | JobsCmd_Show string
  | JobsCmd_Submit string
  | JobsCmd_Cancel string

datatype Cmd = Cmd_Nodes NodesCmd | Cmd_Jobs JobsCmd | Cmd_Status

text \<open>What is printed; nothing is sent.\<close>

fun cli_output :: "string \<Rightarrow> Cmd \<Rightarrow> string" where
  "cli_output backend Cmd_Status = text_line (''backend = '' @ backend)"
| "cli_output backend (Cmd_Nodes NodesCmd_List) = text_line (''[stub] GET '' @ backend @ ''/api/v1/nodes'')"
| "cli_output backend (Cmd_Nodes (NodesCmd_Show i)) = text_line (''[stub] GET '' @ backend @ ''/api/v1/nodes/'' @ i)"
| "cli_output backend (Cmd_Nodes (NodesCmd_Approve i)) =
     text_line (''[stub] POST '' @ backend @ ''/api/v1/nodes/'' @ i @ ''/approve'')"
| "cli_output backend (Cmd_Nodes (NodesCmd_Revoke i reason)) =
     text_line (''[stub] POST '' @ backend @ ''/api/v1/nodes/'' @ i @ ''/revoke'')"
| "cli_output backend (Cmd_Nodes (NodesCmd_Drain i)) =
     text_line (''[stub] POST '' @ backend @ ''/api/v1/nodes/'' @ i @ ''/drain'')"
| "cli_output backend (Cmd_Nodes (NodesCmd_Token display)) =
     text_line (''[stub] POST '' @ backend @ ''/api/v1/enroll/tokens'')"
| "cli_output backend (Cmd_Jobs JobsCmd_List) = text_line (''[stub] GET '' @ backend @ ''/api/v1/jobs'')"
| "cli_output backend (Cmd_Jobs (JobsCmd_Show i)) = text_line (''[stub] GET '' @ backend @ ''/api/v1/jobs/'' @ i)"
| "cli_output backend (Cmd_Jobs (JobsCmd_Submit spec)) =
     text_line (''[stub] POST '' @ backend @ ''/api/v1/jobs (spec='' @ spec @ '')'')"
| "cli_output backend (Cmd_Jobs (JobsCmd_Cancel i)) =
     text_line (''[stub] POST '' @ backend @ ''/api/v1/jobs/'' @ i @ ''/cancel'')"

subsection \<open>Lemmas\<close>

text \<open>The identity file is none of the other files the agent writes.\<close>

lemma identity_path_suffix: "suffix ''identity.json'' (identity_path h)"
  by (auto simp: identity_path_def path_join_def suffix_def starts_with_def)

lemma identity_path_distinct:
  "identity_path h \<noteq> pid_file h" "identity_path h \<noteq> UNIT_PATH" "identity_path h \<noteq> LAUNCHD_PLIST_PATH"
proof -
  show "identity_path h \<noteq> pid_file h"
    by (auto simp: identity_path_def pid_file_def path_join_def starts_with_def dest: arg_cong [of _ _ rev])
  have "\<not> suffix ''identity.json'' UNIT_PATH" "\<not> suffix ''identity.json'' LAUNCHD_PLIST_PATH"
    by (simp_all add: UNIT_PATH_def LAUNCHD_PLIST_PATH_def suffix_to_prefix)
  with identity_path_suffix [of h] show "identity_path h \<noteq> UNIT_PATH" "identity_path h \<noteq> LAUNCHD_PLIST_PATH" by auto
qed

lemma install_files: "p \<noteq> UNIT_PATH \<Longrightarrow> p \<noteq> LAUNCHD_PLIST_PATH \<Longrightarrow> snd (snd (install h io files)) p = files p"
  by (auto simp: install_def write_systemd_unit_def write_launchd_plist_def Let_def split: TargetOs.splits option.splits)

lemma agent_start_files: "p \<noteq> pid_file h \<Longrightarrow> snd (snd (agent_start h w spawn io files)) p = files p"
  by (auto simp: agent_start_def native_run_worker_def Let_def split: sum.splits option.splits prod.splits)

lemma uninstall_files:
  assumes "p \<noteq> UNIT_PATH" and "p \<noteq> LAUNCHD_PLIST_PATH" and "p \<noteq> pid_file h"
  shows "snd (uninstall h io kept purge files) p = files p \<or> purge \<and> snd (uninstall h io kept purge files) p = None"
  using assms
  by (auto simp: uninstall_def native_stop_worker_def remove_dir_all_def remove_file_def Let_def
      split: TargetOs.splits option.splits prod.splits)

lemma enroll_run_files:
  assumes "enroll_run h net w io written keypair backend token dn files = (r, files')"
  shows "files' = files \<or>
    (\<exists>i n. files' = files(identity_path h := Some (take n (render w (identity_json i)))) \<and>
           (r = Inr () \<longrightarrow> files' (identity_path h) = Some (render w (identity_json i))))"
proof -
  have p: "files'' = files \<or> (\<exists>n. files'' = files(identity_path h := Some (take n (render w (identity_json i)))) \<and>
      (r'' = Inr () \<longrightarrow> files'' (identity_path h) = Some (render w (identity_json i))))"
    if e: "persist_identity h w io written i files = (r'', files'')" for i r'' files''
  proof (cases "io 0 = None \<and> io 1 = None \<and> io 2 = None")
    case True
    with e have "r'' = Inr ()" "files'' = files(identity_path h := Some (render w (identity_json i)))"
      by (simp_all add: persist_identity_def write_secure_def)
    then show ?thesis by (intro disjI2 exI [of _ "length (render w (identity_json i))"]) simp
  next
    case False
    with e show ?thesis by (auto simp: persist_identity_def write_secure_def split: option.splits)
  qed
  show ?thesis
  proof (cases "\<exists>i. persist_identity h w io written i files = (r, files')")
    case True
    with p show ?thesis by blast
  next
    case False
    with assms have "files' = files"
      by (auto simp: enroll_run_def split: option.splits sum.splits prod.splits if_splits)
    then show ?thesis ..
  qed
qed

lemma enroll_outcome:
  assumes "enroll_run h net w io written keypair backend token dn files = (r, files')"
    and "oc = \<lparr>oc_result = map_sum id (\<lambda>_. []) r, oc_commands = [], oc_files = files'\<rparr>"
    and "oc_files oc (identity_path h) \<noteq> files (identity_path h)"
  shows "\<exists>i n. oc_files oc (identity_path h) = Some (take n (render w (identity_json i))) \<and>
    (oc_result oc = Inr [] \<longrightarrow> oc_files oc (identity_path h) = Some (render w (identity_json i)))"
proof -
  have f: "oc_files oc = files'" and r: "oc_result oc = Inr [] \<Longrightarrow> r = Inr ()"
    using assms(2) by (auto simp: map_sum_def split: sum.splits)
  from enroll_run_files [OF assms(1)] assms(3) obtain i n where
    "files' = files(identity_path h := Some (take n (render w (identity_json i))))"
    "r = Inr () \<longrightarrow> files' (identity_path h) = Some (render w (identity_json i))"
    unfolding f by blast
  with f r show ?thesis by (intro exI [of _ i] exI [of _ n]) simp
qed

subsection \<open>Properties\<close>

text \<open>
  C19. Only enrolling and purging touch the identity file. Any command that changes it is an enrollment or
  a purge: a purge removes it, a successful enrollment leaves the complete document of the new identity, and
  a failed one that got as far as writing leaves a part of it. Installing, running, asking for the status
  and uninstalling without a purge never change it.
\<close>

theorem identity_changes_only_by_enrollment:
  assumes "oc = agent_main h net w spawn io written kept keypair cmd files"
    and "oc_files oc (identity_path h) \<noteq> files (identity_path h)"
  shows "(cmd = Uninstall True \<and> oc_files oc (identity_path h) = None) \<or>
    ((\<exists>backend token dn insecure. cmd = Enroll backend token dn insecure \<or> cmd = ReEnroll backend token) \<and>
     (\<exists>i n. oc_files oc (identity_path h) = Some (take n (render w (identity_json i))) \<and>
        (oc_result oc = Inr [] \<longrightarrow> oc_files oc (identity_path h) = Some (render w (identity_json i)))))"
proof -
  note d = identity_path_distinct [of h]
  show ?thesis
  proof (cases cmd)
    case Install
    with assms install_files [OF d(2,3), of h io files] show ?thesis by (auto split: prod.splits)
  next
    case (Uninstall purge)
    with assms uninstall_files [OF d(2,3,1), of io kept purge files] show ?thesis by (auto split: prod.splits)
  next
    case (Enroll backend token dn insecure)
    obtain r files' where e: "enroll_run h (net (enroll_client insecure)) w io written keypair backend token dn files = (r, files')"
      by fastforce
    from enroll_outcome [OF e _ assms(2)] assms(1) show ?thesis unfolding Enroll by (simp add: e)
  next
    case Run
    with assms agent_start_files [OF d(1), of w spawn io files] show ?thesis by (auto split: prod.splits)
  next
    case Status
    with assms show ?thesis by simp
  next
    case (ReEnroll backend token)
    obtain r files' where e: "enroll_run h (net (enroll_client False)) w io written keypair backend token None files = (r, files')"
      by fastforce
    from enroll_outcome [OF e _ assms(2)] assms(1) show ?thesis unfolding ReEnroll by (simp add: e)
  qed
qed

theorem identity_changes_only_by_enrollment_witness:
  "oc_files (agent_main sample_mac (\<lambda>_. json_http JNull) numbered_wire (\<lambda>_ _. Inr 1) io_up 0 (\<lambda>_. True) None (Uninstall True)
     (\<lambda>p. if p = identity_path sample_mac then Some ''x'' else None)) (identity_path sample_mac) = None"
proof (rule ccontr)
  let ?files = "\<lambda>p. if p = identity_path sample_mac then Some ''x'' else None"
  let ?oc = "agent_main sample_mac (\<lambda>_. json_http JNull) numbered_wire (\<lambda>_ _. Inr 1) io_up 0 (\<lambda>_. True) None (Uninstall True) ?files"
  assume n: "oc_files ?oc (identity_path sample_mac) \<noteq> None"
  have "starts_with (identity_path sample_mac) (path_join (data_dir sample_mac) [])"
    by (auto simp: identity_path_def path_join_def starts_with_def)
  then have "oc_files ?oc (identity_path sample_mac) \<noteq> ?files (identity_path sample_mac)"
    by (simp add: uninstall_def remove_dir_all_def case_prod_unfold Let_def)
  from identity_changes_only_by_enrollment [OF refl this] n show False by simp
qed

end
