(* ===== verification/Downloads.thy ===== *)
theory Downloads
  imports Worker
begin

section \<open>Downloads side by side (\<open>worker/src/model_downloader.rs\<close>, \<open>control_server.rs\<close>)\<close>

text \<open>
  Every accepted load command spawns a task of its own, so the downloads of a worker interleave at
  their \<open>await\<close> points, and an open file keeps its content apart from its name. Here \<open>fetch\<close> is a task
  that takes one file operation or network call per step, on a disk of names and contents; the tasks
  of a worker advance in any order. \<open>fetch_runs_alone\<close> ties a task without company to the function
  \<open>fetch\<close> of \<open>Worker\<close>. Tasks whose files differ leave each other alone under every interleaving;
  two tasks for one file, and a failed flush, can leave a truncated model behind.
\<close>

subsection \<open>The disk\<close>

text \<open>
  \<open>dk_dir\<close> maps a name to a file, \<open>dk_data\<close> a file to its bytes. A file without a name lives on as long
  as it is open. Directories are not part of it.
\<close>

record disk =
  dk_dir :: "string \<Rightarrow> nat option"
  dk_data :: "nat \<Rightarrow> string"
  dk_next :: nat

definition look :: "disk \<Rightarrow> string \<Rightarrow> (nat \<times> string) option" where
  "look d p = map_option (\<lambda>f. (f, dk_data d f)) (dk_dir d p)"

definition files_of :: "disk \<Rightarrow> files" where
  "files_of d p = map_option snd (look d p)"

definition disk_ok :: "disk \<Rightarrow> bool" where
  "disk_ok d \<longleftrightarrow> (\<forall>p f. dk_dir d p = Some f \<longrightarrow> f < dk_next d) \<and>
     (\<forall>p q f. dk_dir d p = Some f \<longrightarrow> dk_dir d q = Some f \<longrightarrow> p = q)"

text \<open>\<open>File::create\<close>: a new file, or the old one emptied. A write at an offset fills a gap with zeros.\<close>

definition disk_create :: "string \<Rightarrow> disk \<Rightarrow> nat \<times> disk" where
  "disk_create p d =
     (case dk_dir d p of
        Some f \<Rightarrow> (f, d \<lparr>dk_data := (dk_data d)(f := [])\<rparr>)
      | None \<Rightarrow> (dk_next d, \<lparr>dk_dir = (dk_dir d)(p := Some (dk_next d)),
                             dk_data = (dk_data d)(dk_next d := []), dk_next = Suc (dk_next d)\<rparr>))"

definition disk_write :: "nat \<Rightarrow> nat \<Rightarrow> string \<Rightarrow> disk \<Rightarrow> disk" where
  "disk_write f off b d =
     (let old = dk_data d f
      in d \<lparr>dk_data := (dk_data d)(f := take off (old @ replicate (off - length old) (char_of (0::nat))) @ b
                                          @ drop (off + length b) old)\<rparr>)"

definition disk_unlink :: "string \<Rightarrow> disk \<Rightarrow> disk" where
  "disk_unlink p d = d \<lparr>dk_dir := (dk_dir d)(p := None)\<rparr>"

definition disk_rename :: "string \<Rightarrow> string \<Rightarrow> disk \<Rightarrow> disk option" where
  "disk_rename p q d =
     map_option (\<lambda>f. d \<lparr>dk_dir := (dk_dir d)(p := None, q := Some f)\<rparr>) (dk_dir d p)"

subsection \<open>One task\<close>

text \<open>
  The outcome of the operation a step makes: done, or failed with a text after the first \<open>n\<close> bytes of
  a write.
\<close>

datatype outcome = Done | Failed nat string

text \<open>
  Where a task is: before the directory is made, the metadata read, the leftover removed, the request
  sent, the partial file created; in the write loop with its file, offset, the chunk handed to \<open>write_all\<close>
  last and the rest of the stream; before the rename; at its end. \<open>write_all\<close> of \<open>tokio::fs::File\<close> returns
  before the bytes are written: the next write or the flush waits for them and learns how it went.
\<close>

datatype pc =
    Starting
  | Checking
  | Cleaning
  | Requesting
  | Creating "(string + string) list"
  | Streaming nat nat string "(string + string) list"
  | Renaming
  | Finished "string + string"

definition dest_of :: "string \<Rightarrow> DownloadRequest \<Rightarrow> string" where
  "dest_of dir req = path_join dir (dq_local_filename req)"

definition partial_of :: "string \<Rightarrow> DownloadRequest \<Rightarrow> string" where
  "partial_of dir req = with_extension (dest_of dir req) ''partial''"

definition hub_answer :: "hub \<Rightarrow> DownloadRequest \<Rightarrow> string + (nat \<times> (string + string) list)" where
  "hub_answer hub req = hub_get hub (hf_url req) (if dq_token req = [] then None else Some (dq_token req))"

definition arrow :: string where
  "arrow = '' '' @ [CHR 0xE2, CHR 0x86, CHR 0x92] @ '' ''"

fun task_step :: "hub \<Rightarrow> string \<Rightarrow> DownloadRequest \<Rightarrow> outcome \<Rightarrow> pc \<Rightarrow> disk \<Rightarrow> pc \<times> disk" where
  "task_step hub dir req out Starting d =
     (if dq_repo req = [] then (Finished (Inl ''hf_repo must not be empty''), d)
      else if dq_file req = [] then (Finished (Inl ''hf_file must not be empty''), d)
      else if out \<noteq> Done then (Finished (Inl (''creating models dir '' @ dir)), d)
      else (Checking, d))"
| "task_step hub dir req out Checking d =
     (if out = Done \<and> (case files_of d (dest_of dir req) of Some c \<Rightarrow> c \<noteq> [] | None \<Rightarrow> False)
      then (Finished (Inr (dest_of dir req)), d) else (Cleaning, d))"
| "task_step hub dir req out Cleaning d =
     (Requesting, if out = Done then disk_unlink (partial_of dir req) d else d)"
| "task_step hub dir req out Requesting d =
     (case out of
        Failed n e \<Rightarrow> (Finished (Inl e), d)
      | Done \<Rightarrow>
          (case hub_answer hub req of
             Inl e \<Rightarrow> (Finished (Inl (''GET '' @ hf_url req)), d)
           | Inr (status, chunks) \<Rightarrow>
               if \<not> is_success status
               then (Finished (Inl (''huggingface returned '' @ show_status hub status @ '' for '' @ hf_url req)), d)
               else (Creating chunks, d)))"
| "task_step hub dir req out (Creating chunks) d =
     (if out \<noteq> Done then (Finished (Inl (''creating '' @ partial_of dir req)), d)
      else let (f, d') = disk_create (partial_of dir req) d in (Streaming f 0 [] chunks, d'))"
| "task_step hub dir req out (Streaming f off pending chunks) d =
     (let d' = disk_write f off (case out of Done \<Rightarrow> pending | Failed n e \<Rightarrow> take n pending) d
      in (case chunks of
            [] \<Rightarrow> (Renaming, d')
          | Inl e # _ \<Rightarrow> (Finished (Inl ''reading hf response chunk''), d')
          | Inr b # cs \<Rightarrow>
              if out \<noteq> Done then (Finished (Inl ''writing to partial file''), d')
              else (Streaming f (off + length pending) b cs, d')))"
| "task_step hub dir req out Renaming d =
     (case (if out = Done then disk_rename (partial_of dir req) (dest_of dir req) d else None) of
        None \<Rightarrow> (Finished (Inl (''rename '' @ partial_of dir req @ arrow @ dest_of dir req)), d)
      | Some d' \<Rightarrow> (Finished (Inr (dest_of dir req)), d'))"
| "task_step hub dir req out (Finished r) d = (Finished r, d)"

subsection \<open>All tasks of a worker\<close>

text \<open>\<open>hubs i\<close> is the Hub as the \<open>i\<close>-th task finds it.\<close>

record Downloads =
  dl_disk :: disk
  dl_tasks :: "(DownloadRequest \<times> pc) list"

datatype DlEvent = Begin DownloadRequest | Advance nat outcome

fun dl_step :: "(nat \<Rightarrow> hub) \<Rightarrow> string \<Rightarrow> DlEvent \<Rightarrow> Downloads \<Rightarrow> Downloads" where
  "dl_step hubs dir (Begin req) s = s \<lparr>dl_tasks := dl_tasks s @ [(req, Starting)]\<rparr>"
| "dl_step hubs dir (Advance i out) s =
     (if length (dl_tasks s) \<le> i then s
      else let (req, pc) = dl_tasks s ! i;
               (pc', d) = task_step (hubs i) dir req out pc (dl_disk s)
           in \<lparr>dl_disk = d, dl_tasks = (dl_tasks s)[i := (req, pc')]\<rparr>)"

text \<open>No flush fails: \<open>fetch\<close> ignores the result of \<open>flush\<close>.\<close>

fun flush_fails :: "DlEvent \<Rightarrow> Downloads \<Rightarrow> bool" where
  "flush_fails (Begin req) s = False"
| "flush_fails (Advance i out) s =
     (i < length (dl_tasks s) \<and> out \<noteq> Done \<and>
      (case snd (dl_tasks s ! i) of Streaming f off pending [] \<Rightarrow> True | _ \<Rightarrow> False))"

fun flushes_ok :: "(nat \<Rightarrow> hub) \<Rightarrow> string \<Rightarrow> DlEvent list \<Rightarrow> Downloads \<Rightarrow> bool" where
  "flushes_ok hubs dir [] s = True"
| "flushes_ok hubs dir (e # es) s = (\<not> flush_fails e s \<and> flushes_ok hubs dir es (dl_step hubs dir e s))"

subsection \<open>The disk operations by name\<close>

text \<open>What an operation does to the file behind each name; other names keep theirs.\<close>

lemma look_None_iff: "look d p = None \<longleftrightarrow> dk_dir d p = None"
  by (simp add: look_def)

lemma look_Some_iff: "look d p = Some (f, c) \<longleftrightarrow> dk_dir d p = Some f \<and> dk_data d f = c"
  by (auto simp: look_def)

lemma look_unlink: "look (disk_unlink p d) q = (if q = p then None else look d q)"
  by (simp add: look_def disk_unlink_def)

lemma look_create:
  assumes "disk_ok d" and "disk_create p d = (f, d')"
  shows "look d' q = (if q = p then Some (f, []) else look d q)" and "disk_ok d'"
proof -
  have fresh: "dk_dir d q \<noteq> Some (dk_next d)" for q
    using assms(1) by (auto simp: disk_ok_def)
  have other: "q \<noteq> p \<Longrightarrow> dk_dir d p = Some g \<Longrightarrow> dk_dir d q \<noteq> Some g" for q g
    using assms(1) by (auto simp: disk_ok_def)
  show "look d' q = (if q = p then Some (f, []) else look d q)"
    using assms(2) fresh [of q] other [of q]
    by (auto simp: disk_create_def look_def split: option.splits intro!: option.map_cong0)
  show "disk_ok d'"
    using assms fresh by (auto simp: disk_create_def disk_ok_def less_Suc_eq split: option.splits if_splits)
qed

lemma look_write:
  assumes "disk_ok d" and "look d p = Some (f, c)" and "off = length c"
  shows "look (disk_write f off b d) q = (if q = p then Some (f, c @ b) else look d q)"
proof -
  from assms(2) have p: "dk_dir d p = Some f" "dk_data d f = c" by (auto simp: look_Some_iff)
  with assms(1) have "q \<noteq> p \<Longrightarrow> dk_dir d q \<noteq> Some f" by (auto simp: disk_ok_def)
  with p assms(3) show ?thesis
    by (auto simp: look_def disk_write_def Let_def intro!: option.map_cong0)
qed

lemma look_rename:
  assumes "disk_rename p q d = Some d'"
  shows "look d' r = (if r = q then look d p else if r = p then None else look d r)"
  using assms by (auto simp: disk_rename_def look_def)

lemma disk_ok_write [simp]: "disk_ok (disk_write f off b d) = disk_ok d"
  by (simp add: disk_ok_def disk_write_def Let_def)

lemma disk_ok_unlink: "disk_ok d \<Longrightarrow> disk_ok (disk_unlink p d)"
  by (auto simp: disk_ok_def disk_unlink_def split: if_splits)

lemma disk_ok_rename: "disk_ok d \<Longrightarrow> disk_rename p q d = Some d' \<Longrightarrow> disk_ok d'"
  by (auto simp: disk_ok_def disk_rename_def split: if_splits)

lemma task_step_disk_ok: "disk_ok d \<Longrightarrow> task_step hub dir req out pc d = (pc', d') \<Longrightarrow> disk_ok d'"
  by (cases pc) (auto simp: Let_def disk_ok_unlink dest: look_create disk_ok_rename
      split: if_splits outcome.splits sum.splits prod.splits list.splits option.splits)

subsection \<open>What a task relies on and keeps\<close>

text \<open>
  \<open>complete\<close> is a body the Hub gave in full. The invariant of a task speaks of the files behind its two
  names only; \<open>old\<close> is the content its model file had before.
\<close>

definition ok_response :: "hub \<Rightarrow> DownloadRequest \<Rightarrow> (string + string) list \<Rightarrow> bool" where
  "ok_response hub req cs \<longleftrightarrow> (\<exists>status. hub_answer hub req = Inr (status, cs) \<and> is_success status)"

definition complete :: "hub \<Rightarrow> DownloadRequest \<Rightarrow> string \<Rightarrow> bool" where
  "complete hub req body \<longleftrightarrow> (\<exists>cs. ok_response hub req (map Inr cs) \<and> body = concat cs)"

fun task_inv :: "hub \<Rightarrow> string \<Rightarrow> string option \<Rightarrow> DownloadRequest \<Rightarrow> pc \<Rightarrow> disk \<Rightarrow> bool" where
  "task_inv hub dir old req (Creating cs) d \<longleftrightarrow> files_of d (dest_of dir req) = old \<and> ok_response hub req cs"
| "task_inv hub dir old req (Streaming f off pending cs) d \<longleftrightarrow>
     files_of d (dest_of dir req) = old \<and>
     (\<exists>c sent. look d (partial_of dir req) = Some (f, c) \<and> off = length c \<and>
        ok_response hub req (map Inr sent @ cs) \<and> c @ pending = concat sent)"
| "task_inv hub dir old req Renaming d \<longleftrightarrow>
     files_of d (dest_of dir req) = old \<and>
     (\<exists>f c. look d (partial_of dir req) = Some (f, c) \<and> complete hub req c)"
| "task_inv hub dir old req (Finished (Inr p)) d \<longleftrightarrow>
     p = dest_of dir req \<and>
     (\<exists>c. files_of d p = Some c \<and> (old = Some c \<and> c \<noteq> [] \<or> complete hub req c))"
| "task_inv hub dir old req pc d \<longleftrightarrow> files_of d (dest_of dir req) = old"

lemma task_inv_stable:
  assumes "look d' (dest_of dir req) = look d (dest_of dir req)"
    and "look d' (partial_of dir req) = look d (partial_of dir req)"
  shows "task_inv hub dir old req pc d' = task_inv hub dir old req pc d"
proof -
  from assms(1) have dest: "files_of d' (dest_of dir req) = files_of d (dest_of dir req)" by (simp add: files_of_def)
  show ?thesis
  proof (cases pc)
    case (Finished r)
    with dest show ?thesis by (cases r) (simp_all cong: conj_cong)
  qed (simp_all add: dest assms(2))
qed

lemma task_step_others:
  assumes "disk_ok d" and "task_inv hub dir old req pc d" and "partial_of dir req \<noteq> dest_of dir req"
    and "task_step hub dir req out pc d = (pc', d')"
    and "q \<noteq> partial_of dir req" and "q \<noteq> dest_of dir req"
  shows "look d' q = look d q"
proof (cases pc)
  case (Streaming f off pending cs)
  with assms(2) obtain c where "look d (partial_of dir req) = Some (f, c)" "off = length c" by auto
  from look_write [OF assms(1) this] assms(4,5) show ?thesis
    by (auto simp: Streaming Let_def split: list.splits sum.splits if_splits)
next
  case (Creating cs)
  with assms(4,5) show ?thesis
    by (auto simp: look_create(1) [OF assms(1)] split: if_splits prod.splits)
next
  case Renaming
  with assms(3-6) show ?thesis by (auto simp: look_rename split: if_splits option.splits)
qed (use assms(4,5) in \<open>auto simp: look_unlink split: if_splits outcome.splits sum.splits prod.splits option.splits\<close>)

lemma streaming_inv:
  assumes "disk_ok d" and inv: "task_inv hub dir old req (Streaming f off pending cs) d"
    and ne: "partial_of dir req \<noteq> dest_of dir req"
    and step: "task_step hub dir req out (Streaming f off pending cs) d = (pc', d')"
    and ok: "out = Done \<or> cs \<noteq> []"
  shows "task_inv hub dir old req pc' d'"
proof -
  from inv obtain c sent where l: "look d (partial_of dir req) = Some (f, c)" and off: "off = length c"
    and r: "ok_response hub req (map Inr sent @ cs)" and c: "c @ pending = concat sent"
    and old: "files_of d (dest_of dir req) = old" by auto
  note w = look_write [OF assms(1) l off]
  from ne old have old': "files_of (disk_write f off b d) (dest_of dir req) = old" for b
    by (simp add: files_of_def w)
  show ?thesis
  proof (cases cs)
    case Nil
    with step ok have pc: "pc' = Renaming" and d: "d' = disk_write f off pending d" by auto
    from r Nil have "complete hub req (c @ pending)" unfolding complete_def c by (intro exI [of _ sent]) simp
    with old' show ?thesis by (simp add: pc d w)
  next
    case (Cons x cs')
    show ?thesis
    proof (cases x)
      case (Inl e)
      with step Cons old' show ?thesis by auto
    next
      case (Inr b)
      show ?thesis
      proof (cases "out = Done")
        case False
        with step Cons Inr old' show ?thesis by auto
      next
        case True
        with step Cons Inr have pc: "pc' = Streaming f (off + length pending) b cs'"
          and d: "d' = disk_write f off pending d" by auto
        have "look d' (partial_of dir req) = Some (f, c @ pending)" by (simp add: d w)
        moreover have "ok_response hub req (map Inr (sent @ [b]) @ cs')" and "(c @ pending) @ b = concat (sent @ [b])"
          using r c Cons Inr by simp_all
        ultimately show ?thesis
          using old' [of pending] off unfolding pc task_inv.simps d by (metis length_append)
      qed
    qed
  qed
qed

lemma task_step_inv:
  assumes "disk_ok d" and inv: "task_inv hub dir old req pc d" and ne: "partial_of dir req \<noteq> dest_of dir req"
    and step: "task_step hub dir req out pc d = (pc', d')"
    and ok: "out = Done \<or> (\<forall>f off pending. pc \<noteq> Streaming f off pending [])"
  shows "task_inv hub dir old req pc' d'"
proof (cases pc)
  case (Streaming f off pending cs)
  from streaming_inv [OF assms(1) inv [unfolded Streaming] ne step [unfolded Streaming]] ok Streaming
  show ?thesis by blast
next
  case (Creating cs)
  with inv step ne show ?thesis
    by (auto simp: files_of_def look_create(1) [OF assms(1)] split: if_splits prod.splits intro!: exI [of _ "[]"])
next
  case Renaming
  with inv step ne show ?thesis
    by (auto simp: files_of_def look_rename split: if_splits option.splits)
next
  case (Finished r)
  with inv step show ?thesis by simp
next
  case Checking
  with inv step show ?thesis by (auto split: if_splits option.splits)
next
  case Requesting
  with inv step show ?thesis
    by (auto simp: ok_response_def split: if_splits outcome.splits sum.splits prod.splits)
qed (use inv step ne in \<open>auto simp: files_of_def look_unlink split: if_splits\<close>)

subsection \<open>Tasks side by side\<close>

text \<open>The names a request uses; requests are separate when no name serves twice.\<close>

definition names_of :: "string \<Rightarrow> DownloadRequest \<Rightarrow> string list" where
  "names_of dir req = [dest_of dir req, partial_of dir req]"

definition separate :: "string \<Rightarrow> DownloadRequest list \<Rightarrow> bool" where
  "separate dir reqs \<longleftrightarrow> distinct (concat (map (names_of dir) reqs))"

definition requests :: "Downloads \<Rightarrow> DownloadRequest list" where
  "requests s = map fst (dl_tasks s)"

definition dl_inv :: "(nat \<Rightarrow> hub) \<Rightarrow> string \<Rightarrow> files \<Rightarrow> Downloads \<Rightarrow> bool" where
  "dl_inv hubs dir f0 s \<longleftrightarrow>
     disk_ok (dl_disk s) \<and>
     (\<forall>i req pc. i < length (dl_tasks s) \<longrightarrow> dl_tasks s ! i = (req, pc) \<longrightarrow>
        task_inv (hubs i) dir (f0 (dest_of dir req)) req pc (dl_disk s)) \<and>
     (\<forall>p. p \<notin> set (concat (map (names_of dir) (requests s))) \<longrightarrow> files_of (dl_disk s) p = f0 p)"

lemma separate_prefix: "separate dir reqs \<Longrightarrow> prefix rs reqs \<Longrightarrow> separate dir rs"
  by (auto simp: separate_def prefix_def)

lemma separate_own: "separate dir reqs \<Longrightarrow> req \<in> set reqs \<Longrightarrow> partial_of dir req \<noteq> dest_of dir req"
  by (induction reqs) (auto simp: separate_def names_of_def)

lemma separate_others:
  "separate dir reqs \<Longrightarrow> i < length reqs \<Longrightarrow> j < length reqs \<Longrightarrow> i \<noteq> j \<Longrightarrow>
    set (names_of dir (reqs ! i)) \<inter> set (names_of dir (reqs ! j)) = {}"
proof -
  let ?ns = "map (names_of dir) reqs"
  assume d: "separate dir reqs" and i: "i < length reqs" and j: "j < length reqs" and ij: "i \<noteq> j"
  have "removeAll [] ?ns = ?ns" by (rule removeAll_id) (auto simp: names_of_def)
  with d have "distinct ?ns" by (simp add: separate_def distinct_concat_iff)
  with i j ij have "?ns ! i \<noteq> ?ns ! j" by (simp add: nth_eq_iff_index_eq del: nth_map)
  with d i j show ?thesis by (simp add: separate_def distinct_concat_iff)
qed

lemma requests_advance: "requests (dl_step hubs dir (Advance i out) s) = requests s"
proof (cases "length (dl_tasks s) \<le> i")
  case False
  then have "(map fst (dl_tasks s))[i := fst (dl_tasks s ! i)] = map fst (dl_tasks s)"
    by (metis list_update_id map_update)
  with False show ?thesis by (auto simp: requests_def map_update split: prod.split)
qed simp

lemma requests_step: "prefix (requests s) (requests (dl_step hubs dir e s))"
  by (cases e) (simp_all add: requests_advance del: dl_step.simps(2), simp add: requests_def)

lemma requests_run: "prefix (requests s) (requests (run_cmds (dl_step hubs dir) es s))"
proof (induction es arbitrary: s)
  case (Cons e es)
  from requests_step [of s hubs dir e] Cons [of "dl_step hubs dir e s"] show ?case
    by (metis prefix_order.trans run_cmds.simps(2))
qed simp

lemma dl_inv_begin:
  assumes "dl_inv hubs dir f0 s" and "separate dir (requests (dl_step hubs dir (Begin req) s))"
  shows "dl_inv hubs dir f0 (dl_step hubs dir (Begin req) s)"
proof -
  from assms(2) have "dest_of dir req \<notin> set (concat (map (names_of dir) (requests s)))"
    by (auto simp: separate_def requests_def names_of_def)
  with assms(1) have "files_of (dl_disk s) (dest_of dir req) = f0 (dest_of dir req)" by (simp add: dl_inv_def)
  with assms(1) show ?thesis by (auto simp: dl_inv_def requests_def nth_append less_Suc_eq split: if_splits)
qed

lemma dl_inv_advance:
  assumes inv: "dl_inv hubs dir f0 s" and sep: "separate dir (requests s)" and ok: "\<not> flush_fails (Advance i out) s"
  shows "dl_inv hubs dir f0 (dl_step hubs dir (Advance i out) s)"
proof (cases "i < length (dl_tasks s)")
  case True
  obtain req pc where t: "dl_tasks s ! i = (req, pc)" by fastforce
  obtain pc' d' where step: "task_step (hubs i) dir req out pc (dl_disk s) = (pc', d')" by fastforce
  from inv True t have d: "disk_ok (dl_disk s)"
    and own: "task_inv (hubs i) dir (f0 (dest_of dir req)) req pc (dl_disk s)" by (auto simp: dl_inv_def)
  have mem: "requests s ! i = req" "i < length (requests s)" using True t by (simp_all add: requests_def)
  then have "req \<in> set (requests s)" by (metis nth_mem)
  note ne = separate_own [OF sep this]
  note others = task_step_others [OF d own ne step]
  have "out = Done \<or> (\<forall>f off pending. pc \<noteq> Streaming f off pending [])"
    using ok True t by auto
  note own' = task_step_inv [OF d own ne step this]
  have s': "dl_step hubs dir (Advance i out) s = \<lparr>dl_disk = d', dl_tasks = (dl_tasks s)[i := (req, pc')]\<rparr>"
    using True t step by simp
  have "task_inv (hubs j) dir (f0 (dest_of dir r)) r q d'"
    if j: "j < length (dl_tasks s)" and q: "(dl_tasks s)[i := (req, pc')] ! j = (r, q)" for j r q
  proof (cases "j = i")
    case True
    with j q own' show ?thesis by simp
  next
    case False
    with q j have r: "requests s ! j = r" "j < length (requests s)" and tj: "dl_tasks s ! j = (r, q)"
      by (simp_all add: requests_def)
    from separate_others [OF sep mem(2) r(2)] False mem(1) r(1)
    have "look d' (dest_of dir r) = look (dl_disk s) (dest_of dir r)"
      and "look d' (partial_of dir r) = look (dl_disk s) (partial_of dir r)"
      by (auto simp: names_of_def intro!: others)
    from task_inv_stable [OF this] inv j tj show ?thesis by (auto simp: dl_inv_def)
  qed
  moreover have "files_of d' p = f0 p" if "p \<notin> set (concat (map (names_of dir) (requests s)))" for p
  proof -
    from that \<open>req \<in> set (requests s)\<close> have "p \<noteq> partial_of dir req" and "p \<noteq> dest_of dir req"
      by (auto simp: names_of_def)
    from others [OF this] inv that show ?thesis by (simp add: dl_inv_def files_of_def)
  qed
  ultimately show ?thesis
    using task_step_disk_ok [OF d step] requests_advance [of hubs dir i out s]
    unfolding dl_inv_def s' by simp
qed (use inv in simp)

lemma dl_inv_run:
  "dl_inv hubs dir f0 s \<Longrightarrow> flushes_ok hubs dir es s \<Longrightarrow>
    separate dir (requests (run_cmds (dl_step hubs dir) es s)) \<Longrightarrow>
    dl_inv hubs dir f0 (run_cmds (dl_step hubs dir) es s)"
proof (induction es arbitrary: s)
  case (Cons e es)
  from Cons.prems(3) have sep: "separate dir (requests (dl_step hubs dir e s))"
    using separate_prefix requests_run by (metis run_cmds.simps(2))
  have "dl_inv hubs dir f0 (dl_step hubs dir e s)"
  proof (cases e)
    case (Begin req)
    with dl_inv_begin Cons.prems(1) sep show ?thesis by blast
  next
    case (Advance i out)
    with Cons.prems sep show ?thesis
      by (auto simp del: dl_step.simps flush_fails.simps simp: requests_advance intro: dl_inv_advance)
  qed
  with Cons.IH [of "dl_step hubs dir e s"] Cons.prems show ?case by simp
qed simp

subsection \<open>A task alone\<close>

fun run_task :: "hub \<Rightarrow> string \<Rightarrow> DownloadRequest \<Rightarrow> outcome list \<Rightarrow> pc \<Rightarrow> disk \<Rightarrow> pc \<times> disk" where
  "run_task hub dir req [] pc d = (pc, d)"
| "run_task hub dir req (out # outs) pc d =
     (let (pc', d') = task_step hub dir req out pc d in run_task hub dir req outs pc' d')"

lemma run_task_append:
  "run_task hub dir req (outs @ outs') pc d =
    (let (pc', d') = run_task hub dir req outs pc d in run_task hub dir req outs' pc' d')"
  by (induction outs arbitrary: pc d) (simp_all split: prod.split)

lemma files_of_write:
  assumes "disk_ok d" and "look d p = Some (f, c)"
  shows "files_of (disk_write f (length c) b d) = (files_of d)(p := Some (c @ b))"
  by (rule ext) (simp add: files_of_def look_write [OF assms refl])

lemma streaming_alone:
  assumes "disk_ok d" and "look d (partial_of dir req) = Some (f, c)"
    and "write_chunks io i (partial_of dir req) cs (files_of (disk_write f (length c) pending d)) = (res, trace)"
  shows "\<exists>outs d'. run_task hub dir req outs (Streaming f (length c) pending cs) d =
      (case res of Inl e \<Rightarrow> Finished (Inl e) | Inr _ \<Rightarrow> Renaming, d') \<and>
    disk_ok d' \<and> look d' (partial_of dir req) \<noteq> None \<and>
    files_of d' = last (files_of (disk_write f (length c) pending d) # trace)"
  using assms
proof (induction cs arbitrary: i d c pending trace)
  case Nil
  then show ?case by (intro exI [of _ "[Done]"]) (auto simp: look_write)
next
  case (Cons x cs)
  let ?d = "disk_write f (length c) pending d"
  have ok: "disk_ok ?d" using Cons.prems(1) by simp
  have l: "look ?d (partial_of dir req) = Some (f, c @ pending)" using Cons.prems by (simp add: look_write)
  have same: "files_of (disk_write f (length c + length pending) [] ?d) = files_of ?d"
    using files_of_write [OF ok l, of "[]"] l by (auto simp: files_of_def fun_upd_idem_iff)
  show ?case
  proof (cases x)
    case (Inl e)
    with Cons.prems show ?thesis by (intro exI [of _ "[Done]"]) (auto simp: look_write)
  next
    case (Inr b)
    have step: "task_step hub dir req Done (Streaming f (length c) pending (x # cs)) d =
        (Streaming f (length (c @ pending)) b cs, ?d)" by (simp add: Inr)
    show ?thesis
    proof (cases "io i")
      case (Some e)
      from look_write [OF ok l, of "length c + length pending" "[]"] l
      have l': "look (disk_write f (length c + length pending) [] ?d) (partial_of dir req) = Some (f, c @ pending)" by simp
      show ?thesis
        using Cons.prems(3) Some Inr step ok l' same
        by (intro exI [of _ "[Done, Failed 0 e]"]) (auto split: list.splits sum.splits)
    next
      case None
      have files: "(files_of ?d)(partial_of dir req := Some (unwrap_or [] (files_of ?d (partial_of dir req)) @ b)) =
          files_of (disk_write f (length (c @ pending)) b ?d)"
        using files_of_write [OF ok l, of b] l by (simp add: files_of_def)
      obtain tr where w: "write_chunks io (i + 1) (partial_of dir req) cs (files_of (disk_write f (length (c @ pending)) b ?d)) = (res, tr)"
        and t: "trace = files_of (disk_write f (length (c @ pending)) b ?d) # tr"
        using Cons.prems(3) None Inr unfolding files by (auto simp: Let_def files split: prod.splits)
      from Cons.IH [OF ok l w] obtain outs d' where
        "run_task hub dir req outs (Streaming f (length (c @ pending)) b cs) ?d =
           (case res of Inl e \<Rightarrow> Finished (Inl e) | Inr _ \<Rightarrow> Renaming, d')"
        and "disk_ok d' \<and> look d' (partial_of dir req) \<noteq> None \<and>
           files_of d' = last (files_of (disk_write f (length (c @ pending)) b ?d) # tr)" by blast
      with step t show ?thesis by (intro exI [of _ "Done # outs"] exI [of _ d']) simp
    qed
  qed
qed

definition out_of :: "string option \<Rightarrow> outcome" where
  "out_of r = (case r of None \<Rightarrow> Done | Some e \<Rightarrow> Failed 0 e)"

lemma out_of_simps [simp]: "out_of None = Done" "out_of (Some e) = Failed 0 e" "out_of r = Done \<longleftrightarrow> r = None"
  by (simp_all add: out_of_def split: option.split)

lemma files_of_unlink: "files_of (disk_unlink p d) = (files_of d)(p := None)"
  by (rule ext) (simp add: files_of_def look_unlink)

text \<open>\<open>fetch\<close> from the creation of the partial file on, and from the request on.\<close>

lemma renaming_alone:
  assumes "look d (partial_of dir req) \<noteq> None" and "files_of d = f"
  shows "\<exists>d'. task_step hub dir req Done Renaming d = (Finished (Inr (dest_of dir req)), d') \<and>
    files_of d' = (f(partial_of dir req := None))(dest_of dir req := f (partial_of dir req))"
proof -
  from assms(1) obtain d' where d': "disk_rename (partial_of dir req) (dest_of dir req) d = Some d'"
    by (auto simp: disk_rename_def look_None_iff)
  have "files_of d' = (f(partial_of dir req := None))(dest_of dir req := f (partial_of dir req))"
    unfolding assms(2) [symmetric] by (rule ext) (simp add: files_of_def look_rename [OF d'])
  with d' show ?thesis by simp
qed

lemma creating_alone:
  assumes "disk_ok d" and p: "partial = partial_of dir req" and dest: "dest = dest_of dir req"
    and w: "write_chunks io 6 partial chunks ((files_of d)(partial := Some [])) = (r, tr)"
    and files3: "files3 = last ((files_of d)(partial := Some []) # tr)"
  shows "\<exists>outs d'. run_task hub dir req outs (Creating chunks) d =
      (Finished (case (r, io 5) of
          (Inl e, _) \<Rightarrow> Inl e
        | (Inr _, Some e) \<Rightarrow> Inl (''rename '' @ partial @ arrow @ dest)
        | (Inr _, None) \<Rightarrow> Inr dest), d') \<and>
    files_of d' = (if r = Inr () \<and> io 5 = None then (files3(partial := None))(dest := files3 partial) else files3)"
proof -
  obtain f d2 where c: "disk_create (partial_of dir req) d = (f, d2)" by fastforce
  note l = look_create [OF assms(1) c]
  have l2: "look d2 (partial_of dir req) = Some (f, [])" by (simp add: l)
  have "files_of d2 = (files_of d)(partial := Some [])" by (rule ext) (simp add: files_of_def l p)
  then have w0: "files_of (disk_write f (length ([] :: string)) [] d2) = (files_of d)(partial := Some [])"
    by (simp add: files_of_write [OF l(2) l2, simplified] p)
  from streaming_alone [OF l(2) l2 w [folded w0, unfolded p], of hub] obtain outs d3 where
    s: "run_task hub dir req outs (Streaming f 0 [] chunks) d2 =
          (case r of Inl e \<Rightarrow> Finished (Inl e) | Inr _ \<Rightarrow> Renaming, d3)"
    and d3: "look d3 (partial_of dir req) \<noteq> None" "files_of d3 = files3"
    unfolding w0 p files3 by auto
  have upto: "run_task hub dir req (Done # outs @ outs') (Creating chunks) d =
      run_task hub dir req outs' (case r of Inl e \<Rightarrow> Finished (Inl e) | Inr _ \<Rightarrow> Renaming) d3" for outs'
    using s c by (simp add: run_task_append)
  show ?thesis
  proof (cases r)
    case (Inl e)
    with upto [of "[]"] d3(2) show ?thesis by (intro exI [of _ "Done # outs @ []"] exI [of _ d3]) simp
  next
    case r: (Inr u)
    show ?thesis
    proof (cases "io 5")
      case (Some e)
      with upto [of "[Failed 0 e]"] d3(2) r show ?thesis
        by (intro exI [of _ "Done # outs @ [Failed 0 e]"] exI [of _ d3]) (simp add: p dest)
    next
      case None
      with upto [of "[Done]"] renaming_alone [OF d3, of hub] r show ?thesis
        by (intro exI [of _ "Done # outs @ [Done]"]) (auto simp: p dest)
    qed
  qed
qed

lemma run_task_Cons:
  assumes "task_step hub dir req out pc d = (pc', d')"
    and "\<exists>outs d2. run_task hub dir req outs pc' d' = (q, d2) \<and> P d2"
  shows "\<exists>outs d2. run_task hub dir req outs pc d = (q, d2) \<and> P d2"
proof -
  from assms(2) obtain outs d2 where "run_task hub dir req outs pc' d' = (q, d2)" "P d2" by blast
  with assms(1) show ?thesis by (intro exI [of _ "out # outs"] exI [of _ d2]) simp
qed

lemma finished_alone: "P d \<Longrightarrow> \<exists>outs d2. run_task hub dir req outs (Finished r) d = (Finished r, d2) \<and> P d2"
  by (intro exI [of _ "[]"]) simp

lemma fetch_runs_alone:
  assumes "disk_ok d" and "fetch io hub req dir (files_of d) = (res, trace)"
  shows "\<exists>outs d'. run_task hub dir req outs Starting d = (Finished res, d') \<and>
    files_of d' = last (files_of d # trace)"
proof (cases "dq_repo req = [] \<or> dq_file req = [] \<or> io 0 \<noteq> None")
  case True
  with assms(2) have s: "task_step hub dir req (out_of (io 0)) Starting d = (Finished res, d)" and t: "trace = []"
    by (auto simp: fetch_def split: if_splits)
  show ?thesis by (intro run_task_Cons [OF s] finished_alone) (simp add: t)
next
  case go: False
  note run = assms(2) [unfolded fetch_def Let_def hub_answer_def [symmetric] dest_of_def [symmetric]
      partial_of_def [symmetric]]
  let ?d1 = "if io 2 = None then disk_unlink (partial_of dir req) d else d"
  show ?thesis
  proof (cases "io 1 = None \<and> (case files_of d (dest_of dir req) of Some c \<Rightarrow> c \<noteq> [] | None \<Rightarrow> False)")
    case True
    with go run have "res = Inr (dest_of dir req)" "trace = []" by auto
    moreover from this go True have s: "task_step hub dir req Done Starting d = (Checking, d)"
      "task_step hub dir req Done Checking d = (Finished res, d)" by auto
    ultimately show ?thesis by (intro run_task_Cons [OF s(1)] run_task_Cons [OF s(2)] finished_alone) simp
  next
    case False
    have d1: "disk_ok ?d1" using assms(1) by (simp add: disk_ok_unlink)
    have f1: "files_of ?d1 = (if io 2 = None then (files_of d)(partial_of dir req := None) else files_of d)"
      by (simp add: files_of_unlink)
    have "\<exists>outs d'. run_task hub dir req outs Requesting ?d1 = (Finished res, d') \<and> files_of d' = last (files_of d # trace)"
    proof (cases "io 3 = None \<and> (\<exists>status chunks. hub_answer hub req = Inr (status, chunks) \<and> is_success status \<and> io 4 = None)")
      case True
      then obtain status chunks where t: "io 3 = None" "hub_answer hub req = Inr (status, chunks)"
        "is_success status" "io 4 = None" by blast
      obtain r tr where w: "write_chunks io 6 (partial_of dir req) chunks ((files_of ?d1)(partial_of dir req := Some [])) = (r, tr)"
        by fastforce
      let ?files3 = "last ((files_of ?d1)(partial_of dir req := Some []) # tr)"
      from run go False t w [unfolded f1]
      have "res = (case (r, io 5) of
              (Inl e, _) \<Rightarrow> Inl e
            | (Inr _, Some e) \<Rightarrow> Inl (''rename '' @ partial_of dir req @ arrow @ dest_of dir req)
            | (Inr _, None) \<Rightarrow> Inr (dest_of dir req)) \<and>
          last (files_of d # trace) =
            (if r = Inr () \<and> io 5 = None
             then (?files3(partial_of dir req := None))(dest_of dir req := ?files3 (partial_of dir req)) else ?files3)"
        unfolding f1 by (auto simp: arrow_def split: sum.splits option.splits)
      with creating_alone [OF d1 refl refl w refl, of hub] t show ?thesis
        by (intro run_task_Cons [of hub dir req Done Requesting ?d1 "Creating chunks" ?d1]) simp_all
    next
      case other: False
      show ?thesis
      proof (cases "io 3 = None \<and> (\<exists>status chunks. hub_answer hub req = Inr (status, chunks) \<and> is_success status)")
        case True
        then obtain status chunks where t: "io 3 = None" "hub_answer hub req = Inr (status, chunks)" "is_success status"
          by blast
        with other obtain e where e: "io 4 = Some e" by auto
        have s1: "task_step hub dir req Done Requesting ?d1 = (Creating chunks, ?d1)" using t by simp
        from run go False t f1 e
        have s2: "task_step hub dir req (Failed 0 e) (Creating chunks) ?d1 = (Finished res, ?d1)"
          and "files_of ?d1 = last (files_of d # trace)" by auto
        then show ?thesis by (intro run_task_Cons [OF s1] run_task_Cons [OF s2] finished_alone) simp
      next
        case early: False
        with run go False f1 have s: "task_step hub dir req (out_of (io 3)) Requesting ?d1 = (Finished res, ?d1)"
          and t: "files_of ?d1 = last (files_of d # trace)"
          by (auto split: option.splits sum.splits if_splits)
        show ?thesis by (intro run_task_Cons [OF s] finished_alone) (rule t)
      qed
    qed
    with go False show ?thesis
      by (intro run_task_Cons [of hub dir req Done Starting d Checking d]
          run_task_Cons [of hub dir req "out_of (io 1)" Checking d Cleaning d]
          run_task_Cons [of hub dir req "out_of (io 2)" Cleaning d Requesting ?d1]) auto
  qed
qed

subsection \<open>Every task ends\<close>

text \<open>The steps a task has left at most, for a stream of \<open>n\<close> chunks.\<close>

fun steps_left :: "nat \<Rightarrow> pc \<Rightarrow> nat" where
  "steps_left n Starting = n + 7"
| "steps_left n Checking = n + 6"
| "steps_left n Cleaning = n + 5"
| "steps_left n Requesting = n + 4"
| "steps_left n (Creating cs) = length cs + 3"
| "steps_left n (Streaming f off pending cs) = length cs + 2"
| "steps_left n Renaming = 1"
| "steps_left n (Finished r) = 0"

lemma task_step_progress:
  assumes "task_step hub dir req out pc d = (pc', d')" and "steps_left n pc \<noteq> 0"
    and "\<And>status cs. hub_answer hub req = Inr (status, cs) \<Longrightarrow> length cs \<le> n"
  shows "steps_left n pc' < steps_left n pc"
  using assms
  by (cases pc) (auto simp: Let_def less_Suc_eq_le
      split: if_splits outcome.splits sum.splits prod.splits list.splits option.splits)

lemma task_ends:
  assumes "\<And>status cs. hub_answer hub req = Inr (status, cs) \<Longrightarrow> length cs \<le> n"
    and "steps_left n pc \<le> length outs"
  shows "\<exists>r d'. run_task hub dir req outs pc d = (Finished r, d')"
  using assms(2)
proof (induction outs arbitrary: pc d)
  case Nil
  then show ?case by (cases pc) simp_all
next
  case (Cons out outs)
  obtain pc' d' where s: "task_step hub dir req out pc d = (pc', d')" by fastforce
  have "steps_left n pc' \<le> length outs"
  proof (cases "steps_left n pc = 0")
    case True
    with s show ?thesis by (cases pc) simp_all
  next
    case False
    have "steps_left n pc' < steps_left n pc" using s False assms(1) by (rule task_step_progress)
    with Cons.prems show ?thesis by simp
  qed
  from Cons.IH [OF this] s show ?case by simp
qed

subsection \<open>Properties\<close>

lemma task_inv_dest:
  assumes "task_inv hub dir old req pc d"
  shows "files_of d (dest_of dir req) = old \<or>
    (\<exists>body. complete hub req body \<and> files_of d (dest_of dir req) = Some body)"
proof (cases pc)
  case (Finished r)
  with assms show ?thesis by (cases r) auto
qed (use assms in auto)

text \<open>
  C10. Downloads leave each other alone: when the load tasks of a worker interleave in any way, with any
  failures but that of a flush, and no two requests share a target or a partial file, then at every
  moment the model file of each task is as it was before the first step or holds the whole body of a
  successful response to that task, a task that reports success has its file there, whole or cached
  and not empty, and every file that belongs to no task is unchanged.
\<close>

theorem downloads_side_by_side:
  assumes "disk_ok d" and "s = run_cmds (dl_step hubs dir) es \<lparr>dl_disk = d, dl_tasks = []\<rparr>"
    and "flushes_ok hubs dir es \<lparr>dl_disk = d, dl_tasks = []\<rparr>" and "separate dir (requests s)"
    and "i < length (dl_tasks s)" and "dl_tasks s ! i = (req, pc)"
  shows "(files_of (dl_disk s) (dest_of dir req) = files_of d (dest_of dir req) \<or>
      (\<exists>body. complete (hubs i) req body \<and> files_of (dl_disk s) (dest_of dir req) = Some body)) \<and>
    (\<forall>p. pc = Finished (Inr p) \<longrightarrow> p = dest_of dir req \<and>
      (\<exists>c. files_of (dl_disk s) p = Some c \<and> (files_of d p = Some c \<and> c \<noteq> [] \<or> complete (hubs i) req c))) \<and>
    (\<forall>p. p \<notin> set (concat (map (names_of dir) (requests s))) \<longrightarrow> files_of (dl_disk s) p = files_of d p)"
proof -
  have "dl_inv hubs dir (files_of d) \<lparr>dl_disk = d, dl_tasks = []\<rparr>"
    using assms(1) by (simp add: dl_inv_def)
  from dl_inv_run [OF this assms(3)] assms(2,4) have inv: "dl_inv hubs dir (files_of d) s" by simp
  with assms(5,6) have "task_inv (hubs i) dir (files_of d (dest_of dir req)) req pc (dl_disk s)"
    by (simp add: dl_inv_def)
  from task_inv_dest [OF this] this inv show ?thesis by (auto simp: dl_inv_def)
qed

definition sample_request :: "string \<Rightarrow> DownloadRequest" where
  "sample_request name = \<lparr>dq_repo = ''r'', dq_file = name, dq_local_filename = name, dq_token = []\<rparr>"

definition chunk_hub :: "(string + string) list \<Rightarrow> hub" where
  "chunk_hub chunks = \<lparr>hub_get = (\<lambda>url t. Inr (200, chunks)), show_status = show_nat\<rparr>"

definition empty_disk :: disk where
  "empty_disk = \<lparr>dk_dir = (\<lambda>_. None), dk_data = (\<lambda>_. []), dk_next = 0\<rparr>"

definition no_downloads :: Downloads where
  "no_downloads = \<lparr>dl_disk = empty_disk, dl_tasks = []\<rparr>"

text \<open>Two tasks in turn, eight steps each.\<close>

definition sample_turns :: "DlEvent list" where
  "sample_turns = [Begin (sample_request ''a.gguf''), Begin (sample_request ''b.gguf'')] @
     concat (replicate 9 [Advance 0 Done, Advance 1 Done])"

lemma sample_turns_run:
  "dl_tasks (run_cmds (dl_step (\<lambda>_. chunk_hub [Inr ''ab'', Inr ''cd'']) ''/d'') sample_turns no_downloads) =
     [(sample_request ''a.gguf'', Finished (Inr ''/d/a.gguf'')), (sample_request ''b.gguf'', Finished (Inr ''/d/b.gguf''))]"
  by code_simp

lemma empty_disk_ok: "disk_ok empty_disk"
  by (simp add: disk_ok_def empty_disk_def)

lemma sample_turns_ok:
  "flushes_ok (\<lambda>_. chunk_hub [Inr ''ab'', Inr ''cd'']) ''/d'' sample_turns no_downloads"
  "separate ''/d'' [sample_request ''a.gguf'', sample_request ''b.gguf'']"
  "dest_of ''/d'' (sample_request ''b.gguf'') = ''/d/b.gguf''"
  by code_simp+

theorem downloads_side_by_side_witness:
  "\<exists>c. files_of (dl_disk (run_cmds (dl_step (\<lambda>_. chunk_hub [Inr ''ab'', Inr ''cd'']) ''/d'') sample_turns no_downloads))
      ''/d/b.gguf'' = Some c \<and> complete (chunk_hub [Inr ''ab'', Inr ''cd'']) (sample_request ''b.gguf'') c"
proof -
  let ?hubs = "\<lambda>_. chunk_hub [Inr ''ab'', Inr ''cd'']"
  let ?s = "run_cmds (dl_step ?hubs ''/d'') sample_turns no_downloads"
  have s: "?s = run_cmds (dl_step ?hubs ''/d'') sample_turns \<lparr>dl_disk = empty_disk, dl_tasks = []\<rparr>"
    by (simp only: no_downloads_def)
  have sep: "separate ''/d'' (requests ?s)" by (simp add: requests_def sample_turns_run sample_turns_ok)
  have i: "1 < length (dl_tasks ?s)"
    and t: "dl_tasks ?s ! 1 = (sample_request ''b.gguf'', Finished (Inr ''/d/b.gguf''))"
    by (simp_all add: sample_turns_run)
  have none: "files_of empty_disk p = None" for p by (simp add: files_of_def look_def empty_disk_def)
  from downloads_side_by_side [OF empty_disk_ok s sample_turns_ok(1) [unfolded no_downloads_def] sep i t,
      THEN conjunct2, THEN conjunct1, rule_format, OF refl]
  show ?thesis unfolding none by blast
qed

text \<open>
  Two load commands for one model: the second task unlinks and creates the partial file while the first
  still writes to the old one, and the first then renames the file of the second. It reports success
  with an incomplete model; when the second loses its connection the fragment stays, and a later
  command takes it as cached.
\<close>

definition cut_off :: "nat \<Rightarrow> hub" where
  "cut_off i = (if i = 0 then chunk_hub [Inr ''ab'', Inr ''cd''] else chunk_hub [Inr ''ab'', Inl ''reset''])"

definition same_file_twice :: "DlEvent list" where
  "same_file_twice = replicate 2 (Begin (sample_request ''m.gguf'')) @ replicate 5 (Advance 0 Done)
     @ replicate 5 (Advance 1 Done) @ replicate 4 (Advance 0 Done) @ replicate 2 (Advance 1 Done)"

lemma same_file_twice_truncates:
  "let s = run_cmds (dl_step cut_off ''/d'') same_file_twice no_downloads
   in map snd (dl_tasks s) = [Finished (Inr ''/d/m.gguf''), Finished (Inl ''reading hf response chunk'')] \<and>
      files_of (dl_disk s) ''/d/m.gguf'' = Some ''ab'' \<and>
      flushes_ok cut_off ''/d'' same_file_twice no_downloads \<and>
      (case fetch io_up (cut_off 0) (sample_request ''m.gguf'') ''/d'' (files_of (dl_disk s)) of
         (res, trace) \<Rightarrow> res = Inr ''/d/m.gguf'' \<and> length trace = 0)"
  by code_simp

text \<open>A flush that fails after the last chunk: the task reports success, its file lacks the rest.\<close>

lemma flush_failure_truncates:
  "let s = run_cmds (dl_step (\<lambda>_. chunk_hub [Inr ''ab'', Inr ''cd'']) ''/d'')
             ([Begin (sample_request ''m.gguf'')] @ replicate 7 (Advance 0 Done)
              @ [Advance 0 (Failed 1 ''no space left''), Advance 0 Done]) no_downloads
   in map snd (dl_tasks s) = [Finished (Inr ''/d/m.gguf'')] \<and>
      files_of (dl_disk s) ''/d/m.gguf'' = Some ''abc''"
  by code_simp

end
