(* ===== verification/Spec2Isabelle.thy ===== *)
theory Spec2Isabelle
  imports Scheduler Services Cli Downloads
begin

section \<open>MultiGPUCluster\<close>

text \<open>
  MultiGPUCluster turns GPU machines of several owners into one inference cluster. Its services and
  how they call each other:

  \<^item> A worker runs on each GPU machine. It collects an inventory, supervises a local
    \<open>llama-server\<close>, accepts load commands on a control port and posts a report to the
    coordinator every 30 s. The host agent (\<open>bootstrapper\<close>) installs, enrolls and starts it.
  \<^item> The coordinator keeps the registry of reported nodes, marks silent ones offline, lists the
    eligible ones and relays load commands to workers.
  \<^item> The management backend owns the database: API keys, enrollment tokens, nodes, the cluster CA,
    models, settings, the audit log and the inference log. Its reconciler polls the coordinator.
  \<^item> The dispatcher (\<open>openai-api\<close>) asks the coordinator for eligible nodes, forwards chat
    completions to one of them and reports each request to the backend.
  \<^item> The gateway is the public entry: it checks the bearer token of \<open>/v1/*\<close> against the backend,
    with a cache, and proxies everything to the other services.
  \<^item> The scheduler plans how the layers of a model are spread over GPUs.

  \<^bold>\<open>Theories.\<close>
  \<^item> \<open>Prelude\<close>: machine integers, UTF-8 strings, JSON values, headers; the contracts
    \<open>keyed_store\<close> (insert and lookup in an association list with distinct keys) and
    \<open>audited_machine\<close> (commands that keep an invariant and only append to the audit log).
  \<^item> \<open>Float_Round\<close>: IEEE rounding on rationals. \<open>IpAddr\<close>: \<open>std::net::IpAddr\<close> text, with
    the IPv4 round trip.
  \<^item> \<open>Proto\<close> (\<open>crates/proto\<close>), \<open>Views\<close> (\<open>common/src/nodes.rs\<close>), \<open>Inventory\<close>
    (\<open>sysinfo/src/inventory.rs\<close>): the inventory, its two JSON halves and their round trip.
  \<^item> \<open>Scheduler\<close> (\<open>crates/scheduler\<close>): precision, compute groups and the greedy placer with its
    \<open>f64\<close> shares and \<open>u32\<close> cursors; the locale \<open>placer\<close> is the contract of the trait.
  \<^item> \<open>Clients\<close> (\<open>common/src/clients.rs\<close>, \<open>ports.rs\<close>): the typed HTTP clients.
  \<^item> \<open>Coordinator\<close> (\<open>crates/coordinator\<close>): registry, watchdog, HTTP and gRPC handlers, and the
    step relations \<open>http_step\<close> and \<open>coord_step\<close> over them.
  \<^item> \<open>Mgmt_Base\<close> (\<open>api_error.rs\<close>, \<open>auth.rs\<close>), \<open>ApiKeys\<close>, \<open>Models\<close> (with
    \<open>reconciler.rs\<close>), \<open>Inference\<close> (inference log, settings, audit view), \<open>Enroll\<close> (CA,
    tokens, enrollment, node administration): the handlers of \<open>crates/mgmt-backend\<close>. \<open>MgmtApi\<close> is its
    router, the admin check in front of it and the step relation \<open>served\<close> of the whole service.
  \<^item> \<open>Gateway\<close> (\<open>crates/gateway\<close>): the cached bearer check, the proxy and the routes; the locale
    \<open>verdict_source\<close> is what the check assumes of whoever answers \<open>/api/v1/keys/verify\<close>.
  \<^item> \<open>OpenAI\<close> (\<open>crates/openai-api\<close>): dispatch, plain and streaming completions, log entries.
  \<^item> \<open>Sysinfo\<close> (\<open>crates/sysinfo\<close>): what a machine finds out about itself, GPU detection, the
    fingerprint and the text block of the inventory.
  \<^item> \<open>Worker\<close> (\<open>crates/worker\<close>): identity, downloader, supervisor, control server, RPC server and
    heartbeat, each operation by itself. \<open>Downloads\<close> takes the downloader apart into steps on a disk of
    names and open files, with the tasks of a worker in any order; \<open>fetch_runs_alone\<close> is the link to
    \<open>Worker\<close>. \<open>WorkerAgent\<close> is the life of the process (\<open>agent.rs\<close>) as a machine over reports,
    commands, ended tasks and signals.
  \<^item> \<open>Bootstrap\<close> (\<open>bootstrapper\<close>): preflight, identity file, enrollment, container and native
    start, install and uninstall. \<open>Cli\<close>: the commands of the host agent and of the admin client.
  \<^item> \<open>AuthPath\<close> (gateway with backend) and \<open>ClusterFlow\<close> (worker, coordinator, dispatcher,
    reconciler) put components together. \<open>Services\<close> adds how each service is configured and started,
    the reconciler's loop and the way of a request through the gateway. This theory states what the
    services do jointly.

  \<^bold>\<open>Conventions.\<close> A struct is a record, an enum a datatype, a handler one function from the state
  to an answer and a state, with every early return a branch. Strings are lists of UTF-8 bytes.
  \<open>u8\<close> to \<open>u64\<close> and \<open>i32\<close> are words; a time is an integer number of nanoseconds and
  each read of a clock is an argument. A table is a list of rows. The \<open>db\<close> argument of a handler says
  for each of its statements whether the database rejects it, so both outcomes of every \<open>?\<close> and of
  every ignored error are covered; \<open>io\<close> does the same for file operations. Where a handler reads
  first and writes later, the two halves are separate functions so that other steps can come between.

  \<^bold>\<open>Parameters.\<close> Code outside the repository is an argument: the network and the JSON text format
  (\<open>http\<close>, \<open>net\<close>, \<open>wire\<close>; law \<open>wire_ok\<close>: parsing undoes rendering), Argon2, base64 and
  randomness (\<open>crypto\<close>, \<open>Entropy\<close>; law \<open>hash_correct\<close>: a hash verifies the text it was
  made of), X.509 generation (\<open>rcgen\<close>), the Hugging Face hub (\<open>hub\<close>), processes, files and the
  environment. Each law has an instance that satisfies it (\<open>numbered_wire\<close>, \<open>plain_crypto\<close>).

  \<^bold>\<open>What is shown.\<close> For each component an invariant over every sequence of its operations
  (\<open>registry_invariant\<close>, \<open>one_server_per_worker\<close>, \<open>backend_invariant\<close>), exact
  characterisations of its answers (\<open>verify_exact\<close>, \<open>eligible_nodes_exact\<close>,
  \<open>duplicate_guard_exact\<close>, \<open>reconcile_exact\<close>, \<open>settings_put_exact\<close>, \<open>v1_admits_iff\<close>,
  \<open>plan_returns_iff\<close>), round trips (\<open>list_nodes_lossless\<close>, \<open>ca_restart_stable\<close>), and for
  enrollment a simulation by an abstract life cycle of nodes (\<open>enroll_refines_life\<close>).
  Other theorems follow a fact through several services:
  \<^item> keys: a revocation reaches the gateway, a new key is admitted, a request without the admin key
    changes nothing but adds a node that waits for approval (\<open>admin_key_guards_state\<close>);
  \<^item> machines: the identity an enrollment hands out reaches the worker
    (\<open>enrolled_identity_reaches_worker\<close>, \<open>identity_changes_only_by_enrollment\<close>), a started worker
    joins (\<open>worker_start_joins\<close>), each of its reports is well typed for the coordinator
    (\<open>worker_reports_well_typed\<close>), a draining one leaves the rotation (\<open>shutdown_leaves_rotation\<close>);
  \<^item> models: a load command reaches the worker it names (\<open>load_command_reaches_worker\<close>), downloads
    that run side by side keep the model files whole (\<open>downloads_side_by_side\<close>), the worker reports
    what it was told to serve (\<open>commanded_model_is_reported\<close>), and the reconciler makes it available
    (\<open>admin_load_completes\<close>, the whole way); a completion goes to an eligible worker.

  Where the code departs from its own comments, or from what it is for, the departure is a lemma:
  \<open>dead_worker_blocks_takeover\<close>, \<open>plan_rounding_overruns\<close>, \<open>grpc_register_bypasses_guard\<close>,
  \<open>token_used_twice\<close>, \<open>revoked_machine_gets_cert\<close>, \<open>reconcile_overwrites_disabled\<close>,
  \<open>create_answers_without_storing\<close>, \<open>update_null_keeps_expiry\<close>, \<open>download_escapes_models_dir\<close>,
  \<open>same_file_twice_truncates\<close>, \<open>flush_failure_truncates\<close>, \<open>heartbeat_client_timeout\<close>,
  \<open>enrolled_id_unused\<close>, \<open>proxied_report_hides_worker\<close>, \<open>worker_default_is_grpc_port\<close>,
  \<open>empty_admin_key_admits\<close>, \<open>format_human_omits\<close>.

  \<^bold>\<open>Bounds.\<close> No definition uses fuel: recursion is structural or has a measure, and a background
  loop is modelled as one pass, run over an arbitrary list of ticks or reached by a step relation.
  A download task has at most seven steps more than its stream has chunks (\<open>task_ends\<close>).

  \<^bold>\<open>Not modelled.\<close> Sockets, TLS, tracing and the parser of the command lines; the CORS, body-limit
  and timeout layers around the gateway's router, which are configuration of third-party crates; the
  protocol's job, metrics and management messages and the types of \<open>ids.rs\<close>, \<open>error.rs\<close>,
  \<open>users.rs\<close>, \<open>nodes.rs\<close> and \<open>schema.rs\<close> of the dispatcher that no code uses; the log set-up of
  each \<open>main\<close>, the idle loop of the host agent and what \<open>install\<close> prints; the execution of SQL, of
  which each statement's effect on its table is modelled.
\<close>

subsection \<open>Properties that span components\<close>



text \<open>
  C20. A new key works at the gateway at once: a customer request with the token that \<open>create\<close> has
  just handed out gets past the check, when gateway and backend share the admin key, the backend
  and its database are up, the token has not expired and the cache has no verdict on it.
\<close>

theorem created_key_admitted:
  assumes "hash_correct c" and "wire_ok w"
    and "to_str admin_key = Some admin_key" and "gs_admin_api_key g = Some admin_key"
    and "en_random en = Some random" and "base64_text random"
    and "keys_create c fmt db now db_now en req s = (Inr resp, s')"
    and "case expiry_of now (kc_ttl_secs req) of Some e \<Rightarrow> ev_now env \<le> e | None \<Rightarrow> True"
    and "ev_up env" and "ev_db env 0 = None"
    and "map_of (gs_auth_cache g) (kr_token resp) = None"
  shows "\<exists>key. fst (require_v1_api_key (mgmt_http c w admin_key env s') t0 t1 t2
    (bearer_headers (kr_token resp)) g) = Inr key"
proof -
  have tok: "kr_token resp = TOKEN_PREFIX @ random"
    using keys_create_ok [OF assms(7)] assms(5) by (metis option.inject)
  obtain v s'' where v: "keys_verify c (ev_db env) (ev_now env) (ev_db_now env) (kr_token resp) s' = (Inr v, s'')"
    and ok: "vr_ok v"
    using created_verifies [where db' = "ev_db env" and q' = "ev_db_now env", OF assms(1,5,6,7,8,10)]
    by (metis prod.collapse)
  have ask: "verify_with_mgmt (mgmt_http c w admin_key env s') t1 g (kr_token resp) =
      Inr (verdict_of_body t1 (verify_json v))"
    by (rule gateway_ask_served [OF assms(2,3,4,9) v])
  have "fst (cached_auth t0 t2 (verify_with_mgmt (mgmt_http c w admin_key env s') t1 g (kr_token resp))
      (kr_token resp) (gs_auth_cache g)) = apply_verdict (verdict_of_body t1 (verify_json v))"
    using assms(11) by (simp add: cached_auth_miss ask)
  moreover have "\<exists>key. apply_verdict (verdict_of_body t1 (verify_json v)) = Inr key"
    using ok by (simp add: apply_verdict_def verdict_of_verify_json)
  moreover have "starts_with (kr_token resp) ''mgc_''" "\<not> length (kr_token resp) < 16"
    using token_shape(2,3) [OF assms(6)] by (simp_all add: tok TOKEN_PREFIX_def STORED_PREFIX_LEN_def)
  ultimately show ?thesis
    using extract_bearer_token [OF assms(6)] tok
    by (simp add: require_v1_api_key_def case_prod_unfold Let_def)
qed

theorem created_key_admitted_witness:
  "\<exists>key. fst (require_v1_api_key
      (mgmt_http plain_crypto numbered_wire ''adm''
        \<lparr>ev_up = True, ev_db = db_up, ev_now = 7, ev_db_now = 7\<rparr> sample_keys)
      7 7 7 (bearer_headers (TOKEN_PREFIX @ sample_random)) sample_gateway) = Inr key"
proof -
  obtain resp where c: "keys_create plain_crypto (\<lambda>_. []) db_up 0 0 sample_entropy sample_key_request
      empty_keys = (Inr resp, sample_keys)" and tok: "kr_token resp = TOKEN_PREFIX @ sample_random"
    using sample_create by blast
  have e: "en_random sample_entropy = Some sample_random" by (simp add: sample_entropy_def)
  have adm: "to_str ''adm'' = Some ''adm''" by (simp add: to_str_def)
  have g: "gs_admin_api_key sample_gateway = Some ''adm''" "gs_auth_cache sample_gateway = []"
    by (simp_all add: sample_gateway_def GatewayState_new_def)
  from created_key_admitted [OF plain_crypto_correct numbered_wire_ok adm g(1) e sample_random_base64 c,
      of "\<lparr>ev_up = True, ev_db = db_up, ev_now = 7, ev_db_now = 7\<rparr>" 7 7 7]
  show ?thesis by (simp add: g tok sample_key_request_def expiry_of_def clamp_def secs_def)
qed

text \<open>
  The last step of a load: once the worker that serves a model has its report accepted by
  the coordinator, the next reconciler pass over the coordinator's listing marks the model, if it was
  downloading or loading, as available on a node whose registry entry serves that very model.
\<close>

theorem loaded_model_becomes_available:
  assumes "wire_ok w" and "trim_end_matches (CHR ''/'') curl = curl" and "wire_info info" and "n_node_id info \<noteq> []"
    and "registry_inv t reg" and "t \<le> t'"
    and "sv_model_id sv = Some m" and "m \<noteq> []"
    and "report_node err now t' ip (publish_body env info sv ctl) reg = (Inr ack, reg')"
    and "models_inv ms" and "r \<in> set (ms_models ms)" and "m_id r = m" and "in_flight (m_status r)"
  shows "\<exists>r' k e. r' \<in> set (ms_models (snd (reconcile_once
        (CoordClient_new curl (coord_http w fmt q curl reg')) db_up rnow rt ms))) \<and>
    m_id r' = m \<and> m_status r' = ''available'' \<and> m_loaded_on_node r' = k \<and>
    get_node reg' k = Some e \<and> ne_current_model e = Some m"
proof -
  obtain e where e: "get_node reg' (n_node_id info) = Some e" "ne_current_model e = nonempty (sv_model_id sv)"
    "ne_info e = info_of_view (view_of_info info)" "ne_last_heartbeat e = t'"
    and reg': "reg' = AList.update (n_node_id info) e reg"
    using publish_entry [OF assms(3,9)] by metis
  have "registry_inv t' reg'"
    using report_node_inv [OF assms(5,6), of err now ip "publish_body env info sv ctl"] assms(9) by simp
  from observed_in_registry [OF this e(1), of m fmt] e(2) assms(4,7,8) obtain k e' where
    k: "map_of (observed_models (list_nodes fmt reg')) m = Some k" "get_node reg' k = Some e'" "ne_current_model e' = Some m"
    by (auto simp: nonempty_def)
  have live: "m_status r \<notin> {''disabled'', ''error''}" using assms(13) by (auto simp: in_flight_def)
  let ?f = "\<lambda>r. if m_status r \<in> {''disabled'', ''error''} then r
    else reconcile_row rnow rt (observed_models (list_nodes fmt reg')) r r"
  have eq: "ms_models (snd (reconcile_once (CoordClient_new curl (coord_http w fmt q curl reg')) db_up rnow rt ms))
      = map ?f (ms_models ms)"
    using reconcile_once_models [OF assms(10) coord_http_list [OF assms(1,2), of fmt q reg'], of db_up rnow rt] by simp
  have "?f r \<in> ?f ` set (ms_models ms)" using assms(11) by (rule imageI)
  moreover have "m_id (?f r) = m" "m_status (?f r) = ''available''" "m_loaded_on_node (?f r) = k"
    using live k(1) assms(12,13) by (simp_all add: reconcile_row_def reconciled_simps)
  ultimately show ?thesis
    unfolding eq set_map using k(2,3) by (intro exI [of _ "?f r"] exI [of _ k] exI [of _ e'] conjI)
qed



text \<open>
  C17. A machine with a GPU joins the cluster with its first report: whatever the worker collects on it is
  accepted by the coordinator unless another worker on the same machine was heard of in the last 60 s,
  and then the node, under the id of the worker's identity file and with the machine's fingerprint, is
  eligible for the next 60 s.
\<close>

theorem worker_start_joins:
  assumes "load_or_create_node_id io dir uuid files = (Inr i, files')" and "i \<noteq> []" and "gpu_detect h \<noteq> []"
    and "find_active_with_hw_fingerprint now (compute h) i (secs 60) reg = None"
    and "rq_body (hd (run_loop env url (agent_info i display_name (collect h)) ctl sv ticks)) = Some body"
    and "report_node err now now' ip body reg = (r, reg')" and "now' \<le> q" and "q < now' + secs 60"
  shows "r = Inr (JObj [(''ok'', JBool True), (''node_id'', JStr i)]) \<and>
    (\<exists>e. get_node reg' i = Some e \<and> n_hw_fingerprint (ne_info e) = compute h \<and> ne_current_public_ip e = Some ip \<and>
         is_eligible q e)"
proof -
  let ?info = "agent_info i display_name (collect h)"
  let ?v = "view_of_info ?info \<lparr>nv_inference_endpoint := inference_endpoint_advertise env sv, nv_control_endpoint := Some ctl,
     nv_current_model := sv_model_id sv\<rparr>"
  have i: "n_node_id ?info = i" "n_hw_fingerprint ?info = compute h" "n_gpus ?info = gpu_detect h"
    "n_status ?info = NodeStatus_as_i32 Online"
    by (cases display_name; simp add: agent_info_def collect_def Let_def)+
  have w: "wire_info ?info" by (rule collected_wire [OF i(3)])
  have b: "body = publish_body env ?info sv ctl" using assms(5) by (simp add: run_loop_def publish_def)
  have id: "nv_node_id ?v = i" and "accepts now reg ?v"
    using assms(2,4) i by (simp_all add: accepts_def view_of_info_def)
  from report_node_accepted [OF publish_decodes [OF w] this(2)] assms(6)
  have r: "r = Inr (JObj [(''ok'', JBool True), (''node_id'', JStr i)])"
    and reg': "reg' = AList.update i (reported_entry now' ip ?v) reg" by (simp_all add: b id)
  obtain ack where ack: "r = Inr ack" using r by blast
  obtain e where e: "get_node reg' i = Some e" "ne_info e = info_of_view (view_of_info ?info)"
      "ne_last_heartbeat e = now'" "ne_current_public_ip e = Some ip"
    using publish_entry [OF w assms(6) [unfolded b ack]] by (auto simp: i)
  have "is_eligible q e"
    using assms(3,7,8) e(2,3) i by (simp add: is_eligible_def info_of_view_def view_of_info_def)
  moreover have "n_hw_fingerprint (ne_info e) = compute h" using e(2) i by (simp add: info_of_view_def view_of_info_def)
  ultimately show ?thesis using r e(1,4) by blast
qed

text \<open>Sample worker: one GPU, serving model \<open>m1\<close>.\<close>

definition sample_supervisor :: Supervisor where
  "sample_supervisor = \<lparr>sv_port = 50053, sv_bind_host = ''0.0.0.0'',
     sv_child = Some \<lparr>ch_pid = 1, ch_program = ''llama-server'', ch_args = []\<rparr>, sv_model_path = Some ''m'',
     sv_model_id = Some ''m1'', sv_others = []\<rparr>"

theorem worker_start_joins_witness:
  "\<exists>body reg' e. rq_body (hd (run_loop (\<lambda>_. None) ''http://c'' (agent_info ''a'' None (collect sample_host)) '':50054''
       sample_supervisor [])) = Some body \<and>
     reg' = snd (report_node (\<lambda>_. []) 5 5 ''10.0.0.1'' body []) \<and> get_node reg' ''a'' = Some e \<and> is_eligible 6 e"
proof -
  let ?body = "publish_body (\<lambda>_. None) (agent_info ''a'' None (collect sample_host)) sample_supervisor '':50054''"
  have id: "load_or_create_node_id io_up ''/d'' ''a'' (\<lambda>_. None) = (Inr ''a'', (\<lambda>_. None)(path_join ''/d'' ''node.id'' := Some ''a''))"
    by (simp add: load_or_create_node_id_def)
  have b: "rq_body (hd (run_loop (\<lambda>_. None) ''http://c'' (agent_info ''a'' None (collect sample_host)) '':50054''
       sample_supervisor [])) = Some ?body" by (simp add: run_loop_def publish_def)
  obtain r reg' where r: "report_node (\<lambda>_. []) 5 5 ''10.0.0.1'' ?body [] = (r, reg')" by fastforce
  have "find_active_with_hw_fingerprint 5 (compute sample_host) ''a'' (secs 60) [] = None"
    by (simp add: find_active_None_iff list_entries_def)
  from worker_start_joins [OF id _ _ this b r, of 6] r b show ?thesis
    by (auto simp: sample_detected secs_def)
qed

lemma publish_accepted:
  assumes "n_node_id info \<noteq> []" and "wire_info info"
  shows "\<exists>ack reg'. report_node (\<lambda>_. []) 5 5 ''10.0.0.1'' (publish_body env info sv ctl) [] = (Inr ack, reg')"
proof -
  have "accepts 5 [] (view_of_info info \<lparr>nv_inference_endpoint := inference_endpoint_advertise env sv,
     nv_control_endpoint := Some ctl, nv_current_model := sv_model_id sv\<rparr>)"
    using assms(1) by (simp add: accepts_def view_of_info_def find_active_None_iff list_entries_def)
  from report_node_accepted [OF publish_decodes [OF assms(2)] this, of "\<lambda>_. []" 5 "''10.0.0.1''"] show ?thesis by blast
qed

theorem loaded_model_becomes_available_witness:
  "\<exists>reg' r'. r' \<in> set (ms_models (snd (reconcile_once
       (CoordClient_new ''http://c'' (coord_http numbered_wire (\<lambda>_. []) 6 ''http://c'' reg')) db_up 6 6 sample_models))) \<and>
     m_id r' = ''m1'' \<and> m_status r' = ''available''"
proof -
  let ?info = "sample_node ''a'' [sample_gpu 0 100]"
  have id: "n_node_id ?info \<noteq> []" by (simp add: sample_node_def)
  obtain ack reg' where r: "report_node (\<lambda>_. []) 5 5 ''10.0.0.1''
      (publish_body (\<lambda>_. None) ?info sample_supervisor '':50054'') [] = (Inr ack, reg')"
    using publish_accepted [OF id sample_wire] by blast
  have base: "trim_end_matches (CHR ''/'') ''http://c'' = ''http://c''" by (simp add: trim_end_matches_def)
  have inv: "registry_inv 0 []" using registry_inv_new [of 0] by (simp add: Registry_new_def)
  have m: "sv_model_id sample_supervisor = Some ''m1''" by (simp add: sample_supervisor_def)
  have row: "sample_model ''m1'' ''downloading'' \<in> set (ms_models sample_models)"
    "m_id (sample_model ''m1'' ''downloading'') = ''m1''" "in_flight (m_status (sample_model ''m1'' ''downloading''))"
    by (simp_all add: sample_models_def sample_model_def in_flight_def)
  from loaded_model_becomes_available [OF numbered_wire_ok base sample_wire id inv _ m _ r sample_models_inv row,
      of "\<lambda>_. []" 6 6 6]
  show ?thesis by auto
qed



end
